(* ===== verification/Prelude.thy ===== *)
theory Prelude
  imports Main "HOL-Library.Word" "HOL-Library.State_Monad" "HOL-Library.Signed_Division"
begin

text \<open>
  Shared vocabulary of the development: Go's machine integers as words of their width, the
  state monad in which the driver talks to the outside world, the outcome of a gRPC handler,
  and the generic lemmas the component theories use.

  A Go function \<open>f(x) (T, error)\<close> that reaches the outside world is a value of type
  \<open>('w, 'a \<times> go_error option) state\<close>: \<open>'w\<close> is the world it acts on, and the pair is
  what Go returns. A handler returns an \<open>outcome\<close>, which also has the nil-pointer panic.
\<close>

section \<open>Machine integers\<close>

text \<open>The driver is built for 64-bit platforms, where Go's \<open>int\<close> and \<open>uint\<close> are 64 bits
  wide. Arithmetic on words wraps as Go's does; \<open>sint\<close> reads a signed value.\<close>

type_synonym int64 = "64 word"
type_synonym int32 = "32 word"
type_synonym uint64 = "64 word"

named_theorems word_eval \<open>lemmas that evaluate signed comparisons and arithmetic on words\<close>
named_theorems fs_defs \<open>definitions of the straight-line helpers, unfolded when a handler is run\<close>

text \<open>Go's signed division truncates towards zero.\<close>

definition quot64 :: "int64 \<Rightarrow> int64 \<Rightarrow> int64" where
  "quot64 a b = word_of_int (sint a sdiv sint b)"

text \<open>Conversion of an integer constant and back, when it fits.\<close>

definition fits64 :: "int \<Rightarrow> bool" where
  "fits64 x \<longleftrightarrow> - (2 ^ 63) \<le> x \<and> x < 2 ^ 63"

lemma sint_word_of_int64:
  assumes "fits64 x"
  shows "sint (word_of_int x :: int64) = x"
proof -
  have "signed_take_bit 63 x = x"
    using assms by (intro signed_take_bit_int_eq_self) (simp_all add: fits64_def)
  then show ?thesis by (simp add: signed_of_int)
qed

lemma fits64_sint [simp]: "fits64 (sint (x :: int64))"
  using sint_greater_eq [of x] sint_less [of x] by (simp add: fits64_def)

lemma sint_mult64:
  assumes "fits64 (sint a * sint b)"
  shows "sint (a * b :: int64) = sint a * sint b"
proof -
  have "a * b = word_of_int (sint a * sint b)" by simp
  with sint_word_of_int64 [OF assms] show ?thesis by metis
qed

lemma sint_sub64:
  assumes "fits64 (sint a - sint b)"
  shows "sint (a - b :: int64) = sint a - sint b"
proof -
  have "a - b = word_of_int (sint a - sint b)" by simp
  with sint_word_of_int64 [OF assms] show ?thesis by metis
qed

lemma sdiv_nonneg: "0 \<le> (a :: int) \<Longrightarrow> 0 < b \<Longrightarrow> a sdiv b = a div b"
  by (cases "a = 0") (auto simp: signed_divide_int_def sgn_if)

lemma quot64_nonneg:
  assumes "0 \<le> sint a" and "0 < sint b"
  shows "sint (quot64 a b) = sint a div sint b"
proof -
  have "sint a div sint b \<le> sint a"
    using assms by (metis div_by_1 zdiv_mono2 zero_less_one int_one_le_iff_zero_less)
  moreover have "0 \<le> sint a div sint b"
    using assms by (simp add: pos_imp_zdiv_nonneg_iff)
  ultimately have "fits64 (sint a div sint b)"
    using fits64_sint [of a] unfolding fits64_def by linarith
  with assms show ?thesis
    by (simp add: quot64_def sdiv_nonneg sint_word_of_int64)
qed

lemma sint_eq_iff64: "(a :: int64) = b \<longleftrightarrow> sint a = sint b"
  by (auto intro: signed_word_eqI)

section \<open>Handlers\<close>

text \<open>What a call of a handler ends in: a response, an error, or a nil-pointer panic.\<close>

datatype ('r, 'e) outcome = Ok 'r | Err 'e | Panic

abbreviation ret :: "'a \<Rightarrow> ('w, 'a) state" where
  "ret \<equiv> State_Monad.return"

text \<open>The result of a run and the world it leaves.\<close>

abbreviation result_of :: "('w, 'a) state \<Rightarrow> 'w \<Rightarrow> 'a" where
  "result_of m w \<equiv> fst (run_state m w)"

abbreviation world_after :: "('w, 'a) state \<Rightarrow> 'w \<Rightarrow> 'w" where
  "world_after m w \<equiv> snd (run_state m w)"

lemma run_state_if [simp]:
  "run_state (if b then m else n) w = (if b then run_state m w else run_state n w)"
  by simp

section \<open>Lists and maps\<close>

text \<open>A Go map read with a missing key, or a nil map, gives the zero value.\<close>

definition lookup_str :: "(string \<rightharpoonup> string) \<Rightarrow> string \<Rightarrow> string" where
  "lookup_str m k = (case m k of Some v \<Rightarrow> v | None \<Rightarrow> '''')"

lemma find_Some_in: "find P xs = Some x \<Longrightarrow> x \<in> set xs \<and> P x"
  by (auto simp: find_Some_iff)

lemma filter_single:
  assumes "filter P xs = [x]"
  shows "P x" and "x \<in> set xs"
proof -
  have "x \<in> set (filter P xs)" by (simp add: assms)
  then show "P x" and "x \<in> set xs" by simp_all
qed

end
