(* ===== verification/GoStrings.thy ===== *)
theory GoStrings
  imports Prelude "HOL-Library.Sublist" "HOL-Library.Char_ord" "HOL-Library.List_Lexorder"
begin

text \<open>
  The functions of Go's \<open>strings\<close> and \<open>path/filepath\<close> packages that the driver calls, on
  byte strings (a Go string is a sequence of bytes, a HOL \<open>char\<close> is a byte).
  Theories \<open>Char_ord\<close> and \<open>List_Lexorder\<close> make \<open>string\<close> a linear order: the bytewise
  lexicographic order that Go's comparison and \<open>sort.Strings\<close> use.
\<close>

section \<open>strings.Split and strings.Join\<close>

function split_aux :: "string \<Rightarrow> string \<Rightarrow> string \<Rightarrow> string list" where
  "split_aux sep acc [] = [rev acc]"
| "split_aux sep acc (c # cs) =
     (if sep \<noteq> [] \<and> prefix sep (c # cs)
      then rev acc # split_aux sep [] (drop (length sep) (c # cs))
      else split_aux sep (c # acc) cs)"
  by pat_completeness auto
termination
  by (relation "measure (\<lambda>(sep, acc, s). length s)") (auto simp: Suc_le_eq)

text \<open>\<open>strings.Split(s, sep)\<close> for a non-empty separator.\<close>

definition go_split :: "string \<Rightarrow> string \<Rightarrow> string list" where
  "go_split s sep = split_aux sep [] s"

fun go_join :: "string list \<Rightarrow> string \<Rightarrow> string" where
  "go_join [] sep = ''''"
| "go_join [x] sep = x"
| "go_join (x # xs) sep = x @ sep @ go_join xs sep"

lemma split_aux_nonempty [simp]: "split_aux sep acc s \<noteq> []"
  by (induction sep acc s rule: split_aux.induct) auto

lemma go_join_Cons: "xs \<noteq> [] \<Longrightarrow> go_join (x # xs) sep = x @ sep @ go_join xs sep"
  by (cases xs) auto

lemma split_aux_join: "go_join (split_aux sep acc s) sep = rev acc @ s"
proof (induction sep acc s rule: split_aux.induct)
  case (1 sep acc)
  then show ?case by simp
next
  case (2 sep acc c cs)
  show ?case
  proof (cases "sep \<noteq> [] \<and> prefix sep (c # cs)")
    case True
    then have "sep @ drop (length sep) (c # cs) = c # cs"
      by (auto simp: prefix_def)
    with True 2(1) show ?thesis by (simp add: go_join_Cons)
  next
    case False
    with 2(2) show ?thesis by auto
  qed
qed

lemma go_join_split: "go_join (go_split s sep) sep = s"
  by (simp add: go_split_def split_aux_join)

text \<open>A one-byte separator: a part ends at the next separator and holds none.\<close>

lemma split_aux_char:
  "c \<notin> set a \<Longrightarrow> split_aux [c] acc (a @ c # b) = (rev acc @ a) # split_aux [c] [] b"
  by (induction a arbitrary: acc) auto

lemma split_aux_char_last: "c \<notin> set a \<Longrightarrow> split_aux [c] acc a = [rev acc @ a]"
  by (induction a arbitrary: acc) auto

lemma go_split_char: "c \<notin> set a \<Longrightarrow> go_split (a @ c # b) [c] = a # go_split b [c]"
  by (simp add: go_split_def split_aux_char)

lemma go_split_char_last: "c \<notin> set a \<Longrightarrow> go_split a [c] = [a]"
  by (simp add: go_split_def split_aux_char_last)

lemma split_aux_char_parts:
  "c \<notin> set acc \<Longrightarrow> p \<in> set (split_aux [c] acc s) \<Longrightarrow> c \<notin> set p"
proof (induction "[c]" acc s arbitrary: p rule: split_aux.induct)
  case (1 acc)
  then show ?case by simp
next
  case (2 acc d cs)
  show ?case
  proof (cases "d = c")
    case True
    with 2(3) have "p = rev acc \<or> p \<in> set (split_aux [c] [] cs)" using 2(4) by simp
    with True 2(1) 2(3) show ?thesis by auto
  next
    case False
    with 2(2,3,4) show ?thesis by simp
  qed
qed

lemma go_split_char_parts: "p \<in> set (go_split s [c]) \<Longrightarrow> c \<notin> set p"
  using split_aux_char_parts [of c "[]" p s] by (simp add: go_split_def)

section \<open>strings.TrimSpace, TrimSuffix, HasPrefix, EqualFold\<close>

text \<open>The UTF-8 encodings of the code points for which \<open>unicode.IsSpace\<close> holds.\<close>

definition space_encodings :: "string list" where
  "space_encodings =
     map (\<lambda>c. [c]) [CHR 0x09, CHR 0x0A, CHR 0x0B, CHR 0x0C, CHR 0x0D, CHR 0x20] @
     [[CHR 0xC2, CHR 0x85], [CHR 0xC2, CHR 0xA0], [CHR 0xE1, CHR 0x9A, CHR 0x80]] @
     map (\<lambda>c. [CHR 0xE2, CHR 0x80, c])
       [CHR 0x80, CHR 0x81, CHR 0x82, CHR 0x83, CHR 0x84, CHR 0x85, CHR 0x86, CHR 0x87,
        CHR 0x88, CHR 0x89, CHR 0x8A, CHR 0xA8, CHR 0xA9, CHR 0xAF] @
     [[CHR 0xE2, CHR 0x81, CHR 0x9F], [CHR 0xE3, CHR 0x80, CHR 0x80]]"

function drop_enc :: "string list \<Rightarrow> string \<Rightarrow> string" where
  "drop_enc encs s =
     (case find (\<lambda>p. p \<noteq> [] \<and> prefix p s) encs of
        None \<Rightarrow> s
      | Some p \<Rightarrow> drop_enc encs (drop (length p) s))"
  by pat_completeness auto
termination
proof (relation "measure (\<lambda>(encs, s). length s)")
  fix encs s p
  assume "find (\<lambda>p. p \<noteq> [] \<and> prefix p s) encs = Some p"
  then have "p \<noteq> [] \<and> prefix p s" by (auto dest: find_Some_in)
  then have "0 < length p" and "length p \<le> length s" by (auto dest: prefix_length_le)
  then have "length s - length p < length s" by linarith
  then show "((encs, drop (length p) s), encs, s) \<in> measure (\<lambda>(encs, s). length s)"
    by simp
qed simp

declare drop_enc.simps [simp del]

definition trim_space :: "string \<Rightarrow> string" where
  "trim_space s =
     rev (drop_enc (map rev space_encodings) (rev (drop_enc space_encodings s)))"

definition trim_suffix :: "string \<Rightarrow> string \<Rightarrow> string" where
  "trim_suffix s suf = (if suffix suf s then take (length s - length suf) s else s)"

definition has_prefix :: "string \<Rightarrow> string \<Rightarrow> bool" where
  "has_prefix s p = prefix p s"

text \<open>\<open>strings.EqualFold\<close> on ASCII letters. A string with bytes outside ASCII compares those
  bytes exactly, where Go folds them by Unicode; the words the driver compares a status with
  (attached, available) have no letter with a fold outside ASCII.\<close>

definition ascii_lower :: "char \<Rightarrow> char" where
  "ascii_lower c =
     (let n = of_char c :: nat in if 65 \<le> n \<and> n \<le> 90 then char_of (n + 32) else c)"

definition equal_fold :: "string \<Rightarrow> string \<Rightarrow> bool" where
  "equal_fold s t \<longleftrightarrow> map ascii_lower s = map ascii_lower t"

lemma equal_fold_refl [simp]: "equal_fold s s"
  by (simp add: equal_fold_def)

lemma equal_fold_sym: "equal_fold s t \<longleftrightarrow> equal_fold t s"
  by (auto simp: equal_fold_def)

lemma equal_fold_trans: "equal_fold s t \<Longrightarrow> equal_fold t u \<Longrightarrow> equal_fold s u"
  by (simp add: equal_fold_def)

lemma drop_enc_Nil [simp]: "drop_enc encs [] = []"
  by (subst drop_enc.simps) (auto split: option.splits dest: find_Some_in)

lemma trim_space_Nil [simp]: "trim_space [] = []"
  by (simp add: trim_space_def)

lemma drop_enc_stop: "find (\<lambda>p. p \<noteq> [] \<and> prefix p s) encs = None \<Longrightarrow> drop_enc encs s = s"
  by (subst drop_enc.simps) simp

lemma drop_enc_suffix: "suffix (drop_enc encs s) s"
proof (induction encs s rule: drop_enc.induct)
  case (1 encs s)
  show ?case
  proof (cases "find (\<lambda>p. p \<noteq> [] \<and> prefix p s) encs")
    case None
    then show ?thesis by (simp add: drop_enc_stop)
  next
    case (Some p)
    with 1 have "suffix (drop_enc encs (drop (length p) s)) (drop (length p) s)" by simp
    with Some show ?thesis
      by (subst drop_enc.simps) (auto intro: suffix_order.trans suffix_drop)
  qed
qed

section \<open>path/filepath\<close>

definition slash :: char where "slash = CHR ''/''"

text \<open>One path element of \<open>filepath.Clean\<close>; the stack holds the kept elements, last first.\<close>

definition clean_step :: "bool \<Rightarrow> string list \<Rightarrow> string \<Rightarrow> string list" where
  "clean_step rooted st el =
     (if el = '''' \<or> el = ''.'' then st
      else if el = ''..'' then
        (case st of
           [] \<Rightarrow> (if rooted then [] else [''..''])
         | el1 # below \<Rightarrow> (if el1 = ''..'' then ''..'' # st else below))
      else el # st)"

definition filepath_clean :: "string \<Rightarrow> string" where
  "filepath_clean p =
     (if p = '''' then ''.''
      else let rooted = (hd p = slash);
               body = go_join (rev (foldl (clean_step rooted) [] (go_split p [slash]))) [slash]
           in if rooted then slash # body else if body = '''' then ''.'' else body)"

fun filepath_join :: "string list \<Rightarrow> string" where
  "filepath_join [] = ''''"
| "filepath_join (e # es) =
     (if e = '''' then filepath_join es else filepath_clean (go_join (e # es) [slash]))"

text \<open>\<open>filepath.Split\<close>: the path up to and including its last slash, and the rest.\<close>

definition filepath_split :: "string \<Rightarrow> string \<times> string" where
  "filepath_split p =
     (rev (dropWhile (\<lambda>c. c \<noteq> slash) (rev p)), rev (takeWhile (\<lambda>c. c \<noteq> slash) (rev p)))"

definition filepath_dir :: "string \<Rightarrow> string" where
  "filepath_dir p = filepath_clean (fst (filepath_split p))"

lemma filepath_split_append: "fst (filepath_split p) @ snd (filepath_split p) = p"
proof -
  have "rev (takeWhile (\<lambda>c. c \<noteq> slash) (rev p) @ dropWhile (\<lambda>c. c \<noteq> slash) (rev p)) = p"
    by simp
  then show ?thesis by (simp only: filepath_split_def fst_conv snd_conv rev_append)
qed

lemma filepath_split_no_slash: "slash \<notin> set (snd (filepath_split p))"
  by (auto simp: filepath_split_def dest: set_takeWhileD)

lemma clean_step_plain:
  "el \<noteq> '''' \<Longrightarrow> el \<noteq> ''.'' \<Longrightarrow> el \<noteq> ''..'' \<Longrightarrow> clean_step r st el = el # st"
  by (simp add: clean_step_def)

end
