(* ===== verification/GoErrors.thy ===== *)
theory GoErrors
  imports GoStrings
begin

text \<open>
  Error values: the driver's own error types (\<open>driver/errors.go\<close>), the errors of
  \<open>errors\<close>/\<open>fmt\<close> and gRPC's status errors, as one datatype of error trees, with
  \<open>errors.Is\<close>, \<open>status.FromError\<close> and the code the gRPC server puts on the wire.

  A message is a list of fragments: literal text and \<open>%s\<close> arguments (\<open>Lit\<close>), arguments
  printed with \<open>%q\<close> (\<open>Quoted\<close>) and numbers (\<open>Dec\<close>). Nothing in the driver branches on
  a message, so a quoted argument stays symbolic.
\<close>

section \<open>Error values\<close>

datatype frag = Lit string | Quoted string | Dec int

type_synonym msg = "frag list"

datatype sentinel =
    ErrDeviceNotFound | ErrDeviceNotAttached | ErrDeviceNotFormatted | ErrMountFailed
  | ErrUnmountFailed | ErrInvalidPath | ErrInvalidVolumeID | ErrInvalidMountPoint
  | ErrNotFound | ErrExecNotFound | DeadlineExceededErr | CanceledErr

datatype code =
    OK | Canceled | Unknown | InvalidArgument | DeadlineExceeded | NotFound | AlreadyExists
  | PermissionDenied | ResourceExhausted | FailedPrecondition | Aborted | OutOfRange
  | Unimplemented | Internal | Unavailable | DataLoss | Unauthenticated

datatype go_error =
    Sentinel sentinel
  | ErrorString msg
  | Wrap msg go_error
  | Joined "go_error list"
  | StatusError code msg
  | DeviceError string "go_error option"
  | MountError string "go_error option"
  | FilesystemError string "go_error option"

type_synonym 'r handler_result = "('r, go_error) outcome"

text \<open>The three typed errors unwrap to the error they hold.\<close>

definition Unwrap_DeviceError :: "string \<Rightarrow> go_error option \<Rightarrow> go_error option" where
  "Unwrap_DeviceError op e = e"

definition Unwrap_MountError :: "string \<Rightarrow> go_error option \<Rightarrow> go_error option" where
  "Unwrap_MountError op e = e"

definition Unwrap_FilesystemError :: "string \<Rightarrow> go_error option \<Rightarrow> go_error option" where
  "Unwrap_FilesystemError op e = e"

text \<open>The errors that \<open>errors.Is\<close> and \<open>errors.As\<close> visit next.\<close>

fun unwrap :: "go_error \<Rightarrow> go_error list" where
  "unwrap (Wrap m e) = [e]"
| "unwrap (Joined es) = es"
| "unwrap (DeviceError op e) =
     (case Unwrap_DeviceError op e of None \<Rightarrow> [] | Some e' \<Rightarrow> [e'])"
| "unwrap (MountError op e) =
     (case Unwrap_MountError op e of None \<Rightarrow> [] | Some e' \<Rightarrow> [e'])"
| "unwrap (FilesystemError op e) =
     (case Unwrap_FilesystemError op e of None \<Rightarrow> [] | Some e' \<Rightarrow> [e'])"
| "unwrap _ = []"

lemma unwrap_smaller: "e' \<in> set (unwrap e) \<Longrightarrow> size e' < size e"
  by (cases e)
    (auto simp: Unwrap_DeviceError_def Unwrap_MountError_def Unwrap_FilesystemError_def
      less_Suc_eq_le size_list_estimation' split: option.splits)

section \<open>Texts\<close>

fun sentinel_text :: "sentinel \<Rightarrow> string" where
  "sentinel_text ErrDeviceNotFound = ''device not found''"
| "sentinel_text ErrDeviceNotAttached = ''device not attached''"
| "sentinel_text ErrDeviceNotFormatted = ''device not formatted''"
| "sentinel_text ErrMountFailed = ''mount failed''"
| "sentinel_text ErrUnmountFailed = ''unmount failed''"
| "sentinel_text ErrInvalidPath = ''invalid path''"
| "sentinel_text ErrInvalidVolumeID = ''invalid volume ID''"
| "sentinel_text ErrInvalidMountPoint = ''invalid mount point''"
| "sentinel_text ErrNotFound = ''not found''"
| "sentinel_text ErrExecNotFound = ''executable file not found in $PATH''"
| "sentinel_text DeadlineExceededErr = ''context deadline exceeded''"
| "sentinel_text CanceledErr = ''context canceled''"

fun code_name :: "code \<Rightarrow> string" where
  "code_name OK = ''OK''"
| "code_name Canceled = ''Canceled''"
| "code_name Unknown = ''Unknown''"
| "code_name InvalidArgument = ''InvalidArgument''"
| "code_name DeadlineExceeded = ''DeadlineExceeded''"
| "code_name NotFound = ''NotFound''"
| "code_name AlreadyExists = ''AlreadyExists''"
| "code_name PermissionDenied = ''PermissionDenied''"
| "code_name ResourceExhausted = ''ResourceExhausted''"
| "code_name FailedPrecondition = ''FailedPrecondition''"
| "code_name Aborted = ''Aborted''"
| "code_name OutOfRange = ''OutOfRange''"
| "code_name Unimplemented = ''Unimplemented''"
| "code_name Internal = ''Internal''"
| "code_name Unavailable = ''Unavailable''"
| "code_name DataLoss = ''DataLoss''"
| "code_name Unauthenticated = ''Unauthenticated''"

fun join_msgs :: "msg list \<Rightarrow> msg" where
  "join_msgs [] = []"
| "join_msgs [m] = m"
| "join_msgs (m # ms) = m @ [Lit [CHR 0x0A]] @ join_msgs ms"

text \<open>\<open>err.Error()\<close>; a nil error field prints as \<open><nil>\<close>.\<close>

fun error_text :: "go_error \<Rightarrow> msg" where
  "error_text (Sentinel s) = [Lit (sentinel_text s)]"
| "error_text (ErrorString m) = m"
| "error_text (Wrap m e) = m @ error_text e"
| "error_text (Joined es) = join_msgs (map error_text es)"
| "error_text (StatusError c m) =
     [Lit ''rpc error: code = '', Lit (code_name c), Lit '' desc = ''] @ m"
| "error_text (DeviceError op e) =
     [Lit ''device error: '', Lit op, Lit '': ''] @
     (case e of None \<Rightarrow> [Lit ''<nil>''] | Some e' \<Rightarrow> error_text e')"
| "error_text (MountError op e) =
     [Lit ''mount error: '', Lit op, Lit '': ''] @
     (case e of None \<Rightarrow> [Lit ''<nil>''] | Some e' \<Rightarrow> error_text e')"
| "error_text (FilesystemError op e) =
     [Lit ''filesystem error: '', Lit op, Lit '': ''] @
     (case e of None \<Rightarrow> [Lit ''<nil>''] | Some e' \<Rightarrow> error_text e')"

section \<open>errors.Is, status.FromError, the code on the wire\<close>

function errors_is :: "sentinel \<Rightarrow> go_error \<Rightarrow> bool" where
  "errors_is t e = (e = Sentinel t \<or> list_ex (errors_is t) (unwrap e))"
  by pat_completeness auto
termination
  by (relation "measure (\<lambda>(t, e). size e)") (auto dest: unwrap_smaller)

declare errors_is.simps [simp del]

lemma errors_is_simps [simp]:
  "errors_is t (Sentinel s) \<longleftrightarrow> s = t"
  "\<not> errors_is t (ErrorString m)"
  "errors_is t (Wrap m e) \<longleftrightarrow> errors_is t e"
  "errors_is t (Joined es) \<longleftrightarrow> list_ex (errors_is t) es"
  "\<not> errors_is t (StatusError c m)"
  by (subst errors_is.simps, simp)+

text \<open>\<open>client.IsNotFound\<close> of the IaaS client.\<close>

definition is_not_found :: "go_error \<Rightarrow> bool" where
  "is_not_found e = errors_is ErrNotFound e"

text \<open>The status errors of the tree, depth first, and the first, which \<open>errors.As\<close> finds.\<close>

function status_codes :: "go_error \<Rightarrow> code list" where
  "status_codes e =
     (case e of StatusError c m \<Rightarrow> [c] | _ \<Rightarrow> concat (map status_codes (unwrap e)))"
  by pat_completeness auto
termination
  by (relation "measure size") (auto simp del: unwrap.simps dest: unwrap_smaller)

declare status_codes.simps [simp del]

lemma status_codes_simps [simp]:
  "status_codes (StatusError c m) = [c]"
  "status_codes (ErrorString m) = []"
  "status_codes (Sentinel s) = []"
  "status_codes (Wrap m e) = status_codes e"
  "status_codes (Joined es) = concat (map status_codes es)"
  by (subst status_codes.simps, simp)+

definition find_status :: "go_error \<Rightarrow> code option" where
  "find_status e = (case status_codes e of [] \<Rightarrow> None | c # _ \<Rightarrow> Some c)"

lemma find_status_simps [simp]:
  "find_status (StatusError c m) = Some c"
  "find_status (ErrorString m) = None"
  "find_status (Sentinel s) = None"
  "find_status (Wrap m e) = find_status e"
  by (simp_all add: find_status_def)

text \<open>\<open>status.FromError(err)\<close>: the code and whether the error is a status error.\<close>

definition from_error :: "go_error \<Rightarrow> code \<times> bool" where
  "from_error e = (case find_status e of Some c \<Rightarrow> (c, True) | None \<Rightarrow> (Unknown, False))"

text \<open>The code the gRPC server answers with when a handler returns \<open>e\<close>.\<close>

definition grpc_code :: "go_error \<Rightarrow> code" where
  "grpc_code e =
     (case find_status e of
        Some c \<Rightarrow> c
      | None \<Rightarrow> if errors_is DeadlineExceededErr e then DeadlineExceeded
                else if errors_is CanceledErr e then Canceled else Unknown)"

text \<open>\<open>status.Error(code, text)\<close> and \<open>status.Errorf\<close>.\<close>

definition status_error :: "code \<Rightarrow> msg \<Rightarrow> go_error" where
  "status_error c m = StatusError c m"

lemma status_error_simps [simp]:
  "find_status (status_error c m) = Some c"
  "grpc_code (status_error c m) = c"
  "from_error (status_error c m) = (c, True)"
  "\<not> is_not_found (status_error c m)"
  by (simp_all add: status_error_def grpc_code_def from_error_def is_not_found_def)

lemma status_error_inject [simp]:
  "status_error c m = status_error c' m' \<longleftrightarrow> c = c' \<and> m = m'"
  by (simp add: status_error_def)

lemma is_not_found_Wrap [simp]: "is_not_found (Wrap m e) = is_not_found e"
  by (simp add: is_not_found_def)

lemma grpc_code_Wrap [simp]: "grpc_code (Wrap m e) = grpc_code e"
  by (simp add: grpc_code_def)

end
