(* ===== verification/Capacity.thy ===== *)
theory Capacity
  imports GoErrors "HOL-Library.Log_Nat"
begin

text \<open>
  \<open>driver/defaults.go\<close> and \<open>driver/capacity.go\<close>: the size constants, the size a capacity
  range asks for, and the rendering of a byte count in error messages. Byte counts are
  \<open>int64\<close> words compared as signed values. \<open>formatBytes\<close> computes with a \<open>float64\<close>; the
  model writes the conversion (53 significant bits, ties to even), the division by a power
  of two (exact) and \<open>strconv.FormatFloat(x, 'f', 1, 64)\<close> (one decimal, correctly rounded,
  ties to even) in integer arithmetic.
\<close>

section \<open>Size constants\<close>

definition kiB :: int64 where "kiB = push_bit (10 * 1) 1"
definition miB :: int64 where "miB = push_bit (10 * 2) 1"
definition giB :: int64 where "giB = push_bit (10 * 3) 1"
definition tiB :: int64 where "tiB = push_bit (10 * 4) 1"

definition minimumVolumeSizeInBytes :: int64 where "minimumVolumeSizeInBytes = 1 * giB"
definition maximumVolumeSizeInBytes :: int64 where "maximumVolumeSizeInBytes = 16 * tiB"
definition defaultVolumeSizeInBytes :: int64 where "defaultVolumeSizeInBytes = 16 * giB"

definition createdByThalassaCSI :: string where
  "createdByThalassaCSI = ''Created by Thalassa Cloud CSI driver''"

lemma unit_values:
  "kiB = 1024" "miB = 1048576" "giB = 1073741824" "tiB = 1099511627776"
  by (simp_all add: kiB_def miB_def giB_def tiB_def push_bit_eq_mult)

lemma sint_units [word_eval, simp]:
  "sint kiB = 1024" "sint miB = 1048576" "sint giB = 1073741824" "sint tiB = 1099511627776"
  "sint minimumVolumeSizeInBytes = 1073741824"
  "sint maximumVolumeSizeInBytes = 17592186044416"
  "sint defaultVolumeSizeInBytes = 17179869184"
  by (simp_all add: unit_values minimumVolumeSizeInBytes_def maximumVolumeSizeInBytes_def
      defaultVolumeSizeInBytes_def)

section \<open>formatBytes\<close>

fun show_nat :: "nat \<Rightarrow> string" where
  "show_nat n =
     (if n < 10 then [char_of (48 + n)] else show_nat (n div 10) @ [char_of (48 + n mod 10)])"

declare show_nat.simps [simp del]

text \<open>The nearest integer to \<open>n / d\<close>, ties to even.\<close>

definition round_half_even :: "nat \<Rightarrow> nat \<Rightarrow> nat" where
  "round_half_even n d =
     (let q = n div d; r = n mod d
      in if 2 * r < d then q else if d < 2 * r then q + 1 else if even q then q else q + 1)"

text \<open>\<open>float64(n)\<close> for \<open>n \<ge> 0\<close>, always an integer.\<close>

definition float64_of_nat :: "nat \<Rightarrow> nat" where
  "float64_of_nat n =
     (let b = floorlog 2 n
      in if b \<le> 53 then n else 2 ^ (b - 53) * round_half_even n (2 ^ (b - 53)))"

text \<open>\<open>strconv.FormatFloat(m / d, 'f', 1, 64)\<close>.\<close>

definition format_float1 :: "nat \<Rightarrow> nat \<Rightarrow> string" where
  "format_float1 m d =
     (let tenths = round_half_even (10 * m) d
      in show_nat (tenths div 10) @ ''.'' @ show_nat (tenths mod 10))"

definition formatBytes :: "int64 \<Rightarrow> string" where
  "formatBytes inputBytes =
     (let i = sint inputBytes;
          output = float64_of_nat (nat \<bar>i\<bar>);
          sign = (if i < 0 then ''-'' else '''');
          render = (\<lambda>d unit. trim_suffix (sign @ format_float1 output d) ''.0'' @ unit)
      in if sint tiB \<le> i then render (nat (sint tiB)) ''Ti''
         else if sint giB \<le> i then render (nat (sint giB)) ''Gi''
         else if sint miB \<le> i then render (nat (sint miB)) ''Mi''
         else if sint kiB \<le> i then render (nat (sint kiB)) ''Ki''
         else if i = 0 then ''0''
         else render 1 '''')"

section \<open>getStorageSizeFromCapacityRange\<close>

record capacity_range =
  required_bytes :: int64
  limit_bytes :: int64

definition getStorageSizeFromCapacityRange :: "capacity_range option \<Rightarrow> go_error + int64" where
  "getStorageSizeFromCapacityRange capRange =
     (case capRange of
        None \<Rightarrow> Inr defaultVolumeSizeInBytes
      | Some r \<Rightarrow>
          let requiredBytes = required_bytes r;
              requiredSet = 0 < sint requiredBytes;
              limitBytes = limit_bytes r;
              limitSet = 0 < sint limitBytes
          in if \<not> requiredSet \<and> \<not> limitSet then Inr defaultVolumeSizeInBytes
             else if requiredSet \<and> limitSet \<and> sint limitBytes < sint requiredBytes then
               Inl (ErrorString [Lit ''limit ('', Lit (formatBytes limitBytes),
                 Lit '') can not be less than required ('', Lit (formatBytes requiredBytes),
                 Lit '') size''])
             else if requiredSet \<and> \<not> limitSet \<and>
                     sint requiredBytes < sint minimumVolumeSizeInBytes then
               Inr minimumVolumeSizeInBytes
             else if limitSet \<and> sint limitBytes < sint minimumVolumeSizeInBytes then
               Inl (ErrorString [Lit ''limit ('', Lit (formatBytes limitBytes),
                 Lit '') can not be less than minimum supported volume size ('',
                 Lit (formatBytes minimumVolumeSizeInBytes), Lit '')''])
             else if requiredSet \<and> sint requiredBytes > sint maximumVolumeSizeInBytes then
               Inl (ErrorString [Lit ''required ('', Lit (formatBytes requiredBytes),
                 Lit '') can not exceed maximum supported volume size ('',
                 Lit (formatBytes maximumVolumeSizeInBytes), Lit '')''])
             else if \<not> requiredSet \<and> limitSet \<and>
                     sint limitBytes > sint maximumVolumeSizeInBytes then
               Inl (ErrorString [Lit ''limit ('', Lit (formatBytes limitBytes),
                 Lit '') can not exceed maximum supported volume size ('',
                 Lit (formatBytes maximumVolumeSizeInBytes), Lit '')''])
             else if requiredSet \<and> limitSet \<and> requiredBytes = limitBytes then
               Inr requiredBytes
             else if requiredSet then Inr requiredBytes
             else if limitSet then Inr limitBytes
             else Inr defaultVolumeSizeInBytes)"

text \<open>The contract of a capacity range over the integers: which ranges are refused, and the
  size an accepted one gets.\<close>

definition range_refused :: "int \<Rightarrow> int \<Rightarrow> bool" where
  "range_refused req lmt \<longleftrightarrow>
     (0 < req \<and> 0 < lmt \<and> lmt < req) \<or> (0 < lmt \<and> lmt < 2 ^ 30) \<or> 16 * 2 ^ 40 < req \<or>
     (req \<le> 0 \<and> 16 * 2 ^ 40 < lmt)"

definition range_size :: "int \<Rightarrow> int \<Rightarrow> int" where
  "range_size req lmt =
     (if req \<le> 0 \<and> lmt \<le> 0 then 16 * 2 ^ 30
      else if req \<le> 0 then lmt
      else if lmt \<le> 0 then max req (2 ^ 30) else req)"

lemma storage_size_refused_iff:
  "(\<exists>e. getStorageSizeFromCapacityRange (Some r) = Inl e) \<longleftrightarrow>
     range_refused (sint (required_bytes r)) (sint (limit_bytes r))"
  by (auto simp: getStorageSizeFromCapacityRange_def range_refused_def Let_def)

lemma storage_size_accepted:
  assumes "getStorageSizeFromCapacityRange (Some r) = Inr s"
  shows "sint s = range_size (sint (required_bytes r)) (sint (limit_bytes r))"
  using assms
  by (auto simp: getStorageSizeFromCapacityRange_def range_size_def Let_def
      split: if_splits)

lemma storage_size_max:
  assumes "getStorageSizeFromCapacityRange c = Inr s"
  shows "0 < sint s \<and> sint s \<le> sint maximumVolumeSizeInBytes"
  using assms
  by (auto simp: getStorageSizeFromCapacityRange_def Let_def split: if_splits option.splits)

lemma range_accepted_bounds:
  assumes "\<not> range_refused req lmt"
  shows "(0 < lmt \<longrightarrow> range_size req lmt \<le> lmt) \<and> (0 < req \<longrightarrow> req \<le> range_size req lmt) \<and>
     (2 ^ 30 \<le> range_size req lmt \<or> (0 < req \<and> req < 2 ^ 30 \<and> 2 ^ 30 \<le> lmt))"
  using assms by (auto simp: range_refused_def range_size_def)

section \<open>Whole giga-bytes\<close>

text \<open>The IaaS API counts in GiB: \<open>size / giB\<close> rounds down, \<open>int64(n) * giB\<close> scales up.\<close>

definition to_giB :: "int64 \<Rightarrow> int64" where
  "to_giB bytes = quot64 bytes giB"

definition from_giB :: "int64 \<Rightarrow> int64" where
  "from_giB n = n * giB"

lemma sint_to_giB: "0 \<le> sint s \<Longrightarrow> sint (to_giB s) = sint s div 2 ^ 30"
  by (simp add: to_giB_def quot64_nonneg)

lemma sint_from_giB:
  assumes "0 \<le> sint n" and "sint n < 2 ^ 33"
  shows "sint (from_giB n) = sint n * 2 ^ 30"
proof -
  have "fits64 (sint n * sint giB)" using assms by (simp add: fits64_def)
  then show ?thesis by (simp add: from_giB_def sint_mult64)
qed

lemma from_to_giB:
  assumes "0 \<le> sint s"
  shows "sint (from_giB (to_giB s)) = sint s - sint s mod 2 ^ 30"
proof -
  have "sint (to_giB s) < 2 ^ 33"
    using assms sint_less [of s] by (simp add: sint_to_giB)
  with assms have "sint (from_giB (to_giB s)) = sint s div 2 ^ 30 * 2 ^ 30"
    by (simp add: sint_from_giB sint_to_giB pos_imp_zdiv_nonneg_iff)
  then show ?thesis by (simp add: minus_mod_eq_div_mult)
qed

lemma from_to_giB_exact_iff:
  assumes "0 \<le> sint s"
  shows "from_giB (to_giB s) = s \<longleftrightarrow> 2 ^ 30 dvd sint s"
  using from_to_giB [OF assms] by (auto simp: sint_eq_iff64 dvd_eq_mod_eq_0)

section \<open>Properties\<close>

text \<open>C21: A capacity range is refused exactly when its limit is below its required size, its limit
  is below 1 GiB, its required size is above 16 TiB, or it has only a limit and that is above
  16 TiB; an accepted range gets 16 GiB when it sets neither bound, its limit when it sets only
  that, and otherwise its required size, which is raised to 1 GiB when no limit is set.\<close>

theorem capacity_range_decides:
  "(case getStorageSizeFromCapacityRange (Some r) of
      Inl _ \<Rightarrow> range_refused (sint (required_bytes r)) (sint (limit_bytes r))
    | Inr s \<Rightarrow> \<not> range_refused (sint (required_bytes r)) (sint (limit_bytes r)) \<and>
        sint s = range_size (sint (required_bytes r)) (sint (limit_bytes r))) \<and>
   getStorageSizeFromCapacityRange None = Inr defaultVolumeSizeInBytes \<and>
   sint defaultVolumeSizeInBytes = 16 * 2 ^ 30"
proof -
  have none: "getStorageSizeFromCapacityRange None = Inr defaultVolumeSizeInBytes"
    by (simp add: getStorageSizeFromCapacityRange_def)
  show ?thesis
  proof (cases "getStorageSizeFromCapacityRange (Some r)")
    case (Inl e)
    with storage_size_refused_iff [of r] none show ?thesis by auto
  next
    case (Inr s)
    with storage_size_refused_iff [of r] storage_size_accepted [OF Inr] none show ?thesis by auto
  qed
qed

text \<open>The size an accepted range gets lies between its required size and its limit, when those
  are set, is positive and at most 16 TiB, and is at least 1 GiB unless the range requires less
  than 1 GiB and has a limit of at least 1 GiB: then the required size is kept as it is.\<close>

theorem capacity_range_bounds:
  assumes "getStorageSizeFromCapacityRange (Some r) = Inr s"
  shows "(0 < sint (limit_bytes r) \<longrightarrow> sint s \<le> sint (limit_bytes r)) \<and>
    (0 < sint (required_bytes r) \<longrightarrow> sint (required_bytes r) \<le> sint s) \<and>
    0 < sint s \<and> sint s \<le> 16 * 2 ^ 40 \<and>
    (2 ^ 30 \<le> sint s \<or>
       s = required_bytes r \<and> 0 < sint s \<and> sint s < 2 ^ 30 \<and> 2 ^ 30 \<le> sint (limit_bytes r))"
proof -
  have "\<not> range_refused (sint (required_bytes r)) (sint (limit_bytes r))"
    using storage_size_refused_iff [of r] assms by auto
  moreover have "sint s = range_size (sint (required_bytes r)) (sint (limit_bytes r))"
    by (rule storage_size_accepted [OF assms])
  ultimately show ?thesis
    using range_accepted_bounds [of "sint (required_bytes r)" "sint (limit_bytes r)"]
      storage_size_max [OF assms]
    by (auto simp: range_size_def sint_eq_iff64 split: if_splits)
qed

theorem capacity_range_bounds_witness:
  "\<exists>s. getStorageSizeFromCapacityRange (Some \<lparr> required_bytes = 1, limit_bytes = 2 * giB \<rparr>) = Inr s \<and>
     sint s \<le> sint (2 * giB)"
proof -
  have run: "getStorageSizeFromCapacityRange (Some \<lparr> required_bytes = 1, limit_bytes = 2 * giB \<rparr>) = Inr 1"
    by (simp add: getStorageSizeFromCapacityRange_def unit_values)
  have "0 < sint (2 * giB)" by (simp add: unit_values)
  with capacity_range_bounds [OF run] run show ?thesis by auto
qed

lemma round_half_even_mult: "0 < d \<Longrightarrow> round_half_even (n * d) d = n"
  by (simp add: round_half_even_def Let_def)

lemma floorlog_small: "n < 2 ^ 53 \<Longrightarrow> floorlog 2 n \<le> 53"
  by (cases "n = 0") (simp_all add: floorlog_leI)

lemma float64_small: "n < 2 ^ 53 \<Longrightarrow> float64_of_nat n = n"
  using floorlog_small [of n] by (simp add: float64_of_nat_def Let_def)

lemma show_nat_0: "show_nat 0 = ''0''"
  by code_simp

lemma format_float1_whole: "0 < d \<Longrightarrow> format_float1 (n * d) d = show_nat n @ ''.0''"
  using round_half_even_mult [of d "10 * n"]
  by (simp add: format_float1_def Let_def mult.assoc show_nat_0)

lemma trim_suffix_append: "trim_suffix (s @ t) t = s"
  by (auto simp: trim_suffix_def suffix_def)

text \<open>\<open>formatBytes\<close> prints a whole number, below 1024, of KiB, MiB, GiB or TiB as that number and
  its unit, without a decimal point.\<close>

theorem formatBytes_whole:
  assumes "0 < n" and "n < 1024"
  shows "formatBytes (word_of_int (int (n * 2 ^ 10))) = show_nat n @ ''Ki'' \<and>
    formatBytes (word_of_int (int (n * 2 ^ 20))) = show_nat n @ ''Mi'' \<and>
    formatBytes (word_of_int (int (n * 2 ^ 30))) = show_nat n @ ''Gi'' \<and>
    formatBytes (word_of_int (int (n * 2 ^ 40))) = show_nat n @ ''Ti''"
proof -
  have exact: "sint (word_of_int (int m) :: int64) = int m" if "m < 2 ^ 53" for m
    using that by (intro sint_word_of_int64) (simp add: fits64_def)
  have render: "trim_suffix (format_float1 (float64_of_nat (n * d)) d) ''.0'' = show_nat n"
    if "n * d < 2 ^ 53" "0 < d" for d
    using that by (simp only: float64_small format_float1_whole trim_suffix_append)
  show ?thesis
    using assms exact [of "n * 2 ^ 10"] exact [of "n * 2 ^ 20"] exact [of "n * 2 ^ 30"]
      exact [of "n * 2 ^ 40"] render [of "2 ^ 10"] render [of "2 ^ 20"] render [of "2 ^ 30"]
      render [of "2 ^ 40"]
    by (simp add: formatBytes_def Let_def nat_mult_distrib)
qed

theorem formatBytes_whole_witness:
  "formatBytes (word_of_int (int (16 * 2 ^ 30))) = ''16Gi''"
proof -
  have "show_nat 16 = ''16''" by code_simp
  with formatBytes_whole [of 16] show ?thesis by simp
qed

end
