(* ===== verification/Pagination.thy ===== *)
theory Pagination
  imports GoErrors "HOL-Library.Multiset"
begin

text \<open>
  \<open>driver/pagination.go\<close>: one page of a sorted list of identities, and the locale \<open>pager\<close>
  with the contract the two listing handlers and their clients rely on. A Go slice
  \<open>s[start:end]\<close> is \<open>slice s start end\<close>.
\<close>

definition slice :: "'a list \<Rightarrow> nat \<Rightarrow> nat \<Rightarrow> 'a list" where
  "slice xs st en = take (en - st) (drop st xs)"

text \<open>The loop that looks the starting token up, from index \<open>i\<close>.\<close>

fun find_token :: "nat \<Rightarrow> string \<Rightarrow> string list \<Rightarrow> nat option" where
  "find_token i tok [] = None"
| "find_token i tok (x # xs) = (if x = tok then Some i else find_token (Suc i) tok xs)"

definition paginateIdentities ::
    "string list \<Rightarrow> string \<Rightarrow> int32 \<Rightarrow> go_error + (string list \<times> nat \<times> nat \<times> string)" where
  "paginateIdentities identities startingToken maxEntries =
     (if sint maxEntries < 0 then
        Inl (status_error InvalidArgument [Lit ''max entries cannot be negative''])
      else
        let sortedIdentities = sort identities
        in case (if startingToken \<noteq> '''' then find_token 0 startingToken sortedIdentities
                 else Some 0) of
             None \<Rightarrow> Inl (status_error Aborted
                        [Lit ''invalid starting token '', Quoted startingToken])
           | Some start \<Rightarrow>
               let stop = length sortedIdentities;
                   n = nat (sint maxEntries)
               in if 0 < n \<and> int n < int stop - int start
                  then Inr (sortedIdentities, start, start + n, sortedIdentities ! (start + n))
                  else Inr (sortedIdentities, start, stop, ''''))"

lemma find_token_Some:
  "find_token i tok xs = Some j \<Longrightarrow> i \<le> j \<and> j < i + length xs \<and> xs ! (j - i) = tok"
  by (induction xs arbitrary: i)
    (fastforce split: if_splits simp: nth_Cons' Suc_diff_le less_eq_Suc_le)+

lemma find_token_None: "find_token i tok xs = None \<longleftrightarrow> tok \<notin> set xs"
  by (induction xs arbitrary: i) auto

section \<open>The contract of a page\<close>

text \<open>
  What a listing client sees of a page: its entries and the next token. \<open>walk\<close> is the
  client's loop: it asks for pages from a token on until the next token is empty.
\<close>

fun walk :: "(string \<Rightarrow> 'e + ('a list \<times> string)) \<Rightarrow> nat \<Rightarrow> string \<Rightarrow> 'a list option" where
  "walk page 0 tok = None"
| "walk page (Suc fuel) tok =
     (case page tok of
        Inl e \<Rightarrow> None
      | Inr (entries, next) \<Rightarrow>
          if next = '''' then Some entries else map_option ((@) entries) (walk page fuel next))"

definition page_entries ::
    "(string \<Rightarrow> 'a) \<Rightarrow> go_error + (string list \<times> nat \<times> nat \<times> string) \<Rightarrow> go_error + ('a list \<times> string)" where
  "page_entries f p =
     (case p of Inl e \<Rightarrow> Inl e | Inr (ss, st, en, nt) \<Rightarrow> Inr (map f (slice ss st en), nt))"

text \<open>The client's loop depends on the pages only, not on the errors.\<close>

lemma walk_errors:
  assumes "\<And>t. page' t = (case page t of Inl e \<Rightarrow> Inl (h e) | Inr p \<Rightarrow> Inr p)"
  shows "walk page' fuel tok = walk page fuel tok"
  by (induction fuel arbitrary: tok) (auto simp: assms split: sum.splits)

lemma sort_map_key: "sort (map f xs) = map f (sort_key f xs)"
  by (rule properties_for_sort) (simp_all add: mset_map)

text \<open>What a handler's response is to a client of a listing.\<close>

definition page_of :: "'r handler_result \<Rightarrow> go_error option + 'r" where
  "page_of res = (case res of Ok r \<Rightarrow> Inr r | Err e \<Rightarrow> Inl (Some e) | Panic \<Rightarrow> Inl None)"

locale pager =
  fixes page :: "string list \<Rightarrow> string \<Rightarrow> int32 \<Rightarrow> go_error + (string list \<times> nat \<times> nat \<times> string)"
  assumes page_sorted: "page ids tok m = Inr (ss, st, en, nt) \<Longrightarrow> ss = sort ids"
    and page_range: "page ids tok m = Inr (ss, st, en, nt) \<Longrightarrow> st \<le> en \<and> en \<le> length ss"
    and page_start: "page ids tok m = Inr (ss, st, en, nt) \<Longrightarrow>
      (if tok = '''' then st = 0 else st < length ss \<and> ss ! st = tok)"
    and page_next: "page ids tok m = Inr (ss, st, en, nt) \<Longrightarrow>
      (if en < length ss then nt = ss ! en \<and> st < en \<and> int (en - st) = sint m else nt = '''')"
    and page_accepts: "0 \<le> sint m \<Longrightarrow> tok = '''' \<or> tok \<in> set ids \<Longrightarrow> \<exists>p. page ids tok m = Inr p"
begin

lemma walk_from:
  assumes "distinct ids" and "'''' \<notin> set ids" and "0 \<le> sint m"
    and "i < length ids \<or> i = 0" and "tok = (if i = 0 then tok else sort ids ! i)"
    and "i = 0 \<longrightarrow> tok = '''' \<or> (ids \<noteq> [] \<and> tok = sort ids ! 0)" and "length ids - i < fuel"
  shows "walk (\<lambda>t. page_entries f (page ids t m)) fuel tok = Some (map f (drop i (sort ids)))"
  using assms(4-)
proof (induction fuel arbitrary: i tok)
  case 0
  then show ?case by simp
next
  case (Suc fuel)
  let ?ss = "sort ids"
  have len: "length ?ss = length ids" by simp
  have "tok = '''' \<or> tok \<in> set ids"
    using Suc.prems(1-3) len by (metis length_greater_0_conv nth_mem set_sort)
  then obtain ss st en nt where p: "page ids tok m = Inr (ss, st, en, nt)"
    using page_accepts [OF assms(3)] by (metis prod_cases4)
  note ss = page_sorted [OF p] and rng = page_range [OF p]
    and start = page_start [OF p] and nxt = page_next [OF p]
  have tok_ne: "tok \<noteq> '''' \<longrightarrow> tok = ?ss ! i \<and> i < length ids"
    using Suc.prems(1-3) by (auto split: if_splits)
  have "tok = '''' \<longrightarrow> i = 0"
    using Suc.prems(1,2) assms(2) len by (metis nth_mem set_sort)
  then have st: "st = i"
    using start tok_ne ss assms(1) len by (auto simp: nth_eq_iff_index_eq split: if_splits)
  show ?case
  proof (cases "en < length ss")
    case False
    then have "en = length ss" using rng by simp
    with p nxt ss st False show ?thesis by (simp add: page_entries_def slice_def)
  next
    case True
    with nxt ss st have nt: "nt = ?ss ! en" "i < en" by auto
    have "nt \<in> set ids" using True ss nt by (metis nth_mem set_sort)
    then have "nt \<noteq> ''''" using assms(2) by auto
    moreover have "walk (\<lambda>t. page_entries f (page ids t m)) fuel nt = Some (map f (drop en ?ss))"
      using True ss nt Suc.prems(4) len by (intro Suc.IH) auto
    moreover have "slice ?ss i en @ drop en ?ss = drop i ?ss"
      using nt(2) by (simp add: slice_def) (metis append_take_drop_id drop_drop le_add_diff_inverse2 less_imp_le)
    ultimately show ?thesis
      using p ss st by (simp add: page_entries_def flip: map_append)
  qed
qed

text \<open>A client that follows the tokens sees every identity once, in sorted order.\<close>

lemma walk_all:
  assumes "distinct ids" and "'''' \<notin> set ids" and "0 \<le> sint m"
  shows "walk (\<lambda>t. page_entries f (page ids t m)) (Suc (length ids)) '''' = Some (map f (sort ids))"
  using walk_from [OF assms, where i = 0 and tok = "''''" and f = f and fuel = "Suc (length ids)"]
  by (simp del: walk.simps)

lemma page_bound:
  assumes "page ids tok m = Inr (ss, st, en, nt)" and "0 < sint m"
  shows "int (length (slice ss st en)) \<le> int (length ids) \<and>
     (nt \<noteq> '''' \<longrightarrow> int (length (slice ss st en)) = sint m)"
  using page_sorted [OF assms(1)] page_range [OF assms(1)] page_next [OF assms(1)]
  by (auto simp: slice_def split: if_splits)

end

interpretation pg: pager paginateIdentities
proof unfold_locales
  fix ids tok m ss st en nt
  assume p: "paginateIdentities ids tok m = Inr (ss, st, en, nt)"
  then show "ss = sort ids"
    by (auto simp: paginateIdentities_def Let_def split: if_splits option.splits)
  from p show "st \<le> en \<and> en \<le> length ss"
    by (auto simp: paginateIdentities_def Let_def split: if_splits option.splits
        dest!: find_token_Some)
  from p show "if tok = '''' then st = 0 else st < length ss \<and> ss ! st = tok"
    by (auto simp: paginateIdentities_def Let_def split: if_splits option.splits
        dest!: find_token_Some)
  from p show "if en < length ss then nt = ss ! en \<and> st < en \<and> int (en - st) = sint m else nt = ''''"
    by (auto simp: paginateIdentities_def Let_def split: if_splits option.splits)
next
  fix m :: int32 and tok :: string and ids
  assume "0 \<le> sint m" and "tok = '''' \<or> tok \<in> set ids"
  then show "\<exists>p. paginateIdentities ids tok m = Inr p"
    using find_token_None [of 0 tok "sort ids"]
    by (auto simp: paginateIdentities_def Let_def split: option.splits)
qed

section \<open>Properties\<close>

text \<open>C20: A client that follows the next tokens of \<open>paginateIdentities\<close>, from the empty token
  and with any page size, sees every identity exactly once and in sorted order, after at most
  one request per identity and one more; the identities have to be distinct and non-empty.\<close>

theorem pagination_complete:
  assumes "distinct ids" and "'''' \<notin> set ids" and "0 \<le> sint (m :: int32)"
  shows "walk (\<lambda>t. page_entries f (paginateIdentities ids t m)) (Suc (length ids)) '''' =
     Some (map f (sort ids))"
  using assms by (rule pg.walk_all)

theorem pagination_complete_witness:
  "walk (\<lambda>t. page_entries id (paginateIdentities [''b'', ''c'', ''a''] t 2)) 4 '''' =
     Some [''a'', ''b'', ''c'']"
  using pagination_complete [of "[''b'', ''c'', ''a'']" 2 id] by code_simp

text \<open>A request is refused exactly when the page size is negative (\<open>InvalidArgument\<close>) or the
  starting token is not an identity of the list (\<open>Aborted\<close>).\<close>

theorem pagination_refused:
  "(case paginateIdentities ids tok m of
      Inl e \<Rightarrow> (sint m < 0 \<and> grpc_code e = InvalidArgument) \<or>
               (0 \<le> sint m \<and> tok \<noteq> '''' \<and> tok \<notin> set ids \<and> grpc_code e = Aborted)
    | Inr _ \<Rightarrow> 0 \<le> sint m \<and> (tok = '''' \<or> tok \<in> set ids))"
  using find_token_None [of 0 tok "sort ids"]
  by (auto simp: paginateIdentities_def Let_def split: option.splits)

text \<open>A page with a positive page size never holds more than that many identities, a page with
  a next token holds exactly that many, and the next token is the identity the next page starts
  with.\<close>

theorem pagination_page:
  assumes "paginateIdentities ids tok m = Inr (ss, st, en, nt)" and "0 < sint m"
  shows "ss = sort ids \<and> int (length (slice ss st en)) \<le> sint m \<and>
     (nt \<noteq> '''' \<longrightarrow> length (slice ss st en) = nat (sint m) \<and> nt = ss ! en) \<and>
     (nt = '''' \<and> '''' \<notin> set ids \<longrightarrow> en = length ids)"
proof -
  have ss: "ss = sort ids" by (rule pg.page_sorted [OF assms(1)])
  have "int en - int st \<le> sint m"
    using assms by (auto simp: paginateIdentities_def Let_def split: if_splits option.splits)
  moreover note rng = pg.page_range [OF assms(1)] and nxt = pg.page_next [OF assms(1)]
  moreover have "length (slice ss st en) = en - st"
    using rng by (auto simp: slice_def)
  moreover have "en < length ss \<Longrightarrow> '''' \<notin> set ids \<Longrightarrow> ss ! en \<noteq> ''''"
    using ss by (metis nth_mem set_sort)
  ultimately show ?thesis
    using ss by (cases "en < length ss") auto
qed

theorem pagination_page_witness:
  "sort [''b'', ''c'', ''a''] = [''a'', ''b'', ''c''] \<and>
   paginateIdentities [''b'', ''c'', ''a''] ''b'' 1 = Inr ([''a'', ''b'', ''c''], 1, 2, ''c'') \<and>
   int (length (slice [''a'', ''b'', ''c''] 1 2)) \<le> 1"
proof -
  have p: "paginateIdentities [''b'', ''c'', ''a''] ''b'' 1 = Inr ([''a'', ''b'', ''c''], 1, 2, ''c'')"
    by code_simp
  have "0 < sint (1 :: int32)" by simp
  note q = pagination_page [OF p this]
  have "sint (1 :: int32) = 1" by simp
  with p q show ?thesis by metis
qed

text \<open>With duplicate identities the walk can ask for the same page for ever: the token names the
  first of two equal identities.\<close>

lemma pagination_duplicates_stuck:
  "walk (\<lambda>t. page_entries f (paginateIdentities [''a'', ''a''] t 1)) fuel ''a'' = None"
  by (induction fuel) (simp_all add: paginateIdentities_def page_entries_def)

end
