(* ===== verification/Journal.thy ===== *)
theory Journal
  imports Prelude
begin

text \<open>
  Journals of external calls and a weakest-precondition calculus over them. \<open>journal c m\<close> runs
  the external call \<open>m\<close> and appends the event \<open>c r\<close> of its result \<open>r\<close> to the world.
  \<open>wp m Q js\<close> says: whatever the external calls answer, a run of \<open>m\<close> that starts with the
  journal \<open>js\<close> ends with a result and a journal that satisfy \<open>Q\<close>.
\<close>

named_theorems wp_intros \<open>introduction rules of the calculus, one per way to build a program\<close>

definition journal :: "('r \<Rightarrow> 'c) \<Rightarrow> ('w, 'r) state \<Rightarrow> ('w \<times> 'c list, 'r) state" where
  "journal c m = State (\<lambda>(w, js). case run_state m w of (r, w') \<Rightarrow> (r, (w', js @ [c r])))"

lemma run_journal [simp]:
  "run_state (journal c m) (w, js) =
     (result_of m w, (world_after m w, js @ [c (result_of m w)]))"
  by (simp add: journal_def case_prod_beta)

definition wp :: "('w \<times> 'c list, 'r) state \<Rightarrow> ('r \<Rightarrow> 'c list \<Rightarrow> bool) \<Rightarrow> 'c list \<Rightarrow> bool" where
  "wp m Q js \<longleftrightarrow> (\<forall>w. Q (result_of m (w, js)) (snd (world_after m (w, js))))"

lemma wp_ret [simp]: "wp (ret x) Q js \<longleftrightarrow> Q x js"
  by (simp add: wp_def)

lemma wp_bind [wp_intros]:
  assumes "wp m (\<lambda>r. wp (f r) Q) js"
  shows "wp (State_Monad.bind m f) Q js"
  unfolding wp_def
proof
  fix w
  obtain r w' js' where run: "run_state m (w, js) = (r, (w', js'))"
    by (metis prod.exhaust)
  with assms have "wp (f r) Q js'" by (auto simp: wp_def dest: spec [of _ w])
  with run show "Q (result_of (State_Monad.bind m f) (w, js))
      (snd (world_after (State_Monad.bind m f) (w, js)))"
    by (simp add: wp_def)
qed

lemma wp_journal [wp_intros]: "(\<And>r. Q r (js @ [c r])) \<Longrightarrow> wp (journal c m) Q js"
  by (simp add: wp_def)

lemma wp_mono: "wp m Q js \<Longrightarrow> (\<And>r js'. Q r js' \<Longrightarrow> R r js') \<Longrightarrow> wp m R js"
  by (simp add: wp_def)

text \<open>A call of a helper that is proved apart: its postcondition is a premise of the rest.\<close>

lemma wp_call:
  assumes "wp m P js" and "\<And>r js'. P r js' \<Longrightarrow> wp (f r) Q js'"
  shows "wp (State_Monad.bind m f) Q js"
  using assms by (intro wp_bind) (rule wp_mono)

text \<open>The calls a run makes, from an empty journal.\<close>

definition calls_of :: "('w \<times> 'c list, 'r) state \<Rightarrow> 'w \<Rightarrow> 'c list" where
  "calls_of m w = snd (world_after m (w, []))"

definition answer_of :: "('w \<times> 'c list, 'r) state \<Rightarrow> 'w \<Rightarrow> 'r" where
  "answer_of m w = result_of m (w, [])"

lemma wp_run: "wp m Q [] \<Longrightarrow> Q (answer_of m w) (calls_of m w)"
  by (simp add: wp_def calls_of_def answer_of_def)

end
