(* ===== verification/Iaas.thy ===== *)
theory Iaas
  imports GoErrors Journal
begin

text \<open>
  The outside world of the controller, which is a parameter of the model: the IaaS API client
  (\<open>github.com/thalassa-cloud/client-go/iaas\<close>), the Kubernetes API and the waits of a context.
  Each operation is a field of the record \<open>env\<close>, an arbitrary function of the world \<open>'w\<close>
  that returns what the Go method returns; a pointer result is an \<open>option\<close> (nil is \<open>None\<close>).
  The records hold the fields of the client's types that the driver reads or writes.

  \<open>traced env\<close> is the same environment with a journal: it appends each call with its result
  to the world, so that a theorem can speak of the calls a handler makes and their order.
\<close>

section \<open>Types of the IaaS API\<close>

type_synonym labels = "string \<rightharpoonup> string"
type_synonym filter_kv = "string \<times> string"
type_synonym err = "go_error option"
type_synonym timestamp = "int64 \<times> int32"

record attachment =
  AttachedToIdentity :: string

record volume =
  vol_Identity :: string
  vol_Name :: string
  vol_Description :: string
  vol_Labels :: labels
  vol_Annotations :: labels
  vol_Size :: int64
  vol_Status :: string
  vol_Attachments :: "attachment list"
  vol_DeleteProtection :: bool

record volume_type =
  vt_Identity :: string
  vt_Name :: string

record machine =
  mach_Identity :: string
  mach_Name :: string
  mach_Slug :: string

record snapshot =
  snap_Identity :: string
  snap_Name :: string
  snap_Status :: string
  snap_SourceVolumeId :: "string option"
  snap_SourceVolume :: "volume option"
  snap_SizeGB :: "int64 option"
  snap_CreatedAt :: timestamp

record create_volume =
  cv_Name :: string
  cv_Description :: string
  cv_Labels :: labels
  cv_Annotations :: labels
  cv_Size :: int64
  cv_CloudRegionIdentity :: string
  cv_VolumeTypeIdentity :: string
  cv_RestoreFromSnapshotId :: "string option"

record update_volume =
  uv_Name :: string
  uv_Description :: string
  uv_Labels :: labels
  uv_Annotations :: labels
  uv_Size :: int64
  uv_DeleteProtection :: bool

record attach_request =
  ar_ResourceIdentity :: string
  ar_ResourceType :: string

record create_snapshot =
  cs_Name :: string
  cs_VolumeIdentity :: string
  cs_Labels :: labels
  cs_Annotations :: labels

section \<open>The environment\<close>

text \<open>Why a context ended: \<open>ctx.Err()\<close> is one of two errors.\<close>

datatype context_end = ContextCanceled | ContextDeadline

fun context_error :: "context_end \<Rightarrow> go_error" where
  "context_error ContextCanceled = Sentinel CanceledErr"
| "context_error ContextDeadline = Sentinel DeadlineExceededErr"

lemma context_error_found [simp]: "\<not> is_not_found (context_error c)"
  by (cases c) (simp_all add: is_not_found_def)

record 'w env =
  iaas_GetVolume :: "string \<Rightarrow> ('w, volume option \<times> err) state"
  iaas_ListVolumes :: "filter_kv list \<Rightarrow> ('w, volume list \<times> err) state"
  iaas_CreateVolume :: "create_volume \<Rightarrow> ('w, volume option \<times> err) state"
  iaas_UpdateVolume :: "string \<Rightarrow> update_volume \<Rightarrow> ('w, volume option \<times> err) state"
  iaas_DeleteVolume :: "string \<Rightarrow> ('w, err) state"
  iaas_AttachVolume :: "string \<Rightarrow> attach_request \<Rightarrow> ('w, err) state"
  iaas_DetachVolume :: "string \<Rightarrow> attach_request \<Rightarrow> ('w, err) state"
  iaas_ListVolumeTypes :: "('w, volume_type list \<times> err) state"
  iaas_GetMachine :: "string \<Rightarrow> ('w, machine option \<times> err) state"
  iaas_ListMachines :: "filter_kv list \<Rightarrow> ('w, machine list \<times> err) state"
  iaas_GetSnapshot :: "string \<Rightarrow> ('w, snapshot option \<times> err) state"
  iaas_ListSnapshots :: "filter_kv list \<Rightarrow> ('w, snapshot list \<times> err) state"
  iaas_CreateSnapshot :: "create_snapshot \<Rightarrow> ('w, snapshot option \<times> err) state"
  iaas_DeleteSnapshot :: "string \<Rightarrow> ('w, err) state"
  iaas_WaitUntilSnapshotIsAvailable :: "string \<Rightarrow> ('w, err) state"
  iaas_ListRegions :: "filter_kv list \<Rightarrow> ('w, err) state"
  kube_BuildConfig :: "string \<Rightarrow> ('w, err) state"
  kube_NewForConfig :: "('w, err) state"
  kube_GetNode :: "string \<Rightarrow> ('w, string \<times> err) state"
    \<comment> \<open>the \<open>Spec.ProviderID\<close> of the node\<close>
  ctx_Wait :: "('w, context_end option) state"
    \<comment> \<open>one interval of a poll: None when it has passed, the end of the context when it came first\<close>

section \<open>The journal\<close>

datatype call =
    Get_Volume string "volume option" err
  | List_Volumes "filter_kv list" "volume list" err
  | Create_Volume create_volume "volume option" err
  | Update_Volume string update_volume err
  | Delete_Volume string err
  | Attach_Volume string attach_request err
  | Detach_Volume string attach_request err
  | List_Volume_Types "volume_type list" err
  | Get_Machine string "machine option" err
  | List_Machines "filter_kv list" "machine list" err
  | Get_Snapshot string "snapshot option" err
  | List_Snapshots "filter_kv list" "snapshot list" err
  | Create_Snapshot create_snapshot "snapshot option" err
  | Delete_Snapshot string err
  | Wait_Snapshot string err
  | List_Regions "filter_kv list" err
  | Build_Config string err
  | New_For_Config err
  | Get_Node string string err
  | Wait "context_end option"

definition traced :: "'w env \<Rightarrow> ('w \<times> call list) env" where
  "traced e =
     \<lparr> iaas_GetVolume = (\<lambda>i. journal (\<lambda>(v, r). Get_Volume i v r) (iaas_GetVolume e i)),
       iaas_ListVolumes = (\<lambda>f. journal (\<lambda>(v, r). List_Volumes f v r) (iaas_ListVolumes e f)),
       iaas_CreateVolume = (\<lambda>c. journal (\<lambda>(v, r). Create_Volume c v r) (iaas_CreateVolume e c)),
       iaas_UpdateVolume =
         (\<lambda>i u. journal (\<lambda>(v, r). Update_Volume i u r) (iaas_UpdateVolume e i u)),
       iaas_DeleteVolume = (\<lambda>i. journal (Delete_Volume i) (iaas_DeleteVolume e i)),
       iaas_AttachVolume = (\<lambda>i a. journal (Attach_Volume i a) (iaas_AttachVolume e i a)),
       iaas_DetachVolume = (\<lambda>i a. journal (Detach_Volume i a) (iaas_DetachVolume e i a)),
       iaas_ListVolumeTypes =
         journal (\<lambda>(v, r). List_Volume_Types v r) (iaas_ListVolumeTypes e),
       iaas_GetMachine = (\<lambda>i. journal (\<lambda>(v, r). Get_Machine i v r) (iaas_GetMachine e i)),
       iaas_ListMachines =
         (\<lambda>f. journal (\<lambda>(v, r). List_Machines f v r) (iaas_ListMachines e f)),
       iaas_GetSnapshot = (\<lambda>i. journal (\<lambda>(v, r). Get_Snapshot i v r) (iaas_GetSnapshot e i)),
       iaas_ListSnapshots =
         (\<lambda>f. journal (\<lambda>(v, r). List_Snapshots f v r) (iaas_ListSnapshots e f)),
       iaas_CreateSnapshot =
         (\<lambda>c. journal (\<lambda>(v, r). Create_Snapshot c v r) (iaas_CreateSnapshot e c)),
       iaas_DeleteSnapshot = (\<lambda>i. journal (Delete_Snapshot i) (iaas_DeleteSnapshot e i)),
       iaas_WaitUntilSnapshotIsAvailable =
         (\<lambda>i. journal (Wait_Snapshot i) (iaas_WaitUntilSnapshotIsAvailable e i)),
       iaas_ListRegions = (\<lambda>f. journal (List_Regions f) (iaas_ListRegions e f)),
       kube_BuildConfig = (\<lambda>c. journal (Build_Config c) (kube_BuildConfig e c)),
       kube_NewForConfig = journal New_For_Config (kube_NewForConfig e),
       kube_GetNode = (\<lambda>n. journal (\<lambda>(p, r). Get_Node n p r) (kube_GetNode e n)),
       ctx_Wait = journal Wait (ctx_Wait e) \<rparr>"

lemmas traced_simps [simp] = traced_def [THEN arg_cong, of iaas_GetVolume, simplified]
  traced_def [THEN arg_cong, of iaas_ListVolumes, simplified]
  traced_def [THEN arg_cong, of iaas_CreateVolume, simplified]
  traced_def [THEN arg_cong, of iaas_UpdateVolume, simplified]
  traced_def [THEN arg_cong, of iaas_DeleteVolume, simplified]
  traced_def [THEN arg_cong, of iaas_AttachVolume, simplified]
  traced_def [THEN arg_cong, of iaas_DetachVolume, simplified]
  traced_def [THEN arg_cong, of iaas_ListVolumeTypes, simplified]
  traced_def [THEN arg_cong, of iaas_GetMachine, simplified]
  traced_def [THEN arg_cong, of iaas_ListMachines, simplified]
  traced_def [THEN arg_cong, of iaas_GetSnapshot, simplified]
  traced_def [THEN arg_cong, of iaas_ListSnapshots, simplified]
  traced_def [THEN arg_cong, of iaas_CreateSnapshot, simplified]
  traced_def [THEN arg_cong, of iaas_DeleteSnapshot, simplified]
  traced_def [THEN arg_cong, of iaas_WaitUntilSnapshotIsAvailable, simplified]
  traced_def [THEN arg_cong, of iaas_ListRegions, simplified]
  traced_def [THEN arg_cong, of kube_BuildConfig, simplified]
  traced_def [THEN arg_cong, of kube_NewForConfig, simplified]
  traced_def [THEN arg_cong, of kube_GetNode, simplified]
  traced_def [THEN arg_cong, of ctx_Wait, simplified]

text \<open>The calls that change something in the cloud.\<close>

fun mutating :: "call \<Rightarrow> bool" where
  "mutating (Create_Volume c v e) = True"
| "mutating (Update_Volume i u e) = True"
| "mutating (Delete_Volume i e) = True"
| "mutating (Attach_Volume i a e) = True"
| "mutating (Detach_Volume i a e) = True"
| "mutating (Create_Snapshot c s e) = True"
| "mutating (Delete_Snapshot i e) = True"
| "mutating _ = False"

text \<open>The changing calls a run makes.\<close>

definition mutations :: "('w \<times> call list, 'r) state \<Rightarrow> 'w \<Rightarrow> call list" where
  "mutations m w = filter mutating (calls_of m w)"

end
