(* ===== verification/Driver.thy ===== *)
theory Driver
  imports Capacity Iaas
begin

text \<open>
  The driver object (\<open>type Driver\<close> of \<open>driver/controller.go\<close>): its configuration and its
  readiness flag, the label maps, and the small helpers several handlers share
  (\<open>parseCustomLabels\<close> of \<open>driver/nodedriver.go\<close>, the loops that add custom labels).
  The servers, the logger, the mutex and the two clients are not fields: the clients are the
  environment, logging has no effect on a result.
\<close>

record driver =
  d_name :: string
  d_publishInfoVolumeName :: string
  d_endpoint :: string
  d_debugAddr :: string
  d_region :: string
  d_nodeID :: string
  d_defaultVolumesPageSize :: uint64
  d_validateAttachment :: bool
  d_vpc :: string
  d_clusterIdentity :: string
  d_projectId :: string
  d_ready :: bool
  d_volumeLimit :: uint64
  d_kubeConfig :: string
  d_CustomLabels :: labels
  d_CustomAnnotations :: labels

text \<open>A driver for the witnesses.\<close>

definition sample_driver :: driver where
  "sample_driver =
     \<lparr> d_name = ''csi.k8s.thalassa.cloud'', d_publishInfoVolumeName = ''csi.k8s.thalassa.cloud/volume-name'',
       d_endpoint = '''', d_debugAddr = '''', d_region = ''nl-01'', d_nodeID = '''',
       d_defaultVolumesPageSize = 0, d_validateAttachment = True, d_vpc = ''vpc-1'', d_clusterIdentity = '''',
       d_projectId = '''', d_ready = True, d_volumeLimit = 20, d_kubeConfig = '''',
       d_CustomLabels = Map.empty, d_CustomAnnotations = Map.empty \<rparr>"

section \<open>Custom labels\<close>

text \<open>The loop of \<open>parseCustomLabels\<close>, and the function; a nil map is the empty map.\<close>

fun parse_label :: "labels \<Rightarrow> string \<Rightarrow> labels" where
  "parse_label m label =
     (case go_split label ''='' of [k, v] \<Rightarrow> m(k \<mapsto> v) | _ \<Rightarrow> m)"

definition parseCustomLabels :: "string \<Rightarrow> labels" where
  "parseCustomLabels customLabels =
     (if customLabels = '''' then Map.empty
      else foldl parse_label Map.empty (go_split customLabels '',''))"

text \<open>
  \<open>for k, v := range custom { if _, ok := labels[k]; !ok { labels[k] = v } }\<close>: Go visits the
  entries of the map in an unspecified order. \<open>add_missing_loop\<close> is the loop over one
  enumeration of the entries, \<open>add_missing\<close> its result, which no order changes.
\<close>

fun add_missing_loop :: "(string \<times> string) list \<Rightarrow> labels \<Rightarrow> labels" where
  "add_missing_loop [] m = m"
| "add_missing_loop ((k, v) # kvs) m =
     add_missing_loop kvs (if m k = None then m(k \<mapsto> v) else m)"

definition add_missing :: "labels \<Rightarrow> labels \<Rightarrow> labels" where
  "add_missing custom m = custom ++ m"

lemma add_missing_loop_eq: "distinct (map fst kvs) \<Longrightarrow> add_missing_loop kvs m = map_of kvs ++ m"
proof (induction kvs arbitrary: m)
  case Nil
  then show ?case by simp
next
  case (Cons kv kvs)
  obtain k v where kv: "kv = (k, v)" by (cases kv)
  with Cons.prems have k: "map_of kvs k = None" by (simp add: map_of_eq_None_iff)
  have "map_of kvs ++ (if m k = None then m(k \<mapsto> v) else m) = (map_of kvs)(k \<mapsto> v) ++ m"
    using k by (auto simp: map_add_def fun_eq_iff split: option.splits)
  with Cons kv show ?case by (simp add: fun_upd_def)
qed

lemma add_missing_keeps: "m k = Some v \<Longrightarrow> add_missing custom m k = Some v"
  by (simp add: add_missing_def map_add_Some_iff)

lemma add_missing_adds: "m k = None \<Longrightarrow> add_missing custom m k = custom k"
  by (simp add: add_missing_def map_add_def)

text \<open>The format the flag \<open>custom-labels\<close> is written in.\<close>

definition print_labels :: "(string \<times> string) list \<Rightarrow> string" where
  "print_labels kvs = go_join (map (\<lambda>(k, v). k @ ''='' @ v) kvs) '',''"

lemma go_split_join_char:
  "xs \<noteq> [] \<Longrightarrow> \<forall>x \<in> set xs. c \<notin> set x \<Longrightarrow> go_split (go_join xs [c]) [c] = xs"
proof (induction xs)
  case Nil
  then show ?case by simp
next
  case (Cons x xs)
  then show ?case
    by (cases xs) (simp_all add: go_split_char go_split_char_last go_join_Cons)
qed

lemma go_split_pair:
  "c \<notin> set k \<Longrightarrow> c \<notin> set v \<Longrightarrow> go_split (k @ c # v) [c] = [k, v]"
  by (simp add: go_split_char go_split_char_last)

lemma foldl_parse_label:
  assumes "\<forall>(k, v) \<in> set kvs. CHR ''='' \<notin> set k \<and> CHR ''='' \<notin> set v"
  shows "foldl parse_label m (map (\<lambda>(k, v). k @ ''='' @ v) kvs) = m ++ map_of (rev kvs)"
  using assms
  by (induction kvs arbitrary: m) (auto simp: go_split_pair map_add_def fun_eq_iff split: option.splits)


text \<open>Parsing a list of custom labels that was written as \<open>k1=v1,k2=v2,\<dots>\<close> gives back the
  written entries (later entries win on equal keys), for keys and values that hold neither
  separator.\<close>

theorem parse_print_labels:
  assumes "kvs \<noteq> []"
    and "\<forall>(k, v) \<in> set kvs. {CHR ''='', CHR '',''} \<inter> (set k \<union> set v) = {}"
  shows "parseCustomLabels (print_labels kvs) = map_of (rev kvs)"
proof -
  let ?ps = "map (\<lambda>(k, v). k @ ''='' @ v) kvs"
  have "\<forall>p \<in> set ?ps. CHR '','' \<notin> set p" using assms(2) by auto
  then have split: "go_split (print_labels kvs) '','' = ?ps"
    using assms(1) by (simp add: print_labels_def go_split_join_char)
  have "print_labels kvs \<noteq> ''''"
    using assms(1) by (cases kvs; cases "tl kvs") (auto simp: print_labels_def)
  moreover have "\<forall>(k, v) \<in> set kvs. CHR ''='' \<notin> set k \<and> CHR ''='' \<notin> set v"
    using assms(2) by auto
  ultimately show ?thesis
    using foldl_parse_label [of kvs Map.empty] by (simp add: parseCustomLabels_def split)
qed

theorem parse_print_labels_witness:
  "parseCustomLabels (print_labels [(''env'', ''prod''), (''team'', ''a'')]) ''team'' = Some ''a''"
  using parse_print_labels [of "[(''env'', ''prod''), (''team'', ''a'')]"] by simp

text \<open>The loop that adds the custom labels gives the same map for every order in which Go
  visits them, keeps every label that was set before and adds exactly the missing keys.\<close>

theorem add_missing_order:
  assumes "distinct (map fst kvs)" and "map_of kvs = custom"
  shows "add_missing_loop kvs m = add_missing custom m \<and>
     (\<forall>k. add_missing custom m k = (if m k = None then custom k else m k))"
  using assms by (auto simp: add_missing_loop_eq add_missing_def map_add_def split: option.splits)

theorem add_missing_order_witness:
  "add_missing_loop [(''a'', ''1''), (''b'', ''2'')] [''b'' \<mapsto> ''0''] =
     add_missing [''a'' \<mapsto> ''1'', ''b'' \<mapsto> ''2''] [''b'' \<mapsto> ''0'']"
proof -
  have "map_of [(''a'', ''1''), (''b'', ''2'')] = [''a'' \<mapsto> ''1'', ''b'' \<mapsto> ''2'']"
    by (auto simp: fun_eq_iff)
  moreover have "distinct (map fst [(''a'', ''1''), (''b'', ''2'')])" by simp
  ultimately show ?thesis
    using add_missing_order by blast
qed

end
