(* ===== verification/VolumeType.thy ===== *)
theory VolumeType
  imports Iaas
begin

text \<open>
  \<open>driver/volumetype.go\<close>: the identity of the first volume type that the first successful
  filter of a list of filters selects. A filter is a predicate on volume types.
\<close>

fun getVolumeTypeByFilter ::
    "volume_type list \<Rightarrow> (volume_type \<Rightarrow> bool) \<Rightarrow> go_error + string" where
  "getVolumeTypeByFilter [] f = Inl (status_error NotFound [Lit ''volume type not found''])"
| "getVolumeTypeByFilter (vt # vts) f =
     (if f vt then Inr (vt_Identity vt) else getVolumeTypeByFilter vts f)"

fun getVolumeTypeByFilters ::
    "volume_type list \<Rightarrow> (volume_type \<Rightarrow> bool) list \<Rightarrow> go_error + string" where
  "getVolumeTypeByFilters vts [] = Inl (status_error NotFound [Lit ''volume type not found''])"
| "getVolumeTypeByFilters vts (f # fs) =
     (case getVolumeTypeByFilter vts f of
        Inl e \<Rightarrow> getVolumeTypeByFilters vts fs
      | Inr i \<Rightarrow> Inr i)"

lemma getVolumeTypeByFilter_find:
  "getVolumeTypeByFilter vts f =
     (case find f vts of
        None \<Rightarrow> Inl (status_error NotFound [Lit ''volume type not found''])
      | Some vt \<Rightarrow> Inr (vt_Identity vt))"
  by (induction vts) auto

lemma getVolumeTypeByFilters_Inr:
  "getVolumeTypeByFilters vts fs = Inr i \<longleftrightarrow>
     (\<exists>n vt. n < length fs \<and> find (fs ! n) vts = Some vt \<and> i = vt_Identity vt \<and>
        (\<forall>m < n. find (fs ! m) vts = None))"
proof (induction fs)
  case Nil
  then show ?case by simp
next
  case (Cons f fs)
  show ?case
  proof (cases "find f vts")
    case None
    then show ?thesis
      using Cons.IH by (simp add: getVolumeTypeByFilter_find Ex_less_Suc2 All_less_Suc2
          conj_commute)
  next
    case (Some vt)
    then have "getVolumeTypeByFilters vts (f # fs) = Inr i \<longleftrightarrow> i = vt_Identity vt"
      by (auto simp: getVolumeTypeByFilter_find)
    moreover have "(\<exists>n vt'. n < length (f # fs) \<and> find ((f # fs) ! n) vts = Some vt' \<and>
        i = vt_Identity vt' \<and> (\<forall>m < n. find ((f # fs) ! m) vts = None)) \<longleftrightarrow> i = vt_Identity vt"
      using Some by (auto simp: nth_Cons' gr0_conv_Suc intro: exI [of _ 0])
    ultimately show ?thesis by simp
  qed
qed

lemma getVolumeTypeByFilters_Inl:
  "getVolumeTypeByFilters vts fs = Inl e \<Longrightarrow>
     e = status_error NotFound [Lit ''volume type not found''] \<and>
     (\<forall>f \<in> set fs. \<forall>vt \<in> set vts. \<not> f vt)"
  by (induction fs) (auto simp: getVolumeTypeByFilter_find find_None_iff split: option.splits)

section \<open>Properties\<close>

text \<open>\<open>getVolumeTypeByFilters\<close> gives the identity of the first volume type that the first
  matching filter accepts: an earlier filter that accepts any type wins over a later one,
  whatever the order of the types. It fails, with \<open>NotFound\<close>, exactly when no filter accepts
  any type.\<close>

theorem volume_type_selection:
  "(case getVolumeTypeByFilters vts fs of
      Inr i \<Rightarrow> (\<exists>n vt. n < length fs \<and> find (fs ! n) vts = Some vt \<and> i = vt_Identity vt \<and>
        {m. m < n \<and> find (fs ! m) vts \<noteq> None} = {})
    | Inl e \<Rightarrow> grpc_code e = NotFound \<and> {(f, vt). f \<in> set fs \<and> vt \<in> set vts \<and> f vt} = {})"
proof (cases "getVolumeTypeByFilters vts fs")
  case (Inl e)
  then show ?thesis using getVolumeTypeByFilters_Inl [OF Inl] by auto
next
  case (Inr i)
  then show ?thesis using getVolumeTypeByFilters_Inr [of vts fs i] by auto
qed

end
