(* ===== verification/CloudSim.thy ===== *)
theory CloudSim
  imports Capacity Iaas
begin

text \<open>
  A reference cloud: one concrete environment that behaves as the IaaS client documents
  (identities are made by the API and unique, a lookup of a missing identity answers
  \<open>client.ErrNotFound\<close>, a created resource is found by its identity, attaching and detaching
  change the volume's attachments and status). It instantiates the parameter \<open>env\<close> in the
  witnesses, and the locale that states what the controllers rely on is interpreted on it.
  \<open>c_by_name\<close> says whether a volume lookup also accepts the volume's name.
\<close>

record cloud =
  c_volumes :: "volume list"
  c_snapshots :: "snapshot list"
  c_machines :: "machine list"
  c_types :: "volume_type list"
  c_next :: nat
  c_by_name :: bool

definition not_found_error :: go_error where
  "not_found_error = Joined [Sentinel ErrNotFound, ErrorString [Lit ''resource not found'']]"

definition refused_error :: go_error where
  "refused_error = ErrorString [Lit ''server returned status 409'']"

lemma not_found_error [simp]: "is_not_found not_found_error" "find_status not_found_error = None"
  by (simp_all add: is_not_found_def not_found_error_def find_status_def)

lemma refused_error [simp]: "\<not> is_not_found refused_error"
  by (simp add: is_not_found_def refused_error_def)

definition sim_find_volume :: "cloud \<Rightarrow> string \<Rightarrow> volume option" where
  "sim_find_volume c i =
     find (\<lambda>v. vol_Identity v = i \<or> (c_by_name c \<and> vol_Name v = i)) (c_volumes c)"

definition sim_replace :: "string \<Rightarrow> (volume \<Rightarrow> volume) \<Rightarrow> cloud \<Rightarrow> cloud" where
  "sim_replace i f c =
     c\<lparr> c_volumes := map (\<lambda>v. if vol_Identity v = i then f v else v) (c_volumes c) \<rparr>"

definition sim_lookup :: "'a option \<Rightarrow> 'a option \<times> err" where
  "sim_lookup r = (case r of Some x \<Rightarrow> (Some x, None) | None \<Rightarrow> (None, Some not_found_error))"

definition new_volume :: "string \<Rightarrow> create_volume \<Rightarrow> volume" where
  "new_volume i c =
     \<lparr> vol_Identity = i, vol_Name = cv_Name c, vol_Description = cv_Description c,
       vol_Labels = cv_Labels c, vol_Annotations = cv_Annotations c, vol_Size = cv_Size c,
       vol_Status = ''available'', vol_Attachments = [], vol_DeleteProtection = False \<rparr>"

definition sim_create_volume :: "create_volume \<Rightarrow> cloud \<Rightarrow> (volume option \<times> err) \<times> cloud" where
  "sim_create_volume cv c =
     (let v = new_volume (''vol-'' @ show_nat (c_next c)) cv
      in ((Some v, None), c\<lparr> c_volumes := c_volumes c @ [v], c_next := Suc (c_next c) \<rparr>))"

definition sim_update_volume :: "string \<Rightarrow> update_volume \<Rightarrow> cloud \<Rightarrow> (volume option \<times> err) \<times> cloud" where
  "sim_update_volume i u c =
     (case sim_find_volume c i of
        None \<Rightarrow> ((None, Some not_found_error), c)
      | Some v \<Rightarrow>
          let v' = v\<lparr> vol_Name := uv_Name u, vol_Description := uv_Description u,
                     vol_Labels := uv_Labels u, vol_Annotations := uv_Annotations u,
                     vol_Size := uv_Size u, vol_DeleteProtection := uv_DeleteProtection u \<rparr>
          in ((Some v', None), sim_replace (vol_Identity v) (\<lambda>_. v') c))"

definition sim_delete_volume :: "string \<Rightarrow> cloud \<Rightarrow> err \<times> cloud" where
  "sim_delete_volume i c =
     (case sim_find_volume c i of
        None \<Rightarrow> (Some not_found_error, c)
      | Some v \<Rightarrow>
          if vol_Attachments v \<noteq> [] then (Some refused_error, c)
          else (None, c\<lparr> c_volumes := filter (\<lambda>x. vol_Identity x \<noteq> vol_Identity v) (c_volumes c) \<rparr>))"

definition sim_attach_volume :: "string \<Rightarrow> attach_request \<Rightarrow> cloud \<Rightarrow> err \<times> cloud" where
  "sim_attach_volume i a c =
     (case sim_find_volume c i of
        None \<Rightarrow> (Some not_found_error, c)
      | Some v \<Rightarrow>
          if ar_ResourceIdentity a \<notin> mach_Identity ` set (c_machines c) then
            (Some not_found_error, c)
          else if vol_Attachments v \<noteq> [] then (Some refused_error, c)
          else (None, sim_replace (vol_Identity v)
             (\<lambda>v. v\<lparr> vol_Attachments := [\<lparr> AttachedToIdentity = ar_ResourceIdentity a \<rparr>],
                    vol_Status := ''attached'' \<rparr>) c))"

definition sim_detach_volume :: "string \<Rightarrow> attach_request \<Rightarrow> cloud \<Rightarrow> err \<times> cloud" where
  "sim_detach_volume i a c =
     (case sim_find_volume c i of
        None \<Rightarrow> (Some not_found_error, c)
      | Some v \<Rightarrow>
          if \<lparr> AttachedToIdentity = ar_ResourceIdentity a \<rparr> \<notin> set (vol_Attachments v) then
            (Some not_found_error, c)
          else (None, sim_replace (vol_Identity v)
             (\<lambda>v. v\<lparr> vol_Attachments := [], vol_Status := ''available'' \<rparr>) c))"

text \<open>Filters select by identity, name or source volume; there is one region and one VPC.\<close>

definition sim_filter :: "string \<Rightarrow> ('a \<Rightarrow> string) \<Rightarrow> filter_kv list \<Rightarrow> 'a list \<Rightarrow> 'a list" where
  "sim_filter k f fs xs = filter (\<lambda>x. \<forall>(k', v) \<in> set fs. k' = k \<longrightarrow> f x = v) xs"

definition sim_source :: "snapshot \<Rightarrow> string" where
  "sim_source s = (case snap_SourceVolumeId s of None \<Rightarrow> '''' | Some i \<Rightarrow> i)"

definition sim_create_snapshot :: "create_snapshot \<Rightarrow> cloud \<Rightarrow> (snapshot option \<times> err) \<times> cloud" where
  "sim_create_snapshot cs c =
     (case sim_find_volume c (cs_VolumeIdentity cs) of
        None \<Rightarrow> ((None, Some not_found_error), c)
      | Some v \<Rightarrow>
          let s = \<lparr> snap_Identity = ''snap-'' @ show_nat (c_next c), snap_Name = cs_Name cs,
                    snap_Status = ''Available'', snap_SourceVolumeId = Some (vol_Identity v),
                    snap_SourceVolume = Some v, snap_SizeGB = Some (vol_Size v),
                    snap_CreatedAt = (0, 0) \<rparr>
          in ((Some s, None), c\<lparr> c_snapshots := c_snapshots c @ [s], c_next := Suc (c_next c) \<rparr>))"

definition sim_delete_snapshot :: "string \<Rightarrow> cloud \<Rightarrow> err \<times> cloud" where
  "sim_delete_snapshot i c =
     (case find (\<lambda>s. snap_Identity s = i) (c_snapshots c) of
        None \<Rightarrow> (Some not_found_error, c)
      | Some s \<Rightarrow> (None, c\<lparr> c_snapshots := filter (\<lambda>x. snap_Identity x \<noteq> i) (c_snapshots c) \<rparr>))"

definition sim_env :: "cloud env" where
  "sim_env =
     \<lparr> iaas_GetVolume = (\<lambda>i. State (\<lambda>c. (sim_lookup (sim_find_volume c i), c))),
       iaas_ListVolumes = (\<lambda>fs. State (\<lambda>c.
         ((sim_filter ''identity'' vol_Identity fs (sim_filter ''name'' vol_Name fs (c_volumes c)), None), c))),
       iaas_CreateVolume = (\<lambda>cv. State (sim_create_volume cv)),
       iaas_UpdateVolume = (\<lambda>i u. State (sim_update_volume i u)),
       iaas_DeleteVolume = (\<lambda>i. State (sim_delete_volume i)),
       iaas_AttachVolume = (\<lambda>i a. State (sim_attach_volume i a)),
       iaas_DetachVolume = (\<lambda>i a. State (sim_detach_volume i a)),
       iaas_ListVolumeTypes = State (\<lambda>c. ((c_types c, None), c)),
       iaas_GetMachine = (\<lambda>i. State (\<lambda>c.
         (sim_lookup (find (\<lambda>m. mach_Identity m = i) (c_machines c)), c))),
       iaas_ListMachines = (\<lambda>fs. State (\<lambda>c. ((c_machines c, None), c))),
       iaas_GetSnapshot = (\<lambda>i. State (\<lambda>c.
         (sim_lookup (find (\<lambda>s. snap_Identity s = i) (c_snapshots c)), c))),
       iaas_ListSnapshots = (\<lambda>fs. State (\<lambda>c.
         ((sim_filter ''SourceVolume'' sim_source fs (sim_filter ''name'' snap_Name fs (c_snapshots c)), None), c))),
       iaas_CreateSnapshot = (\<lambda>cs. State (sim_create_snapshot cs)),
       iaas_DeleteSnapshot = (\<lambda>i. State (sim_delete_snapshot i)),
       iaas_WaitUntilSnapshotIsAvailable = (\<lambda>i. State (\<lambda>c. (None, c))),
       iaas_ListRegions = (\<lambda>fs. State (\<lambda>c. (None, c))),
       kube_BuildConfig = (\<lambda>path. State (\<lambda>c. (None, c))),
       kube_NewForConfig = State (\<lambda>c. (None, c)),
       kube_GetNode = (\<lambda>n. State (\<lambda>c. ((''thalassa://'' @ n, None), c))),
       ctx_Wait = State (\<lambda>c. (None, c)) \<rparr>"

lemma sim_run [simp]:
  "run_state (iaas_GetVolume sim_env i) c = (sim_lookup (sim_find_volume c i), c)"
  "run_state (iaas_ListVolumes sim_env fs) c =
     ((sim_filter ''identity'' vol_Identity fs (sim_filter ''name'' vol_Name fs (c_volumes c)), None), c)"
  "run_state (iaas_CreateVolume sim_env cv) c = sim_create_volume cv c"
  "run_state (iaas_UpdateVolume sim_env i u) c = sim_update_volume i u c"
  "run_state (iaas_DeleteVolume sim_env i) c = sim_delete_volume i c"
  "run_state (iaas_AttachVolume sim_env i a) c = sim_attach_volume i a c"
  "run_state (iaas_DetachVolume sim_env i a) c = sim_detach_volume i a c"
  "run_state (iaas_ListVolumeTypes sim_env) c = ((c_types c, None), c)"
  "run_state (iaas_GetMachine sim_env i) c =
     (sim_lookup (find (\<lambda>m. mach_Identity m = i) (c_machines c)), c)"
  "run_state (iaas_ListMachines sim_env fs) c = ((c_machines c, None), c)"
  "run_state (iaas_GetSnapshot sim_env i) c =
     (sim_lookup (find (\<lambda>s. snap_Identity s = i) (c_snapshots c)), c)"
  "run_state (iaas_ListSnapshots sim_env fs) c =
     ((sim_filter ''SourceVolume'' sim_source fs (sim_filter ''name'' snap_Name fs (c_snapshots c)), None), c)"
  "run_state (iaas_CreateSnapshot sim_env cs) c = sim_create_snapshot cs c"
  "run_state (iaas_DeleteSnapshot sim_env i) c = sim_delete_snapshot i c"
  "run_state (iaas_WaitUntilSnapshotIsAvailable sim_env i) c = (None, c)"
  "run_state (iaas_ListRegions sim_env fs) c = (None, c)"
  "run_state (kube_BuildConfig sim_env p) c = (None, c)"
  "run_state (kube_NewForConfig sim_env) c = (None, c)"
  "run_state (kube_GetNode sim_env n) c = ((''thalassa://'' @ n, None), c)"
  "run_state (ctx_Wait sim_env) c = (None, c)"
  by (simp_all add: sim_env_def)

lemmas sim_defs = sim_lookup_def sim_find_volume_def sim_replace_def
  new_volume_def sim_create_volume_def sim_update_volume_def sim_delete_volume_def
  sim_attach_volume_def sim_detach_volume_def sim_filter_def sim_source_def
  sim_create_snapshot_def sim_delete_snapshot_def

text \<open>A cloud with one machine and one volume type, for the witnesses.\<close>

definition sample_cloud :: cloud where
  "sample_cloud =
     \<lparr> c_volumes = [], c_snapshots = [],
       c_machines = [\<lparr> mach_Identity = ''m-1'', mach_Name = ''node-1'', mach_Slug = ''node-1'' \<rparr>],
       c_types = [\<lparr> vt_Identity = ''vt-1'', vt_Name = ''Block'' \<rparr>], c_next = 1,
       c_by_name = False \<rparr>"

lemma sample_cloud_simps [simp]:
  "c_volumes sample_cloud = []" "c_snapshots sample_cloud = []"
  "c_machines sample_cloud =
     [\<lparr> mach_Identity = ''m-1'', mach_Name = ''node-1'', mach_Slug = ''node-1'' \<rparr>]"
  "c_types sample_cloud = [\<lparr> vt_Identity = ''vt-1'', vt_Name = ''Block'' \<rparr>]"
  "c_next sample_cloud = 1" "\<not> c_by_name sample_cloud"
  by (simp_all add: sample_cloud_def)

definition sample_volume :: volume where
  "sample_volume =
     \<lparr> vol_Identity = ''vol-0'', vol_Name = ''pvc-0'', vol_Description = '''', vol_Labels = Map.empty,
       vol_Annotations = Map.empty, vol_Size = 10, vol_Status = ''available'',
       vol_Attachments = [], vol_DeleteProtection = False \<rparr>"

end
