(* ===== verification/Capabilities.thy ===== *)
theory Capabilities
  imports Driver CloudSim
begin

text \<open>
  \<open>driver/capabilities.go\<close>: the check of requested volume capabilities, the RPC that
  confirms them, and the controller's capability list. The access mode is the protobuf enum
  (an \<open>int32\<close> that can hold an unknown number), the access type the oneof of block and mount.
\<close>

record mount_volume =
  mv_FsType :: string
  mv_MountFlags :: "string list"

text \<open>The oneof: a set but empty mount is \<open>VolumeCapability_Mount None\<close>.\<close>

datatype access_type = VolumeCapability_Block | VolumeCapability_Mount "mount_volume option"

record volume_capability =
  vc_AccessMode :: "int32 option"
  vc_AccessType :: "access_type option"

definition SINGLE_NODE_WRITER :: int32 where "SINGLE_NODE_WRITER = 1"

definition supportedAccessMode :: "int32 option" where
  "supportedAccessMode = Some SINGLE_NODE_WRITER"

text \<open>\<open>GetAccessMode().GetMode()\<close>: nil is the zero mode.\<close>

definition get_mode :: "int32 option \<Rightarrow> int32" where
  "get_mode m = (case m of None \<Rightarrow> 0 | Some k \<Rightarrow> k)"

definition show_int :: "int \<Rightarrow> string" where
  "show_int i = (if i < 0 then ''-'' else '''') @ show_nat (nat \<bar>i\<bar>)"

definition mode_names :: "string list" where
  "mode_names =
     [''UNKNOWN'', ''SINGLE_NODE_WRITER'', ''SINGLE_NODE_READER_ONLY'', ''MULTI_NODE_READER_ONLY'',
      ''MULTI_NODE_SINGLE_WRITER'', ''MULTI_NODE_MULTI_WRITER'', ''SINGLE_NODE_SINGLE_WRITER'',
      ''SINGLE_NODE_MULTI_WRITER'']"

definition mode_string :: "int32 \<Rightarrow> string" where
  "mode_string m =
     (let i = sint m in if 0 \<le> i \<and> i < 8 then mode_names ! nat i else show_int i)"

fun capability_violations :: "volume_capability \<Rightarrow> string set \<Rightarrow> string set" where
  "capability_violations cap violations =
     (let vs = (if get_mode (vc_AccessMode cap) \<noteq> get_mode supportedAccessMode
                then insert (''unsupported access mode '' @
                       mode_string (get_mode (vc_AccessMode cap))) violations
                else violations)
      in case vc_AccessType cap of
           Some VolumeCapability_Block \<Rightarrow> vs
         | Some (VolumeCapability_Mount m) \<Rightarrow> vs
         | None \<Rightarrow> insert ''unsupported access type'' vs)"

definition validateCapabilities :: "volume_capability list \<Rightarrow> string list" where
  "validateCapabilities caps =
     sorted_list_of_set (fold capability_violations caps {})"

definition capability_supported :: "volume_capability \<Rightarrow> bool" where
  "capability_supported cap \<longleftrightarrow>
     vc_AccessMode cap = Some SINGLE_NODE_WRITER \<and> vc_AccessType cap \<noteq> None"

lemma capability_violations_mono: "vs \<subseteq> capability_violations cap vs"
  by (auto simp: Let_def split: option.splits access_type.splits)

lemma capability_violations_finite: "finite vs \<Longrightarrow> finite (capability_violations cap vs)"
  by (auto simp: Let_def split: option.splits access_type.splits)

lemma get_mode_supported: "get_mode m = get_mode supportedAccessMode \<longleftrightarrow> m = Some SINGLE_NODE_WRITER"
  by (auto simp: get_mode_def supportedAccessMode_def SINGLE_NODE_WRITER_def split: option.splits)

lemma capability_violations_empty:
  "capability_violations cap vs = {} \<longleftrightarrow> vs = {} \<and> capability_supported cap"
  by (auto simp: Let_def get_mode_supported capability_supported_def
      split: option.splits access_type.splits)

lemma fold_violations_finite: "finite vs \<Longrightarrow> finite (fold capability_violations caps vs)"
  by (induction caps arbitrary: vs) (auto simp del: capability_violations.simps
      simp: capability_violations_finite)

lemma fold_violations_empty:
  "fold capability_violations caps vs = {} \<longleftrightarrow> vs = {} \<and> (\<forall>c \<in> set caps. capability_supported c)"
  by (induction caps arbitrary: vs) (auto simp del: capability_violations.simps
      simp: capability_violations_empty)

text \<open>The violations are an ordered list without duplicates, empty exactly when every
  capability is supported.\<close>

lemma validateCapabilities_empty:
  "validateCapabilities caps = [] \<longleftrightarrow> (\<forall>c \<in> set caps. capability_supported c)"
  using fold_violations_finite [of "{}" caps] fold_violations_empty [of caps "{}"]
  by (simp add: validateCapabilities_def sorted_list_of_set_eq_Nil_iff)

section \<open>The RPCs\<close>

record validate_request =
  vr_VolumeId :: string
  vr_VolumeCapabilities :: "volume_capability list option"

definition ValidateVolumeCapabilities ::
    "'w env \<Rightarrow> driver \<Rightarrow> validate_request \<Rightarrow>
     ('w, volume_capability list handler_result) state" where
  "ValidateVolumeCapabilities env d req =
     (if vr_VolumeId req = '''' then
        ret (Err (status_error InvalidArgument
          [Lit ''ValidateVolumeCapabilities Volume ID must be provided'']))
      else if vr_VolumeCapabilities req = None then
        ret (Err (status_error InvalidArgument
          [Lit ''ValidateVolumeCapabilities Volume Capabilities must be provided'']))
      else do {
        (_, err) \<leftarrow> iaas_GetVolume env (vr_VolumeId req);
        (case err of
           Some e \<Rightarrow>
             if is_not_found e then
               ret (Err (status_error NotFound
                 [Lit ''volume '', Quoted (vr_VolumeId req), Lit '' does not exist'']))
             else ret (Err e)
         | None \<Rightarrow>
             ret (Ok [\<lparr> vc_AccessMode = supportedAccessMode, vc_AccessType = None \<rparr>]))
      })"

datatype controller_rpc =
    CREATE_DELETE_SNAPSHOT | CREATE_DELETE_VOLUME | EXPAND_VOLUME | LIST_SNAPSHOTS
  | LIST_VOLUMES_PUBLISHED_NODES | LIST_VOLUMES | PUBLISH_UNPUBLISH_VOLUME

definition ControllerGetCapabilities :: "controller_rpc list handler_result" where
  "ControllerGetCapabilities =
     Ok [CREATE_DELETE_SNAPSHOT, CREATE_DELETE_VOLUME, EXPAND_VOLUME, LIST_SNAPSHOTS,
         LIST_VOLUMES_PUBLISHED_NODES, LIST_VOLUMES, PUBLISH_UNPUBLISH_VOLUME]"

definition GetCapacity :: "unit handler_result" where
  "GetCapacity = Err (status_error Unimplemented [Lit ''''])"

section \<open>Properties\<close>

text \<open>The violations that \<open>validateCapabilities\<close> reports are sorted and free of duplicates, and
  there are none exactly when every requested capability asks for the access mode
  SINGLE_NODE_WRITER and sets an access type.\<close>

theorem capability_violations_exact:
  "sorted (validateCapabilities caps) \<and> distinct (validateCapabilities caps) \<and>
   (validateCapabilities caps = [] \<longleftrightarrow>
      {c \<in> set caps. \<not> (vc_AccessMode c = Some SINGLE_NODE_WRITER \<and> vc_AccessType c \<noteq> None)} = {})"
  using validateCapabilities_empty [of caps]
  by (auto simp: validateCapabilities_def capability_supported_def)

text \<open>\<open>ValidateVolumeCapabilities\<close> reads the volume once and changes nothing; for a volume that
  exists it confirms the supported access mode alone, whatever capabilities were asked about: its
  answer does not depend on them.\<close>

theorem validate_confirms_supported_mode:
  assumes "vr_VolumeId req \<noteq> ''''" and "vr_VolumeCapabilities req = Some caps"
  shows "calls_of (ValidateVolumeCapabilities (traced env) d req) w =
      [Get_Volume (vr_VolumeId req) (fst (result_of (iaas_GetVolume env (vr_VolumeId req)) w))
         (snd (result_of (iaas_GetVolume env (vr_VolumeId req)) w))] \<and>
    (snd (result_of (iaas_GetVolume env (vr_VolumeId req)) w) = None \<longleftrightarrow>
       answer_of (ValidateVolumeCapabilities (traced env) d req) w =
         Ok [\<lparr> vc_AccessMode = Some SINGLE_NODE_WRITER, vc_AccessType = None \<rparr>]) \<and>
    answer_of (ValidateVolumeCapabilities (traced env) d req) w =
      answer_of (ValidateVolumeCapabilities (traced env) d (req\<lparr> vr_VolumeCapabilities := Some caps' \<rparr>)) w"
  using assms
  by (auto simp: ValidateVolumeCapabilities_def calls_of_def answer_of_def supportedAccessMode_def
      case_prod_beta split: option.splits)

theorem validate_confirms_supported_mode_witness:
  "answer_of (ValidateVolumeCapabilities (traced sim_env) sample_driver
      \<lparr> vr_VolumeId = ''vol-0'', vr_VolumeCapabilities = Some [] \<rparr>)
      (sample_cloud\<lparr> c_volumes := [sample_volume] \<rparr>) =
    Ok [\<lparr> vc_AccessMode = Some SINGLE_NODE_WRITER, vc_AccessType = None \<rparr>]"
  using validate_confirms_supported_mode [of "\<lparr> vr_VolumeId = ''vol-0'', vr_VolumeCapabilities = Some [] \<rparr>" "[]"
      sim_env sample_driver "sample_cloud\<lparr> c_volumes := [sample_volume] \<rparr>"]
  by (simp add: sim_lookup_def sim_find_volume_def sample_volume_def)

end
