(* ===== verification/ControllerVolumes.thy ===== *)
theory ControllerVolumes
  imports Capabilities VolumeType Pagination CloudSim
begin

text \<open>
  \<open>driver/controller_volumes.go\<close>: creating, deleting and listing volumes. Each handler is a
  function of the environment, the driver object and the request; the request records hold the
  fields the handlers read.
\<close>

section \<open>Requests and responses\<close>

datatype content_source = SnapshotSource string | VolumeSource string

record create_volume_request =
  req_Name :: string
  req_CapacityRange :: "capacity_range option"
  req_VolumeCapabilities :: "volume_capability list"
  req_Parameters :: labels
  req_VolumeContentSource :: "content_source option"
  req_Requisite :: "labels list option"
    \<comment> \<open>the segments of each \<open>AccessibilityRequirements.Requisite\<close>; None when the field is nil\<close>

record csi_volume =
  csi_VolumeId :: string
  csi_CapacityBytes :: int64
  csi_AccessibleTopology :: "labels list"
  csi_ContentSource :: "content_source option"

record list_volumes_request =
  lv_MaxEntries :: int32
  lv_StartingToken :: string

record list_volumes_entry =
  lve_Volume :: csi_volume
  lve_PublishedNodeIds :: "string list"

section \<open>The steps of CreateVolume\<close>

fun check_requisite :: "string \<Rightarrow> labels list \<Rightarrow> err" where
  "check_requisite region [] = None"
| "check_requisite region (segments # ts) =
     (case segments ''region'' of
        None \<Rightarrow> check_requisite region ts
      | Some regionSegment \<Rightarrow>
          if regionSegment \<noteq> region then
            Some (status_error ResourceExhausted
              [Lit ''volume can be only created in region: '', Quoted region,
               Lit '', got: '', Quoted regionSegment])
          else check_requisite region ts)"

definition validateCreateVolumeAccessibility :: "create_volume_request \<Rightarrow> string \<Rightarrow> err" where
  "validateCreateVolumeAccessibility req region =
     (case req_Requisite req of None \<Rightarrow> None | Some ts \<Rightarrow> check_requisite region ts)"

definition createVolumeResponseFromExisting :: "volume \<Rightarrow> int64 \<Rightarrow> go_error + csi_volume" where
  "createVolumeResponseFromExisting volume bytes =
     (if from_giB (vol_Size volume) \<noteq> bytes then
        Inl (status_error AlreadyExists [Lit ''invalid option requested size: '', Dec (sint bytes)])
      else Inr \<lparr> csi_VolumeId = vol_Identity volume,
                 csi_CapacityBytes = from_giB (vol_Size volume),
                 csi_AccessibleTopology = [], csi_ContentSource = None \<rparr>)"

definition resolveVolumeTypeIdentity :: "'w env \<Rightarrow> string \<Rightarrow> ('w, go_error + string) state" where
  "resolveVolumeTypeIdentity env param =
     (let volumeTypeParam = (if param = '''' then ''block'' else param)
      in do {
        (volumeTypes, err) \<leftarrow> iaas_ListVolumeTypes env;
        ret (case err of
               Some e \<Rightarrow> Inl (status_error Internal (error_text e))
             | None \<Rightarrow>
                 (case getVolumeTypeByFilters volumeTypes
                         [\<lambda>vt. vt_Identity vt = volumeTypeParam,
                          \<lambda>vt. equal_fold (vt_Name vt) volumeTypeParam] of
                    Inl e \<Rightarrow> Inl (status_error Internal (error_text e))
                  | Inr volumeTypeIdentity \<Rightarrow>
                      if volumeTypeIdentity = '''' then
                        Inl (status_error InvalidArgument
                          [Lit ''invalid volume type: '', Quoted volumeTypeParam,
                           Lit '': volume type not found''])
                      else Inr volumeTypeIdentity))
      })"

definition buildCreateVolumeRequest ::
    "driver \<Rightarrow> create_volume_request \<Rightarrow> string \<Rightarrow> int64 \<Rightarrow> string \<Rightarrow> create_volume" where
  "buildCreateVolumeRequest d req volumeName bytes volumeTypeIdentity =
     (let labels0 = [''k8s.thalassa.cloud/csi-driver'' \<mapsto> ''true'',
                     ''k8s.thalassa.cloud/csi-driver-name'' \<mapsto> d_name d];
          annotations0 = [''k8s.thalassa.cloud/description'' \<mapsto> ''Provisioned by Thalassa CSI driver''];
          annotations1 =
            (if lookup_str (req_Parameters req) ''fstype'' \<noteq> '''' then
               annotations0(''k8s.thalassa.cloud/fstype'' \<mapsto> lookup_str (req_Parameters req) ''fstype'')
             else annotations0);
          labels1 = add_missing (d_CustomLabels d) labels0;
          annotations2 = add_missing (d_CustomAnnotations d) annotations1;
          volumeReq =
            \<lparr> cv_Name = volumeName, cv_Description = createdByThalassaCSI, cv_Labels = labels1,
              cv_Annotations = annotations2, cv_Size = to_giB bytes,
              cv_CloudRegionIdentity = d_region d, cv_VolumeTypeIdentity = volumeTypeIdentity,
              cv_RestoreFromSnapshotId = None \<rparr>
      in if d_clusterIdentity d \<noteq> '''' then
           volumeReq\<lparr> cv_Labels :=
             labels1(''k8s.thalassa.cloud/cluster-identity'' \<mapsto> d_clusterIdentity d) \<rparr>
         else volumeReq)"

text \<open>The content source's snapshot, if it is one.\<close>

fun GetSnapshot :: "content_source option \<Rightarrow> string option" where
  "GetSnapshot (Some (SnapshotSource i)) = Some i"
| "GetSnapshot _ = None"

text \<open>\<open>applySnapshotRestore\<close> updates the request it is given a pointer to.\<close>

definition applySnapshotRestore ::
    "'w env \<Rightarrow> content_source option \<Rightarrow> create_volume \<Rightarrow> ('w, go_error + create_volume) state" where
  "applySnapshotRestore env contentSource volumeReq =
     (case GetSnapshot contentSource of
        None \<Rightarrow> ret (Inr volumeReq)
      | Some snapshotID \<Rightarrow>
          if snapshotID = '''' then
            ret (Inl (status_error InvalidArgument [Lit ''snapshot ID is empty'']))
          else do {
            (_, err) \<leftarrow> iaas_GetSnapshot env snapshotID;
            ret (case err of
                   Some e \<Rightarrow>
                     if is_not_found e then
                       Inl (status_error NotFound [Lit ''snapshot not found for restore''])
                     else Inl (status_error Internal (error_text e))
                 | None \<Rightarrow> Inr (volumeReq\<lparr> cv_RestoreFromSnapshotId := Some snapshotID \<rparr>))
          })"

section \<open>CreateVolume\<close>

text \<open>The checks of the request, before any call: the error, or the size in bytes.\<close>

definition createVolume_size :: "driver \<Rightarrow> create_volume_request \<Rightarrow> go_error + int64" where
  "createVolume_size d req =
     (if req_Name req = '''' then
        Inl (status_error InvalidArgument [Lit ''CreateVolume Name must be provided''])
      else if length (req_VolumeCapabilities req) = 0 then
        Inl (status_error InvalidArgument
          [Lit ''CreateVolume Volume capabilities must be provided''])
      else let violations = validateCapabilities (req_VolumeCapabilities req)
      in if length violations > 0 then
        Inl (status_error InvalidArgument
          [Lit ''volume capabilities cannot be satisified: '', Lit (go_join violations ''; '')])
      else case getStorageSizeFromCapacityRange (req_CapacityRange req) of
        Inl e \<Rightarrow> Inl (status_error OutOfRange (Lit ''invalid capacity range: '' # error_text e))
      | Inr bytes \<Rightarrow>
          (case validateCreateVolumeAccessibility req (d_region d) of
             Some e \<Rightarrow> Inl e
           | None \<Rightarrow> Inr bytes))"

definition createVolume_identity :: "create_volume_request \<Rightarrow> string" where
  "createVolume_identity req =
     (let volumeIdentity = lookup_str (req_Parameters req) ''volume-identity''
      in if volumeIdentity = '''' then req_Name req else volumeIdentity)"

text \<open>The call that creates the volume, and the response.\<close>

definition createVolume_create ::
    "'w env \<Rightarrow> driver \<Rightarrow> int64 \<Rightarrow> content_source option \<Rightarrow> create_volume \<Rightarrow>
     ('w, csi_volume handler_result) state" where
  "createVolume_create env d bytes contentSource volumeReq = do {
     (vol, err) \<leftarrow> iaas_CreateVolume env volumeReq;
     ret (case err of
            Some e \<Rightarrow>
              if cv_RestoreFromSnapshotId volumeReq \<noteq> None \<and> is_not_found e then
                Err (status_error NotFound [Lit ''snapshot not found for restore''])
              else Err (status_error Internal (error_text e))
          | None \<Rightarrow>
              (case vol of
                 None \<Rightarrow> Panic
               | Some v \<Rightarrow>
                   Ok \<lparr> csi_VolumeId = vol_Identity v, csi_CapacityBytes = bytes,
                        csi_AccessibleTopology = [[''region'' \<mapsto> d_region d]],
                        csi_ContentSource = contentSource \<rparr>))
   }"

definition CreateVolume ::
    "'w env \<Rightarrow> driver \<Rightarrow> create_volume_request \<Rightarrow> ('w, csi_volume handler_result) state" where
  "CreateVolume env d req =
     (case createVolume_size d req of
        Inl e \<Rightarrow> ret (Err e)
      | Inr bytes \<Rightarrow> do {
          (volume, err) \<leftarrow> iaas_GetVolume env (createVolume_identity req);
          (if err \<noteq> None \<and> \<not> is_not_found (the err) then
             ret (Err (status_error Internal (error_text (the err))))
           else case volume of
             Some v \<Rightarrow>
               ret (case createVolumeResponseFromExisting v bytes of Inl e \<Rightarrow> Err e | Inr r \<Rightarrow> Ok r)
           | None \<Rightarrow> do {
               vt \<leftarrow> resolveVolumeTypeIdentity env (lookup_str (req_Parameters req) ''volume-type'');
               (case vt of
                  Inl e \<Rightarrow> ret (Err e)
                | Inr volumeTypeIdentity \<Rightarrow> do {
                    r \<leftarrow> applySnapshotRestore env (req_VolumeContentSource req)
                           (buildCreateVolumeRequest d req (req_Name req) bytes volumeTypeIdentity);
                    (case r of
                       Inl e \<Rightarrow> ret (Err e)
                     | Inr volumeReq \<Rightarrow>
                         createVolume_create env d bytes (req_VolumeContentSource req) volumeReq)
                  })
             })
        })"

section \<open>DeleteVolume\<close>

definition DeleteVolume :: "'w env \<Rightarrow> string \<Rightarrow> ('w, unit handler_result) state" where
  "DeleteVolume env volumeId =
     (if volumeId = '''' then
        ret (Err (status_error InvalidArgument [Lit ''DeleteVolume Volume ID must be provided'']))
      else do {
        err \<leftarrow> iaas_DeleteVolume env volumeId;
        ret (case err of
               Some e \<Rightarrow> if is_not_found e then Ok () else Err e
             | None \<Rightarrow> Ok ())
      })"

section \<open>ListVolumes\<close>

definition zero_volume :: volume where
  "zero_volume =
     \<lparr> vol_Identity = '''', vol_Name = '''', vol_Description = '''', vol_Labels = Map.empty,
       vol_Annotations = Map.empty, vol_Size = 0, vol_Status = '''', vol_Attachments = [],
       vol_DeleteProtection = False \<rparr>"

text \<open>\<open>volumesByIdentity\<close>: the last volume with an identity.\<close>

definition volumes_by_identity :: "volume list \<Rightarrow> string \<rightharpoonup> volume" where
  "volumes_by_identity volumes = foldl (\<lambda>m vol. m(vol_Identity vol \<mapsto> vol)) Map.empty volumes"

definition list_volumes_entry_of :: "volume \<Rightarrow> list_volumes_entry" where
  "list_volumes_entry_of vol =
     \<lparr> lve_Volume = \<lparr> csi_VolumeId = vol_Identity vol, csi_CapacityBytes = from_giB (vol_Size vol),
                      csi_AccessibleTopology = [], csi_ContentSource = None \<rparr>,
       lve_PublishedNodeIds = map AttachedToIdentity (vol_Attachments vol) \<rparr>"

definition lookup_volume :: "(string \<rightharpoonup> volume) \<Rightarrow> string \<Rightarrow> volume" where
  "lookup_volume m i = (case m i of None \<Rightarrow> zero_volume | Some v \<Rightarrow> v)"

definition effective_max_entries :: "driver \<Rightarrow> int32 \<Rightarrow> int32" where
  "effective_max_entries d maxEntries =
     (if maxEntries = 0 \<and> 0 < d_defaultVolumesPageSize d
      then ucast (d_defaultVolumesPageSize d) else maxEntries)"

definition ListVolumes ::
    "'w env \<Rightarrow> driver \<Rightarrow> list_volumes_request \<Rightarrow>
     ('w, (list_volumes_entry list \<times> string) handler_result) state" where
  "ListVolumes env d req = do {
     (volumes, err) \<leftarrow> iaas_ListVolumes env [(''region'', d_region d)];
     ret (case err of
            Some e \<Rightarrow> Err (status_error Internal (Lit ''failed to list volumes: '' # error_text e))
          | None \<Rightarrow>
              (case paginateIdentities (map vol_Identity volumes) (lv_StartingToken req)
                      (effective_max_entries d (lv_MaxEntries req)) of
                 Inl e \<Rightarrow> Err e
               | Inr (sortedIdentities, start, stop, nextToken) \<Rightarrow>
                   Ok (map (\<lambda>identity. list_volumes_entry_of
                              (lookup_volume (volumes_by_identity volumes) identity))
                         (slice sortedIdentities start stop), nextToken)))
   }"

section \<open>Unimplemented RPCs\<close>

definition ControllerGetVolume :: "unit handler_result" where
  "ControllerGetVolume = Err (status_error Unimplemented [Lit ''''])"

definition ControllerModifyVolume :: "unit handler_result" where
  "ControllerModifyVolume = Err (status_error Unimplemented [Lit ''''])"

section \<open>Lemmas\<close>

lemma check_requisite_None:
  "check_requisite region ts = None \<longleftrightarrow> (\<forall>t \<in> set ts. \<forall>r. t ''region'' = Some r \<longrightarrow> r = region)"
  by (induction ts) (auto split: option.splits)

lemma check_requisite_Some:
  "check_requisite region ts = Some e \<Longrightarrow> grpc_code e = ResourceExhausted"
  by (induction ts) (auto split: option.splits if_splits)

lemma createVolume_size_Inr:
  "createVolume_size d req = Inr bytes \<longleftrightarrow>
     req_Name req \<noteq> '''' \<and> req_VolumeCapabilities req \<noteq> [] \<and>
     (\<forall>c \<in> set (req_VolumeCapabilities req). capability_supported c) \<and>
     getStorageSizeFromCapacityRange (req_CapacityRange req) = Inr bytes \<and>
     validateCreateVolumeAccessibility req (d_region d) = None"
  by (auto simp: createVolume_size_def Let_def validateCapabilities_empty
      split: sum.splits option.splits)

lemma createVolume_size_pos: "createVolume_size d req = Inr bytes \<Longrightarrow> 0 < sint bytes"
  by (auto simp: createVolume_size_Inr dest: storage_size_max)

lemma applySnapshotRestore_Inr:
  "result_of (applySnapshotRestore env src vr) w = Inr vr' \<Longrightarrow> cv_RestoreFromSnapshotId vr = None \<Longrightarrow>
     vr' = vr\<lparr> cv_RestoreFromSnapshotId := GetSnapshot src \<rparr>"
  by (auto simp: applySnapshotRestore_def case_prod_beta split: option.splits if_splits)

lemma buildCreateVolumeRequest_fields [simp]:
  "cv_RestoreFromSnapshotId (buildCreateVolumeRequest d req n b vt) = None"
  "cv_Size (buildCreateVolumeRequest d req n b vt) = to_giB b"
  "cv_Name (buildCreateVolumeRequest d req n b vt) = n"
  "cv_CloudRegionIdentity (buildCreateVolumeRequest d req n b vt) = d_region d"
  "cv_VolumeTypeIdentity (buildCreateVolumeRequest d req n b vt) = vt"
  by (simp_all add: buildCreateVolumeRequest_def Let_def)

lemma wp_resolveVolumeTypeIdentity:
  assumes "\<And>vts q r. Q r (js @ [List_Volume_Types vts q])"
  shows "wp (resolveVolumeTypeIdentity (traced env) p) Q js"
  unfolding resolveVolumeTypeIdentity_def Let_def
  by (auto intro!: wp_intros assms)

text \<open>The request \<open>CreateVolume\<close> sends: the one it builds, with the snapshot to restore.\<close>

definition create_request ::
    "driver \<Rightarrow> create_volume_request \<Rightarrow> int64 \<Rightarrow> string \<Rightarrow> create_volume" where
  "create_request d req bytes vt =
     (buildCreateVolumeRequest d req (req_Name req) bytes vt)
       \<lparr> cv_RestoreFromSnapshotId := GetSnapshot (req_VolumeContentSource req) \<rparr>"

lemma wp_applySnapshotRestore:
  assumes "cv_RestoreFromSnapshotId vr = None"
    and "\<And>e ks. filter mutating ks = [] \<Longrightarrow> Q (Inl e) (js @ ks)"
    and "\<And>ks. filter mutating ks = [] \<Longrightarrow>
        Q (Inr (vr\<lparr> cv_RestoreFromSnapshotId := GetSnapshot src \<rparr>)) (js @ ks)"
  shows "wp (applySnapshotRestore (traced env) src vr) Q js"
proof (cases "GetSnapshot src")
  case None
  have "vr\<lparr> cv_RestoreFromSnapshotId := None \<rparr> = vr" using assms(1) by (cases vr) simp
  with assms(3) [of "[]"] None show ?thesis by (simp add: applySnapshotRestore_def)
next
  case (Some i)
  have "mutating (Get_Snapshot i s q) = False" for s q by simp
  with Some assms(2) [of "[]"] assms(2,3) [of "[Get_Snapshot i s q]" for s q] show ?thesis
    by (auto simp: applySnapshotRestore_def intro!: wp_intros split: option.splits)
qed

text \<open>What \<open>CreateVolume\<close> does, whatever the API answers: it reads first; it creates at most one
  volume, only after the lookup found none, and only with the request it built.\<close>

definition create_volume_effect ::
    "driver \<Rightarrow> create_volume_request \<Rightarrow> csi_volume handler_result \<Rightarrow> call list \<Rightarrow> bool" where
  "create_volume_effect d req res calls \<longleftrightarrow>
     (case createVolume_size d req of
        Inl e \<Rightarrow> res = Err e \<and> calls = []
      | Inr bytes \<Rightarrow>
          (\<exists>v r. hd calls = Get_Volume (createVolume_identity req) v r \<and>
             (filter mutating calls = [] \<and> (\<forall>resp. res = Ok resp \<longrightarrow>
                (\<exists>x. v = Some x \<and> createVolumeResponseFromExisting x bytes = Inr resp)) \<or>
              v = None \<and> (r = None \<or> is_not_found (the r)) \<and>
              (\<exists>vt x q. filter mutating calls = [Create_Volume (create_request d req bytes vt) x q] \<and>
                (\<forall>resp. res = Ok resp \<longrightarrow> q = None \<and> x \<noteq> None \<and>
                   csi_VolumeId resp = vol_Identity (the x) \<and> csi_CapacityBytes resp = bytes \<and>
                   csi_AccessibleTopology resp = [[''region'' \<mapsto> d_region d]] \<and>
                   csi_ContentSource resp = req_VolumeContentSource req)))))"

lemma wp_CreateVolume: "wp (CreateVolume (traced env) d req) (create_volume_effect d req) []"
proof (cases "createVolume_size d req")
  case (Inl e)
  then show ?thesis by (simp add: CreateVolume_def create_volume_effect_def)
next
  case (Inr bytes)
  show ?thesis
    unfolding CreateVolume_def Inr sum.case
    by (auto simp: create_volume_effect_def Inr createVolume_create_def create_request_def
        intro!: wp_intros wp_resolveVolumeTypeIdentity wp_applySnapshotRestore
        split: option.splits sum.splits) (rule exI, rule refl)+
qed

section \<open>Properties of CreateVolume\<close>

text \<open>C2: \<open>CreateVolume\<close> changes the cloud by at most one call, and only when every check of the
  request has passed and the lookup of the volume, its first call, answered that there is none;
  the call creates a volume with the requested name, in the driver's region, of the requested
  size in whole GiB (rounded down), restored from the requested snapshot.\<close>

theorem create_volume_at_most_once:
  "mutations (CreateVolume (traced env) d req) w = [] \<or>
   (\<exists>bytes c x q r.
      createVolume_size d req = Inr bytes \<and>
      mutations (CreateVolume (traced env) d req) w = [Create_Volume c x q] \<and>
      hd (calls_of (CreateVolume (traced env) d req) w) = Get_Volume (createVolume_identity req) None r \<and>
      (r = None \<or> is_not_found (the r)) \<and>
      cv_Name c = req_Name req \<and> cv_CloudRegionIdentity c = d_region d \<and>
      sint (cv_Size c) = sint bytes div 2 ^ 30 \<and>
      cv_RestoreFromSnapshotId c = GetSnapshot (req_VolumeContentSource req))"
proof (cases "createVolume_size d req")
  case (Inl e)
  then show ?thesis
    using wp_run [OF wp_CreateVolume [of env d req], of w]
    by (simp add: create_volume_effect_def mutations_def)
next
  case (Inr bytes)
  have "sint (to_giB bytes) = sint bytes div 2 ^ 30"
    using createVolume_size_pos [OF Inr] by (simp add: sint_to_giB)
  then show ?thesis
    using wp_run [OF wp_CreateVolume [of env d req], of w] Inr
    by (fastforce simp: create_volume_effect_def mutations_def create_request_def)
qed

text \<open>C15: When \<open>CreateVolume\<close> succeeds it reports the size the capacity range asks for, and the
  identity of the volume that the lookup found, whose size is exactly that (nothing is created
  then), or else the identity of the volume that its single create call made, in the driver's
  region.\<close>

theorem create_volume_success:
  assumes "answer_of (CreateVolume (traced env) d req) w = Ok resp"
  shows "createVolume_size d req = Inr (csi_CapacityBytes resp) \<and>
    (\<exists>v r. hd (calls_of (CreateVolume (traced env) d req) w) = Get_Volume (createVolume_identity req) v r \<and>
      (case v of
         Some x \<Rightarrow> csi_VolumeId resp = vol_Identity x \<and> from_giB (vol_Size x) = csi_CapacityBytes resp \<and>
           mutations (CreateVolume (traced env) d req) w = []
       | None \<Rightarrow>
           (\<exists>c x. mutations (CreateVolume (traced env) d req) w = [Create_Volume c (Some x) None] \<and>
              csi_VolumeId resp = vol_Identity x \<and>
              csi_AccessibleTopology resp = [[''region'' \<mapsto> d_region d]])))"
  using wp_run [OF wp_CreateVolume [of env d req], of w] assms
  by (fastforce simp: create_volume_effect_def mutations_def createVolumeResponseFromExisting_def
      split: sum.splits if_splits)

definition sample_request :: "int64 \<Rightarrow> create_volume_request" where
  "sample_request bytes =
     \<lparr> req_Name = ''pvc-1'', req_CapacityRange = Some \<lparr> required_bytes = bytes, limit_bytes = 0 \<rparr>,
       req_VolumeCapabilities =
         [\<lparr> vc_AccessMode = Some SINGLE_NODE_WRITER, vc_AccessType = Some VolumeCapability_Block \<rparr>],
       req_Parameters = Map.empty, req_VolumeContentSource = None, req_Requisite = None \<rparr>"

lemma sample_request_size [simp]:
  assumes "2 ^ 30 \<le> sint bytes" and "sint bytes \<le> 2 ^ 44"
  shows "createVolume_size sample_driver (sample_request bytes) = Inr bytes"
  using assms
  by (simp add: createVolume_size_Inr sample_request_def capability_supported_def
      getStorageSizeFromCapacityRange_def Let_def validateCreateVolumeAccessibility_def)

lemma sample_type:
  "run_state (resolveVolumeTypeIdentity (traced sim_env) '''') (sample_cloud, js) =
     (Inr ''vt-1'', (sample_cloud, js @ [List_Volume_Types (c_types sample_cloud) None]))"
proof -
  have "equal_fold ''Block'' ''block''" by code_simp
  then show ?thesis
    by (simp add: resolveVolumeTypeIdentity_def Let_def)
qed

theorem create_volume_success_witness:
  "\<exists>resp. answer_of (CreateVolume (traced sim_env) sample_driver (sample_request (2 * giB))) sample_cloud = Ok resp \<and>
     createVolume_size sample_driver (sample_request (2 * giB)) = Inr (csi_CapacityBytes resp)"
proof -
  have "createVolume_size sample_driver (sample_request (2 * giB)) = Inr (2 * giB)"
    by (rule sample_request_size) (simp_all add: unit_values)
  then obtain resp where ok: "answer_of (CreateVolume (traced sim_env) sample_driver (sample_request (2 * giB))) sample_cloud = Ok resp"
    by (simp add: answer_of_def CreateVolume_def sim_defs createVolume_identity_def Let_def
        sample_request_def lookup_str_def sample_type
        applySnapshotRestore_def createVolume_create_def)
  from create_volume_success [OF this] this show ?thesis by blast
qed

text \<open>A retry of \<open>CreateVolume\<close> that finds the volume an earlier call made (whose size is the
  requested one in whole GiB) creates nothing; it answers with that volume when the requested
  size is a multiple of one GiB, and fails with \<open>AlreadyExists\<close> for every other size.\<close>

theorem create_volume_retry:
  assumes "createVolume_size d req = Inr bytes"
    and "result_of (iaas_GetVolume env (createVolume_identity req)) w = (Some v, None)"
    and "vol_Size v = to_giB bytes"
  shows "mutations (CreateVolume (traced env) d req) w = [] \<and>
    (if 2 ^ 30 dvd sint bytes
     then \<exists>resp. answer_of (CreateVolume (traced env) d req) w = Ok resp \<and>
            csi_VolumeId resp = vol_Identity v \<and> csi_CapacityBytes resp = bytes
     else \<exists>m. answer_of (CreateVolume (traced env) d req) w = Err (status_error AlreadyExists m))"
  using assms from_to_giB_exact_iff [of bytes] createVolume_size_pos [OF assms(1)]
  by (auto simp: CreateVolume_def answer_of_def mutations_def calls_of_def
      createVolumeResponseFromExisting_def)

theorem create_volume_retry_witness:
  "\<exists>m. answer_of (CreateVolume (traced sim_env) sample_driver (sample_request (giB + 512 * miB)))
     (sample_cloud\<lparr> c_by_name := True,
        c_volumes := [sample_volume\<lparr> vol_Name := ''pvc-1'', vol_Size := to_giB (giB + 512 * miB) \<rparr>] \<rparr>) =
     Err (status_error AlreadyExists m)"
proof -
  let ?v = "sample_volume\<lparr> vol_Name := ''pvc-1'', vol_Size := to_giB (giB + 512 * miB) \<rparr>"
  let ?c = "sample_cloud\<lparr> c_by_name := True, c_volumes := [?v] \<rparr>"
  have s: "sint (giB + 512 * miB) = 1610612736" by (simp add: unit_values)
  have 1: "createVolume_size sample_driver (sample_request (giB + 512 * miB)) = Inr (giB + 512 * miB)"
    by (rule sample_request_size) (simp_all add: s)
  have 2: "result_of (iaas_GetVolume sim_env (createVolume_identity (sample_request (giB + 512 * miB)))) ?c = (Some ?v, None)"
    by (simp add: createVolume_identity_def sample_request_def lookup_str_def sim_defs Let_def)
  have "\<not> 2 ^ 30 dvd sint (giB + 512 * miB)" by (simp add: s)
  with create_volume_retry [OF 1 2] show ?thesis by simp
qed

text \<open>The GiB count the API is asked for is zero for a range whose required size is below the
  minimum and whose limit is above it.\<close>

lemma create_volume_zero_size:
  "getStorageSizeFromCapacityRange (Some \<lparr> required_bytes = 1, limit_bytes = 2 * giB \<rparr>) = Inr 1"
  "to_giB 1 = 0"
  by (simp_all add: getStorageSizeFromCapacityRange_def unit_values to_giB_def quot64_def
      sdiv_nonneg)

text \<open>The labels of a created volume always carry the driver's own entries: no custom label can
  replace the driver marker or the driver's name, and a configured cluster identity always
  wins.\<close>

theorem created_volume_labels:
  "let c = buildCreateVolumeRequest d req n bytes vt in
     cv_Labels c ''k8s.thalassa.cloud/csi-driver'' = Some ''true'' \<and>
     cv_Labels c ''k8s.thalassa.cloud/csi-driver-name'' = Some (d_name d) \<and>
     (d_clusterIdentity d = '''' \<or>
        cv_Labels c ''k8s.thalassa.cloud/cluster-identity'' = Some (d_clusterIdentity d)) \<and>
     cv_Annotations c ''k8s.thalassa.cloud/description'' = Some ''Provisioned by Thalassa CSI driver'' \<and>
     (lookup_str (req_Parameters req) ''fstype'' = '''' \<or>
        cv_Annotations c ''k8s.thalassa.cloud/fstype'' = Some (lookup_str (req_Parameters req) ''fstype''))"
  by (auto simp: buildCreateVolumeRequest_def Let_def add_missing_keeps)

section \<open>Properties of DeleteVolume and ListVolumes\<close>

text \<open>\<open>DeleteVolume\<close> is idempotent: a call with an identity asks the API once to delete it,
  a volume that is already gone counts as deleted, and every other API error is returned as it
  is; a call without an identity is refused before any call.\<close>

theorem delete_volume_idempotent:
  "mutations (DeleteVolume (traced env) i) w =
     (if i = '''' then [] else [Delete_Volume i (result_of (iaas_DeleteVolume env i) w)]) \<and>
   answer_of (DeleteVolume (traced env) i) w =
     (if i = '''' then
        Err (status_error InvalidArgument [Lit ''DeleteVolume Volume ID must be provided''])
      else case result_of (iaas_DeleteVolume env i) w of
        None \<Rightarrow> Ok ()
      | Some e \<Rightarrow> if is_not_found e then Ok () else Err e)"
  by (simp add: DeleteVolume_def answer_of_def mutations_def calls_of_def split: option.splits)

lemma volumes_by_identity_in:
  "distinct (map vol_Identity vs) \<Longrightarrow> v \<in> set vs \<Longrightarrow> volumes_by_identity vs (vol_Identity v) = Some v"
proof (induction vs rule: rev_induct)
  case Nil
  then show ?case by simp
next
  case (snoc x xs)
  have "vol_Identity v \<noteq> vol_Identity x" if "v \<noteq> x" using that snoc.prems by (auto simp: image_iff)
  with snoc show ?case by (cases "v = x") (auto simp: volumes_by_identity_def)
qed

text \<open>C33: A client that follows the next tokens of \<open>ListVolumes\<close>, while the volumes of the region
  stay the same, gets every volume of the region exactly once, in the order of their
  identities, with its size in bytes and the machines it is attached to.\<close>

theorem list_volumes_complete:
  assumes "result_of (iaas_ListVolumes env [(''region'', d_region d)]) w = (vs, None)"
    and "distinct (map vol_Identity vs)" and "'''' \<notin> vol_Identity ` set vs"
    and "0 \<le> sint (effective_max_entries d m)"
  shows "walk (\<lambda>tok. page_of (result_of (ListVolumes env d
             \<lparr> lv_MaxEntries = m, lv_StartingToken = tok \<rparr>) w)) (Suc (length vs)) '''' =
     Some (map list_volumes_entry_of (sort_key vol_Identity vs))"
proof -
  let ?entry = "\<lambda>i. list_volumes_entry_of (lookup_volume (volumes_by_identity vs) i)"
  let ?page = "\<lambda>t. page_entries ?entry (paginateIdentities (map vol_Identity vs) t (effective_max_entries d m))"
  have "page_of (result_of (ListVolumes env d \<lparr> lv_MaxEntries = m, lv_StartingToken = t \<rparr>) w) =
      (case ?page t of Inl e \<Rightarrow> Inl (Some e) | Inr p \<Rightarrow> Inr p)" for t
    using assms(1)
    by (auto simp: ListVolumes_def case_prod_beta page_of_def page_entries_def split: sum.splits)
  then have "walk (\<lambda>tok. page_of (result_of (ListVolumes env d
             \<lparr> lv_MaxEntries = m, lv_StartingToken = tok \<rparr>) w)) (Suc (length vs)) '''' =
      walk ?page (Suc (length vs)) ''''"
    by (rule walk_errors)
  also have "\<dots> = Some (map ?entry (sort (map vol_Identity vs)))"
    using pg.walk_all [of "map vol_Identity vs" "effective_max_entries d m" ?entry] assms(2-4)
    by simp
  also have "map ?entry (sort (map vol_Identity vs)) =
      map list_volumes_entry_of (sort_key vol_Identity vs)"
    using volumes_by_identity_in [OF assms(2)] by (simp add: sort_map_key lookup_volume_def)
  finally show ?thesis .
qed

theorem list_volumes_complete_witness:
  "walk (\<lambda>tok. page_of (result_of (ListVolumes sim_env sample_driver
      \<lparr> lv_MaxEntries = 1, lv_StartingToken = tok \<rparr>)
        (sample_cloud\<lparr> c_volumes := [sample_volume] \<rparr>))) 2 '''' =
     Some [list_volumes_entry_of sample_volume]"
proof -
  let ?c = "sample_cloud\<lparr> c_volumes := [sample_volume] \<rparr>"
  have "result_of (iaas_ListVolumes sim_env [(''region'', d_region sample_driver)]) ?c = ([sample_volume], None)"
    by (simp add: sim_filter_def)
  moreover have "0 \<le> sint (effective_max_entries sample_driver 1)"
    by (simp add: effective_max_entries_def)
  moreover have "vol_Identity sample_volume \<noteq> ''''" by (simp add: sample_volume_def)
  ultimately show ?thesis
    using list_volumes_complete [of sim_env sample_driver ?c "[sample_volume]" 1]
    by (simp add: numeral_2_eq_2 del: walk.simps)
qed

lemma sample_create:
  "createVolume_size sample_driver (sample_request (2 * giB)) = Inr (2 * giB)"
  "req_VolumeContentSource (sample_request (2 * giB)) = None"
  "result_of (resolveVolumeTypeIdentity sim_env
     (lookup_str (req_Parameters (sample_request (2 * giB))) ''volume-type'')) sample_cloud = Inr ''vt-1''"
proof -
  show "createVolume_size sample_driver (sample_request (2 * giB)) = Inr (2 * giB)"
    by (rule sample_request_size) (simp_all add: unit_values)
  show "req_VolumeContentSource (sample_request (2 * giB)) = None" by (simp add: sample_request_def)
  have "equal_fold ''Block'' ''block''" by code_simp
  then show "result_of (resolveVolumeTypeIdentity sim_env
     (lookup_str (req_Parameters (sample_request (2 * giB))) ''volume-type'')) sample_cloud = Inr ''vt-1''"
    by (simp add: resolveVolumeTypeIdentity_def Let_def sample_request_def lookup_str_def)
qed

end
