(* ===== verification/ControllerAttachment.thy ===== *)
theory ControllerAttachment
  imports Capabilities CloudSim
begin

text \<open>
  \<open>driver/controller_attachment.go\<close> and \<open>driver/machineidentity.go\<close>: attaching a volume to the
  machine of a node and detaching it, each followed by a poll of the volume's status.

  The poll is \<open>wait.PollUntilContextTimeout(ctx, 10s, 5m, true, cond)\<close>: the condition runs at
  once and then after each interval, until it is true, fails, or the context ends. The ticks
  are at least ten seconds apart and the context ends after five minutes, so there are at most
  \<open>poll_intervals\<close> = 30 waits; \<open>ctx_Wait\<close> may end the poll at any earlier one.
\<close>

section \<open>The machine of a node\<close>

definition getNodeMachineIdentity ::
    "'w env \<Rightarrow> driver \<Rightarrow> string \<Rightarrow> ('w, go_error + string) state" where
  "getNodeMachineIdentity env d nodeName = do {
     err \<leftarrow> kube_BuildConfig env (d_kubeConfig d);
     (case err of
        Some e \<Rightarrow> ret (Inl (status_error Internal (Lit ''failed to build kube config: '' # error_text e)))
      | None \<Rightarrow> do {
          err \<leftarrow> kube_NewForConfig env;
          (case err of
             Some e \<Rightarrow>
               ret (Inl (status_error Internal (Lit ''failed to build kubernetes client: '' # error_text e)))
           | None \<Rightarrow> do {
               (providerID, err) \<leftarrow> kube_GetNode env nodeName;
               ret (case err of
                      Some e \<Rightarrow> Inl (status_error Internal (Lit ''failed to get node: '' # error_text e))
                    | None \<Rightarrow>
                        if providerID = '''' then
                          Inl (status_error Internal
                            [Lit ''node '', Quoted nodeName, Lit '' does not have a provider ID''])
                        else (case go_split providerID ''://'' of
                                [scheme, identity] \<Rightarrow> Inr identity
                              | _ \<Rightarrow> Inl (status_error Internal
                                       [Lit ''invalid provider ID: '', Quoted providerID])))
             })
        })
   }"

text \<open>The loop over the machines of the VPC: the first whose name, identity or slug is the node's.\<close>

fun find_machine :: "string \<Rightarrow> machine list \<Rightarrow> string option" where
  "find_machine nodeId [] = None"
| "find_machine nodeId (m # ms) =
     (if mach_Name m = nodeId \<or> mach_Identity m = nodeId \<or> mach_Slug m = nodeId
      then Some (mach_Identity m) else find_machine nodeId ms)"

definition machine_filters :: "driver \<Rightarrow> filter_kv list" where
  "machine_filters d = [(''region'', d_region d), (''vpc'', d_vpc d)]"

section \<open>Waiting for a status\<close>

definition poll_intervals :: nat where
  "poll_intervals = 300 div 10"

text \<open>\<open>Ok ()\<close> is a nil error. The condition reads the volume's status; a nil volume panics.\<close>

fun pollVolumeStatus :: "'w env \<Rightarrow> string \<Rightarrow> string \<Rightarrow> nat \<Rightarrow> ('w, unit handler_result) state" where
  "pollVolumeStatus env volumeId status n = do {
     (vol, err) \<leftarrow> iaas_GetVolume env volumeId;
     (case err of
        Some e \<Rightarrow> ret (Err (Wrap [Lit ''error getting volume: ''] e))
      | None \<Rightarrow>
          (case vol of
             None \<Rightarrow> ret Panic
           | Some v \<Rightarrow>
               if equal_fold (vol_Status v) status then ret (Ok ())
               else (case n of
                  0 \<Rightarrow> ret (Err (Sentinel DeadlineExceededErr))
                | Suc n' \<Rightarrow> do {
                    err \<leftarrow> ctx_Wait env;
                    (case err of
                       Some c \<Rightarrow> ret (Err (context_error c))
                     | None \<Rightarrow> pollVolumeStatus env volumeId status n')
                  })))
   }"

declare pollVolumeStatus.simps [simp del]

section \<open>ControllerPublishVolume\<close>

record publish_request =
  pub_VolumeId :: string
  pub_NodeId :: string
  pub_VolumeCapability :: "volume_capability option"
  pub_Readonly :: bool

text \<open>The loop over the attachments: whether one is on the machine, and the identity read last.\<close>

fun scan_attachments :: "string \<Rightarrow> string \<Rightarrow> attachment list \<Rightarrow> bool \<times> string" where
  "scan_attachments machine attachedTo [] = (False, attachedTo)"
| "scan_attachments machine attachedTo (a # as) =
     (if AttachedToIdentity a = machine then (True, AttachedToIdentity a)
      else scan_attachments machine (AttachedToIdentity a) as)"

definition publish_invalid :: "publish_request \<Rightarrow> err" where
  "publish_invalid req =
     (if pub_VolumeId req = '''' then
        Some (status_error InvalidArgument [Lit ''ControllerPublishVolume Volume ID must be provided''])
      else if pub_NodeId req = '''' then
        Some (status_error InvalidArgument [Lit ''ControllerPublishVolume Node ID must be provided''])
      else if pub_VolumeCapability req = None then
        Some (status_error InvalidArgument
          [Lit ''ControllerPublishVolume Volume capability must be provided''])
      else if pub_Readonly req then
        Some (status_error InvalidArgument [Lit ''read only volumes are not supported''])
      else None)"

definition resolve_node :: "'w env \<Rightarrow> driver \<Rightarrow> string \<Rightarrow> ('w, go_error + string) state" where
  "resolve_node env d nodeId =
     (if d_kubeConfig d \<noteq> '''' then getNodeMachineIdentity env d nodeId else ret (Inr nodeId))"

definition attach_to :: "string \<Rightarrow> attach_request" where
  "attach_to machine = \<lparr> ar_ResourceIdentity = machine, ar_ResourceType = ''cloud_virtual_machine'' \<rparr>"

definition publish_context :: "driver \<Rightarrow> volume \<Rightarrow> labels" where
  "publish_context d vol = [d_publishInfoVolumeName d \<mapsto> vol_Name vol]"

text \<open>The second half of the handler: the volume and the machine are known.\<close>

definition publish_to_machine ::
    "'w env \<Rightarrow> driver \<Rightarrow> string \<Rightarrow> volume \<Rightarrow> string \<Rightarrow> ('w, labels handler_result) state" where
  "publish_to_machine env d volumeId vol attachToIdentity =
     (case scan_attachments attachToIdentity '''' (vol_Attachments vol) of
        (True, _) \<Rightarrow> ret (Ok (publish_context d vol))
      | (False, attachedToMachine) \<Rightarrow>
          if attachedToMachine \<noteq> '''' then
            ret (Err (status_error FailedPrecondition
              [Lit ''volume '', Quoted volumeId, Lit '' is attached to the wrong machine ('',
               Quoted attachedToMachine, Lit ''), detach the volume to fix it'']))
          else do {
            err \<leftarrow> iaas_AttachVolume env volumeId (attach_to attachToIdentity);
            (case err of
               Some e \<Rightarrow>
                 if is_not_found e then
                   ret (Err (status_error NotFound
                     [Lit ''machine '', Quoted attachToIdentity, Lit '' does not exist'']))
                 else ret (Err e)
             | None \<Rightarrow> do {
                 res \<leftarrow> pollVolumeStatus env volumeId ''attached'' poll_intervals;
                 ret (case res of
                        Ok _ \<Rightarrow> Ok (publish_context d vol)
                      | Err e \<Rightarrow> Err (Wrap [Lit ''failed to attach volume: ''] e)
                      | Panic \<Rightarrow> Panic)
               })
          })"

definition ControllerPublishVolume ::
    "'w env \<Rightarrow> driver \<Rightarrow> publish_request \<Rightarrow> ('w, labels handler_result) state" where
  "ControllerPublishVolume env d req =
     (case publish_invalid req of
        Some e \<Rightarrow> ret (Err e)
      | None \<Rightarrow> do {
          (vol, err) \<leftarrow> iaas_GetVolume env (pub_VolumeId req);
          (case err of
             Some e \<Rightarrow>
               if is_not_found e then
                 ret (Err (status_error NotFound
                   [Lit ''volume '', Quoted (pub_VolumeId req), Lit '' does not exist'']))
               else ret (Err e)
           | None \<Rightarrow> do {
               node \<leftarrow> resolve_node env d (pub_NodeId req);
               (case node of
                  Inl e \<Rightarrow> ret (Err e)
                | Inr nodeId \<Rightarrow> do {
                    (machines, err) \<leftarrow> iaas_ListMachines env (machine_filters d);
                    (case err of
                       Some e \<Rightarrow> ret (Err e)
                     | None \<Rightarrow>
                         (case find_machine nodeId machines of
                            None \<Rightarrow> ret (Err (status_error NotFound
                              [Lit ''machine '', Quoted nodeId, Lit '' does not exist'']))
                          | Some machine \<Rightarrow>
                              (case vol of
                                 None \<Rightarrow> ret Panic
                               | Some v \<Rightarrow> publish_to_machine env d (pub_VolumeId req) v machine)))
                  })
             })
        })"

section \<open>ControllerUnpublishVolume\<close>

text \<open>\<open>detach_from\<close> is the last part of the handler: the machine is known.\<close>

definition detach_from :: "'w env \<Rightarrow> string \<Rightarrow> string \<Rightarrow> ('w, unit handler_result) state" where
  "detach_from env volumeId machine = do {
     err \<leftarrow> iaas_DetachVolume env volumeId (attach_to machine);
     (case err of
        Some e \<Rightarrow> if is_not_found e then ret (Ok ()) else ret (Err e)
      | None \<Rightarrow> do {
          res \<leftarrow> pollVolumeStatus env volumeId ''available'' poll_intervals;
          ret (case res of
                 Err e \<Rightarrow>
                   if is_not_found e then Ok ()
                   else Err (Wrap [Lit ''failed to detach volume: ''] e)
               | r \<Rightarrow> r)
        })
   }"

definition volume_is_detached :: "volume option \<Rightarrow> bool" where
  "volume_is_detached vol \<longleftrightarrow>
     (case vol of
        None \<Rightarrow> False
      | Some v \<Rightarrow> length (vol_Attachments v) = 0 \<and> equal_fold (vol_Status v) ''available'')"

definition ControllerUnpublishVolume ::
    "'w env \<Rightarrow> driver \<Rightarrow> string \<Rightarrow> string \<Rightarrow> ('w, unit handler_result) state" where
  "ControllerUnpublishVolume env d volumeId reqNodeId =
     (if volumeId = '''' then
        ret (Err (status_error InvalidArgument
          [Lit ''ControllerUnpublishVolume Volume ID must be provided'']))
      else do {
        (currentVolume, err) \<leftarrow> iaas_GetVolume env volumeId;
        (case err of
           Some e \<Rightarrow> if is_not_found e then ret (Ok ()) else ret (Err e)
         | None \<Rightarrow>
             if volume_is_detached currentVolume then ret (Ok ())
             else do {
               node \<leftarrow> resolve_node env d reqNodeId;
               let nodeId = (case node of Inl _ \<Rightarrow> reqNodeId | Inr i \<Rightarrow> i);
               (_, err) \<leftarrow> iaas_GetMachine env nodeId;
               (case err of
                  None \<Rightarrow> detach_from env volumeId nodeId
                | Some e \<Rightarrow>
                    if \<not> is_not_found e then
                      ret (Err (Wrap [Lit ''failed to get machine: ''] e))
                    else do {
                      (machines, err) \<leftarrow> iaas_ListMachines env (machine_filters d);
                      (case err of
                         Some e \<Rightarrow> ret (Err (Wrap [Lit ''failed to list machines: ''] e))
                       | None \<Rightarrow>
                           (case find_machine nodeId machines of
                              None \<Rightarrow> ret (Ok ())
                            | Some machine \<Rightarrow> detach_from env volumeId machine))
                    })
             })
      })"

section \<open>Lemmas\<close>

lemma find_machine_Some:
  "find_machine n ms = Some i \<Longrightarrow>
     \<exists>m \<in> set ms. mach_Identity m = i \<and> (mach_Name m = n \<or> mach_Identity m = n \<or> mach_Slug m = n)"
  by (induction ms) (auto split: if_splits)

lemma find_machine_None:
  "find_machine n ms = None \<longleftrightarrow>
     (\<forall>m \<in> set ms. mach_Name m \<noteq> n \<and> mach_Identity m \<noteq> n \<and> mach_Slug m \<noteq> n)"
  by (induction ms) auto

lemma scan_attachments_found:
  "fst (scan_attachments machine a as) \<longleftrightarrow> machine \<in> AttachedToIdentity ` set as"
  by (induction as arbitrary: a) auto

lemma scan_attachments_last:
  "\<not> fst (scan_attachments machine a as) \<Longrightarrow>
     snd (scan_attachments machine a as) = (if as = [] then a else AttachedToIdentity (last as))"
  by (induction as arbitrary: a) (auto split: if_splits)

text \<open>What the loop over the attachments says: on the machine, free, or on another machine.\<close>

lemma scan_attachments_True:
  "scan_attachments machine a as = (True, l) \<Longrightarrow> machine \<in> AttachedToIdentity ` set as"
  using scan_attachments_found [of machine a as] by simp

lemma scan_attachments_False:
  "scan_attachments machine '''' as = (False, l) \<Longrightarrow>
     machine \<notin> AttachedToIdentity ` set as \<and>
     (l = '''' \<longrightarrow> as = [] \<or> AttachedToIdentity (last as) = '''')"
  using scan_attachments_found [of machine "''''" as] scan_attachments_last [of machine "''''" as]
  by (auto split: if_splits)

text \<open>The polls and the waits among the calls.\<close>

fun is_wait :: "call \<Rightarrow> bool" where
  "is_wait (Wait e) = True"
| "is_wait _ = False"

fun is_get_volume :: "call \<Rightarrow> bool" where
  "is_get_volume (Get_Volume i v e) = True"
| "is_get_volume _ = False"

definition count_of :: "('a \<Rightarrow> bool) \<Rightarrow> 'a list \<Rightarrow> nat" where
  "count_of P xs = length (filter P xs)"

lemma count_of_simps [simp]:
  "count_of P [] = 0" "count_of P (x # xs) = (if P x then Suc (count_of P xs) else count_of P xs)"
  "count_of P (xs @ ys) = count_of P xs + count_of P ys"
  by (simp_all add: count_of_def)

definition status_seen :: "string \<Rightarrow> string \<Rightarrow> call list \<Rightarrow> bool" where
  "status_seen i status calls \<longleftrightarrow>
     (\<exists>v. calls \<noteq> [] \<and> last calls = Get_Volume i (Some v) None \<and> equal_fold (vol_Status v) status)"

lemma status_seen_append [simp]: "status_seen i s ks \<Longrightarrow> status_seen i s (js @ ks)"
  by (auto simp: status_seen_def)

lemma status_seen_Cons [simp]: "status_seen i s ks \<Longrightarrow> status_seen i s (k # ks)"
  by (auto simp: status_seen_def)

definition not_found_seen :: "string \<Rightarrow> call list \<Rightarrow> bool" where
  "not_found_seen i calls \<longleftrightarrow>
     calls \<noteq> [] \<and> (\<exists>e v. is_not_found e \<and> last calls = Get_Volume i v (Some e))"

lemma not_found_seen_append [simp]: "not_found_seen i ks \<Longrightarrow> not_found_seen i (js @ ks)"
  by (auto simp: not_found_seen_def)

lemma not_found_seen_Cons [simp]: "not_found_seen i ks \<Longrightarrow> not_found_seen i (k # ks)"
  by (auto simp: not_found_seen_def)

definition poll_post :: "string \<Rightarrow> string \<Rightarrow> nat \<Rightarrow> unit handler_result \<Rightarrow> call list \<Rightarrow> bool" where
  "poll_post i status n res ks \<longleftrightarrow>
     ks \<noteq> [] \<and> filter mutating ks = [] \<and> count_of is_wait ks \<le> n \<and>
     count_of is_get_volume ks \<le> Suc n \<and> (res = Ok () \<longrightarrow> status_seen i status ks) \<and>
     (\<forall>e. res = Err e \<and> is_not_found e \<longrightarrow> not_found_seen i ks)"

lemma poll_post_Cons:
  "poll_post i status n res ks \<Longrightarrow>
     poll_post i status (Suc n) res (Get_Volume i v None # Wait None # ks)"
  by (auto simp: poll_post_def status_seen_def)

lemma wp_pollVolumeStatus:
  assumes "\<And>res ks. poll_post i status n res ks \<Longrightarrow> Q res (js @ ks)"
  shows "wp (pollVolumeStatus (traced env) i status n) Q js"
  using assms
proof (induction n arbitrary: js)
  case 0
  have "Q res (js @ [Get_Volume i v e])"
    if "res = Ok () \<longrightarrow> status_seen i status [Get_Volume i v e]"
      "\<forall>e'. res = Err e' \<and> is_not_found e' \<longrightarrow> not_found_seen i [Get_Volume i v e]" for res v e
    by (rule "0.prems") (use that in \<open>simp add: poll_post_def\<close>)
  then show ?case
    by (subst pollVolumeStatus.simps)
      (auto intro!: wp_intros simp: status_seen_def not_found_seen_def is_not_found_def
        split: option.splits)
next
  case (Suc n)
  have one: "Q res (js @ [Get_Volume i v e])"
    if "res = Ok () \<longrightarrow> status_seen i status [Get_Volume i v e]"
      "\<forall>e'. res = Err e' \<and> is_not_found e' \<longrightarrow> not_found_seen i [Get_Volume i v e]" for res v e
    by (rule Suc.prems) (use that in \<open>simp add: poll_post_def\<close>)
  have two: "Q (Err (context_error x)) (js @ [Get_Volume i v e, Wait (Some x)])" for x v e
    by (rule Suc.prems) (simp add: poll_post_def not_found_seen_def)
  have more: "wp (pollVolumeStatus (traced env) i status n) Q (js @ [Get_Volume i v None, Wait None])" for v
  proof (rule Suc.IH)
    fix res ks
    assume "poll_post i status n res ks"
    from Suc.prems [OF poll_post_Cons [OF this]]
    show "Q res ((js @ [Get_Volume i v None, Wait None]) @ ks)" by simp
  qed
  show ?case
    by (subst pollVolumeStatus.simps)
      (auto intro!: wp_intros one two more simp: status_seen_def not_found_seen_def is_not_found_def
        split: option.splits)
qed

text \<open>Resolving the node reads only, and is the identity without a kube config; with one it is the
  last part of the provider id of the Kubernetes node.\<close>

definition node_of_request :: "driver \<Rightarrow> string \<Rightarrow> string \<Rightarrow> call list \<Rightarrow> bool" where
  "node_of_request d n node calls \<longleftrightarrow>
     node = n \<or> d_kubeConfig d \<noteq> '''' \<and>
       (\<exists>p scheme. Get_Node n p None \<in> set calls \<and> go_split p ''://'' = [scheme, node])"

lemma wp_resolve_node:
  assumes "\<And>r ks. filter mutating ks = [] \<Longrightarrow> filter is_get_volume ks = [] \<Longrightarrow> filter is_wait ks = [] \<Longrightarrow>
       (d_kubeConfig d = '''' \<longrightarrow> ks = [] \<and> r = Inr n) \<Longrightarrow>
       (\<forall>node. r = Inr node \<longrightarrow> node_of_request d n node ks) \<Longrightarrow> Q r (js @ ks)"
  shows "wp (resolve_node (traced env) d n) Q js"
proof (cases "d_kubeConfig d = ''''")
  case True
  with assms [of "[]" "Inr n"] show ?thesis by (simp add: resolve_node_def node_of_request_def)
next
  case False
  then have "Q r (js @ ks)" if "filter mutating ks = []" "filter is_get_volume ks = []"
      "filter is_wait ks = []" "\<forall>node. r = Inr node \<longrightarrow> node_of_request d n node ks" for r ks
    using that assms by blast
  note q = this [of "[_]", simplified] this [of "[_, _]", simplified] this [of "[_, _, _]", simplified]
  from False show ?thesis
    by (auto simp: resolve_node_def getNodeMachineIdentity_def node_of_request_def intro!: wp_intros q
        split: option.splits list.splits)
qed

section \<open>What publishing does\<close>

text \<open>The machine the handler works with is one the API listed for the node.\<close>

definition listed_machine :: "driver \<Rightarrow> string \<Rightarrow> string \<Rightarrow> call list \<Rightarrow> bool" where
  "listed_machine d nodeId machine calls \<longleftrightarrow>
     (\<exists>node machines. List_Machines (machine_filters d) machines None \<in> set calls \<and>
        find_machine node machines = Some machine \<and> (d_kubeConfig d = '''' \<longrightarrow> node = nodeId))"

definition publish_effect ::
    "driver \<Rightarrow> publish_request \<Rightarrow> labels handler_result \<Rightarrow> call list \<Rightarrow> bool" where
  "publish_effect d req res calls \<longleftrightarrow>
     (case publish_invalid req of
        Some e \<Rightarrow> res = Err e \<and> calls = []
      | None \<Rightarrow>
          count_of is_wait calls \<le> poll_intervals \<and>
          count_of is_get_volume calls \<le> poll_intervals + 2 \<and>
          (\<exists>v r. hd calls = Get_Volume (pub_VolumeId req) v r \<and>
             (filter mutating calls = [] \<and>
              (\<forall>ctx. res = Ok ctx \<longrightarrow> (\<exists>x machine. v = Some x \<and> r = None \<and>
                 machine \<in> AttachedToIdentity ` set (vol_Attachments x) \<and>
                 listed_machine d (pub_NodeId req) machine calls \<and> ctx = publish_context d x)) \<or>
              (\<exists>x machine q. v = Some x \<and> r = None \<and>
                 scan_attachments machine '''' (vol_Attachments x) = (False, '''') \<and>
                 listed_machine d (pub_NodeId req) machine calls \<and>
                 filter mutating calls = [Attach_Volume (pub_VolumeId req) (attach_to machine) q] \<and>
                 (\<forall>ctx. res = Ok ctx \<longrightarrow> q = None \<and> ctx = publish_context d x \<and>
                    status_seen (pub_VolumeId req) ''attached'' calls)))))"

lemma attach_to_inject [simp]: "attach_to m = attach_to m' \<longleftrightarrow> m = m'"
  by (simp add: attach_to_def)



text \<open>The part after the machine is found; \<open>js\<close> are the calls before it.\<close>

lemma wp_publish_to_machine:
  assumes "publish_invalid req = None"
    and "js \<noteq> []" "hd js = Get_Volume (pub_VolumeId req) (Some x) None"
    and "filter mutating js = []" "count_of is_get_volume js = 1" "count_of is_wait js = 0"
    and "listed_machine d (pub_NodeId req) machine js"
  shows "wp (publish_to_machine (traced env) d (pub_VolumeId req) x machine) (publish_effect d req) js"
proof -
  have listed: "listed_machine d (pub_NodeId req) machine (js @ ks)" for ks
    using assms(7) by (auto simp: listed_machine_def)
  note listed' = listed [of "[]", simplified] listed [unfolded assms(2), simplified]
  obtain b l where scan: "scan_attachments machine '''' (vol_Attachments x) = (b, l)"
    by (metis surj_pair)
  show ?thesis
  proof (cases b)
    case True
    with scan have "machine \<in> AttachedToIdentity ` set (vol_Attachments x)"
      using scan_attachments_True by metis
    with scan True assms(1-6) listed' show ?thesis
      by (auto simp: publish_to_machine_def publish_effect_def)
  next
    case False
    with scan False assms(1-6) listed' show ?thesis
      by (auto simp: publish_to_machine_def publish_effect_def poll_intervals_def poll_post_def
          intro!: wp_intros wp_pollVolumeStatus split: option.splits outcome.splits)
  qed
qed

lemma wp_ControllerPublishVolume:
  "wp (ControllerPublishVolume (traced env) d req) (publish_effect d req) []"
proof (cases "publish_invalid req")
  case (Some e)
  then show ?thesis by (simp add: ControllerPublishVolume_def publish_effect_def)
next
  case None
  have listed: "listed_machine d (pub_NodeId req) machine
      (Get_Volume (pub_VolumeId req) (Some x) None # ks @ [List_Machines (machine_filters d) machines None])"
    if "find_machine n machines = Some machine"
      "d_kubeConfig d = '''' \<longrightarrow> ks = [] \<and> Inr n = (Inr (pub_NodeId req) :: go_error + string)"
    for machine machines x ks n
    using that by (auto simp: listed_machine_def)
  have listed0: "listed_machine d (pub_NodeId req) machine
      [Get_Volume (pub_VolumeId req) (Some x) None, List_Machines (machine_filters d) machines None]"
    if "find_machine (pub_NodeId req) machines = Some machine" for machine machines x
    using that by (auto simp: listed_machine_def)
  show ?thesis
    unfolding ControllerPublishVolume_def
    using None
    by (auto simp: publish_effect_def count_of_def
        intro!: wp_intros wp_resolve_node wp_publish_to_machine listed listed0
        split: option.splits sum.splits)
qed

section \<open>Properties of ControllerPublishVolume\<close>

lemma publish_attach_call:
  assumes "mutations (ControllerPublishVolume (traced env) d req) w \<noteq> []"
  obtains x machine q calls where
    "calls_of (ControllerPublishVolume (traced env) d req) w =
       Get_Volume (pub_VolumeId req) (Some x) None # calls"
    "mutations (ControllerPublishVolume (traced env) d req) w =
       [Attach_Volume (pub_VolumeId req) (attach_to machine) q]"
    "scan_attachments machine [] (vol_Attachments x) = (False, [])"
    "listed_machine d (pub_NodeId req) machine calls"
proof -
  let ?m = "ControllerPublishVolume (traced env) d req"
  note eff = wp_run [OF wp_ControllerPublishVolume [of env d req], of w]
  from eff assms have valid: "publish_invalid req = None"
    by (auto simp: publish_effect_def mutations_def split: option.splits)
  with eff assms obtain x machine q where
    hd: "hd (calls_of ?m w) = Get_Volume (pub_VolumeId req) (Some x) None" and
    scan: "scan_attachments machine [] (vol_Attachments x) = (False, [])" and
    listed: "listed_machine d (pub_NodeId req) machine (calls_of ?m w)" and
    mut: "mutations ?m w = [Attach_Volume (pub_VolumeId req) (attach_to machine) q]"
    by (auto simp: publish_effect_def mutations_def)
  from assms have "calls_of ?m w \<noteq> []" by (auto simp: mutations_def)
  with hd obtain calls where
    calls: "calls_of ?m w = Get_Volume (pub_VolumeId req) (Some x) None # calls"
    by (cases "calls_of ?m w") auto
  from listed have "listed_machine d (pub_NodeId req) machine calls"
    by (auto simp: listed_machine_def calls)
  with calls mut scan show ?thesis by (rule that)
qed

text \<open>C3: \<open>ControllerPublishVolume\<close> changes the cloud by at most one call: it attaches the volume
  to a machine that the API listed for the node (whose name, identity or slug is the node's,
  without a kube config), and only when the volume it had just read is not attached to that
  machine and it has no attachments or its last attachment names no machine.\<close>

theorem publish_attaches_free_volume:
  assumes "mutations (ControllerPublishVolume (traced env) d req) w \<noteq> []"
  shows "\<exists>x machine q calls. calls_of (ControllerPublishVolume (traced env) d req) w =
       Get_Volume (pub_VolumeId req) (Some x) None # calls \<and>
     mutations (ControllerPublishVolume (traced env) d req) w =
       [Attach_Volume (pub_VolumeId req) (attach_to machine) q] \<and>
     listed_machine d (pub_NodeId req) machine calls \<and>
     machine \<notin> AttachedToIdentity ` set (vol_Attachments x) \<and>
     (vol_Attachments x = [] \<or> AttachedToIdentity (last (vol_Attachments x)) = '''')"
proof -
  from assms obtain x machine q calls where
    "calls_of (ControllerPublishVolume (traced env) d req) w =
       Get_Volume (pub_VolumeId req) (Some x) None # calls"
    "mutations (ControllerPublishVolume (traced env) d req) w =
       [Attach_Volume (pub_VolumeId req) (attach_to machine) q]"
    "listed_machine d (pub_NodeId req) machine calls"
    and scan: "scan_attachments machine [] (vol_Attachments x) = (False, [])"
    by (rule publish_attach_call)
  then show ?thesis
    using scan_attachments_False [OF scan] by auto
qed

text \<open>C7: When \<open>ControllerPublishVolume\<close> succeeds, the volume is attached: the volume it read
  first already was, to a machine listed for the node, and nothing was changed; or the API
  accepted the attachment to such a machine and the last call of the run read the volume's
  status as attached. The publish context is the volume's name under the driver's key.\<close>

theorem publish_success:
  assumes "answer_of (ControllerPublishVolume (traced env) d req) w = Ok ctx"
  shows "\<exists>x machine. hd (calls_of (ControllerPublishVolume (traced env) d req) w) =
        Get_Volume (pub_VolumeId req) (Some x) None \<and>
      listed_machine d (pub_NodeId req) machine (calls_of (ControllerPublishVolume (traced env) d req) w) \<and>
      ctx = [d_publishInfoVolumeName d \<mapsto> vol_Name x] \<and>
      (mutations (ControllerPublishVolume (traced env) d req) w = [] \<and>
         machine \<in> AttachedToIdentity ` set (vol_Attachments x) \<or>
       mutations (ControllerPublishVolume (traced env) d req) w =
         [Attach_Volume (pub_VolumeId req) (attach_to machine) None] \<and>
         status_seen (pub_VolumeId req) ''attached''
           (calls_of (ControllerPublishVolume (traced env) d req) w))"
  using wp_run [OF wp_ControllerPublishVolume [of env d req], of w] assms
  by (fastforce simp: publish_effect_def mutations_def publish_context_def split: option.splits)

text \<open>The wait of \<open>ControllerPublishVolume\<close> is bounded: at most 30 intervals and at most 32
  reads of the volume in a call, whatever the API answers.\<close>

theorem publish_bounded:
  "count_of is_wait (calls_of (ControllerPublishVolume (traced env) d req) w) \<le> 30 \<and>
   count_of is_get_volume (calls_of (ControllerPublishVolume (traced env) d req) w) \<le> 32"
  using wp_run [OF wp_ControllerPublishVolume [of env d req], of w]
  by (auto simp: publish_effect_def poll_intervals_def split: option.splits)

section \<open>What unpublishing does\<close>

text \<open>The reasons to count a volume as detached without a detach call.\<close>

definition no_machine_for :: "driver \<Rightarrow> string \<Rightarrow> call list \<Rightarrow> bool" where
  "no_machine_for d n calls \<longleftrightarrow>
     (\<exists>node m e machines. node_of_request d n node calls \<and>
        Get_Machine node m (Some e) \<in> set calls \<and> is_not_found e \<and>
        List_Machines (machine_filters d) machines None \<in> set calls \<and> find_machine node machines = None)"

definition unpublish_skips :: "driver \<Rightarrow> string \<Rightarrow> string \<Rightarrow> call list \<Rightarrow> bool" where
  "unpublish_skips d i n calls \<longleftrightarrow>
     (\<exists>v e. hd calls = Get_Volume i v (Some e) \<and> is_not_found e) \<or>
     (\<exists>v. hd calls = Get_Volume i v None \<and> volume_is_detached v) \<or> no_machine_for d n calls"

text \<open>The machine to detach from: the node itself when a machine has it for its identity, else the
  machine that the API lists for it.\<close>

definition machine_for :: "driver \<Rightarrow> string \<Rightarrow> string \<Rightarrow> call list \<Rightarrow> bool" where
  "machine_for d n machine calls \<longleftrightarrow>
     (\<exists>node m r. node_of_request d n node calls \<and> Get_Machine node m r \<in> set calls \<and>
        (case r of
           None \<Rightarrow> machine = node
         | Some e \<Rightarrow> is_not_found e \<and>
             (\<exists>machines. List_Machines (machine_filters d) machines None \<in> set calls \<and>
                find_machine node machines = Some machine)))"

lemma node_of_request_append [simp]:
  "node_of_request d n node ks \<Longrightarrow> node_of_request d n node (js @ ks)"
  "node_of_request d n node js \<Longrightarrow> node_of_request d n node (js @ ks)"
  by (auto simp: node_of_request_def)

lemma node_of_request_Cons [simp]:
  "node_of_request d n node ks \<Longrightarrow> node_of_request d n node (k # ks)"
  by (auto simp: node_of_request_def)

lemma node_of_request_refl [simp]: "node_of_request d n n ks"
  by (simp add: node_of_request_def)

lemma machine_for_append [simp]: "machine_for d n machine js \<Longrightarrow> machine_for d n machine (js @ ks)"
proof -
  assume "machine_for d n machine js"
  then obtain node m r where "node_of_request d n node js" "Get_Machine node m r \<in> set js"
      "case r of None \<Rightarrow> machine = node
       | Some e \<Rightarrow> is_not_found e \<and> (\<exists>machines. List_Machines (machine_filters d) machines None \<in> set js \<and>
           find_machine node machines = Some machine)"
    unfolding machine_for_def by blast
  then show ?thesis
    unfolding machine_for_def
    by (intro exI [of _ node] exI [of _ m] exI [of _ r]) (auto split: option.splits)
qed

definition unpublish_effect ::
    "driver \<Rightarrow> string \<Rightarrow> string \<Rightarrow> unit handler_result \<Rightarrow> call list \<Rightarrow> bool" where
  "unpublish_effect d i n res calls \<longleftrightarrow>
     count_of is_wait calls \<le> poll_intervals \<and>
     (filter mutating calls = [] \<and> (res = Ok () \<longrightarrow> unpublish_skips d i n calls) \<or>
      (\<exists>machine q. filter mutating calls = [Detach_Volume i (attach_to machine) q] \<and>
         machine_for d n machine calls \<and>
         (res = Ok () \<longrightarrow>
            (case q of
               Some e \<Rightarrow> is_not_found e
             | None \<Rightarrow> status_seen i ''available'' calls \<or> not_found_seen i calls))))"

lemma wp_detach_from:
  assumes "filter mutating js = []" and "count_of is_wait js = 0" and "machine_for d n machine js"
  shows "wp (detach_from (traced env) i machine) (unpublish_effect d i n) js"
  unfolding detach_from_def
  using assms
  by (auto simp: unpublish_effect_def poll_post_def is_not_found_def
      intro!: wp_intros wp_pollVolumeStatus split: option.splits outcome.splits)

lemma wp_ControllerUnpublishVolume:
  assumes "i \<noteq> ''''"
  shows "wp (ControllerUnpublishVolume (traced env) d i n) (unpublish_effect d i n) []"
proof -
  have no_machine: "no_machine_for d n (Get_Volume i v e # ks @
      [Get_Machine node m (Some e'), List_Machines (machine_filters d) machines None])"
    if "find_machine node machines = None" "is_not_found e'" "node_of_request d n node ks" for v e ks node m e' machines
    unfolding no_machine_for_def using that
    by (intro exI [of _ node] exI [of _ m] exI [of _ e'] exI [of _ machines]) simp
  note no_machine' = no_machine [where ks = "[]", simplified]
  have found: "machine_for d n node (Get_Volume i v e # ks @ [Get_Machine node m None])"
    if "node_of_request d n node ks" for v e ks node m
    unfolding machine_for_def using that by (intro exI [of _ node] exI [of _ m] exI [of _ None]) simp
  note found' = found [where ks = "[]", simplified]
  have listed: "machine_for d n machine (Get_Volume i v e # ks @
      [Get_Machine node m (Some e'), List_Machines (machine_filters d) machines None])"
    if "find_machine node machines = Some machine" "is_not_found e'" "node_of_request d n node ks"
    for v e ks node m e' machines machine
    unfolding machine_for_def using that
    by (intro exI [of _ node] exI [of _ m] exI [of _ "Some e'"]) auto
  note listed' = listed [where ks = "[]", simplified]
  show ?thesis
    unfolding ControllerUnpublishVolume_def Let_def
    using assms
    by (auto simp: unpublish_effect_def unpublish_skips_def count_of_def
        intro!: wp_intros wp_resolve_node wp_detach_from no_machine no_machine' found found' listed listed'
        split: option.splits sum.splits)
qed

section \<open>Properties of ControllerUnpublishVolume\<close>

text \<open>C8: \<open>ControllerUnpublishVolume\<close> changes the cloud by at most one call, a detach of the
  requested volume from the machine of the requested node: the node itself when the API has a
  machine of that identity, else the listed machine whose name, identity or slug is the node's
  (with a kube config the node may stand for the last part of its provider id). It succeeds without that call only when the volume is gone, has no
  attachments and is available, or the node's machine is neither found by identity nor listed;
  with the call it succeeds only when the API answers that there is no such attachment, or
  after a wait of at most 30 intervals whose last read of the volume shows it available or
  answers that it is gone.\<close>

theorem unpublish_outcome:
  assumes "i \<noteq> ''''"
  shows "count_of is_wait (calls_of (ControllerUnpublishVolume (traced env) d i n) w) \<le> 30 \<and>
    (mutations (ControllerUnpublishVolume (traced env) d i n) w = [] \<and>
       (answer_of (ControllerUnpublishVolume (traced env) d i n) w = Ok () \<longrightarrow>
          unpublish_skips d i n (calls_of (ControllerUnpublishVolume (traced env) d i n) w)) \<or>
     (\<exists>machine q. mutations (ControllerUnpublishVolume (traced env) d i n) w =
          [Detach_Volume i (attach_to machine) q] \<and>
        machine_for d n machine (calls_of (ControllerUnpublishVolume (traced env) d i n) w) \<and>
        (answer_of (ControllerUnpublishVolume (traced env) d i n) w = Ok () \<longrightarrow>
          (case q of
             Some e \<Rightarrow> is_not_found e
           | None \<Rightarrow>
               status_seen i ''available'' (calls_of (ControllerUnpublishVolume (traced env) d i n) w) \<or>
               not_found_seen i (calls_of (ControllerUnpublishVolume (traced env) d i n) w)))))"
  using wp_run [OF wp_ControllerUnpublishVolume [OF assms, of env d n], of w]
  by (simp add: unpublish_effect_def mutations_def poll_intervals_def)

section \<open>The contract of the cloud\<close>

text \<open>
  What the two handlers rely on when no call fails: lookups return the volume and the machines
  of the cloud, attaching a free volume to a machine of the cloud makes it attached, detaching
  it makes it available again. The lemmas of the locale run both handlers to the end.
\<close>

locale attachment_api =
  fixes env :: "'w env"
    and volume_at :: "'w \<Rightarrow> string \<Rightarrow> volume option"
    and machines_at :: "'w \<Rightarrow> machine list"
  assumes get_volume:
      "volume_at w i = Some v \<Longrightarrow> run_state (iaas_GetVolume env i) w = ((Some v, None), w)"
    and list_machines: "run_state (iaas_ListMachines env fs) w = ((machines_at w, None), w)"
    and get_machine: "m \<in> mach_Identity ` set (machines_at w) \<Longrightarrow>
      \<exists>x. run_state (iaas_GetMachine env m) w = ((Some x, None), w)"
    and no_machine: "m \<notin> mach_Identity ` set (machines_at w) \<Longrightarrow>
      \<exists>e. run_state (iaas_GetMachine env m) w = ((None, Some e), w) \<and> is_not_found e"
    and attach: "volume_at w i = Some v \<Longrightarrow> vol_Attachments v = [] \<Longrightarrow>
      m \<in> mach_Identity ` set (machines_at w) \<Longrightarrow>
      \<exists>w'. run_state (iaas_AttachVolume env i (attach_to m)) w = (None, w') \<and>
        volume_at w' i = Some (v\<lparr> vol_Attachments := [\<lparr> AttachedToIdentity = m \<rparr>], vol_Status := ''attached'' \<rparr>) \<and>
        machines_at w' = machines_at w"
    and detach: "volume_at w i = Some v \<Longrightarrow> \<lparr> AttachedToIdentity = m \<rparr> \<in> set (vol_Attachments v) \<Longrightarrow>
      \<exists>w'. run_state (iaas_DetachVolume env i (attach_to m)) w = (None, w') \<and>
        volume_at w' i = Some (v\<lparr> vol_Attachments := [], vol_Status := ''available'' \<rparr>) \<and>
        machines_at w' = machines_at w"
begin

lemma poll_now:
  assumes "volume_at w i = Some v" and "equal_fold (vol_Status v) status"
  shows "run_state (pollVolumeStatus env i status n) w = (Ok (), w)"
  using assms by (subst pollVolumeStatus.simps) (simp add: get_volume)

lemma found_machine: "find_machine n (machines_at w) = Some m \<Longrightarrow> m \<in> mach_Identity ` set (machines_at w)"
  using find_machine_Some by fastforce

lemma publish_run:
  assumes "publish_invalid req = None" and "d_kubeConfig d = ''''"
    and "volume_at w (pub_VolumeId req) = Some v"
    and "find_machine (pub_NodeId req) (machines_at w) = Some m"
  shows "run_state (ControllerPublishVolume env d req) w =
    run_state (publish_to_machine env d (pub_VolumeId req) v m) w"
  using assms by (simp add: ControllerPublishVolume_def get_volume list_machines resolve_node_def)

lemma publish_free:
  assumes "publish_invalid req = None" and "d_kubeConfig d = ''''"
    and v: "volume_at w (pub_VolumeId req) = Some v" "vol_Attachments v = []"
    and m: "find_machine (pub_NodeId req) (machines_at w) = Some m"
  shows "\<exists>w'. run_state (ControllerPublishVolume env d req) w = (Ok (publish_context d v), w') \<and>
    volume_at w' (pub_VolumeId req) =
      Some (v\<lparr> vol_Attachments := [\<lparr> AttachedToIdentity = m \<rparr>], vol_Status := ''attached'' \<rparr>) \<and>
    machines_at w' = machines_at w"
proof -
  from attach [OF v found_machine [OF m]] obtain w' where
    w': "run_state (iaas_AttachVolume env (pub_VolumeId req) (attach_to m)) w = (None, w')"
      "volume_at w' (pub_VolumeId req) =
        Some (v\<lparr> vol_Attachments := [\<lparr> AttachedToIdentity = m \<rparr>], vol_Status := ''attached'' \<rparr>)"
      "machines_at w' = machines_at w"
    by blast
  with publish_run [OF assms(1,2) v(1) m] poll_now [OF w'(2), of "''attached''"] v(2) show ?thesis
    by (simp add: publish_to_machine_def)
qed

lemma publish_again:
  assumes "publish_invalid req = None" and "d_kubeConfig d = ''''"
    and v: "volume_at w (pub_VolumeId req) = Some v"
      "vol_Attachments v = [\<lparr> AttachedToIdentity = m \<rparr>]"
    and m: "find_machine (pub_NodeId req) (machines_at w) = Some m"
  shows "run_state (ControllerPublishVolume env d req) w = (Ok (publish_context d v), w)"
  using publish_run [OF assms(1,2) v(1) m] v(2) by (simp add: publish_to_machine_def)

lemma publish_elsewhere:
  assumes "publish_invalid req = None" and "d_kubeConfig d = ''''"
    and v: "volume_at w (pub_VolumeId req) = Some v"
      "vol_Attachments v = [\<lparr> AttachedToIdentity = m' \<rparr>]"
    and m: "find_machine (pub_NodeId req) (machines_at w) = Some m" "m' \<noteq> m" "m' \<noteq> ''''"
  shows "\<exists>msg. run_state (ControllerPublishVolume env d req) w = (Err (status_error FailedPrecondition msg), w)"
  using publish_run [OF assms(1,2) v(1) m(1)] v(2) m(2,3) by (simp add: publish_to_machine_def)

lemma unpublish_run:
  assumes "i \<noteq> ''''" and "d_kubeConfig d = ''''"
    and v: "volume_at w i = Some v" "vol_Attachments v = [\<lparr> AttachedToIdentity = m \<rparr>]"
    and m: "find_machine n (machines_at w) = Some m"
      "n \<in> mach_Identity ` set (machines_at w) \<Longrightarrow> n = m"
  shows "run_state (ControllerUnpublishVolume env d i n) w = run_state (detach_from env i m) w"
proof (cases "n \<in> mach_Identity ` set (machines_at w)")
  case True
  then obtain x where "run_state (iaas_GetMachine env n) w = ((Some x, None), w)"
    using get_machine by blast
  with True assms show ?thesis
    by (simp add: ControllerUnpublishVolume_def get_volume resolve_node_def volume_is_detached_def)
next
  case False
  then obtain e where "run_state (iaas_GetMachine env n) w = ((None, Some e), w)" "is_not_found e"
    using no_machine by blast
  with assms show ?thesis
    by (simp add: ControllerUnpublishVolume_def get_volume list_machines resolve_node_def
        volume_is_detached_def)
qed

lemma unpublish_attached:
  assumes "i \<noteq> ''''" and "d_kubeConfig d = ''''"
    and v: "volume_at w i = Some v" "vol_Attachments v = [\<lparr> AttachedToIdentity = m \<rparr>]"
    and m: "find_machine n (machines_at w) = Some m"
      "n \<in> mach_Identity ` set (machines_at w) \<Longrightarrow> n = m"
  shows "\<exists>w'. run_state (ControllerUnpublishVolume env d i n) w = (Ok (), w') \<and>
    volume_at w' i = Some (v\<lparr> vol_Attachments := [], vol_Status := ''available'' \<rparr>)"
proof -
  from detach [OF v(1), of m] v(2) obtain w' where
    w': "run_state (iaas_DetachVolume env i (attach_to m)) w = (None, w')"
      "volume_at w' i = Some (v\<lparr> vol_Attachments := [], vol_Status := ''available'' \<rparr>)"
    by auto
  have "run_state (detach_from env i m) w = (Ok (), w')"
    using w' poll_now [OF w'(2), of "''available''"] by (simp add: detach_from_def)
  with unpublish_run [OF assms] w'(2) show ?thesis by simp
qed

end

text \<open>The reference cloud keeps the contract.\<close>

lemma sim_find_replace:
  assumes "sim_find_volume c i = Some v" and "vol_Identity (f v) = vol_Identity v"
    and "vol_Name (f v) = vol_Name v"
    and "\<And>x. vol_Identity (f x) = vol_Identity x" and "\<And>x. vol_Name (f x) = vol_Name x"
  shows "sim_find_volume (sim_replace (vol_Identity v) f c) i = Some (f v)"
proof -
  let ?P = "\<lambda>v. vol_Identity v = i \<or> (c_by_name c \<and> vol_Name v = i)"
  let ?g = "\<lambda>x. if vol_Identity x = vol_Identity v then f x else x"
  have "find ?P (map ?g xs) = map_option ?g (find ?P xs)" for xs
    by (induction xs) (auto simp: assms(4,5))
  with assms(1) show ?thesis by (simp add: sim_find_volume_def sim_replace_def)
qed

interpretation sim_attach: attachment_api sim_env sim_find_volume c_machines
proof
  fix w i v m
  assume "sim_find_volume w i = Some v"
  note found = sim_find_replace [OF this]
  show "\<exists>w'. run_state (iaas_AttachVolume sim_env i (attach_to m)) w = (None, w') \<and>
        sim_find_volume w' i = Some (v\<lparr> vol_Attachments := [\<lparr> AttachedToIdentity = m \<rparr>], vol_Status := ''attached'' \<rparr>) \<and>
        c_machines w' = c_machines w"
    if "vol_Attachments v = []" "m \<in> mach_Identity ` set (c_machines w)"
    using that \<open>sim_find_volume w i = Some v\<close> found
    by (simp add: sim_attach_volume_def attach_to_def) (simp add: sim_replace_def)
  show "\<exists>w'. run_state (iaas_DetachVolume sim_env i (attach_to m)) w = (None, w') \<and>
        sim_find_volume w' i = Some (v\<lparr> vol_Attachments := [], vol_Status := ''available'' \<rparr>) \<and>
        c_machines w' = c_machines w"
    if "\<lparr> AttachedToIdentity = m \<rparr> \<in> set (vol_Attachments v)"
    using that \<open>sim_find_volume w i = Some v\<close> found
    by (simp add: sim_detach_volume_def attach_to_def) (simp add: sim_replace_def)
next
  fix m w
  show "\<exists>x. run_state (iaas_GetMachine sim_env m) w = ((Some x, None), w)"
    if "m \<in> mach_Identity ` set (c_machines w)"
    using that by (cases "find (\<lambda>x. mach_Identity x = m) (c_machines w)")
      (auto simp: sim_lookup_def find_None_iff)
  show "\<exists>e. run_state (iaas_GetMachine sim_env m) w = ((None, Some e), w) \<and> is_not_found e"
    if "m \<notin> mach_Identity ` set (c_machines w)"
    using that by (cases "find (\<lambda>x. mach_Identity x = m) (c_machines w)")
      (auto simp: sim_lookup_def dest: find_Some_in)
qed (simp_all add: sim_lookup_def)

text \<open>On the reference cloud, publishing a free volume to a node's machine attaches it there;
  publishing it again to the same node changes nothing and gives the same answer; publishing
  it to a node with another machine is refused with \<open>FailedPrecondition\<close> and changes nothing;
  and unpublishing it frees it again. The node's name must not be the identity of a machine
  other than the one it resolves to.\<close>

theorem attach_lifecycle:
  assumes "publish_invalid req = None" and "d_kubeConfig d = ''''"
    and "sim_find_volume c (pub_VolumeId req) = Some v" and "vol_Attachments v = []"
    and "find_machine (pub_NodeId req) (c_machines c) = Some m" and "m \<noteq> ''''"
    and "pub_NodeId req \<in> mach_Identity ` set (c_machines c) \<Longrightarrow> pub_NodeId req = m"
  shows "\<exists>c1. run_state (ControllerPublishVolume sim_env d req) c = (Ok (publish_context d v), c1) \<and>
     sim_find_volume c1 (pub_VolumeId req) =
       Some (v\<lparr> vol_Attachments := [\<lparr> AttachedToIdentity = m \<rparr>], vol_Status := ''attached'' \<rparr>) \<and>
     run_state (ControllerPublishVolume sim_env d req) c1 = (Ok (publish_context d v), c1) \<and>
     (\<forall>node m'. node \<noteq> '''' \<and> find_machine node (c_machines c) = Some m' \<and> m' \<noteq> m \<longrightarrow>
        (\<exists>msg. run_state (ControllerPublishVolume sim_env d (req\<lparr> pub_NodeId := node \<rparr>)) c1 =
          (Err (status_error FailedPrecondition msg), c1))) \<and>
     (\<exists>c2. run_state (ControllerUnpublishVolume sim_env d (pub_VolumeId req) (pub_NodeId req)) c1 = (Ok (), c2) \<and>
        sim_find_volume c2 (pub_VolumeId req) =
          Some (v\<lparr> vol_Attachments := [], vol_Status := ''available'' \<rparr>))"
proof -
  let ?v = "v\<lparr> vol_Attachments := [\<lparr> AttachedToIdentity = m \<rparr>], vol_Status := ''attached'' \<rparr>"
  from sim_attach.publish_free [OF assms(1-5)] obtain c1 where
    1: "run_state (ControllerPublishVolume sim_env d req) c = (Ok (publish_context d v), c1)"
      "sim_find_volume c1 (pub_VolumeId req) = Some ?v" "c_machines c1 = c_machines c"
    by blast
  have att: "vol_Attachments ?v = [\<lparr> AttachedToIdentity = m \<rparr>]" by simp
  have m1: "find_machine (pub_NodeId req) (c_machines c1) = Some m" using 1 assms(5) by simp
  have again: "run_state (ControllerPublishVolume sim_env d req) c1 = (Ok (publish_context d v), c1)"
    using sim_attach.publish_again [OF assms(1,2) 1(2) att m1] by (simp add: publish_context_def)
  have other: "\<exists>msg. run_state (ControllerPublishVolume sim_env d (req\<lparr> pub_NodeId := node \<rparr>)) c1 =
          (Err (status_error FailedPrecondition msg), c1)"
    if "node \<noteq> ''''" "find_machine node (c_machines c) = Some m'" "m' \<noteq> m" for node m'
  proof (rule sim_attach.publish_elsewhere [OF _ assms(2) _ att, of _ _ m'])
    show "publish_invalid (req\<lparr> pub_NodeId := node \<rparr>) = None"
      using assms(1) that(1) by (simp add: publish_invalid_def split: if_splits)
  qed (use 1 assms(6) that in simp_all)
  have id: "pub_VolumeId req \<noteq> ''''" using assms(1) by (auto simp: publish_invalid_def split: if_splits)
  have "\<exists>c2. run_state (ControllerUnpublishVolume sim_env d (pub_VolumeId req) (pub_NodeId req)) c1 = (Ok (), c2) \<and>
        sim_find_volume c2 (pub_VolumeId req) =
          Some (?v\<lparr> vol_Attachments := [], vol_Status := ''available'' \<rparr>)"
    by (rule sim_attach.unpublish_attached [OF id assms(2) 1(2) att m1]) (use 1 assms(7) in auto)
  with 1 again other show ?thesis by auto
qed

definition sample_publish :: publish_request where
  "sample_publish =
     \<lparr> pub_VolumeId = ''vol-0'', pub_NodeId = ''node-1'',
       pub_VolumeCapability = Some \<lparr> vc_AccessMode = Some SINGLE_NODE_WRITER, vc_AccessType = Some VolumeCapability_Block \<rparr>,
       pub_Readonly = False \<rparr>"

definition attach_cloud :: cloud where
  "attach_cloud = sample_cloud\<lparr> c_volumes := [sample_volume] \<rparr>"

lemma sample_publish_facts:
  "publish_invalid sample_publish = None"
  "sim_find_volume attach_cloud (pub_VolumeId sample_publish) = Some sample_volume"
  "find_machine (pub_NodeId sample_publish) (c_machines attach_cloud) = Some ''m-1''"
  "pub_NodeId sample_publish \<notin> mach_Identity ` set (c_machines attach_cloud)"
  "vol_Attachments sample_volume = []" "d_kubeConfig sample_driver = ''''"
  by (simp_all add: publish_invalid_def sample_publish_def sim_find_volume_def attach_cloud_def
      sample_volume_def sample_driver_def)

theorem attach_lifecycle_witness:
  "\<exists>c1. run_state (ControllerPublishVolume sim_env sample_driver sample_publish) attach_cloud =
     (Ok (publish_context sample_driver sample_volume), c1)"
  using attach_lifecycle [of sample_publish sample_driver attach_cloud sample_volume "''m-1''"]
    sample_publish_facts by auto

text \<open>A run on the reference cloud, with its journal.\<close>

lemma sample_publish_trace:
  "\<exists>calls w. run_state (ControllerPublishVolume (traced sim_env) sample_driver sample_publish) (attach_cloud, []) =
     (Ok (publish_context sample_driver sample_volume), (w, calls)) \<and>
     filter mutating calls = [Attach_Volume ''vol-0'' (attach_to ''m-1'') None]"
proof -
  have "sim_find_volume attach_cloud ''vol-0'' = Some sample_volume"
    using sample_publish_facts(2) by (simp add: sample_publish_def)
  moreover have "equal_fold ''attached'' ''attached''" by simp
  ultimately show ?thesis
    using sample_publish_facts
    by (simp add: ControllerPublishVolume_def resolve_node_def publish_to_machine_def sim_lookup_def
        sample_publish_def sim_attach_volume_def attach_to_def attach_cloud_def sim_replace_def
        sim_find_volume_def sample_volume_def poll_intervals_def pollVolumeStatus.simps publish_context_def)
qed

theorem publish_attaches_free_volume_witness:
  "\<exists>machine q. mutations (ControllerPublishVolume (traced sim_env) sample_driver sample_publish) attach_cloud =
     [Attach_Volume (pub_VolumeId sample_publish) (attach_to machine) q]"
proof -
  have "mutations (ControllerPublishVolume (traced sim_env) sample_driver sample_publish) attach_cloud \<noteq> []"
    using sample_publish_trace by (auto simp: mutations_def calls_of_def)
  from publish_attaches_free_volume [OF this] show ?thesis by blast
qed

theorem publish_success_witness:
  "status_seen ''vol-0'' ''attached''
     (calls_of (ControllerPublishVolume (traced sim_env) sample_driver sample_publish) attach_cloud)"
proof -
  have ok: "answer_of (ControllerPublishVolume (traced sim_env) sample_driver sample_publish) attach_cloud =
      Ok (publish_context sample_driver sample_volume)"
    and mut: "mutations (ControllerPublishVolume (traced sim_env) sample_driver sample_publish) attach_cloud \<noteq> []"
    using sample_publish_trace by (auto simp: mutations_def calls_of_def answer_of_def)
  from publish_success [OF ok] mut show ?thesis by (auto simp: sample_publish_def)
qed

theorem unpublish_outcome_witness:
  "unpublish_skips sample_driver ''vol-9'' ''node-1''
     (calls_of (ControllerUnpublishVolume (traced sim_env) sample_driver ''vol-9'' ''node-1'') attach_cloud)"
proof -
  have run: "run_state (ControllerUnpublishVolume (traced sim_env) sample_driver ''vol-9'' ''node-1'') (attach_cloud, []) =
      (Ok (), (attach_cloud, [Get_Volume ''vol-9'' None (Some not_found_error)]))"
    by (simp add: ControllerUnpublishVolume_def sim_lookup_def sim_find_volume_def attach_cloud_def
        sample_volume_def)
  then have "answer_of (ControllerUnpublishVolume (traced sim_env) sample_driver ''vol-9'' ''node-1'') attach_cloud = Ok ()"
    "mutations (ControllerUnpublishVolume (traced sim_env) sample_driver ''vol-9'' ''node-1'') attach_cloud = []"
    by (simp_all add: answer_of_def mutations_def calls_of_def)
  then show ?thesis
    using unpublish_outcome [of "''vol-9''" sim_env sample_driver "''node-1''" attach_cloud] by simp
qed

end
