(* ===== verification/ControllerSnapshots.thy ===== *)
theory ControllerSnapshots
  imports Pagination Driver CloudSim
begin

text \<open>
  \<open>driver/controller_snapshots.go\<close>: creating, deleting and listing snapshots. A Go result
  \<open>(*iaas.Snapshot, error)\<close> with exactly one of the two set is a sum; the pointer it holds can
  still be nil when the API returned nil without an error.
\<close>

section \<open>Requests and responses\<close>

record create_snapshot_request =
  csr_Name :: string
  csr_SourceVolumeId :: string

record csi_snapshot =
  csnap_SnapshotId :: string
  csnap_SourceVolumeId :: string
  csnap_SizeBytes :: int64
  csnap_CreationTime :: timestamp
  csnap_ReadyToUse :: bool

record list_snapshots_request =
  ls_SnapshotId :: string
  ls_SourceVolumeId :: string
  ls_MaxEntries :: int32
  ls_StartingToken :: string

section \<open>Helpers\<close>

definition resolveVolumeIdentity :: "'w env \<Rightarrow> driver \<Rightarrow> string \<Rightarrow> ('w, go_error + string) state" where
  "resolveVolumeIdentity env d volumeID =
     (let failed = (\<lambda>e. Inl (status_error Internal (Lit ''failed to list volumes: '' # error_text e)));
          pick = (\<lambda>volumes. if 1 < length volumes then
                    Inl (status_error Internal
                      [Lit ''multiple volumes found with name '', Quoted volumeID])
                  else Inr (vol_Identity (volumes ! 0)))
      in do {
        (volumes, err) \<leftarrow> iaas_ListVolumes env [(''region'', d_region d), (''identity'', volumeID)];
        (case err of
           Some e \<Rightarrow> ret (failed e)
         | None \<Rightarrow>
             if length volumes = 0 then do {
               (volumes, err) \<leftarrow> iaas_ListVolumes env [(''region'', d_region d), (''name'', volumeID)];
               ret (case err of
                      Some e \<Rightarrow> failed e
                    | None \<Rightarrow>
                        if length volumes = 0 then
                          Inl (status_error NotFound
                            [Lit ''volume with name '', Quoted volumeID, Lit '' not found''])
                        else pick volumes)
             } else ret (pick volumes))
      })"

definition snapshotSourceVolumeIdentity :: "snapshot \<Rightarrow> string" where
  "snapshotSourceVolumeIdentity s =
     (case snap_SourceVolume s of
        Some v \<Rightarrow> vol_Identity v
      | None \<Rightarrow> (case snap_SourceVolumeId s of Some i \<Rightarrow> i | None \<Rightarrow> ''''))"

definition snapshotSourceVolumeMatches :: "string \<Rightarrow> string \<Rightarrow> snapshot \<Rightarrow> bool" where
  "snapshotSourceVolumeMatches requestedSourceVolumeID resolvedSourceVolumeIdentity s =
     (let existing = snapshotSourceVolumeIdentity s
      in if existing = '''' then False
         else if resolvedSourceVolumeIdentity \<noteq> '''' then resolvedSourceVolumeIdentity = existing
         else if requestedSourceVolumeID = existing then True
         else (case snap_SourceVolume s of
                 Some v \<Rightarrow> requestedSourceVolumeID = vol_Name v
               | None \<Rightarrow> False))"

definition mapToCSISnapshot :: "snapshot \<Rightarrow> csi_snapshot" where
  "mapToCSISnapshot snap =
     \<lparr> csnap_SnapshotId = snap_Identity snap,
       csnap_SourceVolumeId = (case snap_SourceVolume snap of Some v \<Rightarrow> vol_Identity v | None \<Rightarrow> ''''),
       csnap_SizeBytes = (case snap_SizeGB snap of Some n \<Rightarrow> n * giB | None \<Rightarrow> 0),
       csnap_CreationTime = snap_CreatedAt snap,
       csnap_ReadyToUse = (snap_Status snap = ''Available'') \<rparr>"

section \<open>CreateSnapshot\<close>

definition snapshot_request :: "driver \<Rightarrow> create_snapshot_request \<Rightarrow> string \<Rightarrow> create_snapshot" where
  "snapshot_request d req volumeIdentity =
     (let labels0 = [''csi.volume.id'' \<mapsto> csr_SourceVolumeId req,
                     ''k8s.thalassa.cloud/csi-driver'' \<mapsto> ''true'',
                     ''k8s.thalassa.cloud/csi-driver-name'' \<mapsto> d_name d];
          annotations0 = [''csi.snapshot.id'' \<mapsto> csr_Name req,
                          ''k8s.thalassa.cloud/description'' \<mapsto> ''Provisioned by Thalassa CSI driver''];
          labels1 = add_missing (d_CustomLabels d) labels0;
          annotations1 = add_missing (d_CustomAnnotations d) annotations0;
          labels2 = (if d_clusterIdentity d \<noteq> ''''
                     then labels1(''k8s.thalassa.cloud/cluster-identity'' \<mapsto> d_clusterIdentity d)
                     else labels1)
      in \<lparr> cs_Name = csr_Name req, cs_VolumeIdentity = volumeIdentity, cs_Labels = labels2,
           cs_Annotations = annotations1 \<rparr>)"

text \<open>What the loop returns at the first snapshot with the requested name.\<close>

definition check_existing ::
    "create_snapshot_request \<Rightarrow> snapshot \<Rightarrow> go_error + string \<Rightarrow> go_error + snapshot option" where
  "check_existing req s resolved =
     (let different = Inl (status_error AlreadyExists
            [Lit ''snapshot '', Quoted (csr_Name req),
             Lit '' already exists with a different source volume''])
      in case resolved of
           Inl e \<Rightarrow>
             if from_error e = (NotFound, True) then
               (if snapshotSourceVolumeMatches (csr_SourceVolumeId req) '''' s then Inr (Some s)
                else different)
             else Inl e
         | Inr identity \<Rightarrow>
             if \<not> snapshotSourceVolumeMatches (csr_SourceVolumeId req) identity s then different
             else Inr (Some s))"

text \<open>Every path through the body of the loop returns at the first snapshot that has the name.\<close>

definition getOrCreateSnapshot ::
    "'w env \<Rightarrow> driver \<Rightarrow> create_snapshot_request \<Rightarrow> ('w, go_error + snapshot option) state" where
  "getOrCreateSnapshot env d req = do {
     (snapshots, err) \<leftarrow> iaas_ListSnapshots env [(''region'', d_region d), (''name'', csr_Name req)];
     (case err of
        Some e \<Rightarrow>
          ret (Inl (status_error Internal (Lit ''failed to list snapshots: '' # error_text e)))
      | None \<Rightarrow>
          (case find (\<lambda>s. snap_Name s = csr_Name req) snapshots of
             Some s \<Rightarrow> do {
               resolved \<leftarrow> resolveVolumeIdentity env d (csr_SourceVolumeId req);
               ret (check_existing req s resolved)
             }
           | None \<Rightarrow> do {
               resolved \<leftarrow> resolveVolumeIdentity env d (csr_SourceVolumeId req);
               (case resolved of
                  Inl e \<Rightarrow> ret (Inl e)
                | Inr volumeIdentity \<Rightarrow> do {
                    (s, err) \<leftarrow> iaas_CreateSnapshot env (snapshot_request d req volumeIdentity);
                    ret (case err of
                           Some e \<Rightarrow> Inl (status_error Internal (error_text e))
                         | None \<Rightarrow> Inr s)
                  })
             }))
   }"

definition CreateSnapshot ::
    "'w env \<Rightarrow> driver \<Rightarrow> create_snapshot_request \<Rightarrow> ('w, csi_snapshot handler_result) state" where
  "CreateSnapshot env d req =
     (if csr_Name req = '''' then
        ret (Err (status_error InvalidArgument [Lit ''CreateSnapshot Name must be provided'']))
      else if csr_SourceVolumeId req = '''' then
        ret (Err (status_error InvalidArgument
          [Lit ''CreateSnapshot Source Volume ID must be provided'']))
      else do {
        created \<leftarrow> getOrCreateSnapshot env d req;
        (case created of
           Inl e \<Rightarrow>
             if snd (from_error e) then ret (Err e)
             else ret (Err (status_error Internal (error_text e)))
         | Inr None \<Rightarrow> ret (Err (status_error NotFound [Lit ''snapshot not found or not created'']))
         | Inr (Some s) \<Rightarrow> do {
             err \<leftarrow> iaas_WaitUntilSnapshotIsAvailable env (snap_Identity s);
             (case err of
                Some e \<Rightarrow> ret (Err (status_error Internal (error_text e)))
              | None \<Rightarrow> do {
                  (s', err) \<leftarrow> iaas_GetSnapshot env (snap_Identity s);
                  ret (case err of
                         Some e \<Rightarrow>
                           if is_not_found e then
                             Err (status_error NotFound [Lit ''snapshot not found''])
                           else Err (status_error Internal (error_text e))
                       | None \<Rightarrow>
                           (case s' of None \<Rightarrow> Panic | Some x \<Rightarrow> Ok (mapToCSISnapshot x)))
                })
           })
      })"

section \<open>DeleteSnapshot\<close>

definition DeleteSnapshot :: "'w env \<Rightarrow> string \<Rightarrow> ('w, unit handler_result) state" where
  "DeleteSnapshot env snapshotId =
     (if snapshotId = '''' then
        ret (Err (status_error InvalidArgument [Lit ''DeleteSnapshot Snapshot ID must be provided'']))
      else do {
        err \<leftarrow> iaas_DeleteSnapshot env snapshotId;
        ret (case err of
               Some e \<Rightarrow>
                 if is_not_found e then Ok () else Err (status_error Internal (error_text e))
             | None \<Rightarrow> Ok ())
      })"

section \<open>ListSnapshots\<close>

definition zero_snapshot :: snapshot where
  "zero_snapshot =
     \<lparr> snap_Identity = '''', snap_Name = '''', snap_Status = '''', snap_SourceVolumeId = None,
       snap_SourceVolume = None, snap_SizeGB = None, snap_CreatedAt = (-62135596800, 0) \<rparr>"

definition snapshots_by_identity :: "snapshot list \<Rightarrow> string \<rightharpoonup> snapshot" where
  "snapshots_by_identity snapshots = foldl (\<lambda>m s. m(snap_Identity s \<mapsto> s)) Map.empty snapshots"

definition lookup_snapshot :: "(string \<rightharpoonup> snapshot) \<Rightarrow> string \<Rightarrow> snapshot" where
  "lookup_snapshot m i = (case m i of None \<Rightarrow> zero_snapshot | Some s \<Rightarrow> s)"

definition snapshot_filters :: "driver \<Rightarrow> list_snapshots_request \<Rightarrow> filter_kv list" where
  "snapshot_filters d req =
     (''region'', d_region d) #
     (if ls_SourceVolumeId req \<noteq> '''' then [(''SourceVolume'', ls_SourceVolumeId req)] else [])"

definition ListSnapshots ::
    "'w env \<Rightarrow> driver \<Rightarrow> list_snapshots_request \<Rightarrow>
     ('w, (csi_snapshot list \<times> string) handler_result) state" where
  "ListSnapshots env d req =
     (if ls_SnapshotId req \<noteq> '''' then do {
        (s, err) \<leftarrow> iaas_GetSnapshot env (ls_SnapshotId req);
        ret (case err of
               Some e \<Rightarrow> Err (status_error Internal (error_text e))
             | None \<Rightarrow>
                 (case s of None \<Rightarrow> Panic | Some x \<Rightarrow> Ok ([mapToCSISnapshot x], '''')))
      } else do {
        (snapshots, err) \<leftarrow> iaas_ListSnapshots env (snapshot_filters d req);
        ret (case err of
               Some e \<Rightarrow> Err (status_error Internal (error_text e))
             | None \<Rightarrow>
                 (case paginateIdentities (map snap_Identity snapshots) (ls_StartingToken req)
                         (ls_MaxEntries req) of
                    Inl e \<Rightarrow> Err e
                  | Inr (sortedIdentities, start, stop, nextToken) \<Rightarrow>
                      Ok (map (\<lambda>identity. mapToCSISnapshot
                                (lookup_snapshot (snapshots_by_identity snapshots) identity))
                            (slice sortedIdentities start stop), nextToken)))
      })"

section \<open>What creating a snapshot does\<close>

definition resolved_by :: "driver \<Rightarrow> string \<Rightarrow> string \<Rightarrow> call list \<Rightarrow> bool" where
  "resolved_by d volumeID identity calls \<longleftrightarrow>
     (\<exists>key v. key \<in> {''identity'', ''name''} \<and> vol_Identity v = identity \<and>
        List_Volumes [(''region'', d_region d), (key, volumeID)] [v] None \<in> set calls)"

lemma resolved_by_append [simp]: "resolved_by d i x ks \<Longrightarrow> resolved_by d i x (js @ ks)"
  by (auto simp: resolved_by_def)

lemma resolved_by_append2 [simp]: "resolved_by d i x ks \<Longrightarrow> resolved_by d i x (ks @ js)"
  by (auto simp: resolved_by_def)

lemma resolved_by_Cons [simp]: "resolved_by d i x ks \<Longrightarrow> resolved_by d i x (k # ks)"
  by (auto simp: resolved_by_def)

lemma resolved_by_single [simp]:
  "key \<in> {''identity'', ''name''} \<Longrightarrow>
     resolved_by d i (vol_Identity v) (k # List_Volumes [(''region'', d_region d), (key, i)] [v] None # ks)"
  "key \<in> {''identity'', ''name''} \<Longrightarrow>
     resolved_by d i (vol_Identity v) (List_Volumes [(''region'', d_region d), (key, i)] [v] None # ks)"
  by (auto simp: resolved_by_def)

lemma one_volume: "vs \<noteq> [] \<Longrightarrow> \<not> Suc 0 < length vs \<Longrightarrow> \<exists>v. vs = [v]"
  by (cases vs; cases "tl vs") auto

lemma wp_resolveVolumeIdentity:
  assumes "\<And>r ks. filter mutating ks = [] \<Longrightarrow> \<forall>e. r = Inl e \<longrightarrow> snd (from_error e) \<Longrightarrow>
      \<forall>x. r = Inr x \<longrightarrow> resolved_by d i x ks \<Longrightarrow> Q r (js @ ks)"
  shows "wp (resolveVolumeIdentity (traced env) d i) Q js"
proof -
  note q1 = assms [of "[_]", simplified] and q2 = assms [of "[_, _]", simplified]
  show ?thesis
    unfolding resolveVolumeIdentity_def Let_def
    by (auto intro!: wp_intros q1 q2 dest!: one_volume split: option.splits)
qed

lemma check_existing_Inl:
  assumes "check_existing req s r = Inl e" and "\<forall>e. r = Inl e \<longrightarrow> snd (from_error e)"
  shows "snd (from_error e)"
  using assms by (auto simp: check_existing_def Let_def split: sum.splits if_splits)

lemma check_existing_Inr: "check_existing req s r = Inr x \<Longrightarrow> x = Some s"
  by (auto simp: check_existing_def Let_def split: sum.splits if_splits)

definition snapshot_list_filters :: "driver \<Rightarrow> create_snapshot_request \<Rightarrow> filter_kv list" where
  "snapshot_list_filters d req = [(''region'', d_region d), (''name'', csr_Name req)]"

lemma snapshot_request_inject [simp]:
  "snapshot_request d req vi = snapshot_request d req vi' \<longleftrightarrow> vi = vi'"
  by (auto simp: snapshot_request_def Let_def)

text \<open>The effect of \<open>getOrCreateSnapshot\<close>: at most one snapshot is created, only when the listing
  has none of that name, of the one volume that the source resolves to.\<close>

definition get_or_create_effect ::
    "driver \<Rightarrow> create_snapshot_request \<Rightarrow> go_error + snapshot option \<Rightarrow> call list \<Rightarrow> bool" where
  "get_or_create_effect d req r calls \<longleftrightarrow>
     (\<forall>e. r = Inl e \<longrightarrow> snd (from_error e)) \<and>
     (\<exists>ss q. calls \<noteq> [] \<and> hd calls = List_Snapshots (snapshot_list_filters d req) ss q \<and>
       (filter mutating calls = [] \<and>
        (\<forall>x. r = Inr x \<longrightarrow> q = None \<and> x \<noteq> None \<and> x = find (\<lambda>s. snap_Name s = csr_Name req) ss) \<or>
        q = None \<and> find (\<lambda>s. snap_Name s = csr_Name req) ss = None \<and>
        (\<exists>vi s q'. filter mutating calls = [Create_Snapshot (snapshot_request d req vi) s q'] \<and>
           resolved_by d (csr_SourceVolumeId req) vi calls \<and>
           (\<forall>x. r = Inr x \<longrightarrow> q' = None \<and> x = s))))"

lemma wp_getOrCreateSnapshot:
  "wp (getOrCreateSnapshot (traced env) d req) (get_or_create_effect d req) []"
  unfolding getOrCreateSnapshot_def
  by (auto simp: get_or_create_effect_def snapshot_list_filters_def
      intro!: wp_intros wp_resolveVolumeIdentity dest!: check_existing_Inr
      split: option.splits sum.splits) (erule (1) check_existing_Inl)

text \<open>The effect of the handler: that of \<open>getOrCreateSnapshot\<close>, then reads only.\<close>

definition create_snapshot_effect ::
    "driver \<Rightarrow> create_snapshot_request \<Rightarrow> csi_snapshot handler_result \<Rightarrow> call list \<Rightarrow> bool" where
  "create_snapshot_effect d req res calls \<longleftrightarrow>
     (\<forall>e. res = Err e \<longrightarrow> snd (from_error e)) \<and>
     (calls = [] \<and> (\<exists>e. res = Err e) \<or>
      (\<exists>r js ks. get_or_create_effect d req r js \<and> calls = js @ ks \<and> filter mutating ks = [] \<and>
         (\<forall>x. res = Ok x \<longrightarrow> (\<exists>s y. r = Inr (Some s) \<and> x = mapToCSISnapshot y \<and>
            ks = [Wait_Snapshot (snap_Identity s) None, Get_Snapshot (snap_Identity s) (Some y) None]))))"

lemma create_snapshot_effectI:
  assumes "get_or_create_effect d req r js" and "filter mutating ks = []"
    and "\<forall>e. res = Err e \<longrightarrow> snd (from_error e)"
    and "\<forall>x. res = Ok x \<longrightarrow> (\<exists>s y. r = Inr (Some s) \<and> x = mapToCSISnapshot y \<and>
            ks = [Wait_Snapshot (snap_Identity s) None, Get_Snapshot (snap_Identity s) (Some y) None])"
  shows "create_snapshot_effect d req res (js @ ks)"
  using assms unfolding create_snapshot_effect_def by blast

lemma wp_CreateSnapshot:
  "wp (CreateSnapshot (traced env) d req) (create_snapshot_effect d req) []"
proof (cases "csr_Name req = '''' \<or> csr_SourceVolumeId req = ''''")
  case True
  then show ?thesis by (auto simp: CreateSnapshot_def create_snapshot_effect_def)
next
  case False
  note eff0 = create_snapshot_effectI [where ks = "[]", simplified]
    and eff1 = create_snapshot_effectI [where ks = "[_]", simplified]
    and eff2 = create_snapshot_effectI [where ks = "[_, _]", simplified]
  show ?thesis
    unfolding CreateSnapshot_def
    using False
    by (auto intro!: wp_intros wp_call [OF wp_getOrCreateSnapshot] split: option.splits sum.splits)
      (rule eff0 eff1 eff2, assumption, (simp; fail)+)+
qed

section \<open>Properties of CreateSnapshot\<close>

text \<open>C17: \<open>CreateSnapshot\<close> changes the cloud by at most one call. It creates a snapshot only when the
  first call, the listing by name, had none with the requested name, and only of the one
  volume the source resolves to, by identity or else by name.\<close>

theorem create_snapshot_at_most_once:
  "mutations (CreateSnapshot (traced env) d req) w = [] \<or>
   (\<exists>ss vi s q. hd (calls_of (CreateSnapshot (traced env) d req) w) =
        List_Snapshots (snapshot_list_filters d req) ss None \<and>
      csr_Name req \<notin> snap_Name ` set ss \<and>
      resolved_by d (csr_SourceVolumeId req) vi (calls_of (CreateSnapshot (traced env) d req) w) \<and>
      mutations (CreateSnapshot (traced env) d req) w = [Create_Snapshot (snapshot_request d req vi) s q])"
proof -
  let ?m = "CreateSnapshot (traced env) d req"
  from wp_run [OF wp_CreateSnapshot [of env d req], of w]
  consider "calls_of ?m w = []"
    | r js ks where "get_or_create_effect d req r js" "calls_of ?m w = js @ ks" "filter mutating ks = []"
    unfolding create_snapshot_effect_def by (elim conjE disjE exE) blast+
  then show ?thesis
  proof cases
    case 1
    then show ?thesis by (simp add: mutations_def)
  next
    case (2 r js ks)
    then have mut: "mutations ?m w = filter mutating js" by (simp add: mutations_def)
    from 2(1) consider "filter mutating js = []"
      | ss vi s q where "js \<noteq> []" "hd js = List_Snapshots (snapshot_list_filters d req) ss None"
        "find (\<lambda>s. snap_Name s = csr_Name req) ss = None"
        "filter mutating js = [Create_Snapshot (snapshot_request d req vi) s q]"
        "resolved_by d (csr_SourceVolumeId req) vi js"
      unfolding get_or_create_effect_def by (elim conjE disjE exE) blast+
    then show ?thesis
    proof cases
      case (2 ss vi s q)
      have "csr_Name req \<notin> snap_Name ` set ss" using 2(3) by (auto simp: find_None_iff)
      with 2 mut \<open>calls_of ?m w = js @ ks\<close> show ?thesis by auto
    qed (simp add: mut)
  qed
qed

text \<open>C19: When \<open>CreateSnapshot\<close> succeeds, it reports the snapshot that was listed under the
  requested name, without creating one, or the one its create call made, after waiting until
  that snapshot is available and as the API describes it then.\<close>

theorem create_snapshot_success:
  assumes "answer_of (CreateSnapshot (traced env) d req) w = Ok x"
  shows "\<exists>s y js ss. x = mapToCSISnapshot y \<and>
     calls_of (CreateSnapshot (traced env) d req) w =
       js @ [Wait_Snapshot (snap_Identity s) None, Get_Snapshot (snap_Identity s) (Some y) None] \<and>
     hd js = List_Snapshots (snapshot_list_filters d req) ss None \<and>
     (s \<in> set ss \<and> snap_Name s = csr_Name req \<and> mutations (CreateSnapshot (traced env) d req) w = [] \<or>
      (\<exists>vi. mutations (CreateSnapshot (traced env) d req) w =
        [Create_Snapshot (snapshot_request d req vi) (Some s) None]))"
proof -
  let ?m = "CreateSnapshot (traced env) d req"
  from wp_run [OF wp_CreateSnapshot [of env d req], of w] assms obtain js s y where
    eff: "get_or_create_effect d req (Inr (Some s)) js" and x: "x = mapToCSISnapshot y" and
    calls: "calls_of ?m w = js @ [Wait_Snapshot (snap_Identity s) None, Get_Snapshot (snap_Identity s) (Some y) None]"
    by (auto simp: create_snapshot_effect_def)
  from eff obtain ss where hd: "hd js = List_Snapshots (snapshot_list_filters d req) ss None"
    and ss: "filter mutating js = [] \<and> find (\<lambda>s. snap_Name s = csr_Name req) ss = Some s \<or>
      (\<exists>vi. filter mutating js = [Create_Snapshot (snapshot_request d req vi) (Some s) None])"
    by (fastforce simp: get_or_create_effect_def)
  have "mutations ?m w = filter mutating js" by (simp add: mutations_def calls)
  with ss have "s \<in> set ss \<and> snap_Name s = csr_Name req \<and> mutations ?m w = [] \<or>
      (\<exists>vi. mutations ?m w = [Create_Snapshot (snapshot_request d req vi) (Some s) None])"
    by (auto dest: find_Some_in)
  with x calls hd show ?thesis by blast
qed

text \<open>Every error of \<open>CreateSnapshot\<close> is a status error, and so is every error of
  \<open>getOrCreateSnapshot\<close>, whatever the API answers: the handler's fallback to \<open>Internal\<close> for
  errors without a status is never taken.\<close>

theorem create_snapshot_errors:
  "(case answer_of (CreateSnapshot (traced env) d req) w of Err e \<Rightarrow> snd (from_error e) | _ \<Rightarrow> True) \<and>
   (case answer_of (getOrCreateSnapshot (traced env) d req) w of Inl e \<Rightarrow> snd (from_error e) | _ \<Rightarrow> True)"
  using wp_run [OF wp_CreateSnapshot [of env d req], of w]
    wp_run [OF wp_getOrCreateSnapshot [of env d req], of w]
  by (auto simp: create_snapshot_effect_def get_or_create_effect_def split: outcome.splits sum.splits)

section \<open>Snapshots of the reference cloud\<close>

lemma sim_resolve:
  assumes "filter (\<lambda>x. vol_Identity x = i) (c_volumes c) = [v]"
  shows "run_state (resolveVolumeIdentity sim_env d i) c = (Inr i, c)"
proof -
  have "vol_Identity v = i"
    using filter_single(1) [OF assms] by simp
  with assms show ?thesis by (simp add: resolveVolumeIdentity_def Let_def sim_filter_def)
qed

definition new_snapshot :: "cloud \<Rightarrow> string \<Rightarrow> volume \<Rightarrow> snapshot" where
  "new_snapshot c n v =
     \<lparr> snap_Identity = ''snap-'' @ show_nat (c_next c), snap_Name = n,
       snap_Status = ''Available'', snap_SourceVolumeId = Some (vol_Identity v),
       snap_SourceVolume = Some v, snap_SizeGB = Some (vol_Size v), snap_CreatedAt = (0, 0) \<rparr>"

lemma sim_find_unique:
  assumes "filter (\<lambda>x. vol_Identity x = i) (c_volumes c) = [v]" and "\<not> c_by_name c"
  shows "sim_find_volume c i = Some v"
proof -
  have "find P xs = (case filter P xs of [] \<Rightarrow> None | x # _ \<Rightarrow> Some x)" for P and xs :: "volume list"
    by (induction xs) auto
  with assms show ?thesis by (simp add: sim_find_volume_def)
qed

lemma sim_list_by_name:
  "run_state (iaas_ListSnapshots sim_env [(''region'', r), (''name'', n)]) c =
     ((filter (\<lambda>s. snap_Name s = n) (c_snapshots c), None), c)"
  by (simp add: sim_filter_def)

lemma sim_existing_snapshot:
  assumes "csr_Name req \<noteq> ''''" and "csr_SourceVolumeId req \<noteq> ''''"
    and "filter (\<lambda>x. vol_Identity x = csr_SourceVolumeId req) (c_volumes c) = [v]"
    and "filter (\<lambda>s. snap_Name s = csr_Name req) (c_snapshots c) = [s]"
    and "find (\<lambda>x. snap_Identity x = snap_Identity s) (c_snapshots c) = Some s"
    and "snapshotSourceVolumeIdentity s \<noteq> ''''"
  shows "run_state (CreateSnapshot sim_env d req) c =
    (if snapshotSourceVolumeIdentity s = csr_SourceVolumeId req then Ok (mapToCSISnapshot s)
     else Err (status_error AlreadyExists
            [Lit ''snapshot '', Quoted (csr_Name req),
             Lit '' already exists with a different source volume'']), c)"
proof -
  have "snap_Name s = csr_Name req"
    using filter_single(1) [OF assms(4)] by simp
  with assms show ?thesis
    by (auto simp: CreateSnapshot_def getOrCreateSnapshot_def sim_list_by_name sim_resolve
        check_existing_def Let_def snapshotSourceVolumeMatches_def sim_lookup_def simp del: sim_run(12))
qed

text \<open>On the reference cloud, creating a snapshot under a new name adds exactly that snapshot of
  the volume; repeating the request gives the same answer and changes nothing; a request with
  the same name for another volume is refused with \<open>AlreadyExists\<close> and changes nothing.\<close>

theorem create_snapshot_idempotent:
  assumes "csr_Name req \<noteq> ''''" and "csr_SourceVolumeId req \<noteq> ''''"
    and "filter (\<lambda>x. vol_Identity x = csr_SourceVolumeId req) (c_volumes c) = [v]"
    and "csr_Name req \<notin> snap_Name ` set (c_snapshots c)"
    and "''snap-'' @ show_nat (c_next c) \<notin> snap_Identity ` set (c_snapshots c)"
    and "\<not> c_by_name c"
  shows "\<exists>c1 s. run_state (CreateSnapshot sim_env d req) c = (Ok (mapToCSISnapshot s), c1) \<and>
     snap_Name s = csr_Name req \<and> snap_SourceVolume s = Some v \<and>
     c_snapshots c1 = c_snapshots c @ [s] \<and> c_volumes c1 = c_volumes c \<and>
     run_state (CreateSnapshot sim_env d req) c1 = (Ok (mapToCSISnapshot s), c1) \<and>
     (\<forall>i v'. i \<noteq> '''' \<and> i \<noteq> csr_SourceVolumeId req \<and> filter (\<lambda>x. vol_Identity x = i) (c_volumes c) = [v'] \<longrightarrow>
        (\<exists>m. run_state (CreateSnapshot sim_env d (req\<lparr> csr_SourceVolumeId := i \<rparr>)) c1 =
          (Err (status_error AlreadyExists m), c1)))"
proof -
  let ?s = "new_snapshot c (csr_Name req) v"
  let ?c1 = "c\<lparr> c_snapshots := c_snapshots c @ [?s], c_next := Suc (c_next c) \<rparr>"
  have id: "vol_Identity v = csr_SourceVolumeId req"
    using filter_single(1) [OF assms(3)] by simp
  have s: "snap_Name ?s = csr_Name req" "snap_SourceVolume ?s = Some v"
    "snap_Identity ?s = ''snap-'' @ show_nat (c_next c)"
    "snapshotSourceVolumeIdentity ?s = csr_SourceVolumeId req"
    by (simp_all add: new_snapshot_def snapshotSourceVolumeIdentity_def id)
  have none: "filter (\<lambda>s. snap_Name s = csr_Name req) (c_snapshots c) = []"
    using assms(4) by (force simp: filter_empty_conv)
  have app: "find P (xs @ [y]) = Some y" if "\<forall>x \<in> set xs. \<not> P x" "P y" for P and xs :: "snapshot list" and y
    using that by (induction xs) auto
  have found: "find (\<lambda>x. snap_Identity x = snap_Identity ?s) (c_snapshots ?c1) = Some ?s"
    using assms(5) by (simp, intro app) (force simp: s)+
  have create: "run_state (iaas_CreateSnapshot sim_env (snapshot_request d req (csr_SourceVolumeId req))) c =
      ((Some ?s, None), ?c1)"
    using sim_find_unique [OF assms(3,6)]
    by (simp add: sim_create_snapshot_def snapshot_request_def Let_def new_snapshot_def id)
  have 1: "run_state (CreateSnapshot sim_env d req) c = (Ok (mapToCSISnapshot ?s), ?c1)"
    using assms(1,2) none create found
    by (simp add: CreateSnapshot_def getOrCreateSnapshot_def sim_list_by_name sim_resolve [OF assms(3)]
        sim_lookup_def del: sim_run(12,13))
  have again: "run_state (CreateSnapshot sim_env d (req\<lparr> csr_SourceVolumeId := i \<rparr>)) ?c1 =
      (if csr_SourceVolumeId req = i then Ok (mapToCSISnapshot ?s)
       else Err (status_error AlreadyExists [Lit ''snapshot '', Quoted (csr_Name req),
             Lit '' already exists with a different source volume'']), ?c1)"
    if "i \<noteq> ''''" "filter (\<lambda>x. vol_Identity x = i) (c_volumes c) = [v']" for i v'
    using sim_existing_snapshot [of "req\<lparr> csr_SourceVolumeId := i \<rparr>" ?c1 v' ?s d] assms(1,2) that none found
    by (simp add: s)
  have "run_state (CreateSnapshot sim_env d req) ?c1 = (Ok (mapToCSISnapshot ?s), ?c1)"
    using again [OF assms(2,3)] by simp
  with 1 again s(1,2) show ?thesis by (intro exI [of _ ?c1] exI [of _ ?s]) auto
qed

definition sample_snapshot_request :: create_snapshot_request where
  "sample_snapshot_request = \<lparr> csr_Name = ''snap'', csr_SourceVolumeId = ''vol-0'' \<rparr>"

definition snapshot_cloud :: cloud where
  "snapshot_cloud = sample_cloud\<lparr> c_volumes := [sample_volume] \<rparr>"

lemma snapshot_cloud_simps [simp]:
  "c_volumes snapshot_cloud = [sample_volume]" "c_snapshots snapshot_cloud = []"
  "\<not> c_by_name snapshot_cloud" "vol_Identity sample_volume = ''vol-0''"
  "csr_Name sample_snapshot_request = ''snap''" "csr_SourceVolumeId sample_snapshot_request = ''vol-0''"
  by (simp_all add: snapshot_cloud_def sample_volume_def sample_snapshot_request_def)

theorem create_snapshot_idempotent_witness:
  "\<exists>c1 s. run_state (CreateSnapshot sim_env sample_driver sample_snapshot_request) snapshot_cloud =
       (Ok (mapToCSISnapshot s), c1) \<and> c_snapshots c1 = [s]"
  using create_snapshot_idempotent [of sample_snapshot_request snapshot_cloud sample_volume sample_driver]
  by auto

theorem create_snapshot_success_witness:
  "\<exists>vi s. mutations (CreateSnapshot (traced sim_env) sample_driver sample_snapshot_request) snapshot_cloud =
     [Create_Snapshot (snapshot_request sample_driver sample_snapshot_request vi) (Some s) None]"
proof -
  let ?m = "CreateSnapshot (traced sim_env) sample_driver sample_snapshot_request"
  have "\<exists>x calls w. run_state ?m (snapshot_cloud, []) = (Ok x, (w, calls)) \<and>
      filter mutating calls \<noteq> []"
    by (simp add: CreateSnapshot_def getOrCreateSnapshot_def resolveVolumeIdentity_def Let_def
        sim_filter_def sim_create_snapshot_def snapshot_request_def sim_find_volume_def sim_lookup_def)
  then obtain x where ok: "answer_of ?m snapshot_cloud = Ok x" and ne: "mutations ?m snapshot_cloud \<noteq> []"
    by (auto simp: answer_of_def mutations_def calls_of_def)
  from create_snapshot_success [OF ok] ne show ?thesis by blast
qed

text \<open>Matching a snapshot with a requested source whose volume still exists compares
  identities only; when that volume is gone it accepts the snapshot whose recorded source has the
  requested identity or name; a snapshot with no recorded source never matches.\<close>

theorem snapshot_source_matching:
  "snapshotSourceVolumeMatches src resolved s \<longleftrightarrow>
     (if resolved \<noteq> '''' then snapshotSourceVolumeIdentity s = resolved
      else snapshotSourceVolumeIdentity s \<noteq> '''' \<and>
         (snapshotSourceVolumeIdentity s = src \<or> (\<exists>v. snap_SourceVolume s = Some v \<and> vol_Name v = src)))"
  by (auto simp: snapshotSourceVolumeMatches_def snapshotSourceVolumeIdentity_def Let_def
      split: option.splits)

section \<open>Properties of DeleteSnapshot and ListSnapshots\<close>

text \<open>\<open>DeleteSnapshot\<close> is idempotent: with an identity it asks the API once to delete the
  snapshot, a snapshot that is gone counts as deleted and every other error becomes \<open>Internal\<close>;
  without one it is refused before any call.\<close>

theorem delete_snapshot_idempotent:
  "mutations (DeleteSnapshot (traced env) i) w =
     (if i = '''' then [] else [Delete_Snapshot i (result_of (iaas_DeleteSnapshot env i) w)]) \<and>
   answer_of (DeleteSnapshot (traced env) i) w =
     (if i = '''' then
        Err (status_error InvalidArgument [Lit ''DeleteSnapshot Snapshot ID must be provided''])
      else case result_of (iaas_DeleteSnapshot env i) w of
        None \<Rightarrow> Ok ()
      | Some e \<Rightarrow> if is_not_found e then Ok () else Err (status_error Internal (error_text e)))"
  by (simp add: DeleteSnapshot_def answer_of_def mutations_def calls_of_def split: option.splits)

lemma snapshots_by_identity_in:
  "distinct (map snap_Identity ss) \<Longrightarrow> s \<in> set ss \<Longrightarrow> snapshots_by_identity ss (snap_Identity s) = Some s"
proof (induction ss rule: rev_induct)
  case Nil
  then show ?case by simp
next
  case (snoc x xs)
  have "snap_Identity s \<noteq> snap_Identity x" if "s \<noteq> x" using that snoc.prems by (auto simp: image_iff)
  with snoc show ?case by (cases "s = x") (auto simp: snapshots_by_identity_def)
qed

lemma list_snapshots_walk:
  assumes "ls_SnapshotId req = ''''"
    and "result_of (iaas_ListSnapshots env (snapshot_filters d req)) w = (ss, None)"
    and "distinct (map snap_Identity ss)" and "'''' \<notin> snap_Identity ` set ss"
    and "0 \<le> sint (ls_MaxEntries req)"
  shows "walk (\<lambda>tok. page_of (result_of (ListSnapshots env d (req\<lparr> ls_StartingToken := tok \<rparr>)) w))
      (Suc (length ss)) '''' = Some (map mapToCSISnapshot (sort_key snap_Identity ss))"
proof -
  let ?entry = "\<lambda>i. mapToCSISnapshot (lookup_snapshot (snapshots_by_identity ss) i)"
  let ?page = "\<lambda>t. page_entries ?entry (paginateIdentities (map snap_Identity ss) t (ls_MaxEntries req))"
  have "page_of (result_of (ListSnapshots env d (req\<lparr> ls_StartingToken := t \<rparr>)) w) =
      (case ?page t of Inl e \<Rightarrow> Inl (Some e) | Inr p \<Rightarrow> Inr p)" for t
    using assms(1,2)
    by (auto simp: ListSnapshots_def snapshot_filters_def case_prod_beta page_of_def page_entries_def
        split: sum.splits)
  then have "walk (\<lambda>tok. page_of (result_of (ListSnapshots env d (req\<lparr> ls_StartingToken := tok \<rparr>)) w))
      (Suc (length ss)) '''' = walk ?page (Suc (length ss)) ''''"
    by (rule walk_errors)
  also have "\<dots> = Some (map ?entry (sort (map snap_Identity ss)))"
    using pg.walk_all [of "map snap_Identity ss" "ls_MaxEntries req" ?entry] assms(3-5)
    by simp
  also have "map ?entry (sort (map snap_Identity ss)) =
      map mapToCSISnapshot (sort_key snap_Identity ss)"
    using snapshots_by_identity_in [OF assms(3)] by (simp add: sort_map_key lookup_snapshot_def)
  finally show ?thesis .
qed

text \<open>C34: \<open>ListSnapshots\<close>. Without a snapshot identity a client that follows the next tokens, while
  the snapshots that match the request stay the same, gets every one of them exactly once, in the
  order of their identities (which are distinct and not empty; a page size is not negative). With
  an identity it gets exactly that snapshot, whatever the other fields of
  the request say. An error of the API, also that there is no such snapshot, becomes \<open>Internal\<close>,
  and a missing snapshot without an error is a panic.\<close>

theorem list_snapshots_complete:
  "if ls_SnapshotId req = '''' then
      (case result_of (iaas_ListSnapshots env (snapshot_filters d req)) w of
         (ss, None) \<Rightarrow>
           distinct (map snap_Identity ss) \<and> '''' \<notin> snap_Identity ` set ss \<and> 0 \<le> sint (ls_MaxEntries req) \<longrightarrow>
           walk (\<lambda>tok. page_of (result_of (ListSnapshots env d (req\<lparr> ls_StartingToken := tok \<rparr>)) w))
             (Suc (length ss)) '''' = Some (map mapToCSISnapshot (sort_key snap_Identity ss))
       | (ss, Some e) \<Rightarrow> result_of (ListSnapshots env d req) w = Err (status_error Internal (error_text e)))
    else result_of (ListSnapshots env d req) w =
      (case result_of (iaas_GetSnapshot env (ls_SnapshotId req)) w of
         (Some s, None) \<Rightarrow> Ok ([mapToCSISnapshot s], '''')
       | (None, None) \<Rightarrow> Panic
       | (s, Some e) \<Rightarrow> Err (status_error Internal (error_text e)))"
proof (cases "ls_SnapshotId req = ''''")
  case False
  then show ?thesis
    by (auto simp: ListSnapshots_def case_prod_beta split: prod.splits option.splits)
next
  case True
  obtain ss e where run: "result_of (iaas_ListSnapshots env (snapshot_filters d req)) w = (ss, e)"
    by (metis surj_pair)
  show ?thesis
  proof (cases e)
    case None
    with run have "walk (\<lambda>tok. page_of (result_of (ListSnapshots env d (req\<lparr> ls_StartingToken := tok \<rparr>)) w))
        (Suc (length ss)) '''' = Some (map mapToCSISnapshot (sort_key snap_Identity ss))"
      if "distinct (map snap_Identity ss)" "'''' \<notin> snap_Identity ` set ss" "0 \<le> sint (ls_MaxEntries req)"
      using that by (intro list_snapshots_walk True) simp_all
    with True None run show ?thesis by simp
  next
    case (Some x)
    with True run show ?thesis by (simp add: ListSnapshots_def case_prod_beta)
  qed
qed

theorem list_snapshots_complete_witness:
  "walk (\<lambda>tok. page_of (result_of (ListSnapshots sim_env sample_driver
      \<lparr> ls_SnapshotId = '''', ls_SourceVolumeId = ''vol-0'', ls_MaxEntries = 1, ls_StartingToken = tok \<rparr>)
        (snapshot_cloud\<lparr> c_snapshots := [new_snapshot sample_cloud ''s'' sample_volume] \<rparr>))) 2 '''' =
     Some [mapToCSISnapshot (new_snapshot sample_cloud ''s'' sample_volume)]"
proof -
  let ?s = "new_snapshot sample_cloud ''s'' sample_volume"
  let ?c = "snapshot_cloud\<lparr> c_snapshots := [?s] \<rparr>"
  let ?r = "\<lparr> ls_SnapshotId = '''', ls_SourceVolumeId = ''vol-0'', ls_MaxEntries = 1, ls_StartingToken = '''' \<rparr>"
  have "result_of (iaas_ListSnapshots sim_env (snapshot_filters sample_driver ?r)) ?c = ([?s], None)"
    by (simp add: sim_filter_def snapshot_filters_def new_snapshot_def sim_source_def)
  moreover have "snap_Identity ?s \<noteq> ''''" by (simp add: new_snapshot_def)
  ultimately show ?thesis
    using list_snapshots_complete [of ?r sim_env sample_driver ?c]
    by (simp add: numeral_2_eq_2 del: walk.simps)
qed

text \<open>The reported size of a snapshot is its size in GiB times one GiB whenever that fits 64
  bits, the reported source is the volume object the API returned, and the source of a snapshot
  whose volume object is missing is reported as empty even when its source identity is known.\<close>

theorem mapped_snapshot:
  "csnap_SnapshotId (mapToCSISnapshot s) = snap_Identity s \<and>
   (\<forall>n. snap_SizeGB s = Some n \<and> 0 \<le> sint n \<and> sint n < 2 ^ 33 \<longrightarrow>
      sint (csnap_SizeBytes (mapToCSISnapshot s)) = sint n * 2 ^ 30) \<and>
   (\<forall>v. snap_SourceVolume s = Some v \<longrightarrow>
      csnap_SourceVolumeId (mapToCSISnapshot s) = snapshotSourceVolumeIdentity s) \<and>
   (\<forall>i. snap_SourceVolume s = None \<and> snap_SourceVolumeId s = Some i \<longrightarrow>
      csnap_SourceVolumeId (mapToCSISnapshot s) = '''' \<and> snapshotSourceVolumeIdentity s = i)"
proof -
  have "sint (n * giB) = sint n * 2 ^ 30" if "0 \<le> sint n" "sint n < 2 ^ 33" for n :: int64
    using that by (subst sint_mult64) (simp_all add: unit_values fits64_def)
  then show ?thesis
    by (auto simp: mapToCSISnapshot_def snapshotSourceVolumeIdentity_def)
qed

theorem mapped_snapshot_witness:
  "sint (csnap_SizeBytes (mapToCSISnapshot (new_snapshot sample_cloud ''s'' sample_volume))) = 10 * 2 ^ 30"
proof -
  have "snap_SizeGB (new_snapshot sample_cloud ''s'' sample_volume) = Some 10"
    by (simp add: new_snapshot_def sample_volume_def)
  with mapped_snapshot [of "new_snapshot sample_cloud ''s'' sample_volume"] show ?thesis by simp
qed

end
