(* ===== verification/ControllerResize.thy ===== *)
theory ControllerResize
  imports Capabilities CloudSim
begin

text \<open>
  \<open>driver/controller_resize.go\<close>: growing a volume. A nil volume returned without an error is a
  panic, as in the code (\<open>volume.Size\<close> is read at once).
\<close>

record expand_request =
  exp_VolumeId :: string
  exp_CapacityRange :: "capacity_range option"
  exp_VolumeCapability :: "volume_capability option"

record expand_response =
  er_CapacityBytes :: int64
  er_NodeExpansionRequired :: bool

definition isVolumeSizeEuqalOrLargerThanRequested :: "volume \<Rightarrow> int64 \<Rightarrow> bool" where
  "isVolumeSizeEuqalOrLargerThanRequested volume requestedSize \<longleftrightarrow>
     sint requestedSize \<le> sint (vol_Size volume)"

text \<open>The update that is sent: every field but the size is the one that was read.\<close>

definition resize_update :: "volume \<Rightarrow> int64 \<Rightarrow> update_volume" where
  "resize_update volume resizeGigaBytes =
     \<lparr> uv_Name = vol_Name volume, uv_Description = vol_Description volume,
       uv_Labels = vol_Labels volume, uv_Annotations = vol_Annotations volume,
       uv_Size = resizeGigaBytes, uv_DeleteProtection = vol_DeleteProtection volume \<rparr>"

definition node_expansion_required :: "volume_capability option \<Rightarrow> bool" where
  "node_expansion_required cap =
     (case cap of
        None \<Rightarrow> True
      | Some c \<Rightarrow> (case vc_AccessType c of Some VolumeCapability_Block \<Rightarrow> False | _ \<Rightarrow> True))"

definition ControllerExpandVolume ::
    "'w env \<Rightarrow> expand_request \<Rightarrow> ('w, expand_response handler_result) state" where
  "ControllerExpandVolume env req =
     (let volumeId = exp_VolumeId req
      in if trim_space volumeId = '''' then
        ret (Err (status_error InvalidArgument
          [Lit ''ControllerExpandVolume volume ID missing in request'']))
      else case getStorageSizeFromCapacityRange (exp_CapacityRange req) of
        Inl e \<Rightarrow> ret (Err (status_error OutOfRange
                  (Lit ''ControllerExpandVolume invalid capacity range: '' # error_text e)))
      | Inr resizeBytes \<Rightarrow>
          let resizeGigaBytes = to_giB resizeBytes
          in do {
            (volume, err) \<leftarrow> iaas_GetVolume env volumeId;
            (case err of
               Some e \<Rightarrow> ret (Err (status_error Internal
                 (Lit ''ControllerExpandVolume could not retrieve existing volume: '' # error_text e)))
             | None \<Rightarrow>
                 (case volume of
                    None \<Rightarrow> ret Panic
                  | Some v \<Rightarrow>
                      if isVolumeSizeEuqalOrLargerThanRequested v resizeGigaBytes then
                        ret (Ok \<lparr> er_CapacityBytes = vol_Size v * giB, er_NodeExpansionRequired = True \<rparr>)
                      else do {
                        (_, err) \<leftarrow> iaas_UpdateVolume env volumeId (resize_update v resizeGigaBytes);
                        ret (case err of
                               Some e \<Rightarrow> Err (status_error Internal
                                 ([Lit ''cannot resize volume '', Lit volumeId, Lit '': ''] @ error_text e))
                             | None \<Rightarrow>
                                 Ok \<lparr> er_CapacityBytes = resizeGigaBytes * giB,
                                      er_NodeExpansionRequired =
                                        node_expansion_required (exp_VolumeCapability req) \<rparr>)
                      }))
          })"

section \<open>What expanding does\<close>

definition expand_effect :: "expand_request \<Rightarrow> expand_response handler_result \<Rightarrow> call list \<Rightarrow> bool" where
  "expand_effect req res calls \<longleftrightarrow>
     (\<forall>e. res = Err e \<longrightarrow> grpc_code e \<in> {InvalidArgument, OutOfRange, Internal}) \<and>
     (filter mutating calls = [] \<and>
      (\<forall>r. res = Ok r \<longrightarrow> (\<exists>v bytes. calls = [Get_Volume (exp_VolumeId req) (Some v) None] \<and>
         getStorageSizeFromCapacityRange (exp_CapacityRange req) = Inr bytes \<and>
         sint (to_giB bytes) \<le> sint (vol_Size v) \<and> er_CapacityBytes r = vol_Size v * giB \<and>
         er_NodeExpansionRequired r)) \<or>
      (\<exists>v bytes q. getStorageSizeFromCapacityRange (exp_CapacityRange req) = Inr bytes \<and>
         calls = [Get_Volume (exp_VolumeId req) (Some v) None,
                  Update_Volume (exp_VolumeId req) (resize_update v (to_giB bytes)) q] \<and>
         sint (vol_Size v) < sint (to_giB bytes) \<and>
         (\<forall>r. res = Ok r \<longrightarrow> q = None \<and> er_CapacityBytes r = to_giB bytes * giB \<and>
            er_NodeExpansionRequired r = node_expansion_required (exp_VolumeCapability req))))"

lemma wp_ControllerExpandVolume:
  "wp (ControllerExpandVolume (traced env) req) (expand_effect req) []"
  unfolding ControllerExpandVolume_def Let_def
  by (auto simp: expand_effect_def isVolumeSizeEuqalOrLargerThanRequested_def
      intro!: wp_intros split: option.splits sum.splits)

section \<open>Properties\<close>

text \<open>C25: \<open>ControllerExpandVolume\<close> never shrinks a volume and changes nothing but its size: the
  only changing call it ever makes, at most once, updates the volume it has just read to a
  strictly larger size in GiB, with the name, description, labels, annotations and delete
  protection it read.\<close>

theorem expand_only_grows:
  assumes "mutations (ControllerExpandVolume (traced env) req) w \<noteq> []"
  shows "\<exists>v u q. calls_of (ControllerExpandVolume (traced env) req) w =
      [Get_Volume (exp_VolumeId req) (Some v) None, Update_Volume (exp_VolumeId req) u q] \<and>
    sint (vol_Size v) < sint (uv_Size u) \<and>
    uv_Name u = vol_Name v \<and> uv_Description u = vol_Description v \<and> uv_Labels u = vol_Labels v \<and>
    uv_Annotations u = vol_Annotations v \<and> uv_DeleteProtection u = vol_DeleteProtection v"
  using wp_run [OF wp_ControllerExpandVolume [of env req], of w] assms
  by (auto simp: expand_effect_def mutations_def resize_update_def)

text \<open>C32: A successful \<open>ControllerExpandVolume\<close> had a capacity range that was accepted, and either
  read a volume that is already large enough and changed nothing, or had the API accept the
  requested size rounded down to whole GiB. In the first case it reports the volume's size, in
  the second that rounded size, a whole number of GiB, which equals the request exactly when that
  is a multiple of one GiB. The reported size is above the requested bytes less one GiB and, after
  a change, not above the request; a size read from the API of 2^33 GiB or more (8 EiB), which
  does not fit the 64 bits of the answer, is the exception.\<close>

theorem expand_success:
  assumes "answer_of (ControllerExpandVolume (traced env) req) w = Ok r"
  shows "\<exists>bytes v. getStorageSizeFromCapacityRange (exp_CapacityRange req) = Inr bytes \<and>
    (calls_of (ControllerExpandVolume (traced env) req) w =
        [Get_Volume (exp_VolumeId req) (Some v) None] \<and>
      sint (to_giB bytes) \<le> sint (vol_Size v) \<and>
      er_CapacityBytes r = from_giB (vol_Size v) \<and> er_NodeExpansionRequired r \<and>
      (sint (vol_Size v) < 2 ^ 33 \<longrightarrow>
         sint (er_CapacityBytes r) = sint (vol_Size v) * 2 ^ 30 \<and>
         sint bytes - 2 ^ 30 < sint (er_CapacityBytes r)) \<or>
     calls_of (ControllerExpandVolume (traced env) req) w =
        [Get_Volume (exp_VolumeId req) (Some v) None,
         Update_Volume (exp_VolumeId req) (resize_update v (to_giB bytes)) None] \<and>
      sint (to_giB bytes) = sint bytes div 2 ^ 30 \<and>
      sint (er_CapacityBytes r) = sint (to_giB bytes) * 2 ^ 30 \<and>
      sint bytes - 2 ^ 30 < sint (er_CapacityBytes r) \<and> sint (er_CapacityBytes r) \<le> sint bytes \<and>
      (er_CapacityBytes r = bytes \<longleftrightarrow> 2 ^ 30 dvd sint bytes) \<and>
      er_NodeExpansionRequired r = node_expansion_required (exp_VolumeCapability req))"
proof -
  from wp_run [OF wp_ControllerExpandVolume [of env req], of w] assms
  obtain bytes v where bytes: "getStorageSizeFromCapacityRange (exp_CapacityRange req) = Inr bytes"
    and v: "calls_of (ControllerExpandVolume (traced env) req) w = [Get_Volume (exp_VolumeId req) (Some v) None] \<and>
       sint (to_giB bytes) \<le> sint (vol_Size v) \<and> er_CapacityBytes r = from_giB (vol_Size v) \<and>
       er_NodeExpansionRequired r \<or>
     calls_of (ControllerExpandVolume (traced env) req) w =
       [Get_Volume (exp_VolumeId req) (Some v) None,
        Update_Volume (exp_VolumeId req) (resize_update v (to_giB bytes)) None] \<and>
       er_CapacityBytes r = from_giB (to_giB bytes) \<and>
       er_NodeExpansionRequired r = node_expansion_required (exp_VolumeCapability req)"
    by (auto simp: expand_effect_def from_giB_def)
  from bytes have pos: "0 \<le> sint bytes" by (simp add: less_imp_le storage_size_max)
  note size = sint_to_giB [OF pos] from_to_giB [OF pos] from_to_giB_exact_iff [OF pos]
  have rest: "sint bytes mod 2 ^ 30 < 2 ^ 30" "0 \<le> sint bytes mod 2 ^ 30" by simp_all
  have whole: "sint bytes - sint bytes mod 2 ^ 30 = sint bytes div 2 ^ 30 * 2 ^ 30"
    by (simp add: minus_mod_eq_div_mult)
  have below: "sint bytes - 2 ^ 30 < sint bytes div 2 ^ 30 * 2 ^ 30"
    using rest(1) whole by linarith
  have read: "sint (from_giB n) = sint n * 2 ^ 30 \<and> sint bytes - 2 ^ 30 < sint (from_giB n)"
    if "sint (to_giB bytes) \<le> sint n" "sint n < 2 ^ 33" for n
  proof -
    have n: "sint bytes div 2 ^ 30 \<le> sint n" "0 \<le> sint n"
      using that(1) pos size(1) by (simp_all add: order_trans [OF _ that(1)] pos_imp_zdiv_nonneg_iff)
    then have "sint (from_giB n) = sint n * 2 ^ 30" using that(2) by (simp add: sint_from_giB)
    moreover have "sint bytes div 2 ^ 30 * 2 ^ 30 \<le> sint n * 2 ^ 30" using n(1) by simp
    ultimately show ?thesis using below by linarith
  qed
  show ?thesis
    using bytes v read [of "vol_Size v"] size rest whole
    by (intro exI [of _ bytes] exI [of _ v]) auto
qed

definition sample_expand :: expand_request where
  "sample_expand =
     \<lparr> exp_VolumeId = ''vol-0'',
       exp_CapacityRange = Some \<lparr> required_bytes = 20 * giB, limit_bytes = 0 \<rparr>,
       exp_VolumeCapability = None \<rparr>"

lemma sample_expand_size: "getStorageSizeFromCapacityRange (exp_CapacityRange sample_expand) = Inr (20 * giB)"
  by (simp add: sample_expand_def getStorageSizeFromCapacityRange_def unit_values)

lemma sample_expand_run:
  "\<exists>u w. run_state (ControllerExpandVolume (traced sim_env) sample_expand)
       (sample_cloud\<lparr> c_volumes := [sample_volume] \<rparr>, []) =
     (Ok \<lparr> er_CapacityBytes = 20 * giB, er_NodeExpansionRequired = True \<rparr>,
      (w, [Get_Volume ''vol-0'' (Some sample_volume) None, Update_Volume ''vol-0'' u None]))"
proof -
  have 1: "trim_space ''vol-0'' \<noteq> ''''" by code_simp
  have 2: "to_giB (20 * giB) = 20" by (simp add: to_giB_def unit_values quot64_def sdiv_nonneg)
  have 3: "exp_VolumeId sample_expand = ''vol-0''" "exp_VolumeCapability sample_expand = None"
    by (simp_all add: sample_expand_def)
  show ?thesis
    unfolding ControllerExpandVolume_def Let_def sample_expand_size
    by (simp add: 1 2 3 sim_lookup_def sim_find_volume_def sim_update_volume_def Let_def
        isVolumeSizeEuqalOrLargerThanRequested_def sample_volume_def node_expansion_required_def)
qed

theorem expand_only_grows_witness:
  "\<exists>u q. calls_of (ControllerExpandVolume (traced sim_env) sample_expand)
        (sample_cloud\<lparr> c_volumes := [sample_volume] \<rparr>) =
      [Get_Volume ''vol-0'' (Some sample_volume) None, Update_Volume ''vol-0'' u q] \<and> 10 < sint (uv_Size u)"
proof -
  let ?m = "ControllerExpandVolume (traced sim_env) sample_expand"
  let ?c = "sample_cloud\<lparr> c_volumes := [sample_volume] \<rparr>"
  from sample_expand_run obtain u where
    calls: "calls_of ?m ?c = [Get_Volume ''vol-0'' (Some sample_volume) None, Update_Volume ''vol-0'' u None]"
    by (auto simp: calls_of_def)
  then have "mutations ?m ?c \<noteq> []" by (simp add: mutations_def)
  from expand_only_grows [OF this] calls show ?thesis by (auto simp: sample_volume_def)
qed

theorem expand_success_witness:
  "\<exists>r. answer_of (ControllerExpandVolume (traced sim_env) sample_expand)
        (sample_cloud\<lparr> c_volumes := [sample_volume] \<rparr>) = Ok r \<and> sint (er_CapacityBytes r) \<le> sint (20 * giB)"
proof -
  let ?m = "ControllerExpandVolume (traced sim_env) sample_expand"
  let ?c = "sample_cloud\<lparr> c_volumes := [sample_volume] \<rparr>"
  let ?r = "\<lparr> er_CapacityBytes = 20 * giB, er_NodeExpansionRequired = True \<rparr>"
  from sample_expand_run have
    ok: "answer_of ?m ?c = Ok ?r" and calls: "length (calls_of ?m ?c) = 2"
    by (auto simp: calls_of_def answer_of_def)
  from expand_success [OF ok] calls sample_expand_size have "sint (er_CapacityBytes ?r) \<le> sint (20 * giB)"
    by auto
  with ok show ?thesis by blast
qed

end
