(* ===== verification/GoJson.thy ===== *)
theory GoJson
  imports GoStrings
begin

text \<open>
  \<open>encoding/json.Unmarshal\<close> as \<open>driver/mounter.go\<close> uses it, on the answer of \<open>findmnt\<close>: a parser
  for JSON texts and the decoding of a value into the two structs. A text is a list of bytes;
  bytes outside ASCII are kept as they are (the texts are valid UTF-8), an escape
  \<open>\u\<close> gives the UTF-8 encoding of its code point and an unpaired surrogate that of U+FFFD.
  The parser recurses on fuel; \<open>parse_json\<close> gives it more than the length of the text, and
  each recursive call has consumed a byte, so more fuel never changes the result (\<open>parse_fuel\<close>),
  and a value that is printed is read back (\<open>parse_json_show\<close>). Go's limit of ten thousand nested values is left out.
\<close>

datatype json =
    JNull | JBool bool | JNumber string | JString string | JArray "json list"
  | JObject "(string \<times> json) list"

section \<open>Lexical level\<close>

definition json_space :: "char \<Rightarrow> bool" where
  "json_space c \<longleftrightarrow> c \<in> {CHR '' '', CHR 0x09, CHR 0x0A, CHR 0x0D}"

definition skip_space :: "string \<Rightarrow> string" where
  "skip_space = dropWhile json_space"

definition hex_digit :: "char \<Rightarrow> nat option" where
  "hex_digit c =
     (let n = (of_char c :: nat)
      in if 48 \<le> n \<and> n \<le> 57 then Some (n - 48)
         else if 97 \<le> n \<and> n \<le> 102 then Some (n - 87)
         else if 65 \<le> n \<and> n \<le> 70 then Some (n - 55) else None)"

fun hex4 :: "string \<Rightarrow> (nat \<times> string) option" where
  "hex4 (a # b # c # d # s) =
     (case (hex_digit a, hex_digit b, hex_digit c, hex_digit d) of
        (Some w, Some x, Some y, Some z) \<Rightarrow> Some (((w * 16 + x) * 16 + y) * 16 + z, s)
      | _ \<Rightarrow> None)"
| "hex4 _ = None"

definition utf8 :: "nat \<Rightarrow> string" where
  "utf8 n =
     map char_of
       (if n < 0x80 then [n]
        else if n < 0x800 then [0xC0 + n div 64, 0x80 + n mod 64]
        else if n < 0x10000 then [0xE0 + n div 4096, 0x80 + n div 64 mod 64, 0x80 + n mod 64]
        else [0xF0 + n div 262144, 0x80 + n div 4096 mod 64, 0x80 + n div 64 mod 64, 0x80 + n mod 64])"

text \<open>After \<open>\u\<close>: the encoded character, or both halves of a surrogate pair.\<close>

definition unicode_escape :: "string \<Rightarrow> (string \<times> string) option" where
  "unicode_escape s =
     (case hex4 s of
        None \<Rightarrow> None
      | Some (n, r) \<Rightarrow>
          if 0xD800 \<le> n \<and> n < 0xDC00 then
            (case r of
               CHR 0x5C # CHR ''u'' # r' \<Rightarrow>
                 (case hex4 r' of
                    Some (m, r'') \<Rightarrow>
                      if 0xDC00 \<le> m \<and> m < 0xE000
                      then Some (utf8 (0x10000 + (n - 0xD800) * 0x400 + (m - 0xDC00)), r'')
                      else Some (utf8 0xFFFD, r)
                  | None \<Rightarrow> None)
             | _ \<Rightarrow> Some (utf8 0xFFFD, r))
          else if 0xDC00 \<le> n \<and> n < 0xE000 then Some (utf8 0xFFFD, r)
          else Some (utf8 n, r))"

text \<open>The characters that follow a backslash, other than \<open>u\<close>.\<close>

definition simple_escape :: "char \<Rightarrow> char option" where
  "simple_escape c =
     map_of [(CHR 0x22, CHR 0x22), (CHR 0x5C, CHR 0x5C), (CHR ''/'', CHR ''/''),
             (CHR ''b'', CHR 0x08), (CHR ''f'', CHR 0x0C), (CHR ''n'', CHR 0x0A),
             (CHR ''r'', CHR 0x0D), (CHR ''t'', CHR 0x09)] c"

text \<open>The rest of a string after the opening quote.\<close>

fun parse_string :: "nat \<Rightarrow> string \<Rightarrow> (string \<times> string) option" where
  "parse_string 0 s = None"
| "parse_string (Suc n) [] = None"
| "parse_string (Suc n) (c # s) =
     (if c = CHR 0x22 then Some ([], s)
      else if (of_char c :: nat) < 0x20 then None
      else if c \<noteq> CHR 0x5C then map_option (\<lambda>(x, r). (c # x, r)) (parse_string n s)
      else case s of
        [] \<Rightarrow> None
      | e # s' \<Rightarrow>
          if e = CHR ''u'' then
            (case unicode_escape s' of
               None \<Rightarrow> None
             | Some (y, r) \<Rightarrow> map_option (\<lambda>(x, r'). (y @ x, r')) (parse_string n r))
          else (case simple_escape e of
                  None \<Rightarrow> None
                | Some d \<Rightarrow> map_option (\<lambda>(x, r). (d # x, r)) (parse_string n s')))"

definition is_digit :: "char \<Rightarrow> bool" where
  "is_digit c \<longleftrightarrow> 48 \<le> (of_char c :: nat) \<and> (of_char c :: nat) \<le> 57"

text \<open>One or more digits.\<close>

definition parse_digits :: "string \<Rightarrow> (string \<times> string) option" where
  "parse_digits s =
     (let ds = takeWhile is_digit s in if ds = [] then None else Some (ds, dropWhile is_digit s))"

text \<open>A number: sign, integer part without leading zeros, fraction, exponent.\<close>

definition parse_int_part :: "string \<Rightarrow> (string \<times> string) option" where
  "parse_int_part s =
     (case s of CHR ''0'' # r \<Rightarrow> Some (''0'', r) | _ \<Rightarrow> parse_digits s)"

definition parse_fraction :: "string \<Rightarrow> (string \<times> string) option" where
  "parse_fraction s =
     (case s of
        CHR ''.'' # r \<Rightarrow> map_option (\<lambda>(ds, r'). (CHR ''.'' # ds, r')) (parse_digits r)
      | _ \<Rightarrow> Some ([], s))"

definition parse_exponent :: "string \<Rightarrow> (string \<times> string) option" where
  "parse_exponent s =
     (case s of
        c # r \<Rightarrow>
          if c = CHR ''e'' \<or> c = CHR ''E'' then
            (case r of
               d # r' \<Rightarrow>
                 if d = CHR ''+'' \<or> d = CHR ''-''
                 then map_option (\<lambda>(ds, r''). (c # d # ds, r'')) (parse_digits r')
                 else map_option (\<lambda>(ds, r''). (c # ds, r'')) (parse_digits r)
             | [] \<Rightarrow> None)
          else Some ([], s)
      | [] \<Rightarrow> Some ([], s))"

definition parse_number :: "string \<Rightarrow> (string \<times> string) option" where
  "parse_number s =
     (let (sign, s1) = (case s of CHR ''-'' # r \<Rightarrow> (''-'', r) | _ \<Rightarrow> ('''', s))
      in case parse_int_part s1 of
           None \<Rightarrow> None
         | Some (i, s2) \<Rightarrow>
             (case parse_fraction s2 of
                None \<Rightarrow> None
              | Some (f, s3) \<Rightarrow>
                  map_option (\<lambda>(e, s4). (sign @ i @ f @ e, s4)) (parse_exponent s3)))"

section \<open>Values\<close>

text \<open>The rest of a text that starts with \<open>c\<close>.\<close>

definition after_char :: "char \<Rightarrow> string \<Rightarrow> string option" where
  "after_char c s = (case s of d # t \<Rightarrow> if d = c then Some t else None | [] \<Rightarrow> None)"

fun parse_value :: "nat \<Rightarrow> string \<Rightarrow> (json \<times> string) option"
and parse_elements :: "nat \<Rightarrow> string \<Rightarrow> (json list \<times> string) option"
and parse_members :: "nat \<Rightarrow> string \<Rightarrow> ((string \<times> json) list \<times> string) option" where
  "parse_value 0 s = None"
| "parse_value (Suc n) s =
     (case skip_space s of
        [] \<Rightarrow> None
      | c # r \<Rightarrow>
          if c = CHR 0x22 then map_option (\<lambda>(x, t). (JString x, t)) (parse_string (Suc n) r)
          else if c = CHR ''['' then
            (case after_char (CHR '']'') (skip_space r) of
               Some t \<Rightarrow> Some (JArray [], t)
             | None \<Rightarrow> map_option (\<lambda>(xs, t). (JArray xs, t)) (parse_elements n r))
          else if c = CHR ''{'' then
            (case after_char (CHR ''}'') (skip_space r) of
               Some t \<Rightarrow> Some (JObject [], t)
             | None \<Rightarrow> map_option (\<lambda>(xs, t). (JObject xs, t)) (parse_members n r))
          else if has_prefix (c # r) ''null'' then Some (JNull, drop 4 (c # r))
          else if has_prefix (c # r) ''true'' then Some (JBool True, drop 4 (c # r))
          else if has_prefix (c # r) ''false'' then Some (JBool False, drop 5 (c # r))
          else map_option (\<lambda>(x, t). (JNumber x, t)) (parse_number (c # r)))"
| "parse_elements 0 s = None"
| "parse_elements (Suc n) s =
     (case parse_value n s of
        None \<Rightarrow> None
      | Some (v, r) \<Rightarrow>
          (case after_char (CHR '','') (skip_space r) of
             Some r' \<Rightarrow> map_option (\<lambda>(vs, t). (v # vs, t)) (parse_elements n r')
           | None \<Rightarrow> map_option (\<lambda>t. ([v], t)) (after_char (CHR '']'') (skip_space r))))"
| "parse_members 0 s = None"
| "parse_members (Suc n) s =
     (case after_char (CHR 0x22) (skip_space s) of
        None \<Rightarrow> None
      | Some r \<Rightarrow>
          (case parse_string (Suc n) r of
             None \<Rightarrow> None
           | Some (k, r1) \<Rightarrow>
               (case after_char (CHR '':'') (skip_space r1) of
                  None \<Rightarrow> None
                | Some r2 \<Rightarrow>
                    (case parse_value n r2 of
                       None \<Rightarrow> None
                     | Some (v, r3) \<Rightarrow>
                         (case after_char (CHR '','') (skip_space r3) of
                            Some r4 \<Rightarrow>
                              map_option (\<lambda>(kvs, t). ((k, v) # kvs, t)) (parse_members n r4)
                          | None \<Rightarrow>
                              map_option (\<lambda>t. ([(k, v)], t)) (after_char (CHR ''}'') (skip_space r3)))))))"

text \<open>A text is one value, with space around it.\<close>

definition parse_json :: "string \<Rightarrow> json option" where
  "parse_json s =
     (case parse_value (2 * length s + 2) s of
        Some (v, r) \<Rightarrow> if skip_space r = [] then Some v else None
      | None \<Rightarrow> None)"

section \<open>The fuel\<close>

text \<open>Every parser consumes its input, \<open>parse_string\<close> and \<open>parse_value\<close> at least one byte.\<close>

lemma length_skip_space: "length (skip_space s) \<le> length s"
  by (simp add: skip_space_def length_dropWhile_le)

lemma length_after_char: "after_char c s = Some r \<Longrightarrow> length r < length s"
  by (auto simp: after_char_def split: list.splits if_splits)

lemma length_after_skip: "after_char c (skip_space s) = Some r \<Longrightarrow> length r < length s"
  using length_after_char length_skip_space by (meson less_le_trans)

lemma length_skip_Cons: "skip_space s = c # r \<Longrightarrow> length r < length s"
  using length_skip_space [of s] by simp

lemma length_hex4: "hex4 s = Some (n, r) \<Longrightarrow> length r < length s"
  by (induction s rule: hex4.induct) (auto split: option.splits)

lemma length_unicode_escape: "unicode_escape s = Some (y, r) \<Longrightarrow> length r < length s"
  by (auto simp: unicode_escape_def split: option.splits if_splits list.splits char.splits bool.splits
      dest!: length_hex4)

lemma length_parse_string: "parse_string n s = Some (x, r) \<Longrightarrow> length r < length s"
proof (induction n s arbitrary: x r rule: parse_string.induct)
  case (3 n c s)
  then show ?case
    by (fastforce split: if_splits list.splits option.splits dest: length_unicode_escape)
qed simp_all

lemma length_parse_digits: "parse_digits s = Some (ds, r) \<Longrightarrow> length r < length s"
proof -
  assume "parse_digits s = Some (ds, r)"
  then have "takeWhile is_digit s \<noteq> []" "r = dropWhile is_digit s"
    by (auto simp: parse_digits_def Let_def split: if_splits)
  moreover have "length (takeWhile is_digit s) + length (dropWhile is_digit s) = length s"
    by (metis length_append takeWhile_dropWhile_id)
  ultimately show ?thesis by (cases "takeWhile is_digit s") auto
qed

lemma length_parse_int_part: "parse_int_part s = Some (ds, r) \<Longrightarrow> length r < length s"
  by (auto simp: parse_int_part_def split: list.splits char.splits bool.splits dest: length_parse_digits)

lemma length_parse_fraction: "parse_fraction s = Some (ds, r) \<Longrightarrow> length r \<le> length s"
  by (auto simp: parse_fraction_def split: list.splits char.splits bool.splits dest!: length_parse_digits)

lemma length_parse_exponent: "parse_exponent s = Some (ds, r) \<Longrightarrow> length r \<le> length s"
  by (auto simp: parse_exponent_def split: list.splits if_splits dest!: length_parse_digits)

lemma length_parse_number: "parse_number s = Some (x, r) \<Longrightarrow> length r < length s"
proof -
  assume parse: "parse_number s = Some (x, r)"
  obtain sign s1 where s1: "(case s of CHR ''-'' # r \<Rightarrow> (''-'', r) | _ \<Rightarrow> ([], s)) = (sign, s1)"
    by (metis surj_pair)
  then have "length s1 \<le> length s" by (auto split: list.splits char.splits bool.splits)
  with parse s1 show ?thesis
    by (auto simp: parse_number_def split: option.splits
        dest!: length_parse_int_part length_parse_fraction length_parse_exponent)
qed

lemma parsers_consume:
  "parse_value n s = Some (v, r) \<Longrightarrow> length r < length s"
  "parse_elements n s = Some (vs, r) \<Longrightarrow> length r < length s"
  "parse_members n s = Some (kvs, r) \<Longrightarrow> length r < length s"
proof (induction n s and n s and n s arbitrary: v r and vs r and kvs r
    rule: parse_value_parse_elements_parse_members.induct)
  case (2 n s)
  then show ?case
    by (auto split: list.splits if_splits option.splits
        dest!: length_skip_Cons length_parse_string length_after_skip length_parse_number) (meson less_trans)+
next
  case (4 n s)
  then show ?case
    by (fastforce split: option.splits dest: length_after_skip)
next
  case (6 n s)
  then show ?case
    by (fastforce split: option.splits dest: length_after_skip length_parse_string)
qed simp_all

text \<open>More fuel than the length of the text asks for never changes the result.\<close>

lemma parse_string_fuel:
  "length s < n \<Longrightarrow> length s < m \<Longrightarrow> parse_string n s = parse_string m s"
proof (induction n s arbitrary: m rule: parse_string.induct)
  case (2 n)
  then show ?case by (cases m) simp_all
next
  case (3 n c s)
  then obtain m' where m: "m = Suc m'" by (cases m) auto
  have plain: "parse_string n s = parse_string m' s"
    if "c \<noteq> CHR 0x22" "\<not> (of_char c :: nat) < 0x20" "c \<noteq> CHR 0x5C"
    using "3.prems" m that by (intro "3.IH"(1)) auto
  have unicode: "parse_string n r = parse_string m' r"
    if "c = CHR 0x5C" "s = e # t" "e = CHR ''u''" "unicode_escape t = Some (y, r)" for e t y r
    using "3.prems" m that length_unicode_escape [OF that(4)] by (intro "3.IH"(2)) auto
  have simple: "parse_string n t = parse_string m' t"
    if "c = CHR 0x5C" "s = e # t" "e \<noteq> CHR ''u''" "simple_escape e = Some x" for e t x
    using "3.prems" m that by (intro "3.IH"(3)) auto
  show ?case
  proof (cases s)
    case Nil
    with plain show ?thesis by (simp add: m)
  next
    case (Cons e t)
    show ?thesis
      using plain unicode [OF _ Cons] simple [OF _ Cons]
      by (simp add: m Cons del: parse_string.simps(3)
          add: parse_string.simps(3) [of n] parse_string.simps(3) [of m'] split: option.split)
  qed
qed simp

lemma parse_fuel:
  "2 * length s + 1 \<le> n \<Longrightarrow> 2 * length s + 1 \<le> m \<Longrightarrow> parse_value n s = parse_value m s"
  "2 * length s + 2 \<le> n \<Longrightarrow> 2 * length s + 2 \<le> m \<Longrightarrow> parse_elements n s = parse_elements m s"
  "2 * length s + 2 \<le> n \<Longrightarrow> 2 * length s + 2 \<le> m \<Longrightarrow> parse_members n s = parse_members m s"
proof (induction n s and n s and n s arbitrary: m and m and m
    rule: parse_value_parse_elements_parse_members.induct)
  case (2 n s)
  from "2.prems" obtain m' where m: "m = Suc m'" by (cases m) auto
  show ?case
  proof (cases "skip_space s")
    case (Cons c r)
    then have r: "length r < length s" by (rule length_skip_Cons)
    then have "parse_string (Suc n) r = parse_string (Suc m') r"
      using "2.prems" m by (intro parse_string_fuel) auto
    moreover have "parse_elements n r = parse_elements m' r"
      if "c = CHR ''[''" "after_char (CHR '']'') (skip_space r) = None"
      using "2.prems" m r that by (intro "2.IH"(1) [OF Cons]) simp_all
    moreover have "parse_members n r = parse_members m' r"
      if "c = CHR ''{''" "after_char (CHR ''}'') (skip_space r) = None"
      using "2.prems" m r that by (intro "2.IH"(2) [OF Cons]) simp_all
    ultimately show ?thesis
      by (simp add: m Cons split: option.split)
  qed (simp add: m)
next
  case (4 n s)
  from "4.prems" obtain m' where m: "m = Suc m'" by (cases m) auto
  have v: "parse_value n s = parse_value m' s" using "4.prems" m by (intro "4.IH"(1)) simp_all
  have elements: "parse_elements n r' = parse_elements m' r'"
    if "parse_value n s = Some (x, r)" "after_char (CHR '','') (skip_space r) = Some r'" for x r r'
    using parsers_consume(1) [OF that(1)] length_after_skip [OF that(2)] "4.prems" m
    by (intro "4.IH"(2) [OF that(1) refl that(2)]) simp_all
  show ?case
  proof (cases "parse_value n s")
    case (Some y)
    then show ?thesis
      using elements [of "fst y" "snd y"]
      by (simp add: m v [symmetric] case_prod_beta split: option.split)
  qed (simp add: m v [symmetric])
next
  case (6 n s)
  from "6.prems" obtain m' where m: "m = Suc m'" by (cases m) auto
  show ?case
  proof (cases "after_char (CHR 0x22) (skip_space s)")
    case r: (Some r)
    note r_less = length_after_skip [OF r]
    have str: "parse_string (Suc n) r = parse_string (Suc m') r"
      using r_less "6.prems" m by (intro parse_string_fuel) auto
    have val: "parse_value n r2 = parse_value m' r2"
      if "parse_string (Suc n) r = Some (k, r1)" "after_char (CHR '':'') (skip_space r1) = Some r2" for k r1 r2
      using r_less length_parse_string [OF that(1)] length_after_skip [OF that(2)] "6.prems" m
      by (intro "6.IH"(1) [OF r that(1) refl that(2)]) simp_all
    have members: "parse_members n r4 = parse_members m' r4"
      if "parse_string (Suc n) r = Some (k, r1)" "after_char (CHR '':'') (skip_space r1) = Some r2"
        "parse_value n r2 = Some (v, r3)" "after_char (CHR '','') (skip_space r3) = Some r4" for k r1 r2 v r3 r4
      using r_less length_parse_string [OF that(1)] length_after_skip [OF that(2)]
        parsers_consume(1) [OF that(3)] length_after_skip [OF that(4)] "6.prems" m
      by (intro "6.IH"(2) [OF r that(1) refl that(2,3) refl that(4)]) simp_all
    show ?thesis
    proof (cases "parse_string (Suc n) r")
      case (Some k)
      show ?thesis
      proof (cases "after_char (CHR '':'') (skip_space (snd k))")
        case colon: (Some r2)
        have v: "parse_value m' r2 = parse_value n r2"
          using val [of "fst k" "snd k" r2] Some colon by simp
        show ?thesis
        proof (cases "parse_value n r2")
          case (Some y)
          then show ?thesis
            using members [of "fst k" "snd k" r2 "fst y" "snd y"] \<open>parse_string (Suc n) r = Some k\<close> colon
            by (simp add: m r str [symmetric] v case_prod_beta del: parse_string.simps split: option.split)
        qed (simp add: m r str [symmetric] Some colon v case_prod_beta del: parse_string.simps)
      qed (simp add: m r str [symmetric] Some case_prod_beta del: parse_string.simps)
    qed (simp add: m r str [symmetric] del: parse_string.simps)
  qed (simp add: m)
qed simp_all

section \<open>Printing\<close>

text \<open>How a JSON printer writes a value without numbers: strings between quotes with a backslash
  before quotes and backslashes. Control characters are left out (\<open>plain_json\<close>).\<close>

definition escape_char :: "char \<Rightarrow> string" where
  "escape_char c = (if c = CHR 0x22 \<or> c = CHR 0x5C then [CHR 0x5C, c] else [c])"

definition show_string :: "string \<Rightarrow> string" where
  "show_string s = CHR 0x22 # concat (map escape_char s) @ [CHR 0x22]"

definition plain_string :: "string \<Rightarrow> bool" where
  "plain_string s \<longleftrightarrow> list_all (\<lambda>c. 0x20 \<le> (of_char c :: nat)) s"

fun show_json :: "json \<Rightarrow> string"
and show_elements :: "json list \<Rightarrow> string"
and show_members :: "(string \<times> json) list \<Rightarrow> string" where
  "show_json JNull = ''null''"
| "show_json (JBool b) = (if b then ''true'' else ''false'')"
| "show_json (JNumber x) = x"
| "show_json (JString s) = show_string s"
| "show_json (JArray vs) = ''['' @ show_elements vs @ '']''"
| "show_json (JObject kvs) = ''{'' @ show_members kvs @ ''}''"
| "show_elements [] = []"
| "show_elements [v] = show_json v"
| "show_elements (v # w # vs) = show_json v @ '','' @ show_elements (w # vs)"
| "show_members [] = []"
| "show_members [(k, v)] = show_string k @ '':'' @ show_json v"
| "show_members ((k, v) # kv # kvs) = show_string k @ '':'' @ show_json v @ '','' @ show_members (kv # kvs)"

fun plain_json :: "json \<Rightarrow> bool" where
  "plain_json (JNumber x) = False"
| "plain_json (JString s) = plain_string s"
| "plain_json (JArray vs) = list_all plain_json vs"
| "plain_json (JObject kvs) = list_all (\<lambda>(k, v). plain_string k \<and> plain_json v) kvs"
| "plain_json _ = True"

lemma parse_show_string:
  "plain_string s \<Longrightarrow> length (concat (map escape_char s)) < n \<Longrightarrow>
     parse_string n (concat (map escape_char s) @ CHR 0x22 # t) = Some (s, t)"
proof (induction s arbitrary: n)
  case Nil
  then show ?case by (cases n) simp_all
next
  case (Cons c s)
  from Cons.prems obtain m where n: "n = Suc m" by (cases n) auto
  have c: "\<not> (of_char c :: nat) < 0x20" "plain_string s" using Cons.prems by (simp_all add: plain_string_def)
  have esc: "simple_escape (CHR 0x22) = Some (CHR 0x22)" "simple_escape (CHR 0x5C) = Some (CHR 0x5C)"
    by code_simp+
  have bs: "\<not> (of_char (CHR 0x5C) :: nat) < 0x20" by simp
  show ?case
  proof (cases "c = CHR 0x22 \<or> c = CHR 0x5C")
    case True
    with Cons.prems Cons.IH [OF c(2), of m] show ?thesis
      by (auto simp: n escape_char_def esc)
  next
    case False
    with Cons.prems Cons.IH [OF c(2), of m] c show ?thesis
      by (simp add: n escape_char_def)
  qed
qed

lemma skip_space_Cons [simp]: "\<not> json_space c \<Longrightarrow> skip_space (c # s) = c # s"
  by (simp add: skip_space_def)

lemma after_char_Cons [simp]: "after_char c (d # s) = (if d = c then Some s else None)"
  by (simp add: after_char_def)

lemma not_space [simp]:
  "\<not> json_space (CHR 0x22)" "\<not> json_space (CHR ''['')" "\<not> json_space (CHR '']'')"
  "\<not> json_space (CHR ''{'')" "\<not> json_space (CHR ''}'')" "\<not> json_space (CHR '','')"
  "\<not> json_space (CHR '':'')" "\<not> json_space (CHR ''n'')" "\<not> json_space (CHR ''t'')"
  "\<not> json_space (CHR ''f'')"
  by (simp_all add: json_space_def)

definition starts_value :: "string \<Rightarrow> bool" where
  "starts_value s \<longleftrightarrow> (\<exists>c r. s = c # r \<and> \<not> json_space c \<and> c \<noteq> CHR '']'')"

lemma starts_value_Cons: "\<not> json_space c \<Longrightarrow> c \<noteq> CHR '']'' \<Longrightarrow> starts_value (c # r)"
  by (auto simp: starts_value_def)

lemma starts_value_append: "starts_value s \<Longrightarrow> starts_value (s @ t)"
  by (auto simp: starts_value_def)

lemma show_json_first: "plain_json v \<Longrightarrow> starts_value (show_json v)"
  by (cases v) (simp_all add: show_string_def starts_value_Cons)

lemma show_elements_first: "list_all plain_json vs \<Longrightarrow> vs \<noteq> [] \<Longrightarrow> starts_value (show_elements vs)"
  by (cases vs rule: show_elements.cases) (simp_all add: show_json_first starts_value_append)

lemma skip_value:
  assumes "starts_value s"
  shows "after_char (CHR '']'') (skip_space (s @ t)) = None"
  using assms by (auto simp: starts_value_def)

lemma show_members_first: "kvs \<noteq> [] \<Longrightarrow> \<exists>r. show_members kvs = CHR 0x22 # r"
  by (cases kvs rule: show_members.cases) (auto simp: show_string_def)

lemma parse_show_json:
  "plain_json v \<Longrightarrow> 2 * length (show_json v @ t) + 1 \<le> n \<Longrightarrow>
     parse_value n (show_json v @ t) = Some (v, t)"
  "list_all plain_json vs \<Longrightarrow> vs \<noteq> [] \<Longrightarrow> 2 * length (show_elements vs @ CHR '']'' # t) + 2 \<le> n \<Longrightarrow>
     parse_elements n (show_elements vs @ CHR '']'' # t) = Some (vs, t)"
  "list_all (\<lambda>(k, v). plain_string k \<and> plain_json v) kvs \<Longrightarrow> kvs \<noteq> [] \<Longrightarrow>
     2 * length (show_members kvs @ CHR ''}'' # t) + 2 \<le> n \<Longrightarrow>
     parse_members n (show_members kvs @ CHR ''}'' # t) = Some (kvs, t)"
proof (induction v and vs and kvs arbitrary: n t and n t and n t
    rule: show_json_show_elements_show_members.induct)
  case 1
  from "1.prems" obtain m where "n = Suc m" by (cases n) auto
  then show ?case by (simp add: has_prefix_def)
next
  case (2 b)
  from "2.prems" obtain m where "n = Suc m" by (cases n) auto
  then show ?case by (simp add: has_prefix_def)
next
  case (4 s)
  from "4.prems" obtain m where n: "n = Suc m" by (cases n) auto
  with 4 parse_show_string [of s "Suc m" t] show ?case
    by (simp add: show_string_def del: parse_string.simps)
next
  case (5 vs)
  from "5.prems" obtain m where n: "n = Suc m" by (cases n) auto
  show ?case
  proof (cases "vs = []")
    case False
    with "5.prems"(1) have "starts_value (show_elements vs)" by (simp add: show_elements_first)
    with skip_value "5.IH" [where n = m and t = t] "5.prems" False show ?thesis by (simp add: n)
  qed (simp add: n)
next
  case (6 kvs)
  from "6.prems" obtain m where n: "n = Suc m" by (cases n) auto
  show ?case
  proof (cases "kvs = []")
    case False
    then obtain r where "show_members kvs = CHR 0x22 # r" using show_members_first by blast
    with "6.IH" [where n = m and t = t] "6.prems" False show ?thesis by (simp add: n)
  qed (simp add: n)
next
  case (8 v)
  from "8.prems" obtain m where n: "n = Suc m" by (cases n) auto
  with "8.IH" [where n = m and t = "CHR '']'' # t"] "8.prems" show ?case by simp
next
  case (9 v w vs)
  from "9.prems" obtain m where n: "n = Suc m" by (cases n) auto
  with "9.IH"(1) [where n = m and t = "CHR '','' # show_elements (w # vs) @ CHR '']'' # t"]
    "9.IH"(2) [where n = m and t = t] "9.prems"
  show ?case by simp
next
  case (11 k v)
  from "11.prems" obtain m where n: "n = Suc m" by (cases n) auto
  with parse_show_string [of k "Suc m" "CHR '':'' # show_json v @ CHR ''}'' # t"]
    "11.IH" [where n = m and t = "CHR ''}'' # t"] "11.prems"
  show ?case by (simp add: show_string_def del: parse_string.simps)
next
  case (12 k v kv kvs)
  from "12.prems" obtain m where n: "n = Suc m" by (cases n) auto
  with parse_show_string [of k "Suc m" "CHR '':'' # show_json v @ CHR '','' # show_members (kv # kvs) @ CHR ''}'' # t"]
    "12.IH"(1) [where n = m and t = "CHR '','' # show_members (kv # kvs) @ CHR ''}'' # t"]
    "12.IH"(2) [where n = m and t = t] "12.prems"
  show ?case by (simp add: show_string_def del: parse_string.simps)
qed simp_all

lemma parse_json_show:
  assumes "plain_json v" and "list_all json_space sp"
  shows "parse_json (show_json v @ sp) = Some v"
proof -
  have "skip_space sp = []" using assms(2) by (simp add: skip_space_def list_all_iff)
  moreover have "parse_value (2 * length (show_json v @ sp) + 2) (show_json v @ sp) = Some (v, sp)"
    by (rule parse_show_json(1) [OF assms(1)]) simp
  ultimately show ?thesis by (simp only: parse_json_def option.case prod.case refl if_True)
qed

end
