(* ===== verification/Os.thy ===== *)
theory Os
  imports Iaas
begin

text \<open>
  The outside world of the node plugin, a parameter of the model as the cloud is: the operating
  system (commands, files, system calls) and the functions of \<open>k8s.io/mount-utils\<close> that the
  driver calls. \<open>os_Command cmd args\<close> is a command's combined output and error: an exit
  status, or an error of starting or waiting for it. \<open>traced_os\<close> adds the journal.
\<close>

datatype exec_error = ExitError int | StartError go_error

record statfs_t =
  st_Bsize :: int64
  st_Blocks :: uint64
  st_Bfree :: uint64
  st_Bavail :: uint64
  st_Files :: uint64
  st_Ffree :: uint64

record 'w os =
  os_LookPath :: "string \<Rightarrow> ('w, err) state"
  os_Command :: "string \<Rightarrow> string list \<Rightarrow> ('w, string \<times> exec_error option) state"
  os_Stat :: "string \<Rightarrow> ('w, err) state"
  os_MkdirAll :: "string \<Rightarrow> nat \<Rightarrow> ('w, err) state"
  os_CreateFile :: "string \<Rightarrow> nat \<Rightarrow> ('w, err) state"
    \<comment> \<open>\<open>os.OpenFile(name, os.O_CREATE, perm)\<close>\<close>
  os_CloseFile :: "string \<Rightarrow> ('w, err) state"
  os_EvalSymlinks :: "string \<Rightarrow> ('w, string \<times> err) state"
  os_ReadFile :: "string \<Rightarrow> ('w, string \<times> err) state"
  unix_Statfs :: "string \<Rightarrow> ('w, statfs_t \<times> err) state"
  unix_StatMode :: "string \<Rightarrow> ('w, int32 \<times> err) state"
    \<comment> \<open>the \<open>Mode\<close> of \<open>unix.Stat_t\<close>, a 32-bit unsigned integer\<close>
  mount_CleanupMountPoint :: "string \<Rightarrow> ('w, err) state"
  mount_GetDeviceNameFromMount :: "string \<Rightarrow> ('w, string \<times> err) state"
  mount_NeedResize :: "string \<Rightarrow> string \<Rightarrow> ('w, bool \<times> err) state"
  mount_Resize :: "string \<Rightarrow> string \<Rightarrow> ('w, bool \<times> err) state"

datatype os_call =
    Look_Path string err
  | Command string "string list" string "exec_error option"
  | Stat string err
  | Mkdir_All string nat err
  | Create_File string nat err
  | Close_File string err
  | Eval_Symlinks string string err
  | Read_File string string err
  | Statfs string statfs_t err
  | Stat_Mode string int32 err
  | Cleanup_Mount_Point string err
  | Device_Name_From_Mount string string err
  | Need_Resize string string bool err
  | Resize_Fs string string bool err

definition traced_os :: "'w os \<Rightarrow> ('w \<times> os_call list) os" where
  "traced_os e =
     \<lparr> os_LookPath = (\<lambda>x. journal (Look_Path x) (os_LookPath e x)),
       os_Command = (\<lambda>c as. journal (\<lambda>(out, r). Command c as out r) (os_Command e c as)),
       os_Stat = (\<lambda>x. journal (Stat x) (os_Stat e x)),
       os_MkdirAll = (\<lambda>x p. journal (Mkdir_All x p) (os_MkdirAll e x p)),
       os_CreateFile = (\<lambda>x p. journal (Create_File x p) (os_CreateFile e x p)),
       os_CloseFile = (\<lambda>x. journal (Close_File x) (os_CloseFile e x)),
       os_EvalSymlinks = (\<lambda>x. journal (\<lambda>(y, r). Eval_Symlinks x y r) (os_EvalSymlinks e x)),
       os_ReadFile = (\<lambda>x. journal (\<lambda>(y, r). Read_File x y r) (os_ReadFile e x)),
       unix_Statfs = (\<lambda>x. journal (\<lambda>(y, r). Statfs x y r) (unix_Statfs e x)),
       unix_StatMode = (\<lambda>x. journal (\<lambda>(y, r). Stat_Mode x y r) (unix_StatMode e x)),
       mount_CleanupMountPoint =
         (\<lambda>x. journal (Cleanup_Mount_Point x) (mount_CleanupMountPoint e x)),
       mount_GetDeviceNameFromMount =
         (\<lambda>x. journal (\<lambda>(y, r). Device_Name_From_Mount x y r) (mount_GetDeviceNameFromMount e x)),
       mount_NeedResize =
         (\<lambda>x y. journal (\<lambda>(b, r). Need_Resize x y b r) (mount_NeedResize e x y)),
       mount_Resize = (\<lambda>x y. journal (\<lambda>(b, r). Resize_Fs x y b r) (mount_Resize e x y)) \<rparr>"

lemma traced_os_simps [simp]:
  "os_LookPath (traced_os e) = (\<lambda>x. journal (Look_Path x) (os_LookPath e x))"
  "os_Command (traced_os e) = (\<lambda>c as. journal (\<lambda>(out, r). Command c as out r) (os_Command e c as))"
  "os_Stat (traced_os e) = (\<lambda>x. journal (Stat x) (os_Stat e x))"
  "os_MkdirAll (traced_os e) = (\<lambda>x p. journal (Mkdir_All x p) (os_MkdirAll e x p))"
  "os_CreateFile (traced_os e) = (\<lambda>x p. journal (Create_File x p) (os_CreateFile e x p))"
  "os_CloseFile (traced_os e) = (\<lambda>x. journal (Close_File x) (os_CloseFile e x))"
  "os_EvalSymlinks (traced_os e) = (\<lambda>x. journal (\<lambda>(y, r). Eval_Symlinks x y r) (os_EvalSymlinks e x))"
  "os_ReadFile (traced_os e) = (\<lambda>x. journal (\<lambda>(y, r). Read_File x y r) (os_ReadFile e x))"
  "unix_Statfs (traced_os e) = (\<lambda>x. journal (\<lambda>(y, r). Statfs x y r) (unix_Statfs e x))"
  "unix_StatMode (traced_os e) = (\<lambda>x. journal (\<lambda>(y, r). Stat_Mode x y r) (unix_StatMode e x))"
  "mount_CleanupMountPoint (traced_os e) =
     (\<lambda>x. journal (Cleanup_Mount_Point x) (mount_CleanupMountPoint e x))"
  "mount_GetDeviceNameFromMount (traced_os e) =
     (\<lambda>x. journal (\<lambda>(y, r). Device_Name_From_Mount x y r) (mount_GetDeviceNameFromMount e x))"
  "mount_NeedResize (traced_os e) = (\<lambda>x y. journal (\<lambda>(b, r). Need_Resize x y b r) (mount_NeedResize e x y))"
  "mount_Resize (traced_os e) = (\<lambda>x y. journal (\<lambda>(b, r). Resize_Fs x y b r) (mount_Resize e x y))"
  by (simp_all add: traced_os_def)

end
