(* ===== verification/Mounter.thy ===== *)
theory Mounter
  imports GoJson Os
begin

text \<open>
  \<open>driver/mounter.go\<close>: the interface \<open>Mounter\<close> as a record of operations, the decoding of
  \<open>findmnt\<close>'s answer, and the production mounter, whose operations run commands and system
  calls of the record \<open>os\<close>. \<open>IsMounted\<close> returns None where the Go code panics: an answer
  \<open>null\<close> of \<open>findmnt\<close> leaves the response pointer nil.
\<close>

section \<open>The interface\<close>

record volumeStatistics =
  availableBytes :: int64
  totalBytes :: int64
  usedBytes :: int64
  availableInodes :: int64
  totalInodes :: int64
  usedInodes :: int64

definition no_statistics :: volumeStatistics where
  "no_statistics =
     \<lparr> availableBytes = 0, totalBytes = 0, usedBytes = 0, availableInodes = 0, totalInodes = 0,
       usedInodes = 0 \<rparr>"

record 'w mounter =
  m_Format :: "string \<Rightarrow> string \<Rightarrow> ('w, err) state"
  m_IsFormatted :: "string \<Rightarrow> ('w, bool \<times> err) state"
  m_Mount :: "string \<Rightarrow> string \<Rightarrow> string \<Rightarrow> string list \<Rightarrow> ('w, err) state"
  m_Unmount :: "string \<Rightarrow> ('w, err) state"
  m_IsAttached :: "string \<Rightarrow> ('w, err) state"
  m_IsMounted :: "string \<Rightarrow> ('w, (bool \<times> err) option) state"
  m_GetDeviceName :: "string \<Rightarrow> ('w, string \<times> err) state"
  m_GetStatistics :: "string \<Rightarrow> ('w, volumeStatistics \<times> err) state"
  m_IsBlockDevice :: "string \<Rightarrow> ('w, bool \<times> err) state"

section \<open>The answer of findmnt\<close>

record fileSystem =
  fs_Target :: string
  fs_Propagation :: string
  fs_FsType :: string
  fs_Options :: string

definition zero_fs :: fileSystem where
  "zero_fs = \<lparr> fs_Target = '''', fs_Propagation = '''', fs_FsType = '''', fs_Options = '''' \<rparr>"

text \<open>
  Decoding goes on after a value of the wrong type and returns the error at the end, so a
  decoder returns the value and whether all types fitted. Keys match by \<open>equal_fold\<close>, null
  leaves a string unchanged, unknown keys are skipped, a later member overrides an earlier one.
\<close>

definition decode_string :: "json \<Rightarrow> string \<Rightarrow> string \<times> bool" where
  "decode_string v old =
     (case v of JString s \<Rightarrow> (s, True) | JNull \<Rightarrow> (old, True) | _ \<Rightarrow> (old, False))"

definition decode_fs_member :: "string \<times> json \<Rightarrow> fileSystem \<times> bool \<Rightarrow> fileSystem \<times> bool" where
  "decode_fs_member kv st =
     (let (k, v) = kv; (fs, ok) = st
      in if equal_fold k ''target'' then
           (let (s, b) = decode_string v (fs_Target fs) in (fs\<lparr> fs_Target := s \<rparr>, ok \<and> b))
         else if equal_fold k ''propagation'' then
           (let (s, b) = decode_string v (fs_Propagation fs) in (fs\<lparr> fs_Propagation := s \<rparr>, ok \<and> b))
         else if equal_fold k ''fstype'' then
           (let (s, b) = decode_string v (fs_FsType fs) in (fs\<lparr> fs_FsType := s \<rparr>, ok \<and> b))
         else if equal_fold k ''options'' then
           (let (s, b) = decode_string v (fs_Options fs) in (fs\<lparr> fs_Options := s \<rparr>, ok \<and> b))
         else (fs, ok))"

definition decode_fs :: "json \<Rightarrow> fileSystem \<times> bool" where
  "decode_fs v =
     (case v of
        JObject kvs \<Rightarrow> fold decode_fs_member kvs (zero_fs, True)
      | JNull \<Rightarrow> (zero_fs, True)
      | _ \<Rightarrow> (zero_fs, False))"

definition decode_response_member ::
    "string \<times> json \<Rightarrow> fileSystem list \<times> bool \<Rightarrow> fileSystem list \<times> bool" where
  "decode_response_member kv st =
     (let (k, v) = kv; (fss, ok) = st
      in if equal_fold k ''filesystems'' then
           (case v of
              JArray vs \<Rightarrow> (map (fst \<circ> decode_fs) vs, ok \<and> list_all (snd \<circ> decode_fs) vs)
            | JNull \<Rightarrow> ([], ok)
            | _ \<Rightarrow> (fss, False))
         else (fss, ok))"

text \<open>\<open>var resp *findmntResponse; err = json.Unmarshal(out, &resp)\<close>.\<close>

definition unmarshal_findmnt :: "string \<Rightarrow> go_error + fileSystem list option" where
  "unmarshal_findmnt out =
     (case parse_json out of
        None \<Rightarrow> Inl (ErrorString [Lit ''invalid JSON''])
      | Some JNull \<Rightarrow> Inr None
      | Some (JObject kvs) \<Rightarrow>
          (let (fss, ok) = fold decode_response_member kvs ([], True)
           in if ok then Inr (Some fss)
              else Inl (ErrorString [Lit ''json: cannot unmarshal value'']))
      | Some _ \<Rightarrow> Inl (ErrorString [Lit ''json: cannot unmarshal value'']))"

section \<open>The production mounter\<close>

definition exec_text :: "exec_error \<Rightarrow> msg" where
  "exec_text e =
     (case e of ExitError n \<Rightarrow> [Lit ''exit status '', Dec n] | StartError e' \<Rightarrow> error_text e')"

text \<open>The repeated lookup of an executable: the error the caller returns, if any.\<close>

definition look_path :: "'w os \<Rightarrow> string \<Rightarrow> ('w, err) state" where
  "look_path os cmd = do {
     err \<leftarrow> os_LookPath os cmd;
     ret (case err of
            None \<Rightarrow> None
          | Some e \<Rightarrow>
              if e = Sentinel ErrExecNotFound then
                Some (ErrorString [Quoted cmd, Lit '' executable not found in $PATH''])
              else Some e)
   }"

definition mkfs_command :: "string \<Rightarrow> string" where
  "mkfs_command fsType = ''mkfs.'' @ fsType"

definition mkfs_args :: "string \<Rightarrow> string \<Rightarrow> string list" where
  "mkfs_args source fsType =
     (if fsType = ''ext4'' \<or> fsType = ''ext3'' then [''-F'', source] else [source])"

definition Format :: "'w os \<Rightarrow> string \<Rightarrow> string \<Rightarrow> ('w, err) state" where
  "Format os source fsType =
     (let mkfsCmd = mkfs_command fsType
      in do {
        err \<leftarrow> look_path os mkfsCmd;
        (if err \<noteq> None then ret err
         else if fsType = '''' then
           ret (Some (ErrorString [Lit ''fs type is not specified for formatting the volume'']))
         else if source = '''' then
           ret (Some (ErrorString [Lit ''source is not specified for formatting the volume'']))
         else do {
           let mkfsArgs = mkfs_args source fsType;
           (out, err) \<leftarrow> os_Command os mkfsCmd mkfsArgs;
           ret (case err of
                  None \<Rightarrow> None
                | Some e \<Rightarrow> Some (ErrorString
                    ([Lit ''formatting disk failed: ''] @ exec_text e @
                     [Lit ('' cmd: '' @ [CHR 0x27]), Lit mkfsCmd, Lit '' '',
                      Lit (go_join mkfsArgs '' ''), Lit ([CHR 0x27] @ '' output: ''), Quoted out])))
         })
      })"

text \<open>What \<open>Mount\<close> does before it runs \<open>mount\<close>: an empty file for a raw block device, else the
  directory. The modes are those of the code, 0750 and 0660 in octal.\<close>

definition prepare_target :: "'w os \<Rightarrow> string \<Rightarrow> string \<Rightarrow> ('w, err) state" where
  "prepare_target os target fsType =
     (if fsType = '''' then do {
        err \<leftarrow> os_MkdirAll os (filepath_dir target) 488;
        (case err of
           Some e \<Rightarrow> ret (Some (ErrorString
             (Lit ''failed to create target directory for raw block bind mount: '' # error_text e)))
         | None \<Rightarrow> do {
             err \<leftarrow> os_CreateFile os target 432;
             (case err of
                Some e \<Rightarrow> ret (Some (ErrorString
                  (Lit ''failed to create target file for raw block bind mount: '' # error_text e)))
              | None \<Rightarrow> do {
                  err \<leftarrow> os_CloseFile os target;
                  ret (case err of
                         Some e \<Rightarrow> Some (ErrorString
                           (Lit ''failed to close target file for raw block bind mount: '' # error_text e))
                       | None \<Rightarrow> None)
                })
           })
      } else os_MkdirAll os target 488)"

definition mount_args :: "string \<Rightarrow> string \<Rightarrow> string \<Rightarrow> string list \<Rightarrow> string list" where
  "mount_args source target fsType opts0 =
     (let opts = (if fsType = ''xfs'' then opts0 @ [''nouuid''] else opts0)
      in (if fsType = '''' then [] else [''-t'', fsType]) @
         (if 0 < length opts then [''-o'', go_join opts '',''] else []) @ [source, target])"

definition Mount :: "'w os \<Rightarrow> string \<Rightarrow> string \<Rightarrow> string \<Rightarrow> string list \<Rightarrow> ('w, err) state" where
  "Mount os source target fsType opts =
     (if source = '''' then
        ret (Some (ErrorString [Lit ''source is not specified for mounting the volume'']))
      else if target = '''' then
        ret (Some (ErrorString [Lit ''target is not specified for mounting the volume'']))
      else do {
        err \<leftarrow> os_Stat os source;
        (case err of
           Some e \<Rightarrow> ret (Some (ErrorString
             ([Lit ''source device '', Quoted source, Lit '' does not exist or is not accessible: ''] @
              error_text e)))
         | None \<Rightarrow> do {
             err \<leftarrow> prepare_target os target fsType;
             (if err \<noteq> None then ret err
              else do {
                let mountArgs = mount_args source target fsType opts;
                (out, err) \<leftarrow> os_Command os ''mount'' mountArgs;
                ret (case err of
                       None \<Rightarrow> None
                     | Some e \<Rightarrow> Some (ErrorString
                         ([Lit ''mounting failed: ''] @ exec_text e @
                          [Lit ('' cmd: '' @ [CHR 0x27]), Lit ''mount'', Lit '' '',
                           Lit (go_join mountArgs '' ''), Lit ([CHR 0x27] @ '' output: ''), Quoted out])))
              })
           })
      })"

definition Unmount :: "'w os \<Rightarrow> string \<Rightarrow> ('w, err) state" where
  "Unmount os target = mount_CleanupMountPoint os target"

definition runningState :: string where "runningState = ''running''"

definition device_state_path :: "string \<Rightarrow> string" where
  "device_state_path deviceName = ''/sys/class/block/'' @ deviceName @ ''/device/state''"

definition IsAttached :: "'w os \<Rightarrow> string \<Rightarrow> ('w, err) state" where
  "IsAttached os source = do {
     (out, err) \<leftarrow> os_EvalSymlinks os source;
     (case err of
        Some e \<Rightarrow> ret (Some (ErrorString
          ([Lit ''error evaluating the symbolic link '', Quoted source, Lit '': ''] @ error_text e)))
      | None \<Rightarrow>
          let deviceName = snd (filepath_split out)
          in if deviceName = '''' then
               ret (Some (ErrorString [Lit ''error device name is empty for path '', Lit out]))
             else do {
               (content, err) \<leftarrow> os_ReadFile os (device_state_path deviceName);
               ret (case err of
                      Some e \<Rightarrow> Some (ErrorString
                        ([Lit ''error reading the device state file '',
                          Quoted (device_state_path deviceName), Lit '': ''] @ error_text e))
                    | None \<Rightarrow>
                        let st = trim_space content
                        in if st \<noteq> runningState then
                             Some (ErrorString
                               [Lit ''error comparing the state file content, expected: '',
                                Lit runningState, Lit '', got: '', Quoted st])
                           else None)
             })
   }"

definition blkidExitStatusNoIdentifiers :: int where "blkidExitStatusNoIdentifiers = 2"

definition IsFormatted :: "'w os \<Rightarrow> string \<Rightarrow> ('w, bool \<times> err) state" where
  "IsFormatted os source =
     (if source = '''' then ret (False, Some (ErrorString [Lit ''source is not specified'']))
      else do {
        err \<leftarrow> look_path os ''blkid'';
        (if err \<noteq> None then ret (False, err)
         else do {
           (_, err) \<leftarrow> os_Command os ''blkid'' [source];
           ret (case err of
                  None \<Rightarrow> (True, None)
                | Some (StartError e) \<Rightarrow>
                    (False, Some (ErrorString
                       ([Lit ''checking formatting failed: ''] @ error_text e @
                        [Lit '' cmd: '', Quoted ''blkid'', Lit '', args: ['', Quoted source, Lit '']''])))
                | Some (ExitError exitCode) \<Rightarrow>
                    if exitCode = blkidExitStatusNoIdentifiers then (False, None)
                    else (False, Some (ErrorString
                       ([Lit ''checking formatting failed: ''] @ exec_text (ExitError exitCode) @
                        [Lit '' cmd: '', Quoted ''blkid'', Lit '', args: ['', Quoted source, Lit '']'']))))
         })
      })"

text \<open>The loop over the file systems of the response.\<close>

fun check_mounts :: "string \<Rightarrow> bool \<Rightarrow> fileSystem list \<Rightarrow> bool \<times> err" where
  "check_mounts target targetFound [] = (targetFound, None)"
| "check_mounts target targetFound (fs # fss) =
     (if fs_Propagation fs \<noteq> ''shared'' then
        (True, Some (ErrorString
           [Lit ''mount propagation for target '', Quoted target, Lit '' is not enabled'']))
      else check_mounts target (targetFound \<or> fs_Target fs = target) fss)"

definition findmnt_args :: "string \<Rightarrow> string list" where
  "findmnt_args target = [''-o'', ''TARGET,PROPAGATION,FSTYPE,OPTIONS'', ''-M'', target, ''-J'']"

definition IsMounted :: "'w os \<Rightarrow> string \<Rightarrow> ('w, (bool \<times> err) option) state" where
  "IsMounted os target =
     (if target = '''' then
        ret (Some (False, Some (ErrorString [Lit ''target is not specified for checking the mount''])))
      else do {
        err \<leftarrow> look_path os ''findmnt'';
        (if err \<noteq> None then ret (Some (False, err))
         else do {
           (out, err) \<leftarrow> os_Command os ''findmnt'' (findmnt_args target);
           ret (case err of
                  Some e \<Rightarrow>
                    if trim_space out = '''' then Some (False, None)
                    else Some (False, Some (ErrorString
                      ([Lit ''checking mounted failed: ''] @ exec_text e @
                       [Lit '' cmd: '', Quoted ''findmnt'', Lit '' output: '', Quoted out])))
                | None \<Rightarrow>
                    if out = '''' then Some (False, None)
                    else (case unmarshal_findmnt out of
                            Inl e \<Rightarrow> Some (False, Some (ErrorString
                              ([Lit (''couldn'' @ [CHR 0x27] @ ''t unmarshal data: ''), Quoted out, Lit '': ''] @
                               error_text e)))
                          | Inr None \<Rightarrow> None
                          | Inr (Some fss) \<Rightarrow> Some (check_mounts target False fss)))
         })
      })"

definition GetDeviceName :: "'w os \<Rightarrow> string \<Rightarrow> ('w, string \<times> err) state" where
  "GetDeviceName os mountPath = do {
     (devicePath, err) \<leftarrow> mount_GetDeviceNameFromMount os mountPath;
     ret (devicePath, err)
   }"

section \<open>Statistics\<close>

text \<open>\<open>strconv.ParseInt(s, 10, 64)\<close>: None is an error.\<close>

definition digits_value :: "string \<Rightarrow> nat" where
  "digits_value ds = foldl (\<lambda>n c. n * 10 + (of_char c - 48)) 0 ds"

definition parse_int64 :: "string \<Rightarrow> int64 option" where
  "parse_int64 s =
     (let (neg, ds) = (case s of
            CHR ''-'' # r \<Rightarrow> (True, r) | CHR ''+'' # r \<Rightarrow> (False, r) | _ \<Rightarrow> (False, s));
          i = (if neg then - int (digits_value ds) else int (digits_value ds))
      in if ds \<noteq> [] \<and> list_all is_digit ds \<and> fits64 i then Some (word_of_int i) else None)"

definition S_IFMT :: int32 where "S_IFMT = 0xF000"
definition S_IFBLK :: int32 where "S_IFBLK = 0x6000"

definition IsBlockDevice :: "'w os \<Rightarrow> string \<Rightarrow> ('w, bool \<times> err) state" where
  "IsBlockDevice os devicePath = do {
     (mode, err) \<leftarrow> unix_StatMode os devicePath;
     ret (case err of Some e \<Rightarrow> (False, Some e) | None \<Rightarrow> (and mode S_IFMT = S_IFBLK, None))
   }"

text \<open>The sums and products wrap at 64 bits; \<open>int64(x)\<close> keeps the bits of a \<open>uint64\<close>.\<close>

definition statfs_statistics :: "statfs_t \<Rightarrow> volumeStatistics" where
  "statfs_statistics st =
     \<lparr> availableBytes = st_Bavail st * st_Bsize st,
       totalBytes = st_Blocks st * st_Bsize st,
       usedBytes = (st_Blocks st - st_Bfree st) * st_Bsize st,
       availableInodes = st_Ffree st,
       totalInodes = st_Files st,
       usedInodes = st_Files st - st_Ffree st \<rparr>"

definition GetStatistics :: "'w os \<Rightarrow> string \<Rightarrow> ('w, volumeStatistics \<times> err) state" where
  "GetStatistics os volumePath = do {
     (isBlock, err) \<leftarrow> IsBlockDevice os volumePath;
     (case err of
        Some e \<Rightarrow> ret (no_statistics, Some (ErrorString
          ([Lit ''failed to determine if volume '', Lit volumePath, Lit '' is block device: ''] @ error_text e)))
      | None \<Rightarrow>
          if isBlock then do {
            (output, err) \<leftarrow> os_Command os ''blockdev'' [''getsize64'', volumePath];
            ret (case err of
                   Some e \<Rightarrow> (no_statistics, Some (ErrorString
                     ([Lit ''error when getting size of block volume at path '', Lit volumePath,
                       Lit '': output: '', Lit output, Lit '', err: ''] @ exec_text e)))
                 | None \<Rightarrow>
                     (case parse_int64 (trim_space output) of
                        None \<Rightarrow> (no_statistics, Some (ErrorString
                          [Lit ''failed to parse size '', Lit (trim_space output), Lit '' into int'']))
                      | Some gotSizeBytes \<Rightarrow> (no_statistics\<lparr> totalBytes := gotSizeBytes \<rparr>, None)))
          } else do {
            (statfs, err) \<leftarrow> unix_Statfs os volumePath;
            ret (case err of
                   Some e \<Rightarrow> (no_statistics, Some e)
                 | None \<Rightarrow> (statfs_statistics statfs, None))
          })
   }"

section \<open>NewMounter\<close>

definition NewMounter :: "'w os \<Rightarrow> 'w mounter" where
  "NewMounter os =
     \<lparr> m_Format = Format os, m_IsFormatted = IsFormatted os, m_Mount = Mount os,
       m_Unmount = Unmount os, m_IsAttached = IsAttached os, m_IsMounted = IsMounted os,
       m_GetDeviceName = GetDeviceName os, m_GetStatistics = GetStatistics os,
       m_IsBlockDevice = IsBlockDevice os \<rparr>"

lemma NewMounter_simps [simp]:
  "m_Format (NewMounter os) = Format os" "m_IsFormatted (NewMounter os) = IsFormatted os"
  "m_Mount (NewMounter os) = Mount os" "m_Unmount (NewMounter os) = Unmount os"
  "m_IsAttached (NewMounter os) = IsAttached os" "m_IsMounted (NewMounter os) = IsMounted os"
  "m_GetDeviceName (NewMounter os) = GetDeviceName os"
  "m_GetStatistics (NewMounter os) = GetStatistics os"
  "m_IsBlockDevice (NewMounter os) = IsBlockDevice os"
  by (simp_all add: NewMounter_def)

section \<open>The contract of a mounter\<close>

text \<open>
  What the node plugin relies on. The view of a world holds the mounts (target to source), the
  file systems on the devices (device to type) and the attached devices. A query answers by the
  view and changes nothing; an operation that succeeds updates the view, one that fails leaves
  it alone. Empty paths are no part of the contract.
\<close>

record node_view =
  v_mounts :: "string \<rightharpoonup> string"
  v_formatted :: "string \<rightharpoonup> string"
  v_attached :: "string \<Rightarrow> bool"

text \<open>The three ways the plugin changes a node; only the targets of \<open>U\<close> may be unmounted.\<close>

inductive node_step :: "string set \<Rightarrow> node_view \<Rightarrow> node_view \<Rightarrow> bool" for U where
  format_step: "v_formatted v s = None \<Longrightarrow>
     node_step U v (v\<lparr> v_formatted := (v_formatted v)(s \<mapsto> fs) \<rparr>)"
| mount_step: "v_mounts v t = None \<Longrightarrow> node_step U v (v\<lparr> v_mounts := (v_mounts v)(t \<mapsto> s) \<rparr>)"
| unmount_step: "t \<in> U \<Longrightarrow> node_step U v (v\<lparr> v_mounts := (v_mounts v)(t := None) \<rparr>)"

inductive_cases node_step_cases: "node_step U v v'"

abbreviation node_steps :: "string set \<Rightarrow> node_view \<Rightarrow> node_view \<Rightarrow> bool" where
  "node_steps U \<equiv> (node_step U)\<^sup>*\<^sup>*"

text \<open>What steps keep: file systems are never overwritten, what is attached never changes, and
  a mount outside \<open>U\<close> keeps its source.\<close>

definition view_kept :: "string set \<Rightarrow> node_view \<Rightarrow> node_view \<Rightarrow> bool" where
  "view_kept U v v' \<longleftrightarrow>
     v_formatted v \<subseteq>\<^sub>m v_formatted v' \<and> v_attached v' = v_attached v \<and>
     (\<forall>t s. t \<notin> U \<and> v_mounts v t = Some s \<longrightarrow> v_mounts v' t = Some s)"

lemma view_kept_refl: "view_kept U v v"
  by (simp add: view_kept_def)

lemma view_kept_trans: "view_kept U v v' \<Longrightarrow> view_kept U v' v'' \<Longrightarrow> view_kept U v v''"
  by (auto simp: view_kept_def intro: map_le_trans)

lemma view_kept_mono: "view_kept U v v' \<Longrightarrow> U \<subseteq> U' \<Longrightarrow> view_kept U' v v'"
  by (auto simp: view_kept_def)

lemma node_step_kept: "node_step U v v' \<Longrightarrow> view_kept U v v'"
  by (auto elim!: node_step_cases simp: view_kept_def map_le_def)

lemma node_steps_kept: "node_steps U v v' \<Longrightarrow> view_kept U v v'"
  by (induction rule: rtranclp_induct) (auto dest: node_step_kept intro: view_kept_refl view_kept_trans)

locale mounter_contract =
  fixes m :: "'w mounter" and view :: "'w \<Rightarrow> node_view"
  assumes is_mounted: "t \<noteq> '''' \<Longrightarrow>
      run_state (m_IsMounted m t) w = (Some (v_mounts (view w) t \<noteq> None, None), w)"
    and is_formatted: "s \<noteq> '''' \<Longrightarrow>
      run_state (m_IsFormatted m s) w = ((v_formatted (view w) s \<noteq> None, None), w)"
    and is_attached: "\<exists>e. run_state (m_IsAttached m s) w = (e, w) \<and> (e = None \<longleftrightarrow> v_attached (view w) s)"
    and format: "run_state (m_Format m s fs) w = (e, w') \<Longrightarrow>
      view w' = (if e = None then (view w)\<lparr> v_formatted := (v_formatted (view w))(s \<mapsto> fs) \<rparr> else view w)"
    and mount: "run_state (m_Mount m s t fs opts) w = (e, w') \<Longrightarrow>
      view w' = (if e = None then (view w)\<lparr> v_mounts := (v_mounts (view w))(t \<mapsto> s) \<rparr> else view w)"
    and unmount: "run_state (m_Unmount m t) w = (e, w') \<Longrightarrow>
      view w' = (if e = None then (view w)\<lparr> v_mounts := (v_mounts (view w))(t := None) \<rparr> else view w)"
    and block_device: "\<exists>r. run_state (m_IsBlockDevice m p) w = (r, w)"
    and device_name: "\<exists>r. run_state (m_GetDeviceName m p) w = (r, w)"
    and statistics: "\<exists>r. run_state (m_GetStatistics m p) w = (r, w)"
begin

lemma format_steps:
  assumes "run_state (m_Format m s fs) w = (e, w')" and "v_formatted (view w) s = None"
  shows "node_steps U (view w) (view w')"
  using format [OF assms(1)] assms(2) by (auto intro: format_step)

lemma mount_steps:
  assumes "run_state (m_Mount m s t fs opts) w = (e, w')" and "v_mounts (view w) t = None"
  shows "node_steps U (view w) (view w')"
  using mount [OF assms(1)] assms(2) by (auto intro: mount_step)

lemma unmount_steps:
  assumes "run_state (m_Unmount m t) w = (e, w')" and "t \<in> U"
  shows "node_steps U (view w) (view w')"
  using unmount [OF assms(1)] assms(2) by (auto intro: unmount_step)

end

text \<open>The part of the contract that a mounter keeps whose operations may fail and may then leave
  anything behind: what an operation that succeeds, or a query that is answered, says and changes.
  What concerns mounts is promised for the paths \<open>real_path\<close> that the mounter can look up.\<close>

locale mounter_success =
  fixes m :: "'w mounter" and view :: "'w \<Rightarrow> node_view" and real_path :: "string \<Rightarrow> bool"
  assumes mounted_ok: "real_path t \<Longrightarrow> run_state (m_IsMounted m t) w = (Some (b, None), w') \<Longrightarrow>
      view w' = view w \<and> (b \<longleftrightarrow> v_mounts (view w) t \<noteq> None)"
    and formatted_ok: "run_state (m_IsFormatted m s) w = ((b, None), w') \<Longrightarrow>
      view w' = view w \<and> (b \<longleftrightarrow> v_formatted (view w) s \<noteq> None)"
    and attached_ok: "run_state (m_IsAttached m s) w = (None, w') \<Longrightarrow> view w' = view w \<and> v_attached (view w) s"
    and format_ok: "run_state (m_Format m s fs) w = (None, w') \<Longrightarrow>
      view w' = (view w)\<lparr> v_formatted := (v_formatted (view w))(s \<mapsto> fs) \<rparr>"
    and mount_ok: "real_path t \<Longrightarrow> run_state (m_Mount m s t fs opts) w = (None, w') \<Longrightarrow>
      view w' = (view w)\<lparr> v_mounts := (v_mounts (view w))(t \<mapsto> s) \<rparr>"
    and unmount_ok: "real_path t \<Longrightarrow> run_state (m_Unmount m t) w = (None, w') \<Longrightarrow>
      view w' = (view w)\<lparr> v_mounts := (v_mounts (view w))(t := None) \<rparr>"

end
