(* ===== verification/MockMounter.thy ===== *)
theory MockMounter
  imports Mounter
begin

text \<open>
  \<open>driver/mock_mounter.go\<close>: the mounter of the tests, a set of maps. Its state is the world of
  its operations. A missing key of a map of errors is a nil error.
\<close>

record mock =
  MountPoints :: "string \<rightharpoonup> string"
  FormattedDevices :: "string \<rightharpoonup> string"
  AttachedDevices :: "string \<Rightarrow> bool"
  Statistics :: "string \<rightharpoonup> volumeStatistics"
  BlockDevices :: "string \<Rightarrow> bool"
  MountErrors :: "string \<Rightarrow> err"
  UnmountErrors :: "string \<Rightarrow> err"
  FormatErrors :: "string \<Rightarrow> err"

definition NewMockMounter :: mock where
  "NewMockMounter =
     \<lparr> MountPoints = Map.empty, FormattedDevices = Map.empty, AttachedDevices = (\<lambda>_. False),
       Statistics = Map.empty, BlockDevices = (\<lambda>_. False), MountErrors = (\<lambda>_. None),
       UnmountErrors = (\<lambda>_. None), FormatErrors = (\<lambda>_. None) \<rparr>"

definition mock_GetDeviceByID :: "string \<Rightarrow> (mock, string \<times> err) state" where
  "mock_GetDeviceByID volumeID = State (\<lambda>m.
     (case MountPoints m volumeID of
        Some device \<Rightarrow> (device, None) | None \<Rightarrow> ('''', Some (Sentinel ErrDeviceNotFound)), m))"

definition mock_IsDeviceAttached :: "string \<Rightarrow> (mock, err) state" where
  "mock_IsDeviceAttached devicePath = State (\<lambda>m.
     (if \<not> AttachedDevices m devicePath then Some (Sentinel ErrDeviceNotAttached) else None, m))"

definition mock_Format :: "string \<Rightarrow> string \<Rightarrow> (mock, err) state" where
  "mock_Format devicePath fsType = State (\<lambda>m.
     (case FormatErrors m devicePath of
        Some e \<Rightarrow> (Some e, m)
      | None \<Rightarrow> (None, m\<lparr> FormattedDevices := (FormattedDevices m)(devicePath \<mapsto> fsType) \<rparr>)))"

definition mock_IsAttached :: "string \<Rightarrow> (mock, err) state" where
  "mock_IsAttached source = State (\<lambda>m.
     (if \<not> AttachedDevices m source then Some (Sentinel ErrDeviceNotAttached) else None, m))"

definition mock_IsFormatted :: "string \<Rightarrow> (mock, bool \<times> err) state" where
  "mock_IsFormatted devicePath = State (\<lambda>m. ((FormattedDevices m devicePath \<noteq> None, None), m))"

definition mock_Resize :: "string \<Rightarrow> string \<Rightarrow> (mock, err) state" where
  "mock_Resize devicePath mountPath = ret None"

definition mock_Mount :: "string \<Rightarrow> string \<Rightarrow> string \<Rightarrow> string list \<Rightarrow> (mock, err) state" where
  "mock_Mount source target fsType options = State (\<lambda>m.
     (case MountErrors m target of
        Some e \<Rightarrow> (Some e, m)
      | None \<Rightarrow> (None, m\<lparr> MountPoints := (MountPoints m)(target \<mapsto> source) \<rparr>)))"

definition mock_Unmount :: "string \<Rightarrow> (mock, err) state" where
  "mock_Unmount target = State (\<lambda>m.
     (case UnmountErrors m target of
        Some e \<Rightarrow> (Some e, m)
      | None \<Rightarrow> (None, m\<lparr> MountPoints := (MountPoints m)(target := None) \<rparr>)))"

definition mock_IsMounted :: "string \<Rightarrow> (mock, (bool \<times> err) option) state" where
  "mock_IsMounted target = State (\<lambda>m. (Some (MountPoints m target \<noteq> None, None), m))"

definition mock_GetDeviceName :: "string \<Rightarrow> (mock, string \<times> err) state" where
  "mock_GetDeviceName mountPath = State (\<lambda>m.
     (case MountPoints m mountPath of
        Some device \<Rightarrow> (device, None) | None \<Rightarrow> ('''', Some (Sentinel ErrDeviceNotFound)), m))"

definition mock_GetStatistics :: "string \<Rightarrow> (mock, volumeStatistics \<times> err) state" where
  "mock_GetStatistics volumePath = State (\<lambda>m.
     (case Statistics m volumePath of
        Some stats \<Rightarrow> (stats, None) | None \<Rightarrow> (no_statistics, None), m))"

definition mock_IsBlockDevice :: "string \<Rightarrow> (mock, bool \<times> err) state" where
  "mock_IsBlockDevice volumePath = State (\<lambda>m. ((BlockDevices m volumePath, None), m))"

definition MockMounter :: "mock mounter" where
  "MockMounter =
     \<lparr> m_Format = mock_Format, m_IsFormatted = mock_IsFormatted, m_Mount = mock_Mount,
       m_Unmount = mock_Unmount, m_IsAttached = mock_IsAttached, m_IsMounted = mock_IsMounted,
       m_GetDeviceName = mock_GetDeviceName, m_GetStatistics = mock_GetStatistics,
       m_IsBlockDevice = mock_IsBlockDevice \<rparr>"

section \<open>The mock keeps the contract\<close>

definition mock_view :: "mock \<Rightarrow> node_view" where
  "mock_view m =
     \<lparr> v_mounts = MountPoints m, v_formatted = FormattedDevices m, v_attached = AttachedDevices m \<rparr>"

lemma MockMounter_simps [simp]:
  "m_Format MockMounter = mock_Format" "m_IsFormatted MockMounter = mock_IsFormatted"
  "m_Mount MockMounter = mock_Mount" "m_Unmount MockMounter = mock_Unmount"
  "m_IsAttached MockMounter = mock_IsAttached" "m_IsMounted MockMounter = mock_IsMounted"
  "m_GetDeviceName MockMounter = mock_GetDeviceName"
  "m_GetStatistics MockMounter = mock_GetStatistics"
  "m_IsBlockDevice MockMounter = mock_IsBlockDevice"
  by (simp_all add: MockMounter_def)

interpretation mock: mounter_contract MockMounter mock_view
  by unfold_locales
    (auto simp: mock_Format_def mock_IsFormatted_def mock_Mount_def mock_Unmount_def
      mock_IsAttached_def mock_IsMounted_def mock_GetDeviceName_def mock_GetStatistics_def
      mock_IsBlockDevice_def mock_view_def split: option.splits if_splits)

interpretation mock_ok: mounter_success MockMounter mock_view "\<lambda>_. True"
  by unfold_locales
    (auto simp: mock_Format_def mock_IsFormatted_def mock_Mount_def mock_Unmount_def
      mock_IsAttached_def mock_IsMounted_def mock_view_def split: option.splits if_splits)

end
