(* ===== verification/Node.thy ===== *)
theory Node
  imports Capabilities MockMounter
begin

text \<open>
  \<open>driver/node.go\<close>: staging, publishing and expanding volumes on a node. The handlers take the
  mounter \<open>m\<close> (the field \<open>d.mounter\<close>), the operating system \<open>os\<close> for the calls they make
  themselves, the driver object and the request. A call of \<open>IsMounted\<close> that panics ends the
  handler in a panic.
\<close>

section \<open>Device paths\<close>

definition diskIDPath :: string where "diskIDPath = ''/dev/disk/by-id''"
definition diskByIdPrefix :: string where "diskByIdPrefix = ''scsi-0QEMU_QEMU_HARDDISK_''"

definition getDeviceByIDPath :: "string \<Rightarrow> string" where
  "getDeviceByIDPath volumeName = filepath_join [diskIDPath, diskByIdPrefix @ volumeName]"

definition findAbsoluteDeviceByIDPath :: "'w os \<Rightarrow> string \<Rightarrow> ('w, go_error + string) state" where
  "findAbsoluteDeviceByIDPath os volumeName =
     (let path = getDeviceByIDPath volumeName
      in do {
        (resolved, err) \<leftarrow> os_EvalSymlinks os path;
        ret (case err of
               Some e \<Rightarrow> Inl (ErrorString
                 ([Lit ''could not resolve symlink '', Quoted path, Lit '': ''] @ error_text e))
             | None \<Rightarrow>
                 if \<not> has_prefix resolved ''/dev'' then
                   Inl (ErrorString [Lit ''resolved symlink '', Quoted resolved, Lit '' for '',
                     Quoted path, Lit '' was unexpected''])
                 else Inr resolved)
      })"

section \<open>Requests\<close>

record stage_request =
  stg_VolumeId :: string
  stg_StagingTargetPath :: string
  stg_VolumeCapability :: "volume_capability option"
  stg_VolumeContext :: labels

record node_publish_request =
  np_VolumeId :: string
  np_StagingTargetPath :: string
  np_TargetPath :: string
  np_VolumeCapability :: "volume_capability option"
  np_Readonly :: bool

section \<open>NodeStageVolume\<close>

definition annsNoFormatVolume :: "string list" where
  "annsNoFormatVolume = [''csi.k8s.thalassa.cloud/noformat'']"

text \<open>The loop over the annotations: whether one of them is a key of the volume context.\<close>

fun no_format :: "labels \<Rightarrow> string list \<Rightarrow> bool" where
  "no_format volumeContext [] = False"
| "no_format volumeContext (ann # anns) =
     (if volumeContext ann \<noteq> None then True else no_format volumeContext anns)"

text \<open>\<open>GetMount()\<close>: the mount of the oneof, nil for another access type.\<close>

definition GetMount :: "volume_capability \<Rightarrow> mount_volume option" where
  "GetMount cap = (case vc_AccessType cap of Some (VolumeCapability_Mount m) \<Rightarrow> m | _ \<Rightarrow> None)"

definition fs_type_of :: "mount_volume \<Rightarrow> string" where
  "fs_type_of mnt = (if mv_FsType mnt \<noteq> '''' then mv_FsType mnt else ''ext4'')"

text \<open>Formatting the device unless it is formatted, and the check of the attachment before that:
  the error that ends the handler.\<close>

definition format_if_blank :: "'w mounter \<Rightarrow> string \<Rightarrow> string \<Rightarrow> ('w, err) state" where
  "format_if_blank m source fsType = do {
     (formatted, err) \<leftarrow> m_IsFormatted m source;
     (case err of
        Some e \<Rightarrow> ret (Some e)
      | None \<Rightarrow>
          if \<not> formatted then do {
            err \<leftarrow> m_Format m source fsType;
            ret (case err of
                   Some e \<Rightarrow> Some (status_error Internal (error_text e))
                 | None \<Rightarrow> None)
          } else ret None)
   }"

definition stage_format ::
    "'w mounter \<Rightarrow> driver \<Rightarrow> string \<Rightarrow> string \<Rightarrow> ('w, err) state" where
  "stage_format m d source fsType = do {
     err \<leftarrow> (if d_validateAttachment d then m_IsAttached m source else ret None);
     (case err of
        Some e \<Rightarrow> ret (Some (status_error Internal
          ([Lit ''error retrieving the attachement status '', Quoted source, Lit '': ''] @ error_text e)))
      | None \<Rightarrow> format_if_blank m source fsType)
   }"

text \<open>The mount: None is a panic of \<open>IsMounted\<close>, \<open>Some err\<close> the error that ends the handler.\<close>

definition stage_mount ::
    "'w mounter \<Rightarrow> string \<Rightarrow> string \<Rightarrow> string \<Rightarrow> string list \<Rightarrow> ('w, err option) state" where
  "stage_mount m source target fsType options = do {
     mounted \<leftarrow> m_IsMounted m target;
     (case mounted of
        None \<Rightarrow> ret None
      | Some (_, Some e) \<Rightarrow> ret (Some (Some e))
      | Some (b, None) \<Rightarrow>
          if \<not> b then do {
            err \<leftarrow> m_Mount m source target fsType options;
            ret (Some (case err of
                         Some e \<Rightarrow> Some (status_error Internal (error_text e))
                       | None \<Rightarrow> None))
          } else ret (Some None))
   }"

text \<open>Growing the file system of a volume made from a snapshot; only when the device exists.\<close>

definition stage_resize :: "'w os \<Rightarrow> string \<Rightarrow> string \<Rightarrow> string \<Rightarrow> ('w, err) state" where
  "stage_resize os volumeId source target = do {
     err \<leftarrow> os_Stat os source;
     (if err \<noteq> None then ret None
      else do {
        (needResize, err) \<leftarrow> mount_NeedResize os source target;
        (case err of
           Some e \<Rightarrow> ret (Some (status_error Internal
             ([Lit ''Could not determine if volume '', Quoted volumeId, Lit '' need to be resized: ''] @
              error_text e)))
         | None \<Rightarrow>
             if needResize then do {
               (_, err) \<leftarrow> mount_Resize os source target;
               ret (case err of
                      Some e \<Rightarrow> Some (status_error Internal
                        ([Lit ''Could not resize volume '', Quoted volumeId, Lit '':  ''] @ error_text e))
                    | None \<Rightarrow> None)
             } else ret None)
      })
   }"

definition stage_invalid :: "stage_request \<Rightarrow> err" where
  "stage_invalid req =
     (if stg_VolumeId req = '''' then
        Some (status_error InvalidArgument [Lit ''NodeStageVolume Volume ID must be provided''])
      else if stg_StagingTargetPath req = '''' then
        Some (status_error InvalidArgument [Lit ''NodeStageVolume Staging Target Path must be provided''])
      else if stg_VolumeCapability req = None then
        Some (status_error InvalidArgument [Lit ''NodeStageVolume Volume Capability must be provided''])
      else None)"

definition NodeStageVolume ::
    "'w mounter \<Rightarrow> 'w os \<Rightarrow> driver \<Rightarrow> stage_request \<Rightarrow> ('w, unit handler_result) state" where
  "NodeStageVolume m os d req =
     (case stage_invalid req of
        Some e \<Rightarrow> ret (Err e)
      | None \<Rightarrow>
          let cap = the (stg_VolumeCapability req)
          in if vc_AccessType cap = Some VolumeCapability_Block then ret (Ok ())
             else
               let source = getDeviceByIDPath (stg_VolumeId req);
                   target = stg_StagingTargetPath req
               in (case GetMount cap of
                     None \<Rightarrow> ret (Err (status_error InvalidArgument
                       [Lit ''NodeStageVolume Volume Capability Mount must be provided'']))
                   | Some mnt \<Rightarrow> do {
                       let fsType = fs_type_of mnt;
                       err \<leftarrow> (if no_format (stg_VolumeContext req) annsNoFormatVolume then ret None
                               else stage_format m d source fsType);
                       (case err of
                          Some e \<Rightarrow> ret (Err e)
                        | None \<Rightarrow> do {
                            r \<leftarrow> stage_mount m source target fsType (mv_MountFlags mnt);
                            (case r of
                               None \<Rightarrow> ret Panic
                             | Some (Some e) \<Rightarrow> ret (Err e)
                             | Some None \<Rightarrow> do {
                                 err \<leftarrow> stage_resize os (stg_VolumeId req) source target;
                                 ret (case err of Some e \<Rightarrow> Err e | None \<Rightarrow> Ok ())
                               })
                          })
                     }))"

section \<open>NodeUnstageVolume\<close>

definition NodeUnstageVolume ::
    "'w mounter \<Rightarrow> string \<Rightarrow> string \<Rightarrow> ('w, unit handler_result) state" where
  "NodeUnstageVolume m volumeId stagingTargetPath =
     (if volumeId = '''' then
        ret (Err (status_error InvalidArgument [Lit ''NodeUnstageVolume Volume ID must be provided'']))
      else if stagingTargetPath = '''' then
        ret (Err (status_error InvalidArgument
          [Lit ''NodeUnstageVolume Staging Target Path must be provided'']))
      else do {
        mounted \<leftarrow> m_IsMounted m stagingTargetPath;
        (case mounted of
           None \<Rightarrow> ret Panic
         | Some (_, Some e) \<Rightarrow> ret (Err (status_error Internal (error_text e)))
         | Some (b, None) \<Rightarrow>
             if b then do {
               err \<leftarrow> m_Unmount m stagingTargetPath;
               ret (case err of
                      Some e \<Rightarrow> Err (status_error Internal (error_text e)) | None \<Rightarrow> Ok ())
             } else ret (Ok ()))
      })"

section \<open>NodePublishVolume\<close>

text \<open>The three outcomes of the helpers: None is a panic, \<open>Some err\<close> what they return.\<close>

definition bind_mount ::
    "'w mounter \<Rightarrow> string \<Rightarrow> string \<Rightarrow> string \<Rightarrow> string list \<Rightarrow> (go_error \<Rightarrow> go_error) \<Rightarrow>
     ('w, err option) state" where
  "bind_mount m source target fsType options failed = do {
     mounted \<leftarrow> m_IsMounted m target;
     (case mounted of
        None \<Rightarrow> ret None
      | Some (_, Some e) \<Rightarrow> ret (Some (Some e))
      | Some (b, None) \<Rightarrow>
          if \<not> b then do {
            err \<leftarrow> m_Mount m source target fsType options;
            ret (Some (map_option failed err))
          } else ret (Some None))
   }"

definition nodePublishVolumeForFileSystem ::
    "'w mounter \<Rightarrow> node_publish_request \<Rightarrow> mount_volume option \<Rightarrow> string list \<Rightarrow>
     ('w, err option) state" where
  "nodePublishVolumeForFileSystem m req mnt mountOptions =
     (case mnt of
        None \<Rightarrow> ret None
      | Some v \<Rightarrow>
          bind_mount m (np_StagingTargetPath req) (np_TargetPath req) (fs_type_of v)
            (mountOptions @ mv_MountFlags v) (\<lambda>e. status_error Internal (error_text e)))"

definition nodePublishVolumeForBlock ::
    "'w mounter \<Rightarrow> 'w os \<Rightarrow> node_publish_request \<Rightarrow> string list \<Rightarrow> ('w, err option) state" where
  "nodePublishVolumeForBlock m os req mountOptions = do {
     r \<leftarrow> findAbsoluteDeviceByIDPath os (np_VolumeId req);
     (case r of
        Inl e \<Rightarrow> ret (Some (Some (status_error Internal
          ([Lit ''Failed to find device path for volume '', Lit (np_VolumeId req), Lit ''. ''] @
           error_text e))))
      | Inr source \<Rightarrow>
          bind_mount m source (np_TargetPath req) '''' mountOptions
            (\<lambda>e. status_error Internal
               ([Lit ''failed to mount volume '', Lit source, Lit '': ''] @ error_text e)))
   }"

definition publish_options :: "bool \<Rightarrow> string list" where
  "publish_options readonly = ''bind'' # (if readonly then [''ro''] else [])"

definition node_publish_invalid :: "node_publish_request \<Rightarrow> err" where
  "node_publish_invalid req =
     (if np_VolumeId req = '''' then
        Some (status_error InvalidArgument [Lit ''NodePublishVolume Volume ID must be provided''])
      else if np_StagingTargetPath req = '''' then
        Some (status_error InvalidArgument [Lit ''NodePublishVolume Staging Target Path must be provided''])
      else if np_TargetPath req = '''' then
        Some (status_error InvalidArgument [Lit ''NodePublishVolume Target Path must be provided''])
      else if np_VolumeCapability req = None then
        Some (status_error InvalidArgument [Lit ''NodePublishVolume Volume Capability must be provided''])
      else None)"

definition NodePublishVolume ::
    "'w mounter \<Rightarrow> 'w os \<Rightarrow> node_publish_request \<Rightarrow> ('w, unit handler_result) state" where
  "NodePublishVolume m os req =
     (case node_publish_invalid req of
        Some e \<Rightarrow> ret (Err e)
      | None \<Rightarrow>
          let options = publish_options (np_Readonly req);
              finish = (\<lambda>r. ret (case r of
                         None \<Rightarrow> Panic | Some (Some e) \<Rightarrow> Err e | Some None \<Rightarrow> Ok ()))
          in (case vc_AccessType (the (np_VolumeCapability req)) of
                Some VolumeCapability_Block \<Rightarrow>
                  State_Monad.bind (nodePublishVolumeForBlock m os req options) finish
              | Some (VolumeCapability_Mount mnt) \<Rightarrow>
                  State_Monad.bind (nodePublishVolumeForFileSystem m req mnt options) finish
              | None \<Rightarrow> ret (Err (status_error InvalidArgument [Lit ''Unknown access type'']))))"

section \<open>NodeUnpublishVolume\<close>

definition NodeUnpublishVolume ::
    "'w mounter \<Rightarrow> string \<Rightarrow> string \<Rightarrow> ('w, unit handler_result) state" where
  "NodeUnpublishVolume m volumeId targetPath =
     (if volumeId = '''' then
        ret (Err (status_error InvalidArgument [Lit ''NodeUnpublishVolume Volume ID must be provided'']))
      else if targetPath = '''' then
        ret (Err (status_error InvalidArgument [Lit ''NodeUnpublishVolume Target Path must be provided'']))
      else do {
        err \<leftarrow> m_Unmount m targetPath;
        ret (case err of Some e \<Rightarrow> Err e | None \<Rightarrow> Ok ())
      })"

section \<open>NodeGetCapabilities and NodeGetInfo\<close>

datatype node_rpc = STAGE_UNSTAGE_VOLUME | NODE_EXPAND_VOLUME | GET_VOLUME_STATS

definition NodeGetCapabilities :: "node_rpc list handler_result" where
  "NodeGetCapabilities = Ok [STAGE_UNSTAGE_VOLUME, NODE_EXPAND_VOLUME, GET_VOLUME_STATS]"

record node_info =
  ni_NodeId :: string
  ni_MaxVolumesPerNode :: int64
  ni_AccessibleTopology :: labels

text \<open>\<open>int64(d.volumeLimit)\<close> keeps the bits of the unsigned limit.\<close>

definition NodeGetInfo :: "driver \<Rightarrow> node_info handler_result" where
  "NodeGetInfo d =
     Ok \<lparr> ni_NodeId = d_nodeID d, ni_MaxVolumesPerNode = d_volumeLimit d,
          ni_AccessibleTopology = [''region'' \<mapsto> d_region d] \<rparr>"

section \<open>NodeGetVolumeStats\<close>

datatype usage_unit = BYTES | INODES

record volume_usage =
  vu_Available :: int64
  vu_Total :: int64
  vu_Used :: int64
  vu_Unit :: usage_unit

definition block_usage :: "volumeStatistics \<Rightarrow> volume_usage list" where
  "block_usage stats =
     [\<lparr> vu_Available = 0, vu_Total = totalBytes stats, vu_Used = 0, vu_Unit = BYTES \<rparr>]"

definition filesystem_usage :: "volumeStatistics \<Rightarrow> volume_usage list" where
  "filesystem_usage stats =
     [\<lparr> vu_Available = availableBytes stats, vu_Total = totalBytes stats,
        vu_Used = usedBytes stats, vu_Unit = BYTES \<rparr>,
      \<lparr> vu_Available = availableInodes stats, vu_Total = totalInodes stats,
        vu_Used = usedInodes stats, vu_Unit = INODES \<rparr>]"

definition NodeGetVolumeStats ::
    "'w mounter \<Rightarrow> string \<Rightarrow> string \<Rightarrow> ('w, volume_usage list handler_result) state" where
  "NodeGetVolumeStats m volumeId volumePath =
     (if volumeId = '''' then
        ret (Err (status_error InvalidArgument [Lit ''NodeGetVolumeStats Volume ID must be provided'']))
      else if volumePath = '''' then
        ret (Err (status_error InvalidArgument [Lit ''NodeGetVolumeStats Volume Path must be provided'']))
      else do {
        mounted \<leftarrow> m_IsMounted m volumePath;
        (case mounted of
           None \<Rightarrow> ret Panic
         | Some (_, Some e) \<Rightarrow> ret (Err (status_error Internal
             ([Lit ''failed to check if volume path '', Quoted volumePath, Lit '' is mounted: ''] @
              error_text e)))
         | Some (False, None) \<Rightarrow> ret (Err (status_error NotFound
             [Lit ''volume path '', Quoted volumePath, Lit '' is not mounted'']))
         | Some (True, None) \<Rightarrow> do {
             (isBlock, err) \<leftarrow> m_IsBlockDevice m volumePath;
             (case err of
                Some e \<Rightarrow> ret (Err (status_error Internal
                  ([Lit ''failed to determine if '', Quoted volumePath, Lit '' is block device: ''] @
                   error_text e)))
              | None \<Rightarrow> do {
                  (devicePath, err) \<leftarrow>
                    (if isBlock then m_GetDeviceName m volumePath else ret (volumePath, None));
                  (case err of
                     Some e \<Rightarrow> ret (Err (status_error Internal
                       ([Lit ''failed to get device name for block volume '', Quoted volumePath, Lit '': ''] @
                        error_text e)))
                   | None \<Rightarrow> do {
                       (stats, err) \<leftarrow> m_GetStatistics m devicePath;
                       ret (case err of
                              Some e \<Rightarrow> Err (status_error Internal
                                ([Lit ''failed to retrieve capacity statistics for volume path '',
                                  Quoted devicePath, Lit '': ''] @ error_text e))
                            | None \<Rightarrow> Ok (if isBlock then block_usage stats else filesystem_usage stats))
                     })
                })
           })
      })"

section \<open>NodeExpandVolume\<close>

record node_expand_request =
  ne_VolumeId :: string
  ne_VolumePath :: string
  ne_VolumeCapability :: "volume_capability option"

definition NodeExpandVolume ::
    "'w mounter \<Rightarrow> 'w os \<Rightarrow> node_expand_request \<Rightarrow> ('w, unit handler_result) state" where
  "NodeExpandVolume m os req =
     (let volumeID = ne_VolumeId req; volumePath = ne_VolumePath req
      in if length volumeID = 0 then
        ret (Err (status_error InvalidArgument [Lit ''NodeExpandVolume volume ID not provided'']))
      else if length volumePath = 0 then
        ret (Err (status_error InvalidArgument [Lit ''NodeExpandVolume volume path not provided'']))
      else if (case ne_VolumeCapability req of
                 None \<Rightarrow> False
               | Some cap \<Rightarrow> vc_AccessType cap = Some VolumeCapability_Block) then ret (Ok ())
      else do {
        mounted \<leftarrow> m_IsMounted m volumePath;
        (case mounted of
           None \<Rightarrow> ret Panic
         | Some (_, Some e) \<Rightarrow> ret (Err (status_error Internal
             ([Lit ''NodeExpandVolume failed to check if volume path '', Quoted volumePath,
               Lit '' is mounted: ''] @ error_text e)))
         | Some (False, None) \<Rightarrow> ret (Err (status_error NotFound
             [Lit ''NodeExpandVolume volume path '', Quoted volumePath, Lit '' is not mounted'']))
         | Some (True, None) \<Rightarrow> do {
             (devicePath, err) \<leftarrow> m_GetDeviceName m volumePath;
             (case err of
                Some e \<Rightarrow> ret (Err (status_error Internal
                  ([Lit ''NodeExpandVolume unable to get device path for '', Quoted volumePath, Lit '': ''] @
                   error_text e)))
              | None \<Rightarrow>
                  if devicePath = '''' then
                    ret (Err (status_error NotFound
                      [Lit ''NodeExpandVolume device path for volume path '', Quoted volumePath,
                       Lit '' not found'']))
                  else do {
                    (_, err) \<leftarrow> mount_Resize os devicePath volumePath;
                    ret (case err of
                           Some e \<Rightarrow> Err (status_error Internal
                             ([Lit ''NodeExpandVolume could not resize volume '', Quoted volumeID,
                               Lit '' ('', Quoted volumePath, Lit ''):  ''] @ error_text e))
                         | None \<Rightarrow> Ok ())
                  })
           })
      })"

section \<open>Lemmas on device paths\<close>

lemma foldl_clean_plain:
  "\<forall>el \<in> set els. el \<noteq> '''' \<and> el \<noteq> ''.'' \<and> el \<noteq> ''..'' \<Longrightarrow> foldl (clean_step r) st els = rev els @ st"
  by (induction els arbitrary: st) (simp_all add: clean_step_plain)

lemma getDeviceByIDPath_elements:
  "getDeviceByIDPath v =
     slash # go_join (rev (foldl (clean_step True) [''by-id'', ''disk'', ''dev'']
       (go_split (diskByIdPrefix @ v) [slash]))) [slash]"
proof -
  have *: "slash \<notin> set ''dev''" "slash \<notin> set ''disk''" "slash \<notin> set ''by-id''" "slash \<notin> set ''''"
    by (simp_all add: slash_def)
  have "go_join [diskIDPath, x] [slash] =
      '''' @ slash # ''dev'' @ slash # ''disk'' @ slash # ''by-id'' @ slash # x" for x
    by (simp add: diskIDPath_def slash_def)
  then have "go_split (go_join [diskIDPath, x] [slash]) [slash] =
      '''' # ''dev'' # ''disk'' # ''by-id'' # go_split x [slash]" for x
    by (simp only: * (4) [THEN go_split_char] * (1) [THEN go_split_char] * (2) [THEN go_split_char]
        * (3) [THEN go_split_char])
  moreover have "hd (go_join [diskIDPath, x] [slash]) = slash" "go_join [diskIDPath, x] [slash] \<noteq> ''''" for x
    by (simp_all add: diskIDPath_def slash_def)
  ultimately show ?thesis
    by (simp add: getDeviceByIDPath_def filepath_clean_def Let_def clean_step_def diskIDPath_def)
qed

lemma getDeviceByIDPath_nonempty [simp]: "getDeviceByIDPath v \<noteq> ''''"
  by (simp add: getDeviceByIDPath_elements)

text \<open>The device path of a volume whose identity has no slash is exactly the identity under
  \<open>/dev/disk/by-id\<close> with the disk prefix, so different identities have different device
  paths.\<close>

theorem device_path_exact:
  assumes "slash \<notin> set v"
  shows "getDeviceByIDPath v = ''/dev/disk/by-id/scsi-0QEMU_QEMU_HARDDISK_'' @ v \<and>
    (\<forall>u. slash \<notin> set u \<and> getDeviceByIDPath u = getDeviceByIDPath v \<longrightarrow> u = v)"
proof -
  have exact: "getDeviceByIDPath x = ''/dev/disk/by-id/scsi-0QEMU_QEMU_HARDDISK_'' @ x"
    if "slash \<notin> set x" for x
  proof -
    have "slash \<notin> set (diskByIdPrefix @ x)" using that by (simp add: diskByIdPrefix_def slash_def)
    then have "go_split (diskByIdPrefix @ x) [slash] = [diskByIdPrefix @ x]"
      by (rule go_split_char_last)
    then show ?thesis
      by (simp add: getDeviceByIDPath_elements clean_step_plain diskByIdPrefix_def slash_def)
  qed
  with assms show ?thesis by (metis append_same_eq same_append_eq)
qed

theorem device_path_exact_witness:
  "getDeviceByIDPath ''vol-1'' = ''/dev/disk/by-id/scsi-0QEMU_QEMU_HARDDISK_vol-1''"
  using device_path_exact [of "''vol-1''"] by (simp add: slash_def)

text \<open>An identity with parent references leaves the directory: the path of the disk \<open>/dev/sda\<close>.\<close>

lemma device_path_escapes:
  "getDeviceByIDPath ''x/../../../sda'' = ''/dev/sda''"
  by (simp add: getDeviceByIDPath_elements) code_simp

section \<open>The handlers over the contract of the mounter\<close>

text \<open>The calls the node plugin makes to the operating system itself keep the view.\<close>

definition os_keeps :: "('w \<Rightarrow> 'v) \<Rightarrow> 'w os \<Rightarrow> bool" where
  "os_keeps view os \<longleftrightarrow>
     (\<forall>w s t. view (world_after (os_Stat os s) w) = view w \<and>
        view (world_after (os_EvalSymlinks os s) w) = view w \<and>
        view (world_after (mount_NeedResize os s t) w) = view w \<and>
        view (world_after (mount_Resize os s t) w) = view w)"



lemma stage_resize_keeps:
  "os_keeps view os \<Longrightarrow> run_state (stage_resize os i s t) w = (e, w') \<Longrightarrow> view w' = view w"
  by (auto simp: stage_resize_def case_prod_beta os_keeps_def split: if_splits option.splits)

lemma unmounted_view: "v_mounts v t = None \<Longrightarrow> v\<lparr> v_mounts := (v_mounts v)(t := None) \<rparr> = v"
  by (cases v) (simp add: fun_upd_idem)

text \<open>What a successful stage makes of the view: the specification of \<open>NodeStageVolume\<close>.\<close>

definition stage_view :: "bool \<Rightarrow> string \<Rightarrow> string \<Rightarrow> string \<Rightarrow> node_view \<Rightarrow> node_view" where
  "stage_view noFormat source target fsType v =
     v\<lparr> v_formatted :=
          (if noFormat \<or> v_formatted v source \<noteq> None then v_formatted v
           else (v_formatted v)(source \<mapsto> fsType)),
        v_mounts :=
          (if v_mounts v target \<noteq> None then v_mounts v else (v_mounts v)(target \<mapsto> source)) \<rparr>"

context mounter_contract
begin

lemma stage_format_run:
  assumes "run_state (stage_format m d s fs) w = (e, w')" and "s \<noteq> ''''"
  shows "node_steps U (view w) (view w') \<and> v_mounts (view w') = v_mounts (view w) \<and>
    (e = None \<longrightarrow> v_formatted (view w') =
       (if v_formatted (view w) s \<noteq> None then v_formatted (view w) else (v_formatted (view w))(s \<mapsto> fs)) \<and>
       (d_validateAttachment d \<longrightarrow> v_attached (view w) s)) \<and>
    (e \<noteq> None \<longrightarrow> view w' = view w)"
proof -
  obtain a where att: "run_state (m_IsAttached m s) w = (a, w)" "a = None \<longleftrightarrow> v_attached (view w) s"
    using is_attached by blast
  obtain f w1 where fmt: "run_state (m_Format m s fs) w = (f, w1)" by (metis surj_pair)
  note v = format [OF fmt] and st = format_steps [OF fmt]
  show ?thesis
    using assms att fmt v st
    by (auto simp: stage_format_def format_if_blank_def is_formatted split: if_splits option.splits)
qed

lemma stage_mount_run:
  assumes "run_state (stage_mount m s t fs opts) w = (r, w')" and "t \<noteq> ''''"
  shows "r \<noteq> None \<and> node_steps U (view w) (view w') \<and> v_formatted (view w') = v_formatted (view w) \<and>
    (r = Some None \<longrightarrow> v_mounts (view w') =
       (if v_mounts (view w) t \<noteq> None then v_mounts (view w) else (v_mounts (view w))(t \<mapsto> s)))"
proof -
  obtain f w1 where mnt: "run_state (m_Mount m s t fs opts) w = (f, w1)" by (metis surj_pair)
  note v = mount [OF mnt] and st = mount_steps [OF mnt]
  show ?thesis
    using assms mnt v st
    by (auto simp: stage_mount_def is_mounted split: if_splits option.splits)
qed

end

context mounter_contract
begin

lemma NodeStageVolume_run:
  assumes run: "run_state (NodeStageVolume m os d req) w = (res, w')" and os: "os_keeps view os"
  shows "node_steps U (view w) (view w') \<and> res \<noteq> Panic \<and>
    (res = Ok () \<longrightarrow> view w' =
       (case GetMount (the (stg_VolumeCapability req)) of
          None \<Rightarrow> view w
        | Some mnt \<Rightarrow> stage_view (no_format (stg_VolumeContext req) annsNoFormatVolume)
            (getDeviceByIDPath (stg_VolumeId req)) (stg_StagingTargetPath req) (fs_type_of mnt) (view w)) \<and>
       (d_validateAttachment d \<and> GetMount (the (stg_VolumeCapability req)) \<noteq> None \<and>
          \<not> no_format (stg_VolumeContext req) annsNoFormatVolume \<longrightarrow>
          v_attached (view w) (getDeviceByIDPath (stg_VolumeId req))))"
proof -
  let ?cap = "the (stg_VolumeCapability req)"
  let ?nf = "no_format (stg_VolumeContext req) annsNoFormatVolume"
  let ?s = "getDeviceByIDPath (stg_VolumeId req)" and ?t = "stg_StagingTargetPath req"
  show ?thesis
  proof (cases "stage_invalid req = None \<and> vc_AccessType ?cap \<noteq> Some VolumeCapability_Block")
    case False
    moreover have "GetMount ?cap = None" if "vc_AccessType ?cap = Some VolumeCapability_Block"
      using that by (simp add: GetMount_def)
    ultimately show ?thesis
      using run by (auto simp: NodeStageVolume_def Let_def split: option.splits)
  next
    case True
    then have t: "?t \<noteq> ''''" by (auto simp: stage_invalid_def split: if_splits)
    show ?thesis
    proof (cases "GetMount ?cap")
      case None
      with True run show ?thesis by (auto simp: NodeStageVolume_def Let_def)
    next
      case (Some mnt)
      let ?fs = "fs_type_of mnt"
      obtain e1 w1 where 1: "run_state (if ?nf then ret None else stage_format m d ?s ?fs) w = (e1, w1)"
        by (metis surj_pair)
      obtain r w2 where 2: "run_state (stage_mount m ?s ?t ?fs (mv_MountFlags mnt)) w1 = (r, w2)"
        by (metis surj_pair)
      obtain e3 w3 where 3: "run_state (stage_resize os (stg_VolumeId req) ?s ?t) w2 = (e3, w3)"
        by (metis surj_pair)
      have res: "(res, w') = (case e1 of Some e \<Rightarrow> (Err e, w1) | None \<Rightarrow>
          (case r of None \<Rightarrow> (Panic, w2) | Some (Some e) \<Rightarrow> (Err e, w2)
           | Some None \<Rightarrow> (case e3 of Some e \<Rightarrow> Err e | None \<Rightarrow> Ok (), w3)))"
        using run True Some 1 2 3
        by (simp add: NodeStageVolume_def Let_def split: option.splits)
      have f1: "node_steps U (view w) (view w1) \<and> v_mounts (view w1) = v_mounts (view w) \<and>
          (e1 = None \<longrightarrow> v_formatted (view w1) =
             (if ?nf \<or> v_formatted (view w) ?s \<noteq> None then v_formatted (view w)
              else (v_formatted (view w))(?s \<mapsto> ?fs)) \<and>
             (d_validateAttachment d \<and> \<not> ?nf \<longrightarrow> v_attached (view w) ?s))"
      proof (cases ?nf)
        case True
        with 1 show ?thesis by simp
      next
        case False
        with 1 have "run_state (stage_format m d ?s ?fs) w = (e1, w1)" by simp
        from stage_format_run [OF this, of U] False show ?thesis by auto
      qed
      note f2 = stage_mount_run [OF 2 t, of U]
      have f3: "view w3 = view w2" using stage_resize_keeps [OF os 3] .
      from f1 f2 have kept: "v_attached (view w2) = v_attached (view w)"
        by (metis node_steps_kept view_kept_def)
      from f1 f2 have steps: "node_steps U (view w) (view w2)"
        by (blast intro: rtranclp_trans)
      have ok: "view w2 = stage_view ?nf ?s ?t ?fs (view w)" if "e1 = None" "r = Some None"
        using f1 f2 that kept by (auto simp: stage_view_def intro: node_view.equality)
      from res f1 f2 f3 steps ok Some show ?thesis
        by (auto split: option.splits)
    qed
  qed
qed

lemma NodeUnstageVolume_run:
  assumes run: "run_state (NodeUnstageVolume m i t) w = (res, w')" and "t \<in> U"
  shows "node_steps U (view w) (view w') \<and> res \<noteq> Panic \<and>
    (res = Ok () \<longrightarrow> view w' = (view w)\<lparr> v_mounts := (v_mounts (view w))(t := None) \<rparr>)"
proof -
  obtain e w1 where u: "run_state (m_Unmount m t) w = (e, w1)" by (metis surj_pair)
  from run u unmount [OF u] unmount_steps [OF u assms(2)] show ?thesis
    by (auto simp: NodeUnstageVolume_def is_mounted unmounted_view split: if_splits option.splits)
qed

lemma bind_mount_run:
  assumes "run_state (bind_mount m s t fs opts failed) w = (r, w')" and "t \<noteq> ''''"
  shows "r \<noteq> None \<and> node_steps U (view w) (view w') \<and>
    (r = Some None \<longrightarrow> view w' =
       (view w)\<lparr> v_mounts := (if v_mounts (view w) t \<noteq> None then v_mounts (view w) else (v_mounts (view w))(t \<mapsto> s)) \<rparr>)"
proof -
  obtain e w1 where mnt: "run_state (m_Mount m s t fs opts) w = (e, w1)" by (metis surj_pair)
  from assms mnt mount [OF mnt] mount_steps [OF mnt] show ?thesis
    by (auto simp: bind_mount_def is_mounted split: if_splits)
qed

lemma NodeUnpublishVolume_run:
  assumes run: "run_state (NodeUnpublishVolume m i t) w = (res, w')" and "t \<in> U"
  shows "node_steps U (view w) (view w') \<and> res \<noteq> Panic \<and>
    (res = Ok () \<longrightarrow> view w' = (view w)\<lparr> v_mounts := (v_mounts (view w))(t := None) \<rparr>)"
proof -
  obtain e w1 where u: "run_state (m_Unmount m t) w = (e, w1)" by (metis surj_pair)
  from run u unmount [OF u] unmount_steps [OF u assms(2)] show ?thesis
    by (auto simp: NodeUnpublishVolume_def split: if_splits option.splits)
qed

end

text \<open>The source of a publish, and what a successful one makes of the view.\<close>

definition publish_view :: "string \<Rightarrow> string \<Rightarrow> node_view \<Rightarrow> node_view" where
  "publish_view source target v =
     v\<lparr> v_mounts := (if v_mounts v target \<noteq> None then v_mounts v else (v_mounts v)(target \<mapsto> source)) \<rparr>"

lemma findAbsolute_keeps:
  "os_keeps view os \<Longrightarrow> run_state (findAbsoluteDeviceByIDPath os i) w = (r, w') \<Longrightarrow> view w' = view w"
  by (auto simp: findAbsoluteDeviceByIDPath_def Let_def case_prod_beta os_keeps_def)

context mounter_contract
begin

lemma NodePublishVolume_run:
  assumes run: "run_state (NodePublishVolume m os req) w = (res, w')" and os: "os_keeps view os"
  shows "node_steps U (view w) (view w') \<and>
    (res = Ok () \<longrightarrow>
       (case vc_AccessType (the (np_VolumeCapability req)) of
          Some VolumeCapability_Block \<Rightarrow>
            (\<exists>device. result_of (findAbsoluteDeviceByIDPath os (np_VolumeId req)) w = Inr device \<and>
               view w' = publish_view device (np_TargetPath req) (view w))
        | _ \<Rightarrow> view w' = publish_view (np_StagingTargetPath req) (np_TargetPath req) (view w)))"
proof (cases "node_publish_invalid req")
  case (Some e)
  with run show ?thesis by (auto simp: NodePublishVolume_def)
next
  case None
  then have t: "np_TargetPath req \<noteq> ''''" by (auto simp: node_publish_invalid_def split: if_splits)
  obtain r wf where fd: "run_state (findAbsoluteDeviceByIDPath os (np_VolumeId req)) w = (r, wf)"
    by (metis surj_pair)
  note keep = findAbsolute_keeps [OF os fd]
  show ?thesis
  proof (cases "vc_AccessType (the (np_VolumeCapability req))")
    case None
    with \<open>node_publish_invalid req = None\<close> run show ?thesis by (auto simp: NodePublishVolume_def)
  next
    case (Some a)
    show ?thesis
    proof (cases a)
      case VolumeCapability_Block
      show ?thesis
      proof (cases r)
        case (Inl e)
        with Some VolumeCapability_Block \<open>node_publish_invalid req = None\<close> run fd keep show ?thesis
          by (auto simp: NodePublishVolume_def nodePublishVolumeForBlock_def)
      next
        case (Inr device)
        obtain q w1 where b: "run_state (bind_mount m device (np_TargetPath req) ''''
            (publish_options (np_Readonly req))
            (\<lambda>e. status_error Internal
               ([Lit ''failed to mount volume '', Lit device, Lit '': ''] @ error_text e))) wf = (q, w1)"
          by (metis surj_pair)
        from bind_mount_run [OF b t, of U] Inr Some VolumeCapability_Block
          \<open>node_publish_invalid req = None\<close> run fd keep b show ?thesis
          by (auto simp: NodePublishVolume_def nodePublishVolumeForBlock_def publish_view_def
              split: option.splits)
      qed
    next
      case (VolumeCapability_Mount mnt)
      show ?thesis
      proof (cases mnt)
        case None
        with Some VolumeCapability_Mount \<open>node_publish_invalid req = None\<close> run show ?thesis
          by (auto simp: NodePublishVolume_def nodePublishVolumeForFileSystem_def)
      next
        case (Some v)
        obtain q w1 where b: "run_state (bind_mount m (np_StagingTargetPath req) (np_TargetPath req)
            (fs_type_of v) (publish_options (np_Readonly req) @ mv_MountFlags v)
            (\<lambda>e. status_error Internal (error_text e))) w = (q, w1)"
          by (metis surj_pair)
        from bind_mount_run [OF b t, of U] Some VolumeCapability_Mount
          \<open>vc_AccessType (the (np_VolumeCapability req)) = Some a\<close>
          \<open>node_publish_invalid req = None\<close> run b show ?thesis
          by (auto simp: NodePublishVolume_def nodePublishVolumeForFileSystem_def publish_view_def
              split: option.splits)
      qed
    qed
  qed
qed

lemma NodeGetVolumeStats_run:
  assumes "run_state (NodeGetVolumeStats m i p) w = (res, w')"
  shows "w' = w \<and> res \<noteq> Panic \<and>
    (\<forall>us. res = Ok us \<longrightarrow> v_mounts (view w) p \<noteq> None \<and> length us \<in> {1, 2})"
proof -
  obtain b e where bd: "run_state (m_IsBlockDevice m p) w = ((b, e), w)" using block_device by force
  obtain q f where dn: "run_state (m_GetDeviceName m p) w = ((q, f), w)" using device_name by force
  obtain s g where st: "run_state (m_GetStatistics m p) w = ((s, g), w)" using statistics by force
  obtain s' g' where st': "run_state (m_GetStatistics m q) w = ((s', g'), w)" using statistics by force
  from assms bd dn st st' show ?thesis
    by (auto simp: NodeGetVolumeStats_def is_mounted block_usage_def filesystem_usage_def
        split: if_splits option.splits bool.splits)
qed

lemma NodeExpandVolume_run:
  assumes "run_state (NodeExpandVolume m os req) w = (res, w')" and "os_keeps view os"
  shows "view w' = view w \<and> res \<noteq> Panic"
proof -
  obtain q f where dn: "run_state (m_GetDeviceName m (ne_VolumePath req)) w = ((q, f), w)"
    using device_name by force
  have keep: "view (world_after (mount_Resize os s t) x) = view x" for s t x
    using assms(2) by (simp add: os_keeps_def)
  from assms(1) dn show ?thesis
    by (auto simp: NodeExpandVolume_def Let_def is_mounted case_prod_beta keep
        split: if_splits option.splits bool.splits)
qed

end

section \<open>Histories of a node\<close>

datatype node_op =
    StageOp stage_request
  | UnstageOp string string
  | PublishOp node_publish_request
  | UnpublishOp string string
  | StatsOp string string
  | ExpandOp node_expand_request

text \<open>One call of the plugin, and a history of them; a history goes on after an error.\<close>

fun run_op :: "'w mounter \<Rightarrow> 'w os \<Rightarrow> driver \<Rightarrow> node_op \<Rightarrow> 'w \<Rightarrow> 'w" where
  "run_op m os d (StageOp req) w = world_after (NodeStageVolume m os d req) w"
| "run_op m os d (UnstageOp i t) w = world_after (NodeUnstageVolume m i t) w"
| "run_op m os d (PublishOp req) w = world_after (NodePublishVolume m os req) w"
| "run_op m os d (UnpublishOp i t) w = world_after (NodeUnpublishVolume m i t) w"
| "run_op m os d (StatsOp i p) w = world_after (NodeGetVolumeStats m i p) w"
| "run_op m os d (ExpandOp req) w = world_after (NodeExpandVolume m os req) w"

fun unmount_targets :: "node_op \<Rightarrow> string set" where
  "unmount_targets (UnstageOp i t) = {t}"
| "unmount_targets (UnpublishOp i t) = {t}"
| "unmount_targets _ = {}"

definition run_ops :: "'w mounter \<Rightarrow> 'w os \<Rightarrow> driver \<Rightarrow> node_op list \<Rightarrow> 'w \<Rightarrow> 'w" where
  "run_ops m os d ops w = fold (run_op m os d) ops w"

context mounter_contract
begin

lemma run_op_steps:
  assumes "os_keeps view os"
  shows "node_steps (unmount_targets op) (view w) (view (run_op m os d op w))"
proof (cases op)
  case (StageOp req)
  then show ?thesis using NodeStageVolume_run [OF surjective_pairing assms] by simp
next
  case (UnstageOp i t)
  then show ?thesis using NodeUnstageVolume_run [OF surjective_pairing, of t "{t}"] by simp
next
  case (PublishOp req)
  then show ?thesis using NodePublishVolume_run [OF surjective_pairing assms] by simp
next
  case (UnpublishOp i t)
  then show ?thesis using NodeUnpublishVolume_run [OF surjective_pairing, of t "{t}"] by simp
next
  case (StatsOp i p)
  then show ?thesis using NodeGetVolumeStats_run [OF surjective_pairing, of i p w] by simp
next
  case (ExpandOp req)
  then show ?thesis using NodeExpandVolume_run [OF surjective_pairing assms] by simp
qed

lemma run_ops_kept:
  assumes "os_keeps view os"
  shows "view_kept (\<Union> (unmount_targets ` set ops)) (view w) (view (run_ops m os d ops w))"
proof (induction ops arbitrary: w)
  case Nil
  then show ?case by (simp add: run_ops_def view_kept_refl)
next
  case (Cons op ops)
  let ?U = "\<Union> (unmount_targets ` set (op # ops))"
  have "view_kept ?U (view w) (view (run_op m os d op w))"
    by (rule view_kept_mono [OF node_steps_kept [OF run_op_steps [OF assms, of op]]]) auto
  moreover have "view_kept ?U (view (run_op m os d op w)) (view (run_ops m os d ops (run_op m os d op w)))"
    by (rule view_kept_mono [OF Cons]) auto
  ultimately show ?case by (auto simp: run_ops_def intro: view_kept_trans)
qed

end

section \<open>Properties over the mock mounter\<close>

text \<open>Whatever calls the node plugin gets and whatever fails, over the mounter of
  \<open>mock_mounter.go\<close>, which keeps the contract of the interface \<open>Mounter\<close>: a device that has a
  file system keeps it, a mount stays as it is until a call unstages or unpublishes its
  target, and no device is attached or detached.\<close>

theorem node_history_safe:
  assumes "os_keeps mock_view os" and "run_ops MockMounter os d ops w = w'"
  shows "FormattedDevices w \<subseteq>\<^sub>m FormattedDevices w' \<and> AttachedDevices w' = AttachedDevices w \<and>
    (\<forall>t s. t \<notin> (\<Union> (unmount_targets ` set ops)) \<and> MountPoints w t = Some s \<longrightarrow>
       MountPoints w' t = Some s)"
  using mock.run_ops_kept [OF assms(1), of ops w d] assms(2)
  by (simp add: view_kept_def mock_view_def)

context mounter_contract
begin

text \<open>A stage of a volume that is staged changes nothing, whatever its result.\<close>

lemma stage_again:
  assumes mnt: "GetMount (the (stg_VolumeCapability req)) = Some mnt"
    and "v_mounts (view w) (stg_StagingTargetPath req) \<noteq> None"
    and fmt: "no_format (stg_VolumeContext req) annsNoFormatVolume \<or>
      v_formatted (view w) (getDeviceByIDPath (stg_VolumeId req)) \<noteq> None"
    and run: "run_state (NodeStageVolume m os d req) w = (res, w')" and os: "os_keeps view os"
  shows "view w' = view w"
proof (cases "stage_invalid req")
  case (Some e)
  with run show ?thesis by (auto simp: NodeStageVolume_def)
next
  case None
  let ?s = "getDeviceByIDPath (stg_VolumeId req)" and ?t = "stg_StagingTargetPath req"
  let ?nf = "no_format (stg_VolumeContext req) annsNoFormatVolume"
  from None have t: "?t \<noteq> ''''" by (auto simp: stage_invalid_def split: if_splits)
  have mount: "run_state (stage_mount m ?s ?t fs opts) w = (Some None, w)" for fs opts
    using assms(2) t by (auto simp: stage_mount_def is_mounted)
  have format: "\<exists>e. run_state (if ?nf then ret None else stage_format m d ?s fs) w = (e, w)" for fs
  proof (cases ?nf)
    case True
    then show ?thesis by simp
  next
    case False
    obtain a where "run_state (m_IsAttached m ?s) w = (a, w)" using is_attached by blast
    with False fmt show ?thesis
      by (auto simp: stage_format_def format_if_blank_def is_formatted split: option.splits)
  qed
  obtain e where e: "run_state (if ?nf then ret None else stage_format m d ?s (fs_type_of mnt)) w = (e, w)"
    using format by blast
  obtain e3 w3 where r: "run_state (stage_resize os (stg_VolumeId req) ?s ?t) w = (e3, w3)"
    by (metis surj_pair)
  have nb: "vc_AccessType (the (stg_VolumeCapability req)) \<noteq> Some VolumeCapability_Block"
    using mnt by (auto simp: GetMount_def)
  have "(res, w') = (case e of Some x \<Rightarrow> (Err x, w)
      | None \<Rightarrow> (case e3 of Some x \<Rightarrow> Err x | None \<Rightarrow> Ok (), w3))"
    using run None mnt nb e r mount by (simp add: NodeStageVolume_def Let_def split: option.splits)
  with stage_resize_keeps [OF os r] show ?thesis
    by (auto split: option.splits)
qed

end

text \<open>Staging is idempotent: after a successful \<open>NodeStageVolume\<close> a repeated call changes nothing
  whatever its own result is: it neither formats the device nor mounts it again.\<close>

theorem stage_idempotent:
  assumes "run_state (NodeStageVolume MockMounter os d req) w = (Ok (), w')"
    and "os_keeps mock_view os"
  shows "mock_view (world_after (NodeStageVolume MockMounter os d req) w') = mock_view w'"
proof (cases "GetMount (the (stg_VolumeCapability req))")
  case None
  then have "NodeStageVolume MockMounter os d req =
      (case stage_invalid req of Some e \<Rightarrow> ret (Err e)
       | None \<Rightarrow> if vc_AccessType (the (stg_VolumeCapability req)) = Some VolumeCapability_Block then ret (Ok ())
           else ret (Err (status_error InvalidArgument
             [Lit ''NodeStageVolume Volume Capability Mount must be provided''])))"
    by (auto simp: NodeStageVolume_def Let_def split: option.splits)
  then show ?thesis by (simp split: option.splits)
next
  case (Some mnt)
  have staged: "mock_view w' = stage_view (no_format (stg_VolumeContext req) annsNoFormatVolume)
      (getDeviceByIDPath (stg_VolumeId req)) (stg_StagingTargetPath req) (fs_type_of mnt) (mock_view w)"
    using mock.NodeStageVolume_run [OF assms] Some by simp
  show ?thesis
    by (rule mock.stage_again [OF Some _ _ surjective_pairing assms(2)]) (auto simp: staged stage_view_def)
qed

section \<open>A host of the mock mounter\<close>

text \<open>The operating system of the witnesses: device files do not exist for \<open>stat\<close>, the links under
  \<open>/dev/disk/by-id\<close> resolve to \<open>/dev/sda\<close>, and nothing changes the mock.\<close>

definition absent :: err where
  "absent = Some (ErrorString [Lit ''no such file or directory''])"

definition host_os :: "'w os" where
  "host_os =
     \<lparr> os_LookPath = (\<lambda>_. ret None), os_Command = (\<lambda>_ _. ret ('''', None)), os_Stat = (\<lambda>_. ret absent),
       os_MkdirAll = (\<lambda>_ _. ret None), os_CreateFile = (\<lambda>_ _. ret None), os_CloseFile = (\<lambda>_. ret None),
       os_EvalSymlinks = (\<lambda>_. ret (''/dev/sda'', None)), os_ReadFile = (\<lambda>_. ret ('''', absent)),
       unix_Statfs = (\<lambda>_. ret (\<lparr> st_Bsize = 0, st_Blocks = 0, st_Bfree = 0, st_Bavail = 0,
          st_Files = 0, st_Ffree = 0 \<rparr>, None)),
       unix_StatMode = (\<lambda>_. ret (0, None)), mount_CleanupMountPoint = (\<lambda>_. ret None),
       mount_GetDeviceNameFromMount = (\<lambda>_. ret ('''', None)),
       mount_NeedResize = (\<lambda>_ _. ret (False, None)), mount_Resize = (\<lambda>_ _. ret (False, None)) \<rparr>"

lemma host_os_simps [simp]:
  "os_Stat host_os s = ret absent" "os_EvalSymlinks host_os s = ret (''/dev/sda'', None)"
  "mount_NeedResize host_os s t = ret (False, None)" "mount_Resize host_os s t = ret (False, None)"
  by (simp_all add: host_os_def)

lemma host_os_keeps [simp]: "os_keeps view host_os"
  by (simp add: os_keeps_def)

lemma stage_resize_host [simp]: "stage_resize host_os i s t = ret None"
  by (simp add: stage_resize_def absent_def)

definition sample_stage :: stage_request where
  "sample_stage =
     \<lparr> stg_VolumeId = ''vol-1'', stg_StagingTargetPath = ''/stage'',
       stg_VolumeCapability = Some \<lparr> vc_AccessMode = Some SINGLE_NODE_WRITER,
         vc_AccessType = Some (VolumeCapability_Mount (Some \<lparr> mv_FsType = ''xfs'', mv_MountFlags = [] \<rparr>)) \<rparr>,
       stg_VolumeContext = Map.empty \<rparr>"

definition sample_node_publish :: node_publish_request where
  "sample_node_publish =
     \<lparr> np_VolumeId = ''vol-1'', np_StagingTargetPath = ''/stage'', np_TargetPath = ''/target'',
       np_VolumeCapability = stg_VolumeCapability sample_stage, np_Readonly = False \<rparr>"

definition sample_node :: mock where
  "sample_node = NewMockMounter\<lparr> AttachedDevices := (\<lambda>_. True) \<rparr>"

lemma sample_stage_run:
  "\<exists>w. run_state (NodeStageVolume MockMounter host_os sample_driver sample_stage) sample_node = (Ok (), w) \<and>
     FormattedDevices w (getDeviceByIDPath ''vol-1'') = Some ''xfs''"
  by (simp add: NodeStageVolume_def Let_def GetMount_def annsNoFormatVolume_def stage_format_def format_if_blank_def
      stage_mount_def mock_IsAttached_def mock_IsFormatted_def mock_Format_def mock_IsMounted_def
      mock_Mount_def sample_stage_def sample_node_def NewMockMounter_def stage_invalid_def fs_type_of_def)

theorem node_history_safe_witness:
  "FormattedDevices (run_ops MockMounter host_os sample_driver
      [UnstageOp ''vol-1'' ''/stage'', StageOp sample_stage]
      (sample_node\<lparr> FormattedDevices := [''/dev/sda'' \<mapsto> ''ext4''] \<rparr>)) ''/dev/sda'' = Some ''ext4''"
proof -
  have "[''/dev/sda'' \<mapsto> ''ext4''] \<subseteq>\<^sub>m FormattedDevices (run_ops MockMounter host_os sample_driver
      [UnstageOp ''vol-1'' ''/stage'', StageOp sample_stage]
      (sample_node\<lparr> FormattedDevices := [''/dev/sda'' \<mapsto> ''ext4''] \<rparr>))"
    using node_history_safe [OF host_os_keeps refl,
        where d = sample_driver and ops = "[UnstageOp ''vol-1'' ''/stage'', StageOp sample_stage]"
          and w = "sample_node\<lparr> FormattedDevices := [''/dev/sda'' \<mapsto> ''ext4''] \<rparr>"]
    by simp
  then show ?thesis by (auto simp: map_le_def)
qed

theorem stage_idempotent_witness:
  "\<exists>w. run_state (NodeStageVolume MockMounter host_os sample_driver sample_stage) sample_node = (Ok (), w) \<and>
     mock_view (world_after (NodeStageVolume MockMounter host_os sample_driver sample_stage) w) = mock_view w"
proof -
  obtain w where run: "run_state (NodeStageVolume MockMounter host_os sample_driver sample_stage) sample_node = (Ok (), w)"
    using sample_stage_run by blast
  from stage_idempotent [OF this host_os_keeps] run show ?thesis by blast
qed

end
