(* ===== verification/NodeOs.thy ===== *)
theory NodeOs
  imports Node
begin

text \<open>
  The node plugin with the production mounter, at the level of the operating system: which
  commands and system calls a run makes, in which order, whatever they answer. The mounter is
  \<open>NewMounter (traced_os os)\<close>, so the journal of a run holds every call of \<open>os\<close>.
\<close>

section \<open>Calls that change the node\<close>

fun changes :: "os_call \<Rightarrow> bool" where
  "changes (Command c args out r) = (c \<notin> {''blkid'', ''findmnt'', ''blockdev''})"
| "changes (Mkdir_All p k r) = True"
| "changes (Create_File p k r) = True"
| "changes (Cleanup_Mount_Point p r) = True"
| "changes (Resize_Fs s t b r) = True"
| "changes _ = False"

fun runs_mkfs :: "os_call \<Rightarrow> bool" where
  "runs_mkfs (Command c args out r) = has_prefix c ''mkfs.''"
| "runs_mkfs _ = False"

lemma runs_mkfs_changes: "runs_mkfs c \<Longrightarrow> changes c"
  by (cases c) (auto simp: has_prefix_def)

lemma mkfs_command_prefix [simp]: "has_prefix (mkfs_command fs) ''mkfs.''"
  by (simp add: has_prefix_def mkfs_command_def)

lemma mount_no_mkfs [simp]: "\<not> has_prefix ''mount'' ''mkfs.''"
  by (simp add: has_prefix_def)

lemma no_changes_no_mkfs: "filter changes ks = [] \<Longrightarrow> filter runs_mkfs ks = []"
  by (auto simp: filter_empty_conv dest: runs_mkfs_changes)

section \<open>The operations of the production mounter\<close>

lemma wp_look_path:
  assumes "\<And>e r. (e = None \<longleftrightarrow> r = None) \<Longrightarrow> Q e (js @ [Look_Path c r])"
  shows "wp (look_path (traced_os os) c) Q js"
  unfolding look_path_def by (auto intro!: wp_intros assms split: option.splits)

text \<open>The attachment of a device is read by resolving its link and reading the state file of the
  device it leads to.\<close>

definition device_running :: "string \<Rightarrow> os_call list \<Rightarrow> bool" where
  "device_running source ks \<longleftrightarrow>
     (\<exists>resolved content.
        ks = [Eval_Symlinks source resolved None,
              Read_File (''/sys/class/block/'' @ snd (filepath_split resolved) @ ''/device/state'') content None] \<and>
        snd (filepath_split resolved) \<noteq> '''' \<and> trim_space content = ''running'')"

lemma wp_IsAttached:
  assumes "\<And>e ks. filter changes ks = [] \<Longrightarrow>
      (e = None \<longrightarrow> device_running s ks) \<Longrightarrow> Q e (js @ ks)"
  shows "wp (IsAttached (traced_os os) s) Q js"
proof -
  note q = assms [of "[_]", simplified] assms [of "[_, _]", simplified]
  show ?thesis
    unfolding IsAttached_def Let_def
    by (auto intro!: wp_intros q simp: device_running_def device_state_path_def runningState_def
        split: option.splits)
qed

lemma wp_IsFormatted:
  assumes "\<And>b e ks. filter changes ks = [] \<Longrightarrow>
      (\<not> b \<and> e = None \<longrightarrow> (\<exists>out. ks = [Look_Path ''blkid'' None, Command ''blkid'' [s] out (Some (ExitError 2))])) \<Longrightarrow>
      Q (b, e) (js @ ks)"
  shows "wp (IsFormatted (traced_os os) s) Q js"
proof -
  note q = assms [of "[]", simplified] assms [of "[_]", simplified] assms [of "[_, _]", simplified]
  show ?thesis
    unfolding IsFormatted_def
    by (auto intro!: wp_intros wp_look_path q simp: blkidExitStatusNoIdentifiers_def
        split: option.splits exec_error.splits)
qed

lemma wp_Format:
  assumes "s \<noteq> ''''" and "fs \<noteq> ''''"
    and "\<And>e r. e \<noteq> None \<Longrightarrow> Q e (js @ [Look_Path (mkfs_command fs) r])"
    and "\<And>e out r. (e = None \<longleftrightarrow> r = None) \<Longrightarrow>
      Q e (js @ [Look_Path (mkfs_command fs) None, Command (mkfs_command fs) (mkfs_args s fs) out r])"
  shows "wp (Format (traced_os os) s fs) Q js"
  unfolding Format_def Let_def
  using assms(1,2) by (auto intro!: wp_intros wp_look_path assms(3,4) split: option.splits)

lemma wp_IsMounted:
  assumes "\<And>r ks. filter changes ks = [] \<Longrightarrow> Q r (js @ ks)"
  shows "wp (IsMounted (traced_os os) t) Q js"
proof -
  note q = assms [of "[]", simplified] assms [of "[_]", simplified] assms [of "[_, _]", simplified]
  show ?thesis
    unfolding IsMounted_def by (auto intro!: wp_intros wp_look_path q)
qed

lemma wp_prepare_target:
  assumes "\<And>e ks. filter runs_mkfs ks = [] \<Longrightarrow> \<forall>c args out r. Command c args out r \<notin> set ks \<Longrightarrow> Q e (js @ ks)"
  shows "wp (prepare_target (traced_os os) t fs) Q js"
proof -
  note q = assms [of "[_]", simplified] assms [of "[_, _]", simplified] assms [of "[_, _, _]", simplified]
  show ?thesis
    unfolding prepare_target_def by (auto intro!: wp_intros q split: option.splits)
qed

lemma wp_Mount:
  assumes "\<And>e ks. filter runs_mkfs ks = [] \<Longrightarrow>
      (e = None \<longrightarrow> (\<exists>ks' out. ks = Stat s None # ks' @ [Command ''mount'' (mount_args s t fs opts) out None] \<and>
         (\<forall>c args out r. Command c args out r \<notin> set ks'))) \<Longrightarrow> Q e (js @ ks)"
  shows "wp (Mount (traced_os os) s t fs opts) Q js"
proof -
  note q = assms [of "[]", simplified] assms [of "[_]", simplified]
  have q2: "Q e (js @ Stat s None # ks)"
    if "filter runs_mkfs ks = []" "e \<noteq> None" for e ks
    by (rule assms) (use that in auto)
  have q3: "Q e (js @ Stat s None # ks @ [Command ''mount'' (mount_args s t fs opts) out r])"
    if "filter runs_mkfs ks = []" "e = None \<longrightarrow> r = None" "\<forall>c args out r. Command c args out r \<notin> set ks" for e ks out r
    by (rule assms) (use that in \<open>auto simp: has_prefix_def\<close>)
  show ?thesis
    unfolding Mount_def Let_def
    by (auto intro!: wp_intros wp_prepare_target q split: option.splits) (simp_all add: q2 q3)
qed

lemma wp_stage_resize:
  assumes "\<And>e ks. filter runs_mkfs ks = [] \<Longrightarrow> Q e (js @ ks)"
  shows "wp (stage_resize (traced_os os) i s t) Q js"
proof -
  note q = assms [of "[_]", simplified] assms [of "[_, _]", simplified] assms [of "[_, _, _]", simplified]
  show ?thesis
    unfolding stage_resize_def by (auto intro!: wp_intros q split: option.splits)
qed

section \<open>Staging\<close>

text \<open>The evidence a format rests on, just before the command: \<open>blkid\<close> found nothing on the same
  device, and the command's executable was looked up.\<close>

definition blank_then_mkfs :: "string \<Rightarrow> string \<Rightarrow> os_call list \<Rightarrow> bool" where
  "blank_then_mkfs source fsType ks \<longleftrightarrow>
     (\<exists>out out' r. ks =
        [Look_Path ''blkid'' None, Command ''blkid'' [source] out (Some (ExitError 2)),
         Look_Path (mkfs_command fsType) None,
         Command (mkfs_command fsType) (mkfs_args source fsType) out' r])"

definition attachment_seen :: "string \<Rightarrow> os_call list \<Rightarrow> bool" where
  "attachment_seen source js \<longleftrightarrow> (\<exists>pre ks. js = pre @ ks \<and> device_running source ks)"

lemma attachment_seenI: "device_running source ks \<Longrightarrow> attachment_seen source ks"
  unfolding attachment_seen_def by (metis append_Nil)

definition format_effect :: "driver \<Rightarrow> string \<Rightarrow> string \<Rightarrow> os_call list \<Rightarrow> bool" where
  "format_effect d source fsType calls \<longleftrightarrow>
     filter runs_mkfs calls = [] \<or>
     (\<exists>js ks ls. calls = js @ ks @ ls \<and> blank_then_mkfs source fsType ks \<and>
        filter runs_mkfs js = [] \<and> filter runs_mkfs ls = [] \<and>
        (d_validateAttachment d \<longrightarrow> attachment_seen source js))"

lemma format_effect_quiet: "filter runs_mkfs calls = [] \<Longrightarrow> format_effect d s fs calls"
  by (simp add: format_effect_def)

lemma format_effect_append:
  assumes "format_effect d s fs calls" and "filter runs_mkfs ks = []"
  shows "format_effect d s fs (calls @ ks)"
  using assms by (fastforce simp: format_effect_def)

lemma format_effect_format:
  assumes "filter runs_mkfs js = []" and "d_validateAttachment d \<longrightarrow> attachment_seen s js"
    and "blank_then_mkfs s fs ks"
  shows "format_effect d s fs (js @ ks)"
  unfolding format_effect_def
  using assms by (intro disjI2 exI [of _ js] exI [of _ ks] exI [of _ "[]"]) simp

lemma wp_format_if_blank:
  assumes js: "filter runs_mkfs js = []" "d_validateAttachment d \<longrightarrow> attachment_seen s js"
    and fs: "s \<noteq> ''''" "fs \<noteq> ''''"
    and Q: "\<And>e calls. format_effect d s fs calls \<Longrightarrow> Q e calls"
  shows "wp (format_if_blank (NewMounter (traced_os os)) s fs) Q js"
proof -
  have quiet: "Q e (js @ ks)" if "filter runs_mkfs ks = []" for e ks
    using js(1) that by (intro Q format_effect_quiet) simp
  have mkfs: "Q e (js @ [Look_Path ''blkid'' None, Command ''blkid'' [s] out (Some (ExitError 2)),
      Look_Path (mkfs_command fs) None, Command (mkfs_command fs) (mkfs_args s fs) out' r])" for e out out' r
    by (intro Q format_effect_format js) (simp add: blank_then_mkfs_def)
  have probe: "Q e (js @ [Look_Path ''blkid'' None, Command ''blkid'' [s] out (Some (ExitError 2)),
      Look_Path (mkfs_command fs) r])" for e out r
    by (rule quiet) (simp add: has_prefix_def)
  have format: "wp (Format (traced_os os) s fs) Q'
      (js @ [Look_Path ''blkid'' None, Command ''blkid'' [s] out (Some (ExitError 2))])"
    if "\<And>e r. Q' e (js @ [Look_Path ''blkid'' None, Command ''blkid'' [s] out (Some (ExitError 2)),
          Look_Path (mkfs_command fs) r])"
      "\<And>e out' r. Q' e (js @ [Look_Path ''blkid'' None, Command ''blkid'' [s] out (Some (ExitError 2)),
          Look_Path (mkfs_command fs) None, Command (mkfs_command fs) (mkfs_args s fs) out' r])"
    for Q' out
    by (rule wp_Format [OF fs]) (simp_all add: that)
  show ?thesis
    unfolding format_if_blank_def NewMounter_simps
  proof (intro wp_bind wp_IsFormatted)
    fix b and e :: err and ks
    assume ks: "filter changes ks = []"
      "\<not> b \<and> e = None \<longrightarrow> (\<exists>out. ks = [Look_Path ''blkid'' None, Command ''blkid'' [s] out (Some (ExitError 2))])"
    show "wp (case (b, e) of (formatted, err) \<Rightarrow>
        (case err of
           Some e \<Rightarrow> ret (Some e)
         | None \<Rightarrow>
             if \<not> formatted then do {
               err \<leftarrow> Format (traced_os os) s fs;
               ret (case err of
                      Some e \<Rightarrow> Some (status_error Internal (error_text e))
                    | None \<Rightarrow> None)
             } else ret None)) Q (js @ ks)"
      using ks(2) quiet [OF no_changes_no_mkfs [OF ks(1)]]
      by (cases e; cases b) (auto intro!: wp_bind format mkfs probe)
  qed
qed

lemma wp_stage_format:
  assumes js: "filter runs_mkfs js = []" and fs: "s \<noteq> ''''" "fs \<noteq> ''''"
    and Q: "\<And>e calls. format_effect d s fs calls \<Longrightarrow> Q e calls"
  shows "wp (stage_format (NewMounter (traced_os os)) d s fs) Q js"
proof -
  have attached: "wp (if d_validateAttachment d then IsAttached (traced_os os) s else ret None) R js"
    if R: "\<And>e ks. filter changes ks = [] \<Longrightarrow> (d_validateAttachment d \<and> e = None \<longrightarrow> attachment_seen s ks) \<Longrightarrow> R e (js @ ks)"
    for R
  proof (cases "d_validateAttachment d")
    case True
    have "R e (js @ ks)" if "filter changes ks = []" "e = None \<longrightarrow> device_running s ks" for e ks
      by (rule R) (use that attachment_seenI in auto)
    with True show ?thesis by (auto intro: wp_IsAttached)
  next
    case False
    with R [of "[]" None] show ?thesis by simp
  qed
  show ?thesis
    unfolding stage_format_def NewMounter_simps
  proof (intro wp_bind attached)
    fix e :: err and ks
    assume ks: "filter changes ks = []" "d_validateAttachment d \<and> e = None \<longrightarrow> attachment_seen s ks"
    have none: "filter runs_mkfs (js @ ks) = []" using js no_changes_no_mkfs [OF ks(1)] by simp
    have "attachment_seen s ks \<Longrightarrow> attachment_seen s (js @ ks)"
      unfolding attachment_seen_def by (metis append_assoc)
    with ks(2) have "e = None \<Longrightarrow> d_validateAttachment d \<longrightarrow> attachment_seen s (js @ ks)" by blast
    then have blank: "e = None \<Longrightarrow> wp (format_if_blank (NewMounter (traced_os os)) s fs) Q (js @ ks)"
      by (rule wp_format_if_blank [OF none _ fs]) (assumption, rule Q)
    show "wp (case e of
        Some e \<Rightarrow> ret (Some (status_error Internal
          ([Lit ''error retrieving the attachement status '', Quoted s, Lit '': ''] @ error_text e)))
      | None \<Rightarrow> format_if_blank (NewMounter (traced_os os)) s fs) Q (js @ ks)"
      using blank Q [OF format_effect_quiet [OF none]] by (cases e) auto
  qed
qed

lemma wp_stage_mount:
  assumes "\<And>r ks. filter runs_mkfs ks = [] \<Longrightarrow> Q r (js @ ks)"
  shows "wp (stage_mount (NewMounter (traced_os os)) s t fs opts) Q js"
  unfolding stage_mount_def NewMounter_simps
proof (intro wp_bind wp_IsMounted)
  fix mounted :: "(bool \<times> err) option" and ks
  assume "filter changes ks = []"
  note none = no_changes_no_mkfs [OF this]
  have "wp (Mount (traced_os os) s t fs opts) Q' (js @ ks)"
    if "\<And>e ls. filter runs_mkfs ls = [] \<Longrightarrow> Q' e ((js @ ks) @ ls)" for Q'
    by (rule wp_Mount) (rule that)
  with none assms show "wp (case mounted of
        None \<Rightarrow> ret None
      | Some (_, Some e) \<Rightarrow> ret (Some (Some e))
      | Some (b, None) \<Rightarrow>
          if \<not> b then do {
            err \<leftarrow> Mount (traced_os os) s t fs opts;
            ret (Some (case err of
                         Some e \<Rightarrow> Some (status_error Internal (error_text e))
                       | None \<Rightarrow> None))
          } else ret (Some None)) Q (js @ ks)"
    by (auto intro!: wp_bind split: option.splits)
qed

definition stage_source :: "stage_request \<Rightarrow> string" where
  "stage_source req = getDeviceByIDPath (stg_VolumeId req)"

definition stage_fs_type :: "stage_request \<Rightarrow> string" where
  "stage_fs_type req =
     (case GetMount (the (stg_VolumeCapability req)) of None \<Rightarrow> '''' | Some mnt \<Rightarrow> fs_type_of mnt)"

definition stage_effect :: "driver \<Rightarrow> stage_request \<Rightarrow> unit handler_result \<Rightarrow> os_call list \<Rightarrow> bool" where
  "stage_effect d req res calls \<longleftrightarrow>
     filter runs_mkfs calls = [] \<or>
     \<not> no_format (stg_VolumeContext req) annsNoFormatVolume \<and>
     format_effect d (stage_source req) (stage_fs_type req) calls"

lemma wp_NodeStageVolume:
  "wp (NodeStageVolume (NewMounter (traced_os os)) (traced_os os) d req) (stage_effect d req) []"
proof (cases "stage_invalid req = None \<and>
    vc_AccessType (the (stg_VolumeCapability req)) \<noteq> Some VolumeCapability_Block")
  case False
  then show ?thesis
    by (auto simp: NodeStageVolume_def Let_def stage_effect_def split: option.splits)
next
  case True
  let ?nf = "no_format (stg_VolumeContext req) annsNoFormatVolume"
  show ?thesis
  proof (cases "GetMount (the (stg_VolumeCapability req))")
    case None
    with True show ?thesis by (simp add: NodeStageVolume_def Let_def stage_effect_def)
  next
    case (Some mnt)
    have fs: "fs_type_of mnt \<noteq> ''''" "stage_fs_type req = fs_type_of mnt"
      using Some by (auto simp: fs_type_of_def stage_fs_type_def)
    define eff where "eff calls \<longleftrightarrow> filter runs_mkfs calls = [] \<or>
        \<not> ?nf \<and> format_effect d (stage_source req) (fs_type_of mnt) calls" for calls
    have effI: "stage_effect d req res calls" if "eff calls" for res calls
      using that fs by (auto simp: eff_def stage_effect_def)
    have app: "eff (calls @ ks)" if "eff calls" "filter runs_mkfs ks = []" for calls ks
      using that by (auto simp: eff_def format_effect_append)
    have first: "wp (if ?nf then ret None
         else stage_format (NewMounter (traced_os os)) d (stage_source req) (fs_type_of mnt)) (\<lambda>e. eff) []"
    proof (cases ?nf)
      case True
      then show ?thesis by (simp add: eff_def)
    next
      case False
      then show ?thesis
        by (auto intro!: wp_stage_format fs simp: eff_def stage_source_def)
    qed
    have mount: "wp (stage_mount (NewMounter (traced_os os)) s t f opts) (\<lambda>r. eff) calls" if "eff calls" for s t f opts calls
      by (rule wp_stage_mount) (simp add: app that)
    have resize: "wp (stage_resize (traced_os os) i s t) (\<lambda>r. eff) calls" if "eff calls" for i s t calls
      by (rule wp_stage_resize) (simp add: app that)
    have run: "NodeStageVolume (NewMounter (traced_os os)) (traced_os os) d req = do {
        err \<leftarrow> (if ?nf then ret None
          else stage_format (NewMounter (traced_os os)) d (stage_source req) (fs_type_of mnt));
        (case err of
           Some e \<Rightarrow> ret (Err e)
         | None \<Rightarrow> do {
             r \<leftarrow> stage_mount (NewMounter (traced_os os)) (stage_source req) (stg_StagingTargetPath req)
                    (fs_type_of mnt) (mv_MountFlags mnt);
             (case r of
                None \<Rightarrow> ret Panic
              | Some (Some e) \<Rightarrow> ret (Err e)
              | Some None \<Rightarrow> do {
                  err \<leftarrow> stage_resize (traced_os os) (stg_VolumeId req) (stage_source req)
                    (stg_StagingTargetPath req);
                  ret (case err of Some e \<Rightarrow> Err e | None \<Rightarrow> Ok ())
                })
           })
      }"
      unfolding stage_source_def using True Some by (simp add: NodeStageVolume_def Let_def)
    show ?thesis
      unfolding run
      by (rule wp_call [OF first])
        (auto intro!: wp_call [OF mount] wp_call [OF resize] effI split: option.splits)
  qed
qed

section \<open>Properties of staging\<close>

text \<open>C1: \<open>NodeStageVolume\<close> with the production mounter never formats a device that may hold data: it
  runs \<open>mkfs\<close> at most once, only when the volume context does not forbid it, only on the
  volume's own device, with the requested file system, and only right after \<open>blkid\<close> on that
  device exited with status 2, which says that the device holds nothing \<open>blkid\<close> knows; with
  \<open>validateAttachment\<close> the two calls before that resolved the link of the volume's device and read
  \<open>running\<close> from the state file of the very device the link leads to. This holds whatever the
  commands and system calls answer.\<close>

theorem stage_formats_blank_only:
  assumes "calls_of (NodeStageVolume (NewMounter (traced_os os)) (traced_os os) d req) w = calls"
    and "filter runs_mkfs calls \<noteq> []"
  shows "\<not> no_format (stg_VolumeContext req) annsNoFormatVolume \<and>
    (\<exists>js ls out out' r. calls = js @
        [Look_Path ''blkid'' None,
         Command ''blkid'' [stage_source req] out (Some (ExitError 2)),
         Look_Path (mkfs_command (stage_fs_type req)) None,
         Command (mkfs_command (stage_fs_type req)) (mkfs_args (stage_source req) (stage_fs_type req)) out' r] @ ls \<and>
       filter runs_mkfs js = [] \<and> filter runs_mkfs ls = [] \<and>
       (d_validateAttachment d \<longrightarrow>
          (\<exists>pre resolved content. js = pre @
             [Eval_Symlinks (stage_source req) resolved None,
              Read_File (''/sys/class/block/'' @ snd (filepath_split resolved) @ ''/device/state'') content None] \<and>
             snd (filepath_split resolved) \<noteq> '''' \<and> trim_space content = ''running'')))"
proof -
  let ?nf = "no_format (stg_VolumeContext req) annsNoFormatVolume"
  have eff: "\<not> ?nf" "format_effect d (stage_source req) (stage_fs_type req) calls"
    using wp_run [OF wp_NodeStageVolume [of os d req], of w] assms
    by (auto simp: stage_effect_def)
  from eff(2) assms(2) obtain js ks ls where
    calls: "calls = js @ ks @ ls" and "filter runs_mkfs js = []" "filter runs_mkfs ls = []"
    and ks: "blank_then_mkfs (stage_source req) (stage_fs_type req) ks"
    and att: "d_validateAttachment d \<longrightarrow> attachment_seen (stage_source req) js"
    unfolding format_effect_def by blast
  with eff(1) show ?thesis
    unfolding blank_then_mkfs_def attachment_seen_def device_running_def by blast
qed

text \<open>A host with a blank, attached device, for the witnesses.\<close>

definition blank_os :: "'w os" where
  "blank_os = host_os\<lparr> os_Command := (\<lambda>c args. ret ('''', if c = ''blkid'' then Some (ExitError 2) else None)),
     os_ReadFile := (\<lambda>_. ret (''running'' @ [CHR 0x0A], None)), os_Stat := (\<lambda>_. ret None) \<rparr>"

lemma blank_os_simps [simp]:
  "os_Command blank_os c args = ret ('''', if c = ''blkid'' then Some (ExitError 2) else None)"
  "os_ReadFile blank_os p = ret (''running'' @ [CHR 0x0A], None)" "os_Stat blank_os p = ret None"
  "os_LookPath blank_os c = ret None" "os_MkdirAll blank_os p k = ret None"
  "os_EvalSymlinks blank_os p = ret (''/dev/sda'', None)"
  "mount_NeedResize blank_os s t = ret (False, None)"
  by (simp_all add: blank_os_def host_os_def)

theorem stage_formats_blank_only_witness:
  "\<exists>js ls out out' r. calls_of (NodeStageVolume (NewMounter (traced_os blank_os)) (traced_os blank_os)
       sample_driver sample_stage) () = js @
     [Look_Path ''blkid'' None, Command ''blkid'' [stage_source sample_stage] out (Some (ExitError 2)),
      Look_Path (mkfs_command ''xfs'') None,
      Command (mkfs_command ''xfs'') (mkfs_args (stage_source sample_stage) ''xfs'') out' r] @ ls"
proof -
  let ?m = "NodeStageVolume (NewMounter (traced_os blank_os)) (traced_os blank_os) sample_driver sample_stage"
  have run: "snd (filepath_split ''/dev/sda'') = ''sda''" "trim_space (''running'' @ [CHR 0x0A]) = ''running''"
    "trim_space '''' = ''''" by code_simp+
  have "filter runs_mkfs (calls_of ?m ()) \<noteq> []"
    using run
    by (simp add: calls_of_def NodeStageVolume_def Let_def GetMount_def annsNoFormatVolume_def
        stage_format_def format_if_blank_def IsAttached_def IsFormatted_def look_path_def
        blkidExitStatusNoIdentifiers_def Format_def sample_driver_def sample_stage_def stage_invalid_def
        runningState_def fs_type_of_def stage_mount_def IsMounted_def Mount_def prepare_target_def
        stage_resize_def mkfs_command_def has_prefix_def)
  moreover have "stage_fs_type sample_stage = ''xfs''"
    by (simp add: stage_fs_type_def sample_stage_def GetMount_def fs_type_of_def)
  ultimately show ?thesis
    using stage_formats_blank_only [OF refl, of blank_os sample_driver sample_stage "()"] by force
qed

section \<open>Mount commands\<close>

text \<open>The production \<open>Mount\<close> succeeds only through one command, \<open>mount\<close>, run last, after the
  source was found and the mount point was made: its arguments end in the source and the
  target, carry the file system type unless it is a raw block device, and the options joined by
  commas, with \<open>nouuid\<close> added for xfs.\<close>

theorem mount_success:
  assumes "answer_of (Mount (traced_os os) source target fsType opts) w = None"
  shows "source \<noteq> '''' \<and> target \<noteq> '''' \<and>
    (\<exists>ks out. calls_of (Mount (traced_os os) source target fsType opts) w =
        Stat source None # ks @ [Command ''mount'' (mount_args source target fsType opts) out None] \<and>
       (\<forall>c args out r. Command c args out r \<notin> set ks)) \<and>
    mount_args source target fsType opts =
      (if fsType = '''' then [] else [''-t'', fsType]) @
      (case opts @ (if fsType = ''xfs'' then [''nouuid''] else []) of
         [] \<Rightarrow> [] | os' \<Rightarrow> [''-o'', go_join os' '','']) @ [source, target]"
proof -
  have "wp (Mount (traced_os os) source target fsType opts)
     (\<lambda>e calls. e = None \<longrightarrow> (\<exists>ks out. calls =
        Stat source None # ks @ [Command ''mount'' (mount_args source target fsType opts) out None] \<and>
       (\<forall>c args out r. Command c args out r \<notin> set ks))) []"
    by (rule wp_Mount) auto
  from wp_run [OF this, of w] assms have "\<exists>ks out. calls_of (Mount (traced_os os) source target fsType opts) w =
        Stat source None # ks @ [Command ''mount'' (mount_args source target fsType opts) out None] \<and>
       (\<forall>c args out r. Command c args out r \<notin> set ks)" by simp
  moreover have "source \<noteq> ''''" "target \<noteq> ''''"
    using assms by (auto simp: Mount_def answer_of_def split: if_splits)
  ultimately show ?thesis
    by (auto simp: mount_args_def Let_def split: list.splits)
qed

theorem mount_success_witness:
  "mount_args ''/dev/sda'' ''/t'' ''xfs'' [''ro''] = [''-t'', ''xfs'', ''-o'', ''ro,nouuid'', ''/dev/sda'', ''/t'']"
proof -
  have "answer_of (Mount (traced_os blank_os) ''/dev/sda'' ''/t'' ''xfs'' [''ro'']) () = None"
    by (simp add: answer_of_def Mount_def prepare_target_def Let_def)
  from mount_success [OF this] show ?thesis by simp
qed

section \<open>Unstaging and unpublishing\<close>

text \<open>With the production mounter, \<open>NodeUnstageVolume\<close> changes the node by at most one clean-up of
  the requested staging path, and succeeds only when that clean-up, if made, did;
  \<open>NodeUnpublishVolume\<close> makes exactly one call, the clean-up of the requested target path, and
  answers as it did; a request without an identity or a path is refused before any call.\<close>

theorem unmount_changes:
  "(filter changes (calls_of (NodeUnstageVolume (NewMounter (traced_os os)) i t) w) = [] \<or>
    (\<exists>r. i \<noteq> '''' \<and> t \<noteq> '''' \<and>
       filter changes (calls_of (NodeUnstageVolume (NewMounter (traced_os os)) i t) w) = [Cleanup_Mount_Point t r] \<and>
       answer_of (NodeUnstageVolume (NewMounter (traced_os os)) i t) w =
         (case r of None \<Rightarrow> Ok () | Some e \<Rightarrow> Err (status_error Internal (error_text e))))) \<and>
   calls_of (NodeUnpublishVolume (NewMounter (traced_os os)) i t) w =
     (if i = '''' \<or> t = '''' then []
      else [Cleanup_Mount_Point t (result_of (mount_CleanupMountPoint os t) w)]) \<and>
   (i = '''' \<or> t = '''' \<or> answer_of (NodeUnpublishVolume (NewMounter (traced_os os)) i t) w =
      (case result_of (mount_CleanupMountPoint os t) w of None \<Rightarrow> Ok () | Some e \<Rightarrow> Err e))"
proof -
  have cases_res: "wp (case mounted of
           None \<Rightarrow> ret Panic
         | Some (_, Some e) \<Rightarrow> ret (Err (status_error Internal (error_text e)))
         | Some (b, None) \<Rightarrow>
             if b then do {
               err \<leftarrow> Unmount (traced_os os) t;
               ret (case err of
                      Some e \<Rightarrow> Err (status_error Internal (error_text e)) | None \<Rightarrow> Ok ())
             } else ret (Ok ()))
      (\<lambda>res calls. filter changes calls = [] \<or> (\<exists>r. i \<noteq> '''' \<and> t \<noteq> '''' \<and>
       filter changes calls = [Cleanup_Mount_Point t r] \<and>
       res = (case r of None \<Rightarrow> Ok () | Some e \<Rightarrow> Err (status_error Internal (error_text e))))) ks"
    if "filter changes ks = []" "i \<noteq> ''''" "t \<noteq> ''''" for mounted :: "(bool \<times> err) option" and ks
    using that by (auto simp: Unmount_def intro!: wp_intros split: option.splits) (metis option.inject)
  have "wp (NodeUnstageVolume (NewMounter (traced_os os)) i t)
      (\<lambda>res calls. filter changes calls = [] \<or> (\<exists>r. i \<noteq> '''' \<and> t \<noteq> '''' \<and>
       filter changes calls = [Cleanup_Mount_Point t r] \<and>
       res = (case r of None \<Rightarrow> Ok () | Some e \<Rightarrow> Err (status_error Internal (error_text e))))) []"
  proof (cases "i = '''' \<or> t = ''''")
    case True
    then show ?thesis by (auto simp: NodeUnstageVolume_def)
  next
    case False
    then have run: "NodeUnstageVolume (NewMounter (traced_os os)) i t =
        State_Monad.bind (IsMounted (traced_os os) t) (\<lambda>mounted. case mounted of
           None \<Rightarrow> ret Panic
         | Some (_, Some e) \<Rightarrow> ret (Err (status_error Internal (error_text e)))
         | Some (b, None) \<Rightarrow>
             if b then do {
               err \<leftarrow> Unmount (traced_os os) t;
               ret (case err of
                      Some e \<Rightarrow> Err (status_error Internal (error_text e)) | None \<Rightarrow> Ok ())
             } else ret (Ok ()))"
      unfolding NodeUnstageVolume_def NewMounter_simps by simp
    show ?thesis
      unfolding run by (intro wp_bind wp_IsMounted cases_res) (use False in auto)
  qed
  note unstage = wp_run [OF this, of w]
  have "calls_of (NodeUnpublishVolume (NewMounter (traced_os os)) i t) w =
     (if i = '''' \<or> t = '''' then []
      else [Cleanup_Mount_Point t (result_of (mount_CleanupMountPoint os t) w)])"
    "i = '''' \<or> t = '''' \<or> answer_of (NodeUnpublishVolume (NewMounter (traced_os os)) i t) w =
      (case result_of (mount_CleanupMountPoint os t) w of None \<Rightarrow> Ok () | Some e \<Rightarrow> Err e)"
    by (auto simp: NodeUnpublishVolume_def Unmount_def calls_of_def answer_of_def split: option.splits)
  with unstage show ?thesis by blast
qed

section \<open>Deciding whether a path is mounted\<close>

lemma check_mounts_eq:
  "check_mounts t found fss =
     (if \<exists>fs \<in> set fss. fs_Propagation fs \<noteq> ''shared''
      then (True, Some (ErrorString
           [Lit ''mount propagation for target '', Quoted t, Lit '' is not enabled'']))
      else (found \<or> t \<in> fs_Target ` set fss, None))"
  by (induction fss arbitrary: found) auto

text \<open>C39: The production \<open>IsMounted\<close>: on a path with an executable \<open>findmnt\<close> it says that the path
  is mounted, without an error, exactly when \<open>findmnt\<close> succeeds with a JSON answer in which every
  mount is shared and one is on the path; it says that it is not mounted when \<open>findmnt\<close> fails
  without output or succeeds with no output or with shared mounts on other paths only; it fails
  when a mount is not shared; and it panics exactly on the answer \<open>null\<close>.\<close>

theorem is_mounted_decides:
  assumes "t \<noteq> ''''" and "run_state (os_LookPath os ''findmnt'') w = (None, w1)"
    and "result_of (os_Command os ''findmnt'' (findmnt_args t)) w1 = (out, r)"
  shows "(result_of (IsMounted os t) w = Some (True, None) \<longleftrightarrow>
      r = None \<and> out \<noteq> '''' \<and> (\<exists>fss. unmarshal_findmnt out = Inr (Some fss) \<and>
        t \<in> fs_Target ` set fss \<and> (\<forall>fs \<in> set fss. fs_Propagation fs = ''shared''))) \<and>
    (result_of (IsMounted os t) w = Some (False, None) \<longleftrightarrow>
      (r \<noteq> None \<and> trim_space out = '''' \<or> r = None \<and> (out = '''' \<or>
       (\<exists>fss. unmarshal_findmnt out = Inr (Some fss) \<and>
          t \<notin> fs_Target ` set fss \<and> (\<forall>fs \<in> set fss. fs_Propagation fs = ''shared''))))) \<and>
    (result_of (IsMounted os t) w = None \<longleftrightarrow>
      r = None \<and> out \<noteq> '''' \<and> unmarshal_findmnt out = Inr None)"
  using assms
  by (auto simp: IsMounted_def look_path_def case_prod_beta check_mounts_eq split: option.splits sum.splits)

text \<open>A JSON text for a list of mounts with the members of
  \<open>findmnt -J -o TARGET,PROPAGATION,FSTYPE,OPTIONS\<close>, in one line (\<open>findmnt\<close> breaks and indents its
  own), and that decoding it gives the mounts back. The answers of the reference nodes are
  such texts.\<close>

definition findmnt_fs :: "fileSystem \<Rightarrow> json" where
  "findmnt_fs fs =
     JObject [(''target'', JString (fs_Target fs)), (''propagation'', JString (fs_Propagation fs)),
              (''fstype'', JString (fs_FsType fs)), (''options'', JString (fs_Options fs))]"

definition print_findmnt :: "fileSystem list \<Rightarrow> string" where
  "print_findmnt fss =
     show_json (JObject [(''filesystems'', JArray (map findmnt_fs fss))]) @ [CHR 0x0A]"

definition plain_fs :: "fileSystem \<Rightarrow> bool" where
  "plain_fs fs \<longleftrightarrow> plain_string (fs_Target fs) \<and> plain_string (fs_Propagation fs) \<and>
     plain_string (fs_FsType fs) \<and> plain_string (fs_Options fs)"

lemma findmnt_keys:
  "\<not> equal_fold ''propagation'' ''target''" "\<not> equal_fold ''fstype'' ''target''"
  "\<not> equal_fold ''fstype'' ''propagation''" "\<not> equal_fold ''options'' ''target''"
  "\<not> equal_fold ''options'' ''propagation''" "\<not> equal_fold ''options'' ''fstype''"
  by code_simp+

lemma decode_findmnt_fs: "decode_fs (findmnt_fs fs) = (fs, True)"
  by (cases fs) (simp add: decode_fs_def findmnt_fs_def decode_fs_member_def decode_string_def
      findmnt_keys zero_fs_def)

lemma plain_findmnt: "plain_fs fs \<Longrightarrow> plain_json (findmnt_fs fs)"
proof -
  have "plain_string ''target''" "plain_string ''propagation''" "plain_string ''fstype''"
    "plain_string ''options''" by code_simp+
  then show "plain_fs fs \<Longrightarrow> plain_json (findmnt_fs fs)" by (simp add: findmnt_fs_def plain_fs_def)
qed

lemma unmarshal_print:
  assumes "list_all plain_fs fss"
  shows "unmarshal_findmnt (print_findmnt fss) = Inr (Some fss)"
proof -
  have "plain_string ''filesystems''" by code_simp
  with assms have "parse_json (print_findmnt fss) = Some (JObject [(''filesystems'', JArray (map findmnt_fs fss))])"
    unfolding print_findmnt_def
    by (intro parse_json_show) (auto simp: list_all_iff plain_findmnt json_space_def)
  moreover have "map (fst \<circ> decode_fs) (map findmnt_fs fss) = fss"
    by (simp add: decode_findmnt_fs comp_def)
  moreover have "list_all (snd \<circ> decode_fs) (map findmnt_fs fss)"
    by (simp add: list_all_iff decode_findmnt_fs)
  ultimately show ?thesis by (simp add: unmarshal_findmnt_def decode_response_member_def)
qed

lemma print_findmnt_nonempty: "print_findmnt fss \<noteq> []"
  by (simp add: print_findmnt_def)

definition findmnt_sample :: string where
  "findmnt_sample =
     [CHR ''{'', CHR 0x22] @ ''filesystems'' @ [CHR 0x22, CHR '':'', CHR ''['', CHR ''{'', CHR 0x22] @ ''target'' @
     [CHR 0x22, CHR '':'', CHR 0x22] @ ''/t'' @ [CHR 0x22, CHR '','', CHR 0x22] @ ''propagation'' @
     [CHR 0x22, CHR '':'', CHR '' '', CHR 0x22] @ ''shared'' @ [CHR 0x22, CHR ''}'', CHR '']'', CHR ''}'', CHR 0x0A]"

lemma findmnt_sample_decodes:
  "unmarshal_findmnt findmnt_sample = Inr (Some [zero_fs\<lparr> fs_Target := ''/t'', fs_Propagation := ''shared'' \<rparr>])"
  "findmnt_sample \<noteq> ''''"
  by code_simp+

theorem is_mounted_decides_witness:
  "result_of (IsMounted (host_os\<lparr> os_Command := (\<lambda>c args. ret (findmnt_sample, None)) \<rparr>) ''/t'') () =
     Some (True, None)"
  using is_mounted_decides [of "''/t''" "host_os\<lparr> os_Command := (\<lambda>c args. ret (findmnt_sample, None)) \<rparr>" "()" "()"
      findmnt_sample None] findmnt_sample_decodes
  by (simp add: host_os_def)

end
