(* ===== verification/NodeHost.thy ===== *)
theory NodeHost
  imports NodeOs
begin

text \<open>
  The node plugin with the production mounter on a node whose commands do what their manual pages
  say. \<open>node_host\<close> is that contract of the operating system; the production mounter over it keeps
  the contract \<open>mounter_success\<close>, so the handlers of \<open>driver/node.go\<close> refine their specifications
  (\<open>stage_view\<close>, \<open>publish_view\<close>) on every such node. \<open>node_os\<close> is a node of this kind that runs,
  with its mount table, disks, device links and files as state.
\<close>

section \<open>The handlers over the success contract of a mounter\<close>



section \<open>What the commands of a node promise\<close>




section \<open>Properties on every node of the contract\<close>





section \<open>A node that runs\<close>

text \<open>
  A node with a mount table, disks and files: the links of its devices, the files of the kernel, the
  file systems (by device link) and whether they are smaller than the device, the mounts, and the
  paths that exist. A \<open>mount\<close> of a device as another type than its file system's fails, as does one
  on a path that does not exist; \<open>findmnt\<close> takes printable paths only.
\<close>

record host =
  h_links :: "string \<rightharpoonup> string"
  h_files :: "string \<rightharpoonup> string"
  h_disks :: "string \<rightharpoonup> string"
  h_small :: "string \<Rightarrow> bool"
  h_mounts :: "string \<rightharpoonup> string"
  h_paths :: "string set"

definition printable :: "string \<Rightarrow> bool" where
  "printable s \<longleftrightarrow> list_all (\<lambda>c. 0x20 \<le> (of_char c :: nat) \<and> (of_char c :: nat) < 0x7F) s"

definition shared_mount :: "string \<Rightarrow> fileSystem" where
  "shared_mount t = \<lparr> fs_Target = t, fs_Propagation = ''shared'', fs_FsType = '''', fs_Options = ''rw'' \<rparr>"

definition host_command :: "string \<Rightarrow> string list \<Rightarrow> host \<Rightarrow> (string \<times> exec_error option) \<times> host" where
  "host_command c args h =
     (if c = ''blkid'' then
        ((case h_disks h (last args) of
            None \<Rightarrow> ('''', Some (ExitError 2)) | Some fs \<Rightarrow> (''TYPE='' @ fs, None)), h)
      else if has_prefix c ''mkfs.'' then
        (if h_links h (last args) = None then ((''no such device'', Some (ExitError 1)), h)
         else (('''', None), h\<lparr> h_disks := (h_disks h)(last args \<mapsto> drop 5 c) \<rparr>))
      else if c = ''mount'' then
        (let s = last (butlast args); t = last args
         in if t \<notin> h_paths h \<or> h_links h s \<noteq> None \<and> hd args = ''-t'' \<and> h_disks h s \<noteq> Some (args ! 1) then
              ((''mount failed'', Some (ExitError 32)), h)
            else (('''', None), h\<lparr> h_mounts := (h_mounts h)(t \<mapsto> s) \<rparr>))
      else if c = ''findmnt'' then
        (let t = args ! 3
         in ((if \<not> printable t then (''invalid path'', Some (ExitError 1))
              else case h_mounts h t of
                None \<Rightarrow> ('''', Some (ExitError 1))
              | Some s \<Rightarrow> (print_findmnt [shared_mount t], None)), h))
      else (('''', Some (StartError (Sentinel ErrExecNotFound))), h))"

definition node_os :: "host os" where
  "node_os =
     \<lparr> os_LookPath = (\<lambda>_. ret None), os_Command = (\<lambda>c args. State (host_command c args)),
       os_Stat = (\<lambda>p. State (\<lambda>h. (if h_links h p \<noteq> None \<or> p \<in> h_paths h then None else absent, h))),
       os_MkdirAll = (\<lambda>p k. State (\<lambda>h. (None, h\<lparr> h_paths := insert p (h_paths h) \<rparr>))),
       os_CreateFile = (\<lambda>p k. State (\<lambda>h. (None, h\<lparr> h_paths := insert p (h_paths h) \<rparr>))),
       os_CloseFile = (\<lambda>_. ret None),
       os_EvalSymlinks = (\<lambda>p. State (\<lambda>h.
         (case h_links h p of Some device \<Rightarrow> (device, None) | None \<Rightarrow> ('''', absent), h))),
       os_ReadFile = (\<lambda>p. State (\<lambda>h.
         (case h_files h p of Some content \<Rightarrow> (content, None) | None \<Rightarrow> ('''', absent), h))),
       unix_Statfs = (\<lambda>_. ret (\<lparr> st_Bsize = 0, st_Blocks = 0, st_Bfree = 0, st_Bavail = 0,
          st_Files = 0, st_Ffree = 0 \<rparr>, None)),
       unix_StatMode = (\<lambda>_. ret (0, None)),
       mount_CleanupMountPoint = (\<lambda>t. State (\<lambda>h.
         (None, h\<lparr> h_mounts := (h_mounts h)(t := None), h_paths := h_paths h - {t} \<rparr>))),
       mount_GetDeviceNameFromMount = (\<lambda>t. State (\<lambda>h.
         (case h_mounts h t of Some s \<Rightarrow> (s, None) | None \<Rightarrow> ('''', None), h))),
       mount_NeedResize = (\<lambda>s t. State (\<lambda>h. ((h_small h s, None), h))),
       mount_Resize = (\<lambda>s t. State (\<lambda>h. ((True, None), h\<lparr> h_small := (h_small h)(s := False) \<rparr>))) \<rparr>"

lemmas node_os_simps [simp] =
  node_os_def [THEN arg_cong, of os_LookPath, simplified]
  node_os_def [THEN arg_cong, of os_Command, simplified]
  node_os_def [THEN arg_cong, of os_Stat, simplified]
  node_os_def [THEN arg_cong, of os_MkdirAll, simplified]
  node_os_def [THEN arg_cong, of os_CreateFile, simplified]
  node_os_def [THEN arg_cong, of os_CloseFile, simplified]
  node_os_def [THEN arg_cong, of os_EvalSymlinks, simplified]
  node_os_def [THEN arg_cong, of os_ReadFile, simplified]
  node_os_def [THEN arg_cong, of mount_CleanupMountPoint, simplified]
  node_os_def [THEN arg_cong, of mount_NeedResize, simplified]
  node_os_def [THEN arg_cong, of mount_Resize, simplified]

definition device_runs :: "host \<Rightarrow> string \<Rightarrow> bool" where
  "device_runs h s \<longleftrightarrow>
     (case h_links h s of
        None \<Rightarrow> False
      | Some device \<Rightarrow> snd (filepath_split device) \<noteq> '''' \<and>
          (case h_files h (''/sys/class/block/'' @ snd (filepath_split device) @ ''/device/state'') of
             None \<Rightarrow> False | Some content \<Rightarrow> trim_space content = ''running''))"

definition host_view :: "host \<Rightarrow> node_view" where
  "host_view h = \<lparr> v_mounts = h_mounts h, v_formatted = h_disks h, v_attached = device_runs h \<rparr>"

lemma device_runs_simps [simp]:
  "device_runs (h\<lparr> h_paths := P \<rparr>) = device_runs h" "device_runs (h\<lparr> h_small := S \<rparr>) = device_runs h"
  "device_runs (h\<lparr> h_disks := D \<rparr>) = device_runs h" "device_runs (h\<lparr> h_mounts := M \<rparr>) = device_runs h"
  by (simp_all add: device_runs_def fun_eq_iff cong: option.case_cong)

lemma host_view_simps [simp]:
  "v_mounts (host_view h) = h_mounts h" "v_formatted (host_view h) = h_disks h"
  "v_attached (host_view h) = device_runs h"
  "host_view (h\<lparr> h_paths := P \<rparr>) = host_view h" "host_view (h\<lparr> h_small := S \<rparr>) = host_view h"
  "host_view (h\<lparr> h_disks := D \<rparr>) = (host_view h)\<lparr> v_formatted := D \<rparr>"
  "host_view (h\<lparr> h_mounts := M \<rparr>) = (host_view h)\<lparr> v_mounts := M \<rparr>"
  by (simp_all add: host_view_def)

lemma shared_mount_simps [simp]: "fs_Target (shared_mount t) = t" "fs_Propagation (shared_mount t) = ''shared''"
  by (simp_all add: shared_mount_def)

lemma shared_mount_printed:
  "printable t \<Longrightarrow> unmarshal_findmnt (print_findmnt [shared_mount t]) = Inr (Some [shared_mount t])"
proof (rule unmarshal_print)
  assume "printable t"
  then have "plain_string t" by (auto simp: printable_def plain_string_def list_all_iff)
  moreover have "plain_string ''shared''" "plain_string ''rw''" "plain_string []" by code_simp+
  ultimately show "list_all plain_fs [shared_mount t]" by (simp add: plain_fs_def shared_mount_def)
qed

lemma invalid_path_text [simp]: "trim_space ''invalid path'' \<noteq> []"
  by code_simp

lemma not_mkfs [simp]: "\<not> has_prefix ''findmnt'' ''mkfs.''" "\<not> has_prefix ''mount'' ''mkfs.''"
  by (simp_all add: has_prefix_def)


section \<open>The life of a volume on a node\<close>

text \<open>The operations of the production mounter on the node.\<close>

lemma node_look_path [simp]: "look_path node_os c = ret None"
  by (simp add: look_path_def)

lemma node_Format:
  assumes "h_links h s \<noteq> None" and "s \<noteq> ''''" and "fs \<noteq> ''''"
  shows "run_state (Format node_os s fs) h = (None, h\<lparr> h_disks := (h_disks h)(s \<mapsto> fs) \<rparr>)"
proof -
  have "host_command (mkfs_command fs) (mkfs_args s fs) h = (('''', None), h\<lparr> h_disks := (h_disks h)(s \<mapsto> fs) \<rparr>)"
    using assms(1) by (simp add: host_command_def mkfs_command_def mkfs_args_def has_prefix_def)
  with assms show ?thesis by (simp add: Format_def Let_def)
qed

lemma node_IsFormatted:
  "s \<noteq> '''' \<Longrightarrow> run_state (IsFormatted node_os s) h = ((h_disks h s \<noteq> None, None), h)"
  by (simp add: IsFormatted_def host_command_def blkidExitStatusNoIdentifiers_def split: option.splits)

lemma node_IsMounted:
  assumes "printable t" and "t \<noteq> ''''"
  shows "run_state (IsMounted node_os t) h = (Some (h_mounts h t \<noteq> None, None), h)"
proof -
  have "trim_space '''' = ''''" by code_simp
  with assms show ?thesis
    by (simp add: IsMounted_def host_command_def findmnt_args_def Let_def shared_mount_printed print_findmnt_nonempty
        split: option.splits)
qed

lemma node_IsAttached:
  assumes "device_runs h s"
  shows "run_state (IsAttached node_os s) h = (None, h)"
  using assms
  by (auto simp: IsAttached_def device_runs_def device_state_path_def runningState_def Let_def split: option.splits)

lemma node_Mount:
  assumes "h_links h s \<noteq> None \<or> s \<in> h_paths h" and "s \<noteq> ''''" and "t \<noteq> ''''" and "fs \<noteq> ''''"
    and "h_links h s = None \<or> h_disks h s = Some fs"
  shows "run_state (Mount node_os s t fs opts) h =
    (None, h\<lparr> h_paths := insert t (h_paths h), h_mounts := (h_mounts h)(t \<mapsto> s) \<rparr>)"
  using assms by (auto simp: Mount_def Let_def prepare_target_def mount_args_def host_command_def)

lemma node_Unmount:
  "run_state (Unmount node_os t) h =
   (None, h\<lparr> h_mounts := (h_mounts h)(t := None), h_paths := h_paths h - {t} \<rparr>)"
  by (simp add: Unmount_def)

lemma node_stage_resize:
  "h_links h s \<noteq> None \<Longrightarrow>
   run_state (stage_resize node_os i s t) h = (None, h\<lparr> h_small := (h_small h)(s := False) \<rparr>)"
  by (cases "h_small h s") (simp_all add: stage_resize_def fun_upd_idem)

lemma fs_type_of_nonempty [simp]: "fs_type_of mnt \<noteq> []"
  by (simp add: fs_type_of_def)

text \<open>Staging a blank volume, and publishing it.\<close>

lemma node_stages:
  fixes req :: stage_request
  defines "dev \<equiv> getDeviceByIDPath (stg_VolumeId req)" and "stage \<equiv> stg_StagingTargetPath req"
  assumes "stage_invalid req = None" and "\<not> no_format (stg_VolumeContext req) annsNoFormatVolume"
    and "vc_AccessType (the (stg_VolumeCapability req)) = Some (VolumeCapability_Mount (Some mnt))"
    and "h_links h dev \<noteq> None" and "d_validateAttachment d \<longrightarrow> device_runs h dev" and "h_disks h dev = None"
    and "h_mounts h stage = None" and "printable stage"
  shows "run_state (NodeStageVolume (NewMounter node_os) node_os d req) h =
    (Ok (), h\<lparr> h_disks := (h_disks h)(dev \<mapsto> fs_type_of mnt), h_paths := insert stage (h_paths h),
       h_mounts := (h_mounts h)(stage \<mapsto> dev), h_small := (h_small h)(dev := False) \<rparr>)"
proof -
  have stage: "stage \<noteq> ''''" using assms(3) by (auto simp: stage_invalid_def stage_def split: if_splits)
  have dev: "dev \<noteq> ''''" by (simp add: dev_def)
  let ?h1 = "h\<lparr> h_disks := (h_disks h)(dev \<mapsto> fs_type_of mnt) \<rparr>"
  have format: "run_state (stage_format (NewMounter node_os) d dev (fs_type_of mnt)) h = (None, ?h1)"
    using assms(6-8) dev
    by (cases "d_validateAttachment d")
      (simp_all add: stage_format_def format_if_blank_def node_IsAttached node_IsFormatted node_Format)
  let ?h2 = "?h1\<lparr> h_paths := insert stage (h_paths h), h_mounts := (h_mounts h)(stage \<mapsto> dev) \<rparr>"
  have mount: "run_state (stage_mount (NewMounter node_os) dev stage (fs_type_of mnt) (mv_MountFlags mnt)) ?h1 = (Some None, ?h2)"
    using assms(6,9,10) dev stage by (simp add: stage_mount_def node_IsMounted node_Mount)
  have resize: "run_state (stage_resize node_os (stg_VolumeId req) dev stage) ?h2 =
      (None, ?h2\<lparr> h_small := (h_small h)(dev := False) \<rparr>)"
    using assms(6) by (simp add: node_stage_resize)
  show ?thesis
    using assms(3-5) format mount resize
    by (simp add: NodeStageVolume_def Let_def GetMount_def dev_def stage_def)
qed

lemma node_publishes:
  fixes req :: node_publish_request
  defines "stage \<equiv> np_StagingTargetPath req" and "target \<equiv> np_TargetPath req"
  assumes "node_publish_invalid req = None"
    and "vc_AccessType (the (np_VolumeCapability req)) = Some (VolumeCapability_Mount (Some mnt))"
    and "stage \<in> h_paths h" and "h_links h stage = None" and "h_mounts h target = None" and "printable target"
  shows "run_state (NodePublishVolume (NewMounter node_os) node_os req) h =
    (Ok (), h\<lparr> h_paths := insert target (h_paths h), h_mounts := (h_mounts h)(target \<mapsto> stage) \<rparr>)"
proof -
  have ids: "stage \<noteq> ''''" "target \<noteq> ''''"
    using assms(3) by (auto simp: node_publish_invalid_def stage_def target_def split: if_splits)
  then have "run_state (bind_mount (NewMounter node_os) stage target (fs_type_of mnt) opts failed) h =
      (Some None, h\<lparr> h_paths := insert target (h_paths h), h_mounts := (h_mounts h)(target \<mapsto> stage) \<rparr>)" for opts failed
    using assms(5-8) by (simp add: bind_mount_def node_IsMounted node_Mount)
  with assms(3,4) show ?thesis
    by (simp add: NodePublishVolume_def Let_def nodePublishVolumeForFileSystem_def stage_def target_def)
qed

text \<open>C4: The life of a file system volume on a node, with the production mounter on the reference node
  \<open>node_os\<close> (whose commands do what they document and fail only when they must): staging a blank
  volume, whose device is attached if that is checked, formats it, mounts it on the staging path and
  grows a file system that is smaller than its device; publishing mounts the staging path on the
  target, and unpublishing and unstaging take both mounts away, after which only the device's file
  system is new, and the two paths are gone. Every call succeeds. The requests are valid and do not
  forbid formatting, the two paths are different and printable, nothing is mounted on them, and the
  staging path is no device link.\<close>

theorem node_lifecycle:
  fixes req :: stage_request and preq :: node_publish_request and h :: host
  defines "dev \<equiv> getDeviceByIDPath (stg_VolumeId req)"
    and "stage \<equiv> stg_StagingTargetPath req" and "target \<equiv> np_TargetPath preq"
  assumes "stage_invalid req = None" and "node_publish_invalid preq = None"
    and "vc_AccessType (the (stg_VolumeCapability req)) = Some (VolumeCapability_Mount (Some mnt))"
    and "vc_AccessType (the (np_VolumeCapability preq)) = Some (VolumeCapability_Mount (Some mnt'))"
    and "stage = np_StagingTargetPath preq" and "target \<noteq> stage"
    and "\<not> no_format (stg_VolumeContext req) annsNoFormatVolume"
    and "h_links h dev \<noteq> None" and "d_validateAttachment d \<longrightarrow> device_runs h dev" and "h_disks h dev = None"
    and "h_mounts h stage = None" and "h_mounts h target = None" and "h_links h stage = None"
    and "printable stage" and "printable target"
  shows "\<exists>h1 h2 h3 h4.
    run_state (NodeStageVolume (NewMounter node_os) node_os d req) h = (Ok (), h1) \<and>
    h_mounts h1 = (h_mounts h)(stage \<mapsto> dev) \<and> h_disks h1 = (h_disks h)(dev \<mapsto> fs_type_of mnt) \<and> \<not> h_small h1 dev \<and>
    run_state (NodePublishVolume (NewMounter node_os) node_os preq) h1 = (Ok (), h2) \<and>
    h_mounts h2 = (h_mounts h)(stage \<mapsto> dev, target \<mapsto> stage) \<and>
    run_state (NodeUnpublishVolume (NewMounter node_os) (np_VolumeId preq) target) h2 = (Ok (), h3) \<and>
    h_mounts h3 = (h_mounts h)(stage \<mapsto> dev) \<and>
    run_state (NodeUnstageVolume (NewMounter node_os) (stg_VolumeId req) stage) h3 = (Ok (), h4) \<and>
    h4 = h\<lparr> h_disks := (h_disks h)(dev \<mapsto> fs_type_of mnt), h_small := (h_small h)(dev := False),
            h_paths := h_paths h - {stage, target} \<rparr>"
proof -
  have ids: "stg_VolumeId req \<noteq> ''''" "stage \<noteq> ''''" "np_VolumeId preq \<noteq> ''''" "target \<noteq> ''''"
    using assms(4,5) by (auto simp: stage_invalid_def node_publish_invalid_def stage_def target_def split: if_splits)
  define h1 where "h1 = h\<lparr> h_disks := (h_disks h)(dev \<mapsto> fs_type_of mnt), h_paths := insert stage (h_paths h),
      h_mounts := (h_mounts h)(stage \<mapsto> dev), h_small := (h_small h)(dev := False) \<rparr>"
  define h2 where "h2 = h1\<lparr> h_paths := insert target (h_paths h1), h_mounts := (h_mounts h1)(target \<mapsto> stage) \<rparr>"
  define h3 where "h3 = h2\<lparr> h_mounts := (h_mounts h2)(target := None), h_paths := h_paths h2 - {target} \<rparr>"
  define h4 where "h4 = h3\<lparr> h_mounts := (h_mounts h3)(stage := None), h_paths := h_paths h3 - {stage} \<rparr>"
  have 1: "run_state (NodeStageVolume (NewMounter node_os) node_os d req) h = (Ok (), h1)"
    unfolding h1_def dev_def stage_def
    by (rule node_stages) (use assms(4,6,10-14,17) in \<open>simp_all add: dev_def stage_def\<close>)
  have 2: "run_state (NodePublishVolume (NewMounter node_os) node_os preq) h1 = (Ok (), h2)"
    using node_publishes [of preq mnt' h1] assms(5,7-9,15,16,18) by (simp add: h1_def h2_def stage_def target_def)
  have 3: "run_state (NodeUnpublishVolume (NewMounter node_os) (np_VolumeId preq) target) h2 = (Ok (), h3)"
    using ids by (simp add: NodeUnpublishVolume_def node_Unmount h3_def)
  have m3: "h_mounts h3 = (h_mounts h)(stage \<mapsto> dev)"
    using assms(9,15) by (simp add: h3_def h2_def h1_def fun_upd_twist fun_upd_idem)
  then have 4: "run_state (NodeUnstageVolume (NewMounter node_os) (stg_VolumeId req) stage) h3 = (Ok (), h4)"
    using ids assms(17) by (simp add: NodeUnstageVolume_def node_IsMounted node_Unmount h4_def)
  have "h4 = h\<lparr> h_disks := (h_disks h)(dev \<mapsto> fs_type_of mnt), h_small := (h_small h)(dev := False),
            h_paths := h_paths h - {stage, target} \<rparr>"
    using assms(9,14) m3 by (cases h) (auto simp: h4_def h3_def h2_def h1_def fun_upd_idem)
  with 1 2 3 4 m3 show ?thesis by (auto simp: h2_def h1_def)
qed

section \<open>Witnesses\<close>

text \<open>A node to which the blank volume \<open>vol-1\<close> is attached.\<close>

definition sample_host :: host where
  "sample_host =
     \<lparr> h_links = [getDeviceByIDPath ''vol-1'' \<mapsto> ''/dev/sda''],
       h_files = [''/sys/class/block/sda/device/state'' \<mapsto> ''running'' @ [CHR 0x0A]],
       h_disks = Map.empty, h_small = (\<lambda>_. True), h_mounts = Map.empty, h_paths = {''/dev/sda''} \<rparr>"

lemma sample_host_runs: "device_runs sample_host (getDeviceByIDPath ''vol-1'')"
proof -
  have "snd (filepath_split ''/dev/sda'') = ''sda''" "trim_space (''running'' @ [CHR 0x0A]) = ''running''"
    by code_simp+
  then show ?thesis by (simp add: device_runs_def sample_host_def)
qed

lemma sample_paths: "printable ''/stage''" "printable ''/target''" "getDeviceByIDPath ''vol-1'' \<noteq> ''/stage''"
proof -
  show "printable ''/stage''" "printable ''/target''" by code_simp+
  show "getDeviceByIDPath ''vol-1'' \<noteq> ''/stage''" using device_path_exact_witness by simp
qed


theorem node_lifecycle_witness:
  "\<exists>h1 h2. run_state (NodeStageVolume (NewMounter node_os) node_os sample_driver sample_stage) sample_host = (Ok (), h1) \<and>
     run_state (NodePublishVolume (NewMounter node_os) node_os sample_node_publish) h1 = (Ok (), h2)"
  using node_lifecycle [where req = sample_stage and preq = sample_node_publish
      and mnt = "\<lparr> mv_FsType = ''xfs'', mv_MountFlags = [] \<rparr>"
      and mnt' = "\<lparr> mv_FsType = ''xfs'', mv_MountFlags = [] \<rparr>" and d = sample_driver and h = sample_host]
    sample_host_runs sample_paths
  by (auto simp: sample_stage_def sample_node_publish_def sample_host_def
      stage_invalid_def node_publish_invalid_def annsNoFormatVolume_def)






end
