(* ===== verification/NodeStats.thy ===== *)
theory NodeStats
  imports NodeOs
begin

text \<open>
  The statistics of volumes: \<open>GetStatistics\<close> of \<open>driver/mounter.go\<close> on a mounted file system and on a
  block device, and what \<open>NodeGetVolumeStats\<close> of \<open>driver/node.go\<close> reports with that mounter.
\<close>

section \<open>Statistics\<close>

lemma digit_char:
  "n < 10 \<Longrightarrow> (of_char (char_of (48 + n) :: char) :: nat) = 48 + n"
  by (simp add: of_char_of)

lemma is_digit_char: "n < (10 :: nat) \<Longrightarrow> is_digit (char_of (48 + n))"
  by (simp add: is_digit_def digit_char)

lemma show_nat_digits: "list_all is_digit (show_nat n) \<and> show_nat n \<noteq> ''''"
proof (induction n rule: show_nat.induct)
  case (1 n)
  show ?case
    using 1 by (subst (1 2) show_nat.simps) (auto simp: is_digit_char)
qed

lemma digits_value_show_nat: "digits_value (show_nat n) = n"
proof (induction n rule: show_nat.induct)
  case (1 n)
  show ?case
    using 1 by (subst show_nat.simps) (auto simp: digits_value_def digit_char)
qed

lemma show_nat_inject [simp]: "show_nat m = show_nat n \<longleftrightarrow> m = n"
  by (metis digits_value_show_nat)

text \<open>The size of a block device: \<open>GetStatistics\<close> on a block device reports exactly the number
  that \<open>blockdev\<close> prints, surrounded by any space that \<open>strings.TrimSpace\<close> removes, for every
  size below 2 to the 63; all other statistics are zero.\<close>

theorem block_statistics:
  assumes "trim_space out = show_nat n" and "n < 2 ^ 63"
    and "run_state (unix_StatMode os p) w = ((mode, None), w1)" and "and mode S_IFMT = S_IFBLK"
    and "result_of (os_Command os ''blockdev'' [''getsize64'', p]) w1 = (out, None)"
  shows "result_of (GetStatistics os p) w = (no_statistics\<lparr> totalBytes := word_of_int (int n) \<rparr>, None) \<and>
    sint (word_of_int (int n) :: int64) = int n"
proof -
  obtain c cs where s: "show_nat n = c # cs" "is_digit c"
    using show_nat_digits [of n] by (cases "show_nat n") auto
  then have "c \<noteq> CHR ''-''" "c \<noteq> CHR ''+''" by (auto simp: is_digit_def)
  then have sign: "(case show_nat n of
        CHR ''-'' # r \<Rightarrow> (True, r) | CHR ''+'' # r \<Rightarrow> (False, r) | _ \<Rightarrow> (False, show_nat n)) = (False, show_nat n)"
    unfolding s(1) by (auto split: char.splits bool.splits)
  have fits: "fits64 (int n)" using assms(2) by (simp add: fits64_def)
  have "parse_int64 (show_nat n) = Some (word_of_int (int n))"
    unfolding parse_int64_def sign Let_def
    using show_nat_digits [of n] fits by (simp add: digits_value_show_nat)
  with assms sint_word_of_int64 [OF fits] show ?thesis
    by (simp add: GetStatistics_def IsBlockDevice_def case_prod_beta)
qed

theorem block_statistics_witness:
  "\<exists>out. result_of (GetStatistics (host_os\<lparr> os_Command := (\<lambda>c args. ret (''512'' @ [CHR 0x0A], None)),
      unix_StatMode := (\<lambda>p. ret (0x61B0, None)) \<rparr>) ''/dev/sda'') () = (out, None) \<and> sint (totalBytes out) = 512"
proof -
  let ?os = "host_os\<lparr> os_Command := (\<lambda>c args. ret (''512'' @ [CHR 0x0A], None)),
      unix_StatMode := (\<lambda>p. ret (0x61B0, None)) \<rparr>"
  have 1: "trim_space (''512'' @ [CHR 0x0A]) = show_nat 512" by code_simp
  have 2: "(512 :: nat) < 2 ^ 63" by simp
  have 3: "run_state (unix_StatMode ?os ''/dev/sda'') () = ((0x61B0, None), ())" by simp
  have 4: "and (0x61B0 :: int32) S_IFMT = S_IFBLK" by (simp add: S_IFMT_def S_IFBLK_def)
  have 5: "result_of (os_Command ?os ''blockdev'' [''getsize64'', ''/dev/sda'']) () = (''512'' @ [CHR 0x0A], None)"
    by simp
  from block_statistics [OF 1 2 3 4 5] show ?thesis by auto
qed

section \<open>The statistics of a volume on the node\<close>

lemma fits64_nonneg: "0 \<le> n \<Longrightarrow> n < 2 ^ 63 \<Longrightarrow> fits64 n"
  by (simp add: fits64_def)

lemma fits64_minus: "0 \<le> m \<Longrightarrow> m < 2 ^ 63 \<Longrightarrow> 0 \<le> n \<Longrightarrow> n < 2 ^ 63 \<Longrightarrow> fits64 (m - n)"
  by (simp add: fits64_def)

lemma inodes_exact:
  assumes "uint (st_Files st) < 2 ^ 63" and "uint (st_Ffree st) < 2 ^ 63"
  shows "sint (totalInodes (statfs_statistics st)) = uint (st_Files st)"
    "sint (availableInodes (statfs_statistics st)) = uint (st_Ffree st)"
    "sint (usedInodes (statfs_statistics st)) = uint (st_Files st) - uint (st_Ffree st)"
proof -
  have pos: "0 \<le> uint (st_Files st)" "0 \<le> uint (st_Ffree st)" by simp_all
  have words: "totalInodes (statfs_statistics st) = word_of_int (uint (st_Files st))"
    "availableInodes (statfs_statistics st) = word_of_int (uint (st_Ffree st))"
    "usedInodes (statfs_statistics st) = word_of_int (uint (st_Files st) - uint (st_Ffree st))"
    by (simp_all add: statfs_statistics_def)
  show "sint (totalInodes (statfs_statistics st)) = uint (st_Files st)"
    unfolding words by (rule sint_word_of_int64) (intro fits64_nonneg assms pos)
  show "sint (availableInodes (statfs_statistics st)) = uint (st_Ffree st)"
    unfolding words by (rule sint_word_of_int64) (intro fits64_nonneg assms pos)
  show "sint (usedInodes (statfs_statistics st)) = uint (st_Files st) - uint (st_Ffree st)"
    unfolding words by (rule sint_word_of_int64) (intro fits64_minus assms pos)
qed

lemma bytes_exact:
  fixes st :: statfs_t
  defines "bs \<equiv> uint (st_Bsize st)"
  assumes "uint (st_Blocks st) * bs < 2 ^ 63" and "uint (st_Bfree st) * bs < 2 ^ 63"
    and "uint (st_Bavail st) * bs < 2 ^ 63"
  shows "sint (totalBytes (statfs_statistics st)) = uint (st_Blocks st) * bs"
    "sint (availableBytes (statfs_statistics st)) = uint (st_Bavail st) * bs"
    "sint (usedBytes (statfs_statistics st)) = (uint (st_Blocks st) - uint (st_Bfree st)) * bs"
proof -
  have pos: "0 \<le> uint (st_Blocks st) * bs" "0 \<le> uint (st_Bfree st) * bs" "0 \<le> uint (st_Bavail st) * bs"
    by (simp_all add: bs_def)
  have words: "totalBytes (statfs_statistics st) = word_of_int (uint (st_Blocks st) * bs)"
    "availableBytes (statfs_statistics st) = word_of_int (uint (st_Bavail st) * bs)"
    "usedBytes (statfs_statistics st) = word_of_int ((uint (st_Blocks st) - uint (st_Bfree st)) * bs)"
    by (simp_all add: statfs_statistics_def bs_def)
  show "sint (totalBytes (statfs_statistics st)) = uint (st_Blocks st) * bs"
    unfolding words by (rule sint_word_of_int64) (intro fits64_nonneg assms pos)
  show "sint (availableBytes (statfs_statistics st)) = uint (st_Bavail st) * bs"
    unfolding words by (rule sint_word_of_int64) (intro fits64_nonneg assms pos)
  show "sint (usedBytes (statfs_statistics st)) = (uint (st_Blocks st) - uint (st_Bfree st)) * bs"
    unfolding words by (rule sint_word_of_int64) (simp only: left_diff_distrib, intro fits64_minus assms pos)
qed

lemma node_stats_run:
  assumes "i \<noteq> ''''" and "p \<noteq> ''''" and "run_state (IsMounted os p) w = (Some (True, None), w1)"
    and "run_state (unix_StatMode os p) w1 = ((mode, None), w2)"
    and "run_state (unix_StatMode os p) w2 = ((mode', None), w3)" and "and mode S_IFMT \<noteq> S_IFBLK"
    and "and mode' S_IFMT \<noteq> S_IFBLK" and "result_of (unix_Statfs os p) w3 = (st, None)"
  shows "result_of (NodeGetVolumeStats (NewMounter os) i p) w = Ok (filesystem_usage (statfs_statistics st))"
  using assms by (simp add: NodeGetVolumeStats_def IsBlockDevice_def GetStatistics_def case_prod_beta)

text \<open>C38: The statistics that the node reports, with the production mounter, for a mounted file system
  (a path that \<open>IsMounted\<close> accepts, that is no block device, and on which the system calls succeed)
  are those of \<open>statfs\<close>, computed without wrap-around as long as the sizes in bytes of all, of
  the free and of the available blocks, and the numbers of inodes and of free inodes, fit 63 bits:
  the first entry counts bytes, with the blocks that are not free as used; the second counts
  inodes, and used plus available inodes are the total. Used plus available bytes stay within the
  total exactly when \<open>statfs\<close> gives no more available than free blocks (or a block size of 0).\<close>

theorem node_volume_stats:
  assumes "i \<noteq> ''''" and "p \<noteq> ''''" and "run_state (IsMounted os p) w = (Some (True, None), w1)"
    and "run_state (unix_StatMode os p) w1 = ((mode, None), w2)"
    and "run_state (unix_StatMode os p) w2 = ((mode', None), w3)" and "and mode S_IFMT \<noteq> S_IFBLK"
    and "and mode' S_IFMT \<noteq> S_IFBLK" and "result_of (unix_Statfs os p) w3 = (st, None)"
    and "uint (st_Blocks st) * uint (st_Bsize st) < 2 ^ 63" and "uint (st_Bfree st) * uint (st_Bsize st) < 2 ^ 63"
    and "uint (st_Bavail st) * uint (st_Bsize st) < 2 ^ 63"
    and "uint (st_Files st) < 2 ^ 63" and "uint (st_Ffree st) < 2 ^ 63"
  shows "\<exists>b n. result_of (NodeGetVolumeStats (NewMounter os) i p) w = Ok [b, n] \<and>
    vu_Unit b = BYTES \<and> sint (vu_Total b) = uint (st_Blocks st) * uint (st_Bsize st) \<and>
    sint (vu_Used b) = (uint (st_Blocks st) - uint (st_Bfree st)) * uint (st_Bsize st) \<and>
    sint (vu_Available b) = uint (st_Bavail st) * uint (st_Bsize st) \<and>
    (sint (vu_Used b) + sint (vu_Available b) \<le> sint (vu_Total b) \<longleftrightarrow>
       uint (st_Bavail st) \<le> uint (st_Bfree st) \<or> st_Bsize st = 0) \<and>
    vu_Unit n = INODES \<and> sint (vu_Total n) = uint (st_Files st) \<and>
    sint (vu_Available n) = uint (st_Ffree st) \<and>
    sint (vu_Used n) + sint (vu_Available n) = sint (vu_Total n)"
proof -
  note bytes = bytes_exact [OF assms(9-11)] and inodes = inodes_exact [OF assms(12,13)]
  have "(blocks - free) * size + avail * size \<le> blocks * size \<longleftrightarrow> avail \<le> free \<or> size = 0"
    if "0 \<le> size" for blocks free avail size :: int
  proof -
    have "(blocks - free) * size + avail * size \<le> blocks * size \<longleftrightarrow> avail * size \<le> free * size"
      by (simp add: left_diff_distrib)
    with that show ?thesis by (auto simp: mult_le_cancel_right)
  qed
  moreover have "uint (st_Bsize st) = 0 \<longleftrightarrow> st_Bsize st = 0" by (simp add: unsigned_eq_0_iff)
  ultimately show ?thesis
    unfolding node_stats_run [OF assms(1-8)] filesystem_usage_def
    using bytes inodes by simp
qed

definition stats_os :: "unit os" where
  "stats_os = host_os\<lparr> os_Command := (\<lambda>c args. ret (findmnt_sample, None)), unix_StatMode := (\<lambda>p. ret (0x41ED, None)),
     unix_Statfs := (\<lambda>p. ret (\<lparr> st_Bsize = 4096, st_Blocks = 1000, st_Bfree = 600, st_Bavail = 500,
       st_Files = 10, st_Ffree = 4 \<rparr>, None)) \<rparr>"

theorem node_volume_stats_witness:
  "\<exists>b n. result_of (NodeGetVolumeStats (NewMounter stats_os) ''vol-1'' ''/t'') () = Ok [b, n] \<and>
     sint (vu_Used b) = 400 * 4096 \<and> sint (vu_Available n) = 4"
proof -
  let ?st = "\<lparr> st_Bsize = 4096, st_Blocks = 1000, st_Bfree = 600, st_Bavail = 500, st_Files = 10, st_Ffree = 4 \<rparr> :: statfs_t"
  have mounted: "run_state (IsMounted stats_os ''/t'') () = (Some (True, None), ())"
    using findmnt_sample_decodes
    by (simp add: stats_os_def host_os_def IsMounted_def look_path_def)
  have mode: "run_state (unix_StatMode stats_os ''/t'') () = ((0x41ED, None), ())"
    by (simp add: stats_os_def)
  have plain: "and (0x41ED :: int32) S_IFMT \<noteq> S_IFBLK" by (simp add: S_IFMT_def S_IFBLK_def)
  have fs: "result_of (unix_Statfs stats_os ''/t'') () = (?st, None)" by (simp add: stats_os_def)
  from node_volume_stats [OF _ _ mounted mode mode plain plain fs, of "''vol-1''"] show ?thesis
    by fastforce
qed

end
