(* ===== verification/NodeExpand.thy ===== *)
theory NodeExpand
  imports NodeOs
begin

text \<open>
  What \<open>NodeExpandVolume\<close> (\<open>driver/node.go\<close>) does to the node with the production mounter, from
  the calls of a run.
\<close>

section \<open>Evidence in the calls\<close>

text \<open>\<open>findmnt\<close> listed the path, among mounts that are all shared.\<close>

definition mount_seen :: "string \<Rightarrow> os_call list \<Rightarrow> bool" where
  "mount_seen t ks \<longleftrightarrow>
     (\<exists>out fss. Command ''findmnt'' (findmnt_args t) out None \<in> set ks \<and>
        unmarshal_findmnt out = Inr (Some fss) \<and> t \<in> fs_Target ` set fss \<and>
        (\<forall>fs \<in> set fss. fs_Propagation fs = ''shared''))"

lemma wp_IsMounted_seen:
  assumes "\<And>r ks. filter changes ks = [] \<Longrightarrow> (r = Some (True, None) \<longrightarrow> mount_seen t ks) \<Longrightarrow> Q r (js @ ks)"
  shows "wp (IsMounted (traced_os os) t) Q js"
proof -
  note q = assms [of "[]", simplified] assms [of "[_]", simplified] assms [of "[_, _]", simplified]
  have seen: "mount_seen t [k, Command ''findmnt'' (findmnt_args t) out None]"
    if "unmarshal_findmnt out = Inr (Some fss)" "check_mounts t False fss = (True, None)" for k out fss
    using that by (auto simp: mount_seen_def check_mounts_eq split: option.splits if_splits)
  show ?thesis
    unfolding IsMounted_def
    by (auto intro!: wp_intros wp_look_path q split: option.splits sum.splits) (auto intro: seen)
qed

section \<open>Expansion\<close>

definition expands_block :: "node_expand_request \<Rightarrow> bool" where
  "expands_block req \<longleftrightarrow>
     (case ne_VolumeCapability req of
        None \<Rightarrow> False | Some cap \<Rightarrow> vc_AccessType cap = Some VolumeCapability_Block)"

text \<open>A run changes nothing, or resizes, as its last call, the file system of the device that is
  mounted on the requested path, and answers as the resize did.\<close>

definition node_expand_effect :: "node_expand_request \<Rightarrow> unit handler_result \<Rightarrow> os_call list \<Rightarrow> bool" where
  "node_expand_effect req res calls \<longleftrightarrow>
     filter changes calls = [] \<and> (res = Ok () \<longrightarrow> calls = [] \<and> expands_block req) \<or>
     (\<exists>ks dev b r. calls = ks @ [Device_Name_From_Mount (ne_VolumePath req) dev None, Resize_Fs dev (ne_VolumePath req) b r] \<and>
        filter changes ks = [] \<and> mount_seen (ne_VolumePath req) ks \<and> dev \<noteq> '''' \<and>
        (case r of None \<Rightarrow> res = Ok () | Some e \<Rightarrow> \<exists>m. res = Err (status_error Internal m)))"

lemma effect_quiet: "filter changes calls = [] \<Longrightarrow> res \<noteq> Ok () \<Longrightarrow> node_expand_effect req res calls"
  by (simp add: node_expand_effect_def)

lemma effect_resize:
  assumes "filter changes ks = []" and "mount_seen (ne_VolumePath req) ks" and "dev \<noteq> ''''"
    and "case r of None \<Rightarrow> res = Ok () | Some e \<Rightarrow> \<exists>m. res = Err (status_error Internal m)"
  shows "node_expand_effect req res
    (ks @ [Device_Name_From_Mount (ne_VolumePath req) dev None, Resize_Fs dev (ne_VolumePath req) b r])"
  unfolding node_expand_effect_def using assms by blast

lemma wp_NodeExpandVolume:
  "wp (NodeExpandVolume (NewMounter (traced_os os)) (traced_os os) req) (node_expand_effect req) []"
proof (cases "ne_VolumeId req = '''' \<or> ne_VolumePath req = '''' \<or> expands_block req")
  case True
  then show ?thesis
    by (auto simp: NodeExpandVolume_def Let_def expands_block_def node_expand_effect_def)
next
  case False
  show ?thesis
    unfolding NodeExpandVolume_def Let_def NewMounter_simps
    using False
    by (auto simp: expands_block_def GetDeviceName_def intro!: wp_bind wp_IsMounted_seen wp_intros
        split: option.splits bool.splits)
      (auto intro: effect_quiet effect_resize)
qed

text \<open>C37: \<open>NodeExpandVolume\<close> with the production mounter changes the node by at most one call, the resize
  of a file system: the last call of the run, made only after \<open>findmnt\<close> listed the requested
  path, on the device that the mount table gives for that path; the call then succeeds exactly
  when the resize did. Without a resize it succeeds only for a block volume, without any call.\<close>

theorem node_expand_resizes_mounted:
  "let calls = calls_of (NodeExpandVolume (NewMounter (traced_os os)) (traced_os os) req) w;
       res = answer_of (NodeExpandVolume (NewMounter (traced_os os)) (traced_os os) req) w
   in filter changes calls = [] \<and> (res = Ok () \<longrightarrow> calls = [] \<and> expands_block req) \<or>
    (\<exists>ks dev b r.
       calls = ks @ [Device_Name_From_Mount (ne_VolumePath req) dev None, Resize_Fs dev (ne_VolumePath req) b r] \<and>
       filter changes ks = [] \<and> mount_seen (ne_VolumePath req) ks \<and> dev \<noteq> '''' \<and>
       (case r of None \<Rightarrow> res = Ok () | Some e \<Rightarrow> \<exists>m. res = Err (status_error Internal m)))"
  using wp_run [OF wp_NodeExpandVolume [where os = os and req = req], of w]
  unfolding node_expand_effect_def Let_def .

definition expand_os :: "unit os" where
  "expand_os = host_os\<lparr> os_Command := (\<lambda>c args. ret (findmnt_sample, None)),
     mount_GetDeviceNameFromMount := (\<lambda>p. ret (''/dev/sdb'', None)) \<rparr>"

definition sample_expand_node :: node_expand_request where
  "sample_expand_node = \<lparr> ne_VolumeId = ''vol-1'', ne_VolumePath = ''/t'', ne_VolumeCapability = None \<rparr>"

theorem node_expand_resizes_mounted_witness:
  "\<exists>dev b r. Resize_Fs dev ''/t'' b r \<in>
     set (calls_of (NodeExpandVolume (NewMounter (traced_os expand_os)) (traced_os expand_os) sample_expand_node) ())"
proof -
  have "answer_of (NodeExpandVolume (NewMounter (traced_os expand_os)) (traced_os expand_os) sample_expand_node) () = Ok ()"
    using findmnt_sample_decodes
    by (simp add: NodeExpandVolume_def Let_def sample_expand_node_def expand_os_def host_os_def IsMounted_def
        look_path_def GetDeviceName_def answer_of_def)
  moreover have "\<not> expands_block sample_expand_node" "ne_VolumePath sample_expand_node = ''/t''"
    by (simp_all add: expands_block_def sample_expand_node_def)
  ultimately show ?thesis
    using node_expand_resizes_mounted [of expand_os sample_expand_node "()"] unfolding Let_def by fastforce
qed

end
