(* ===== verification/Health.thy ===== *)
theory Health
  imports Driver CloudSim
begin

text \<open>
  \<open>driver/health.go\<close>, \<open>driver/healthcheck/health.go\<close>, \<open>driver/identity.go\<close> and
  \<open>driver/version/version.go\<close>: the health check behind the debug server, the readiness probe and
  the plugin's description. The version is inserted at build time and is an argument.
\<close>

section \<open>Health checks\<close>

text \<open>The interface \<open>HealthCheck\<close> and the checker of several of them.\<close>

record 'w health_check =
  hc_Name :: string
  hc_Check :: "('w, err) state"

record 'w health_checker =
  hc_checks :: "'w health_check list"

definition NewHealthChecker :: "'w health_check list \<Rightarrow> 'w health_checker" where
  "NewHealthChecker checks = \<lparr> hc_checks = checks \<rparr>"

definition tcHealthChecker_Name :: string where
  "tcHealthChecker_Name = ''thalassa''"

definition tcHealthChecker_Check :: "'w env \<Rightarrow> string \<Rightarrow> ('w, err) state" where
  "tcHealthChecker_Check env region =
     (let fs = (if region \<noteq> '''' then [(''region'', region)] else [])
      in do {
        err \<leftarrow> iaas_ListRegions env fs;
        ret (case err of
               Some e \<Rightarrow> Some (Wrap [Lit ''thalassa API health check failed: ''] e)
             | None \<Rightarrow> None)
      })"

text \<open>
  \<open>HealthChecker.Check\<close> starts every check in a goroutine of an \<open>errgroup.Group\<close> without a
  context, waits for all of them and returns the error of the first that failed. The list is
  the checks in the order in which they complete, an arbitrary order of the configured ones.
\<close>

fun HealthChecker_Check :: "('w, err) state list \<Rightarrow> ('w, err) state" where
  "HealthChecker_Check [] = ret None"
| "HealthChecker_Check (check # checks) = do {
     err \<leftarrow> check;
     err' \<leftarrow> HealthChecker_Check checks;
     ret (case err of Some e \<Rightarrow> Some e | None \<Rightarrow> err')
   }"

text \<open>The status of the debug server's \<open>/health\<close>.\<close>

definition health_status :: "err \<Rightarrow> nat" where
  "health_status e = (case e of Some _ \<Rightarrow> 500 | None \<Rightarrow> 200)"

definition driver_checks :: "'w env \<Rightarrow> driver \<Rightarrow> 'w health_checker" where
  "driver_checks env d =
     NewHealthChecker [\<lparr> hc_Name = tcHealthChecker_Name, hc_Check = tcHealthChecker_Check env (d_region d) \<rparr>]"

definition driver_health :: "'w env \<Rightarrow> driver \<Rightarrow> ('w, nat) state" where
  "driver_health env d = do {
     err \<leftarrow> HealthChecker_Check (map hc_Check (hc_checks (driver_checks env d)));
     ret (health_status err)
   }"

section \<open>The identity service\<close>

definition Probe :: "driver \<Rightarrow> bool handler_result" where
  "Probe d = Ok (d_ready d)"

record plugin_info =
  pi_Name :: string
  pi_VendorVersion :: string

definition GetPluginInfo :: "string \<Rightarrow> driver \<Rightarrow> plugin_info handler_result" where
  "GetPluginInfo version d = Ok \<lparr> pi_Name = d_name d, pi_VendorVersion = version \<rparr>"

datatype plugin_capability =
    CONTROLLER_SERVICE | VOLUME_ACCESSIBILITY_CONSTRAINTS | VOLUME_EXPANSION_ONLINE

definition GetPluginCapabilities :: "plugin_capability list handler_result" where
  "GetPluginCapabilities =
     Ok [CONTROLLER_SERVICE, VOLUME_ACCESSIBILITY_CONSTRAINTS, VOLUME_EXPANSION_ONLINE]"

section \<open>Properties\<close>

text \<open>The results of the checks in the order in which they complete.\<close>

fun check_results :: "('w, err) state list \<Rightarrow> 'w \<Rightarrow> err list" where
  "check_results [] w = []"
| "check_results (c # cs) w = result_of c w # check_results cs (world_after c w)"

text \<open>The combined health check runs every check whatever the others answer; it succeeds
  exactly when all of them do, and its error is the error of the first check that failed.\<close>

theorem health_check_all:
  "result_of (HealthChecker_Check cs) w =
     (case filter (\<lambda>e. e \<noteq> None) (check_results cs w) of [] \<Rightarrow> None | e # _ \<Rightarrow> e) \<and>
   length (check_results cs w) = length cs \<and>
   (result_of (HealthChecker_Check cs) w = None \<longleftrightarrow> set (check_results cs w) \<subseteq> {None}) \<and>
   world_after (HealthChecker_Check cs) w = fold (\<lambda>c w. world_after c w) cs w"
proof -
  let ?fs = "\<lambda>w. filter (\<lambda>e. e \<noteq> None) (check_results cs w)"
  have run: "result_of (HealthChecker_Check cs) w = (case ?fs w of [] \<Rightarrow> None | e # _ \<Rightarrow> e)"
    "world_after (HealthChecker_Check cs) w = fold (\<lambda>c w. world_after c w) cs w"
    "length (check_results cs w) = length cs" for w
    by (induction cs arbitrary: w) (auto simp: case_prod_beta split: option.splits list.splits)
  have "(case ?fs w of [] \<Rightarrow> None | e # _ \<Rightarrow> e) = None \<longleftrightarrow> set (check_results cs w) \<subseteq> {None}"
  proof (cases "?fs w")
    case Nil
    then show ?thesis by (auto simp: filter_empty_conv)
  next
    case (Cons e es)
    then have "e \<in> set (?fs w)" by simp
    then have "e \<in> set (check_results cs w)" "e \<noteq> None" by simp_all
    moreover have "(case ?fs w of [] \<Rightarrow> None | e # _ \<Rightarrow> e) = e" unfolding Cons by simp
    ultimately show ?thesis by (metis insert_iff empty_iff subsetD)
  qed
  with run show ?thesis by simp
qed

text \<open>The debug server answers 200 exactly when the API lists the driver's region (all regions
  when none is configured) without an error, and 500 otherwise; the check makes that one call
  and changes nothing.\<close>

theorem driver_health_status:
  "calls_of (driver_health (traced env) d) w =
     [List_Regions (if d_region d = '''' then [] else [(''region'', d_region d)])
        (result_of (iaas_ListRegions env (if d_region d = '''' then [] else [(''region'', d_region d)])) w)] \<and>
   answer_of (driver_health (traced env) d) w =
     (if result_of (iaas_ListRegions env (if d_region d = '''' then [] else [(''region'', d_region d)])) w = None
      then 200 else 500)"
  by (auto simp: driver_health_def driver_checks_def NewHealthChecker_def tcHealthChecker_Check_def Let_def calls_of_def answer_of_def
      health_status_def split: option.splits)

end
