(* ===== verification/Service.thy ===== *)
theory Service
  imports ControllerVolumes ControllerAttachment ControllerSnapshots ControllerResize NodeStats Health
begin

text \<open>
  The gRPC services of the plugin as a whole: the calls of the CSI specification, which of them
  a server in controller or node mode answers (\<open>Run\<close> and \<open>RunNode\<close> register different
  services), and the status code that goes on the wire. The calls the driver does not define are
  inherited from the embedded \<open>Unimplemented\<close> servers.
\<close>

section \<open>Calls\<close>

datatype service = IdentityService | ControllerService | NodeService

datatype identity_call = GetPluginInfoCall | GetPluginCapabilitiesCall | ProbeCall

datatype controller_call =
    CreateVolumeCall create_volume_request
  | DeleteVolumeCall string
  | ControllerPublishVolumeCall publish_request
  | ControllerUnpublishVolumeCall string string
  | ValidateVolumeCapabilitiesCall validate_request
  | ListVolumesCall list_volumes_request
  | GetCapacityCall
  | ControllerGetCapabilitiesCall
  | CreateSnapshotCall create_snapshot_request
  | DeleteSnapshotCall string
  | ListSnapshotsCall list_snapshots_request
  | GetSnapshotCall string
  | ControllerExpandVolumeCall expand_request
  | ControllerGetVolumeCall string
  | ControllerModifyVolumeCall string

datatype node_call =
    NodeStageVolumeCall stage_request
  | NodeUnstageVolumeCall string string
  | NodePublishVolumeCall node_publish_request
  | NodeUnpublishVolumeCall string string
  | NodeGetVolumeStatsCall string string
  | NodeExpandVolumeCall node_expand_request
  | NodeGetCapabilitiesCall
  | NodeGetInfoCall

datatype rpc = IdentityCall identity_call | ControllerCall controller_call | NodeCall node_call

fun service_of :: "rpc \<Rightarrow> service" where
  "service_of (IdentityCall _) = IdentityService"
| "service_of (ControllerCall _) = ControllerService"
| "service_of (NodeCall _) = NodeService"

text \<open>The status of an answer on the wire; a panic ends the process and gives none.\<close>

definition wire :: "'r handler_result \<Rightarrow> code option" where
  "wire r = (case r of Ok _ \<Rightarrow> Some OK | Err e \<Rightarrow> Some (grpc_code e) | Panic \<Rightarrow> None)"

lemma wire_simps [simp]:
  "wire (Ok x) = Some OK" "wire (Err e) = Some (grpc_code e)" "wire Panic = None"
  by (simp_all add: wire_def)

definition answer_wire :: "('w, 'r handler_result) state \<Rightarrow> ('w, code option) state" where
  "answer_wire m = do { r \<leftarrow> m; ret (wire r) }"

definition identity_handle :: "string \<Rightarrow> driver \<Rightarrow> identity_call \<Rightarrow> ('w, code option) state" where
  "identity_handle version d call =
     (case call of
        GetPluginInfoCall \<Rightarrow> ret (wire (GetPluginInfo version d))
      | GetPluginCapabilitiesCall \<Rightarrow> ret (wire GetPluginCapabilities)
      | ProbeCall \<Rightarrow> ret (wire (Probe d)))"

definition controller_handle :: "'w env \<Rightarrow> driver \<Rightarrow> controller_call \<Rightarrow> ('w, code option) state" where
  "controller_handle env d call =
     (case call of
        CreateVolumeCall req \<Rightarrow> answer_wire (CreateVolume env d req)
      | DeleteVolumeCall i \<Rightarrow> answer_wire (DeleteVolume env i)
      | ControllerPublishVolumeCall req \<Rightarrow> answer_wire (ControllerPublishVolume env d req)
      | ControllerUnpublishVolumeCall i n \<Rightarrow> answer_wire (ControllerUnpublishVolume env d i n)
      | ValidateVolumeCapabilitiesCall req \<Rightarrow> answer_wire (ValidateVolumeCapabilities env d req)
      | ListVolumesCall req \<Rightarrow> answer_wire (ListVolumes env d req)
      | GetCapacityCall \<Rightarrow> ret (wire GetCapacity)
      | ControllerGetCapabilitiesCall \<Rightarrow> ret (wire ControllerGetCapabilities)
      | CreateSnapshotCall req \<Rightarrow> answer_wire (CreateSnapshot env d req)
      | DeleteSnapshotCall i \<Rightarrow> answer_wire (DeleteSnapshot env i)
      | ListSnapshotsCall req \<Rightarrow> answer_wire (ListSnapshots env d req)
      | ControllerExpandVolumeCall req \<Rightarrow> answer_wire (ControllerExpandVolume env req)
      | ControllerGetVolumeCall i \<Rightarrow> ret (wire ControllerGetVolume)
      | ControllerModifyVolumeCall i \<Rightarrow> ret (wire ControllerModifyVolume)
      | GetSnapshotCall i \<Rightarrow> ret (Some Unimplemented))"

definition node_handle :: "'w mounter \<Rightarrow> 'w os \<Rightarrow> driver \<Rightarrow> node_call \<Rightarrow> ('w, code option) state" where
  "node_handle m os d call =
     (case call of
        NodeStageVolumeCall req \<Rightarrow> answer_wire (NodeStageVolume m os d req)
      | NodeUnstageVolumeCall i t \<Rightarrow> answer_wire (NodeUnstageVolume m i t)
      | NodePublishVolumeCall req \<Rightarrow> answer_wire (NodePublishVolume m os req)
      | NodeUnpublishVolumeCall i t \<Rightarrow> answer_wire (NodeUnpublishVolume m i t)
      | NodeGetVolumeStatsCall i p \<Rightarrow> answer_wire (NodeGetVolumeStats m i p)
      | NodeExpandVolumeCall req \<Rightarrow> answer_wire (NodeExpandVolume m os req)
      | NodeGetCapabilitiesCall \<Rightarrow> ret (wire NodeGetCapabilities)
      | NodeGetInfoCall \<Rightarrow> ret (wire (NodeGetInfo d)))"

text \<open>\<open>csi.Register\<dots>Server\<close> in \<open>Run\<close> and in \<open>RunNode\<close>; a call of a service that is not
  registered is answered by the server itself.\<close>

definition registered_Run :: "service list" where
  "registered_Run = [IdentityService, ControllerService]"

definition registered_RunNode :: "service list" where
  "registered_RunNode = [NodeService, IdentityService]"

definition serve ::
    "service list \<Rightarrow> string \<Rightarrow> 'w env \<Rightarrow> 'w mounter \<Rightarrow> 'w os \<Rightarrow> driver \<Rightarrow> rpc \<Rightarrow> ('w, code option) state" where
  "serve services version env m os d call =
     (if service_of call \<in> set services then
        (case call of
           IdentityCall c \<Rightarrow> identity_handle version d c
         | ControllerCall c \<Rightarrow> controller_handle env d c
         | NodeCall c \<Rightarrow> node_handle m os d c)
      else ret (Some Unimplemented))"

section \<open>What one call may change\<close>

text \<open>The change of the cloud that a call asks for.\<close>

definition asked :: "controller_call \<Rightarrow> call \<Rightarrow> bool" where
  "asked call c \<longleftrightarrow>
     (case call of
        CreateVolumeCall req \<Rightarrow> (case c of Create_Volume cv v e \<Rightarrow> cv_Name cv = req_Name req | _ \<Rightarrow> False)
      | DeleteVolumeCall i \<Rightarrow> (case c of Delete_Volume j e \<Rightarrow> j = i | _ \<Rightarrow> False)
      | ControllerPublishVolumeCall req \<Rightarrow> (case c of Attach_Volume j a e \<Rightarrow> j = pub_VolumeId req | _ \<Rightarrow> False)
      | ControllerUnpublishVolumeCall i n \<Rightarrow> (case c of Detach_Volume j a e \<Rightarrow> j = i | _ \<Rightarrow> False)
      | ControllerExpandVolumeCall req \<Rightarrow> (case c of Update_Volume j u e \<Rightarrow> j = exp_VolumeId req | _ \<Rightarrow> False)
      | CreateSnapshotCall req \<Rightarrow> (case c of Create_Snapshot cs sn e \<Rightarrow> cs_Name cs = csr_Name req | _ \<Rightarrow> False)
      | DeleteSnapshotCall i \<Rightarrow> (case c of Delete_Snapshot j e \<Rightarrow> j = i | _ \<Rightarrow> False)
      | _ \<Rightarrow> False)"

definition one_change :: "controller_call \<Rightarrow> call list \<Rightarrow> bool" where
  "one_change call ks \<longleftrightarrow>
     filter mutating ks = [] \<or> (\<exists>c. filter mutating ks = [c] \<and> asked call c)"

lemma wp_answer_wire: "wp m (\<lambda>_. Q) js \<Longrightarrow> wp (answer_wire m) (\<lambda>_. Q) js"
  unfolding answer_wire_def by (rule wp_bind, erule wp_mono) simp

lemma one_change_quiet: "filter mutating ks = [] \<Longrightarrow> one_change call ks"
  by (simp add: one_change_def asked_def)

lemma change_CreateVolume: "create_volume_effect d req r ks \<Longrightarrow> one_change (CreateVolumeCall req) ks"
  by (auto simp: create_volume_effect_def one_change_def asked_def create_request_def buildCreateVolumeRequest_def Let_def split: sum.splits)

lemma change_Publish: "publish_effect d req r ks \<Longrightarrow> one_change (ControllerPublishVolumeCall req) ks"
  by (auto simp: publish_effect_def one_change_def asked_def split: option.splits)

lemma change_Unpublish: "unpublish_effect d i n r ks \<Longrightarrow> one_change (ControllerUnpublishVolumeCall i n) ks"
  by (auto simp: unpublish_effect_def one_change_def asked_def)

lemma change_CreateSnapshot: "create_snapshot_effect d req r ks \<Longrightarrow> one_change (CreateSnapshotCall req) ks"
proof -
  have "cs_Name (snapshot_request d req vi) = csr_Name req" for vi
    by (simp add: snapshot_request_def Let_def)
  then show "create_snapshot_effect d req r ks \<Longrightarrow> one_change (CreateSnapshotCall req) ks"
    by (auto simp: create_snapshot_effect_def get_or_create_effect_def one_change_def asked_def)
qed

lemma change_Expand: "expand_effect req r ks \<Longrightarrow> one_change (ControllerExpandVolumeCall req) ks"
  by (auto simp: expand_effect_def one_change_def asked_def)

lemma wp_controller_change:
  "wp (controller_handle (traced env) d call) (\<lambda>_. one_change call) []"
proof (cases call)
  case (CreateVolumeCall req)
  then show ?thesis
    by (auto simp: controller_handle_def intro!: wp_answer_wire wp_mono [OF wp_CreateVolume] change_CreateVolume)
next
  case (ControllerPublishVolumeCall req)
  then show ?thesis
    by (auto simp: controller_handle_def
        intro!: wp_answer_wire wp_mono [OF wp_ControllerPublishVolume] change_Publish)
next
  case (ControllerUnpublishVolumeCall i n)
  have "wp (ControllerUnpublishVolume (traced env) d i n) (\<lambda>_. one_change call) []"
  proof (cases "i = ''''")
    case True
    then show ?thesis by (simp add: ControllerUnpublishVolume_def one_change_def)
  next
    case False
    show ?thesis unfolding ControllerUnpublishVolumeCall
      by (rule wp_mono [OF wp_ControllerUnpublishVolume [OF False]]) (rule change_Unpublish)
  qed
  with ControllerUnpublishVolumeCall show ?thesis by (simp add: controller_handle_def wp_answer_wire)
next
  case (CreateSnapshotCall req)
  then show ?thesis
    by (auto simp: controller_handle_def intro!: wp_answer_wire wp_mono [OF wp_CreateSnapshot] change_CreateSnapshot)
next
  case (ControllerExpandVolumeCall req)
  then show ?thesis
    by (auto simp: controller_handle_def intro!: wp_answer_wire wp_mono [OF wp_ControllerExpandVolume] change_Expand)
next
  case (DeleteVolumeCall i)
  have "wp (DeleteVolume (traced env) i) (\<lambda>_. one_change call) []"
    by (auto simp: DeleteVolume_def one_change_def asked_def DeleteVolumeCall intro!: wp_intros)
  with DeleteVolumeCall show ?thesis by (simp add: controller_handle_def wp_answer_wire)
next
  case (DeleteSnapshotCall i)
  have "wp (DeleteSnapshot (traced env) i) (\<lambda>_. one_change call) []"
    by (auto simp: DeleteSnapshot_def one_change_def asked_def DeleteSnapshotCall intro!: wp_intros)
  with DeleteSnapshotCall show ?thesis by (simp add: controller_handle_def wp_answer_wire)
next
  case (ListVolumesCall req)
  have "wp (ListVolumes (traced env) d req) (\<lambda>_. one_change call) []"
    by (auto simp: ListVolumes_def one_change_def intro!: wp_intros)
  with ListVolumesCall show ?thesis by (simp add: controller_handle_def wp_answer_wire)
next
  case (ListSnapshotsCall req)
  have "wp (ListSnapshots (traced env) d req) (\<lambda>_. one_change call) []"
    by (auto simp: ListSnapshots_def one_change_def intro!: wp_intros)
  with ListSnapshotsCall show ?thesis by (simp add: controller_handle_def wp_answer_wire)
next
  case (ValidateVolumeCapabilitiesCall req)
  have "wp (ValidateVolumeCapabilities (traced env) d req) (\<lambda>_. one_change call) []"
    by (auto simp: ValidateVolumeCapabilities_def one_change_def intro!: wp_intros split: option.splits)
  with ValidateVolumeCapabilitiesCall show ?thesis by (simp add: controller_handle_def wp_answer_wire)
qed (simp_all add: controller_handle_def one_change_def)

text \<open>A history of controller calls, each with the calls it makes to the cloud.\<close>

fun controller_history ::
    "'w env \<Rightarrow> driver \<Rightarrow> controller_call list \<Rightarrow> 'w \<Rightarrow> (controller_call \<times> call list) list" where
  "controller_history env d [] w = []"
| "controller_history env d (c # cs) w =
     (c, calls_of (controller_handle (traced env) d c) w) #
     controller_history env d cs (fst (world_after (controller_handle (traced env) d c) (w, [])))"

lemma controller_history_one_change:
  "(call, ks) \<in> set (controller_history env d cs w) \<Longrightarrow> call \<in> set cs \<and> one_change call ks"
  using wp_run [OF wp_controller_change] by (induction cs arbitrary: w) auto

lemma one_change_length: "one_change call ks \<Longrightarrow> length (filter mutating ks) \<le> 1"
  by (auto simp: one_change_def)

lemma one_change_asked:
  assumes "one_change call ks" and "k \<in> set ks" and "mutating k"
  shows "asked call k"
proof -
  from assms(2,3) have "k \<in> set (filter mutating ks)" by simp
  with assms(1) show ?thesis unfolding one_change_def by (elim disjE exE conjE) simp_all
qed

lemma controller_history_length:
  "length (filter mutating (concat (map snd (controller_history env d cs w)))) \<le> length cs"
proof (induction cs arbitrary: w)
  case (Cons c cs)
  have "length (filter mutating (calls_of (controller_handle (traced env) d c) w)) \<le> 1"
    by (rule one_change_length) (rule wp_run [OF wp_controller_change])
  from add_le_mono [OF this Cons] show ?case by simp
qed simp

text \<open>In every history of controller calls, whatever the API answers and whatever else happens
  between the calls, each change of the cloud was asked for by a call of the history: a volume
  is created only under the name of a create request, and deleted, attached, detached or updated
  only by the corresponding request that names it, and likewise for snapshots. There are at most
  as many changes as calls, at most one per call, so a call that is cut off leaves at most its
  own change half done.\<close>

theorem controller_changes_asked:
  "(\<forall>k \<in> set (concat (map snd (controller_history env d cs w))).
      mutating k \<longrightarrow> (\<exists>call \<in> set cs. asked call k)) \<and>
   (\<forall>(call, ks) \<in> set (controller_history env d cs w). length (filter mutating ks) \<le> 1) \<and>
   length (filter mutating (concat (map snd (controller_history env d cs w)))) \<le> length cs"
proof (intro conjI controller_history_length)
  show "\<forall>k \<in> set (concat (map snd (controller_history env d cs w))).
      mutating k \<longrightarrow> (\<exists>call \<in> set cs. asked call k)"
  proof (intro ballI impI)
    fix k
    assume "k \<in> set (concat (map snd (controller_history env d cs w)))" and k: "mutating k"
    then obtain call ks where h: "(call, ks) \<in> set (controller_history env d cs w)" "k \<in> set ks"
      by auto
    from controller_history_one_change [OF h(1)] one_change_asked [OF _ h(2) k]
    show "\<exists>call \<in> set cs. asked call k" by blast
  qed
  show "\<forall>(call, ks) \<in> set (controller_history env d cs w). length (filter mutating ks) \<le> 1"
  proof (intro ballI, clarify)
    fix call ks
    assume "(call, ks) \<in> set (controller_history env d cs w)"
    from conjunct2 [OF controller_history_one_change [OF this]]
    show "length (filter mutating ks) \<le> 1" by (rule one_change_length)
  qed
qed

theorem controller_changes_asked_witness:
  "(\<exists>call \<in> set [DeleteVolumeCall ''vol-0'', GetCapacityCall].
     asked call (Delete_Volume ''vol-0'' None))"
proof -
  let ?cs = "[DeleteVolumeCall ''vol-0'', GetCapacityCall]"
  have "Delete_Volume ''vol-0'' None \<in> set (concat (map snd (controller_history sim_env sample_driver ?cs attach_cloud)))"
    by (simp add: controller_handle_def answer_wire_def DeleteVolume_def calls_of_def sim_delete_volume_def
        sim_find_volume_def attach_cloud_def sample_volume_def)
  with controller_changes_asked [of sim_env sample_driver ?cs attach_cloud] show ?thesis by fastforce
qed

section \<open>Status codes and panics\<close>

text \<open>The errors of the calls of a run, and the answers that have neither a value nor an error.\<close>

definition call_error :: "call \<Rightarrow> err" where
  "call_error c =
     (case c of
        Get_Volume i v e \<Rightarrow> e | List_Volumes f v e \<Rightarrow> e | Create_Volume r v e \<Rightarrow> e
      | Update_Volume i u e \<Rightarrow> e | Delete_Volume i e \<Rightarrow> e | Attach_Volume i a e \<Rightarrow> e
      | Detach_Volume i a e \<Rightarrow> e | List_Volume_Types v e \<Rightarrow> e | Get_Machine i m e \<Rightarrow> e
      | List_Machines f m e \<Rightarrow> e | Get_Snapshot i s e \<Rightarrow> e | List_Snapshots f s e \<Rightarrow> e
      | Create_Snapshot r s e \<Rightarrow> e | Delete_Snapshot i e \<Rightarrow> e | Wait_Snapshot i e \<Rightarrow> e
      | List_Regions f e \<Rightarrow> e | Build_Config p e \<Rightarrow> e | New_For_Config e \<Rightarrow> e
      | Get_Node n p e \<Rightarrow> e | Wait e \<Rightarrow> map_option context_error e)"

definition nil_answer :: "call \<Rightarrow> bool" where
  "nil_answer c \<longleftrightarrow>
     (case c of Get_Volume i None None \<Rightarrow> True | Create_Volume r None None \<Rightarrow> True
      | Get_Snapshot i None None \<Rightarrow> True | _ \<Rightarrow> False)"

text \<open>The codes a call answers with of its own, and whether it passes errors of the API on.\<close>

definition own_codes :: "controller_call \<Rightarrow> code set" where
  "own_codes call =
     (case call of
        CreateVolumeCall req \<Rightarrow> {InvalidArgument, OutOfRange, ResourceExhausted, AlreadyExists, NotFound, Internal}
      | DeleteVolumeCall i \<Rightarrow> {InvalidArgument}
      | ControllerPublishVolumeCall req \<Rightarrow>
          {InvalidArgument, NotFound, FailedPrecondition, Internal, DeadlineExceeded}
      | ControllerUnpublishVolumeCall i n \<Rightarrow> {InvalidArgument, DeadlineExceeded}
      | ValidateVolumeCapabilitiesCall req \<Rightarrow> {InvalidArgument, NotFound}
      | ListVolumesCall req \<Rightarrow> {InvalidArgument, Aborted, Internal}
      | CreateSnapshotCall req \<Rightarrow> {InvalidArgument, AlreadyExists, NotFound, Internal}
      | DeleteSnapshotCall i \<Rightarrow> {InvalidArgument, Internal}
      | ListSnapshotsCall req \<Rightarrow> {InvalidArgument, Aborted, Internal}
      | ControllerExpandVolumeCall req \<Rightarrow> {InvalidArgument, OutOfRange, Internal}
      | ControllerGetCapabilitiesCall \<Rightarrow> {}
      | _ \<Rightarrow> {Unimplemented})"

definition passes_errors :: "controller_call \<Rightarrow> bool" where
  "passes_errors call \<longleftrightarrow>
     (case call of DeleteVolumeCall i \<Rightarrow> True | ControllerPublishVolumeCall req \<Rightarrow> True
      | ControllerUnpublishVolumeCall i n \<Rightarrow> True | ValidateVolumeCapabilitiesCall req \<Rightarrow> True
      | _ \<Rightarrow> False)"

text \<open>What an answer may be, given the calls of the run.\<close>

definition passed_codes :: "call list \<Rightarrow> code set" where
  "passed_codes ks = grpc_code ` (\<Union>k \<in> set ks. set_option (call_error k))"

definition explained :: "code set \<Rightarrow> bool \<Rightarrow> 'r handler_result \<Rightarrow> call list \<Rightarrow> bool" where
  "explained own passes r ks \<longleftrightarrow>
     (case r of
        Ok x \<Rightarrow> True
      | Err e \<Rightarrow> grpc_code e \<in> own \<or> passes \<and> grpc_code e \<in> passed_codes ks
      | Panic \<Rightarrow> list_ex nil_answer ks)"

lemma passed_codes_simps [simp]:
  "passed_codes [] = {}"
  "passed_codes (k # ks) = grpc_code ` set_option (call_error k) \<union> passed_codes ks"
  "passed_codes (js @ ks) = passed_codes js \<union> passed_codes ks"
  by (auto simp: passed_codes_def)

lemma explained_simps [simp]:
  "explained own passes (Ok x) ks"
  "explained own passes (Err e) ks \<longleftrightarrow> grpc_code e \<in> own \<or> passes \<and> grpc_code e \<in> passed_codes ks"
  "explained own passes Panic ks \<longleftrightarrow> list_ex nil_answer ks"
  by (simp_all add: explained_def)

lemma call_error_simps [simp]:
  "call_error (Get_Volume i v e) = e" "call_error (Delete_Volume i e) = e"
  "call_error (Attach_Volume i a e) = e" "call_error (Detach_Volume i a e) = e"
  "call_error (Get_Machine i m e) = e" "call_error (List_Machines f ms e) = e" "call_error (Wait c) = map_option context_error c"
  "nil_answer (Get_Volume i None None)" "nil_answer (Create_Volume r None None)"
  "nil_answer (Get_Snapshot i None None)"
  by (simp_all add: call_error_def nil_answer_def)

lemma check_requisite_code: "check_requisite region ts = Some e \<Longrightarrow> grpc_code e = ResourceExhausted"
  by (induction ts) (auto split: option.splits if_splits)

lemma createVolume_size_code:
  "createVolume_size d req = Inl e \<Longrightarrow> grpc_code e \<in> {InvalidArgument, OutOfRange, ResourceExhausted}"
  by (auto simp: createVolume_size_def Let_def validateCreateVolumeAccessibility_def
      dest: check_requisite_code split: if_splits sum.splits option.splits)

lemma existing_code: "createVolumeResponseFromExisting v bytes = Inl e \<Longrightarrow> grpc_code e = AlreadyExists"
  by (auto simp: createVolumeResponseFromExisting_def split: if_splits)

lemma page_code: "paginateIdentities ids t n = Inl e \<Longrightarrow> grpc_code e \<in> {InvalidArgument, Aborted}"
  by (auto simp: paginateIdentities_def Let_def split: if_splits option.splits)

lemma wp_type_code:
  assumes "\<And>r ks. \<forall>e. r = Inl e \<longrightarrow> grpc_code e \<in> {Internal, InvalidArgument} \<Longrightarrow> Q r (js @ ks)"
  shows "wp (resolveVolumeTypeIdentity (traced env) p) Q js"
  using assms [of _ "[_]"]
  by (auto simp: resolveVolumeTypeIdentity_def Let_def intro!: wp_intros split: option.splits sum.splits)

lemma wp_restore_code:
  assumes "\<And>r ks. \<forall>e. r = Inl e \<longrightarrow> grpc_code e \<in> {NotFound, Internal, InvalidArgument} \<Longrightarrow> Q r (js @ ks)"
  shows "wp (applySnapshotRestore (traced env) src vr) Q js"
  using assms [of _ "[]"] assms [of _ "[_]"]
  by (auto simp: applySnapshotRestore_def intro!: wp_intros split: option.splits)

lemma wp_identity_code:
  assumes "\<And>r ks. \<forall>e. r = Inl e \<longrightarrow> grpc_code e \<in> {NotFound, Internal} \<Longrightarrow> Q r (js @ ks)"
  shows "wp (resolveVolumeIdentity (traced env) d i) Q js"
  using assms [of _ "[_]"] assms [of _ "[_, _]"]
  by (auto simp: resolveVolumeIdentity_def Let_def intro!: wp_intros split: option.splits)

lemma wp_node_code:
  assumes "\<And>r ks. \<forall>e. r = Inl e \<longrightarrow> grpc_code e = Internal \<Longrightarrow> Q r (js @ ks)"
  shows "wp (resolve_node (traced env) d n) Q js"
  using assms [of _ "[]"] assms [of _ "[_]"] assms [of _ "[_, _]"] assms [of _ "[_, _, _]"]
  by (auto simp: resolve_node_def getNodeMachineIdentity_def intro!: wp_intros split: option.splits list.splits)

lemma explained_append: "explained own passes r ks \<Longrightarrow> explained own passes r (js @ ks)"
  by (auto simp: explained_def split: outcome.splits)

lemma wp_poll_code:
  assumes "\<And>r ks. explained {DeadlineExceeded} True r ks \<Longrightarrow> Q r (js @ ks)"
  shows "wp (pollVolumeStatus (traced env) i status n) Q js"
  using assms
proof (induction n arbitrary: js)
  case 0
  have one: "Q r (js @ [Get_Volume i v e])" if "explained {DeadlineExceeded} True r [Get_Volume i v e]" for r v e
    using "0.prems" [OF that] .
  have "grpc_code (Sentinel DeadlineExceededErr) = DeadlineExceeded" by (simp add: grpc_code_def)
  then show ?case
    by (subst pollVolumeStatus.simps) (auto intro!: wp_intros one split: option.splits)
next
  case (Suc n)
  have one: "Q r (js @ [Get_Volume i v e])" if "explained {DeadlineExceeded} True r [Get_Volume i v e]" for r v e
    using Suc.prems [OF that] .
  have two: "Q (Err (context_error x)) (js @ [Get_Volume i v e, Wait (Some x)])" for x v e
    by (rule Suc.prems) simp
  have more: "wp (pollVolumeStatus (traced env) i status n) Q (js @ [Get_Volume i v e, Wait f])" for v e f
    by (rule Suc.IH) (metis Suc.prems append.assoc explained_append)
  show ?case
    by (subst pollVolumeStatus.simps) (auto intro!: wp_intros one two more split: option.splits)
qed

lemma code_CreateVolume:
  "wp (CreateVolume (traced env) d req) (explained (own_codes (CreateVolumeCall req)) False) []"
proof (cases "createVolume_size d req")
  case (Inl e)
  with createVolume_size_code [OF Inl] show ?thesis
    by (auto simp: CreateVolume_def own_codes_def)
next
  case (Inr bytes)
  show ?thesis
    unfolding CreateVolume_def Inr sum.case own_codes_def controller_call.case
    by (auto simp: createVolume_create_def dest!: existing_code
        intro!: wp_intros wp_type_code wp_restore_code split: option.splits sum.splits)
qed

lemma check_existing_code:
  assumes "check_existing req s r = Inl e"
    and "\<forall>e. r = Inl e \<longrightarrow> grpc_code e = NotFound \<or> grpc_code e = Internal"
  shows "grpc_code e = NotFound \<or> grpc_code e = Internal \<or> grpc_code e = AlreadyExists"
  using assms by (auto simp: check_existing_def Let_def split: sum.splits if_splits)

lemma wp_get_or_create_code:
  "wp (getOrCreateSnapshot (traced env) d req)
     (\<lambda>r ks. \<forall>e. r = Inl e \<longrightarrow> grpc_code e \<in> {NotFound, Internal, AlreadyExists}) []"
  unfolding getOrCreateSnapshot_def
  by (auto intro!: wp_intros wp_identity_code dest!: check_existing_code split: option.splits sum.splits)

lemma code_CreateSnapshot:
  "wp (CreateSnapshot (traced env) d req) (explained (own_codes (CreateSnapshotCall req)) False) []"
  unfolding CreateSnapshot_def own_codes_def controller_call.case
  by (auto intro!: wp_intros wp_call [OF wp_get_or_create_code] split: option.splits sum.splits)

lemma publish_invalid_code: "publish_invalid req = Some e \<Longrightarrow> grpc_code e = InvalidArgument"
  by (auto simp: publish_invalid_def split: if_splits)

lemma wp_attach_code:
  "wp (publish_to_machine (traced env) d i v m)
     (explained {InvalidArgument, NotFound, FailedPrecondition, Internal, DeadlineExceeded} True) js"
  unfolding publish_to_machine_def
  by (auto intro!: wp_intros wp_poll_code split: option.splits prod.splits bool.splits outcome.splits)

lemma code_Publish:
  "wp (ControllerPublishVolume (traced env) d req) (explained (own_codes (ControllerPublishVolumeCall req)) True) []"
  unfolding ControllerPublishVolume_def own_codes_def controller_call.case
  by (auto intro!: wp_intros wp_node_code wp_attach_code dest: publish_invalid_code split: option.splits sum.splits)

lemma wp_detach_code:
  "wp (detach_from (traced env) i m) (explained {InvalidArgument, DeadlineExceeded} True) js"
  unfolding detach_from_def
  by (auto intro!: wp_intros wp_poll_code split: option.splits outcome.splits)

lemma code_Unpublish:
  "wp (ControllerUnpublishVolume (traced env) d i n) (explained (own_codes (ControllerUnpublishVolumeCall i n)) True) []"
  unfolding ControllerUnpublishVolume_def own_codes_def controller_call.case Let_def
  by (auto intro!: wp_intros wp_node_code wp_detach_code split: option.splits sum.splits)

definition code_allowed :: "controller_call \<Rightarrow> code option \<Rightarrow> call list \<Rightarrow> bool" where
  "code_allowed call c ks \<longleftrightarrow>
     (case c of
        None \<Rightarrow> list_ex nil_answer ks
      | Some c' \<Rightarrow> c' = OK \<or> c' \<in> own_codes call \<or> passes_errors call \<and> c' \<in> passed_codes ks)"

lemma wp_answer_explained:
  assumes "wp m (explained (own_codes call) (passes_errors call)) js"
  shows "wp (answer_wire m) (code_allowed call) js"
  unfolding answer_wire_def
  by (rule wp_bind, rule wp_mono [OF assms]) (auto simp: explained_def code_allowed_def split: outcome.splits)

lemma passes_errors_simps [simp]:
  "\<not> passes_errors (CreateVolumeCall req)" "\<not> passes_errors (CreateSnapshotCall req')"
  "passes_errors (ControllerPublishVolumeCall preq)" "passes_errors (ControllerUnpublishVolumeCall i n)"
  by (simp_all add: passes_errors_def)

lemma wp_controller_codes:
  "wp (controller_handle (traced env) d call) (code_allowed call) []"
proof (cases call)
  case (CreateVolumeCall req)
  have "wp (CreateVolume (traced env) d req) (explained (own_codes call) (passes_errors call)) []"
    using code_CreateVolume by (simp add: CreateVolumeCall)
  with CreateVolumeCall show ?thesis by (simp add: controller_handle_def wp_answer_explained)
next
  case (ControllerPublishVolumeCall req)
  have "wp (ControllerPublishVolume (traced env) d req) (explained (own_codes call) (passes_errors call)) []"
    using code_Publish by (simp add: ControllerPublishVolumeCall)
  with ControllerPublishVolumeCall show ?thesis by (simp add: controller_handle_def wp_answer_explained)
next
  case (ControllerUnpublishVolumeCall i n)
  have "wp (ControllerUnpublishVolume (traced env) d i n) (explained (own_codes call) (passes_errors call)) []"
    using code_Unpublish by (simp add: ControllerUnpublishVolumeCall)
  with ControllerUnpublishVolumeCall show ?thesis by (simp add: controller_handle_def wp_answer_explained)
next
  case (CreateSnapshotCall req)
  have "wp (CreateSnapshot (traced env) d req) (explained (own_codes call) (passes_errors call)) []"
    using code_CreateSnapshot by (simp add: CreateSnapshotCall)
  with CreateSnapshotCall show ?thesis by (simp add: controller_handle_def wp_answer_explained)
next
  case (ControllerExpandVolumeCall req)
  have "wp (ControllerExpandVolume (traced env) req) (explained (own_codes call) (passes_errors call)) []"
    by (auto simp: ControllerExpandVolume_def Let_def own_codes_def passes_errors_def ControllerExpandVolumeCall
        intro!: wp_intros split: option.splits sum.splits)
  then show ?thesis by (simp add: ControllerExpandVolumeCall controller_handle_def wp_answer_explained)
next
  case (DeleteVolumeCall i)
  have "wp (DeleteVolume (traced env) i) (explained (own_codes call) (passes_errors call)) []"
    by (auto simp: DeleteVolume_def own_codes_def passes_errors_def DeleteVolumeCall intro!: wp_intros split: option.splits)
  then show ?thesis by (simp add: DeleteVolumeCall controller_handle_def wp_answer_explained)
next
  case (DeleteSnapshotCall i)
  have "wp (DeleteSnapshot (traced env) i) (explained (own_codes call) (passes_errors call)) []"
    by (auto simp: DeleteSnapshot_def own_codes_def passes_errors_def DeleteSnapshotCall intro!: wp_intros split: option.splits)
  then show ?thesis by (simp add: DeleteSnapshotCall controller_handle_def wp_answer_explained)
next
  case (ListVolumesCall req)
  have "wp (ListVolumes (traced env) d req) (explained (own_codes call) (passes_errors call)) []"
    by (auto simp: ListVolumes_def own_codes_def passes_errors_def ListVolumesCall dest!: page_code
        intro!: wp_intros split: option.splits sum.splits)
  then show ?thesis by (simp add: ListVolumesCall controller_handle_def wp_answer_explained)
next
  case (ListSnapshotsCall req)
  have "wp (ListSnapshots (traced env) d req) (explained (own_codes call) (passes_errors call)) []"
    by (auto simp: ListSnapshots_def own_codes_def passes_errors_def ListSnapshotsCall dest!: page_code
        intro!: wp_intros split: option.splits sum.splits)
  then show ?thesis by (simp add: ListSnapshotsCall controller_handle_def wp_answer_explained)
next
  case (ValidateVolumeCapabilitiesCall req)
  have "wp (ValidateVolumeCapabilities (traced env) d req) (explained (own_codes call) (passes_errors call)) []"
    by (auto simp: ValidateVolumeCapabilities_def own_codes_def passes_errors_def ValidateVolumeCapabilitiesCall
        intro!: wp_intros split: option.splits)
  then show ?thesis
    by (simp add: ValidateVolumeCapabilitiesCall controller_handle_def wp_answer_explained)
qed (simp_all add: controller_handle_def code_allowed_def own_codes_def GetCapacity_def ControllerGetCapabilities_def
    ControllerGetVolume_def ControllerModifyVolume_def)

text \<open>C18: What a controller call can answer, whatever the API does: it succeeds, or fails with one of
  the codes the driver chooses for that call, or (deleting, publishing, unpublishing and
  validating a volume only) with the code of an error that one of its own API calls returned; it
  panics only after an API call answered neither a value nor an error. So creating, listing and
  expanding volumes and all snapshot calls never answer \<open>Unknown\<close>, and no call panics under an
  API that answers a value or an error.\<close>

theorem controller_status_codes:
  "(case answer_of (controller_handle (traced env) d call) w of
      None \<Rightarrow> (\<exists>k. k \<in> set (calls_of (controller_handle (traced env) d call) w) \<and> nil_answer k)
    | Some c \<Rightarrow> c = OK \<or> c \<in> own_codes call \<or>
        passes_errors call \<and> (\<exists>k e. k \<in> set (calls_of (controller_handle (traced env) d call) w) \<and>
          call_error k = Some e \<and> c = grpc_code e)) \<and>
   Unknown \<notin> own_codes call"
proof -
  have "Unknown \<notin> own_codes call"
    by (simp add: own_codes_def split: controller_call.split)
  with wp_run [OF wp_controller_codes [of env d call], of w] show ?thesis
    by (auto simp: code_allowed_def passed_codes_def list_ex_iff split: option.splits)
qed

section \<open>Capabilities and implementation\<close>

text \<open>The calls that the CSI specification requires of a plugin with a capability.\<close>

definition requires :: "controller_rpc \<Rightarrow> controller_call \<Rightarrow> bool" where
  "requires cap call \<longleftrightarrow>
     (case cap of
        CREATE_DELETE_VOLUME \<Rightarrow> (case call of CreateVolumeCall _ \<Rightarrow> True | DeleteVolumeCall _ \<Rightarrow> True | _ \<Rightarrow> False)
      | PUBLISH_UNPUBLISH_VOLUME \<Rightarrow>
          (case call of ControllerPublishVolumeCall _ \<Rightarrow> True | ControllerUnpublishVolumeCall _ _ \<Rightarrow> True | _ \<Rightarrow> False)
      | LIST_VOLUMES \<Rightarrow> (case call of ListVolumesCall _ \<Rightarrow> True | _ \<Rightarrow> False)
      | LIST_VOLUMES_PUBLISHED_NODES \<Rightarrow> (case call of ListVolumesCall _ \<Rightarrow> True | _ \<Rightarrow> False)
      | CREATE_DELETE_SNAPSHOT \<Rightarrow> (case call of CreateSnapshotCall _ \<Rightarrow> True | DeleteSnapshotCall _ \<Rightarrow> True | _ \<Rightarrow> False)
      | LIST_SNAPSHOTS \<Rightarrow> (case call of ListSnapshotsCall _ \<Rightarrow> True | _ \<Rightarrow> False)
      | EXPAND_VOLUME \<Rightarrow> (case call of ControllerExpandVolumeCall _ \<Rightarrow> True | _ \<Rightarrow> False))"

definition mandatory :: "controller_call \<Rightarrow> bool" where
  "mandatory call \<longleftrightarrow>
     (case call of ControllerGetCapabilitiesCall \<Rightarrow> True | ValidateVolumeCapabilitiesCall _ \<Rightarrow> True | _ \<Rightarrow> False)"

text \<open>An environment in which every call fails with an error of no status.\<close>

definition failing_env :: "unit env" where
  "failing_env = (let e = Some (ErrorString []) in
     \<lparr> iaas_GetVolume = (\<lambda>_. ret (None, e)), iaas_ListVolumes = (\<lambda>_. ret ([], e)),
       iaas_CreateVolume = (\<lambda>_. ret (None, e)), iaas_UpdateVolume = (\<lambda>_ _. ret (None, e)),
       iaas_DeleteVolume = (\<lambda>_. ret e), iaas_AttachVolume = (\<lambda>_ _. ret e),
       iaas_DetachVolume = (\<lambda>_ _. ret e), iaas_ListVolumeTypes = ret ([], e),
       iaas_GetMachine = (\<lambda>_. ret (None, e)), iaas_ListMachines = (\<lambda>_. ret ([], e)),
       iaas_GetSnapshot = (\<lambda>_. ret (None, e)), iaas_ListSnapshots = (\<lambda>_. ret ([], e)),
       iaas_CreateSnapshot = (\<lambda>_. ret (None, e)), iaas_DeleteSnapshot = (\<lambda>_. ret e),
       iaas_WaitUntilSnapshotIsAvailable = (\<lambda>_. ret e), iaas_ListRegions = (\<lambda>_. ret e),
       kube_BuildConfig = (\<lambda>_. ret e), kube_NewForConfig = ret e,
       kube_GetNode = (\<lambda>_. ret ([], e)), ctx_Wait = ret (Some ContextCanceled) \<rparr>)"

lemma failing_calls:
  "requires cap call \<or> mandatory call \<Longrightarrow>
     result_of (controller_handle failing_env d call) () \<noteq> Some Unimplemented"
proof (cases call)
  case (CreateVolumeCall req)
  then show ?thesis
    using createVolume_size_code [of d req]
    by (auto simp: controller_handle_def answer_wire_def CreateVolume_def failing_env_def Let_def is_not_found_def
        split: sum.split)
next
  case (ControllerPublishVolumeCall req)
  then show ?thesis
    using publish_invalid_code [of req]
    by (auto simp: controller_handle_def answer_wire_def ControllerPublishVolume_def failing_env_def Let_def
        is_not_found_def grpc_code_def find_status_def split: option.split)
qed (auto simp: controller_handle_def answer_wire_def failing_env_def Let_def DeleteVolume_def
    ControllerUnpublishVolume_def ValidateVolumeCapabilities_def ListVolumes_def CreateSnapshot_def
    getOrCreateSnapshot_def DeleteSnapshot_def ListSnapshots_def ControllerExpandVolume_def
    ControllerGetCapabilities_def requires_def mandatory_def is_not_found_def grpc_code_def
    split: controller_rpc.splits sum.split option.split)

lemma unimplemented_calls:
  assumes "\<not> mandatory call" and "\<not> (\<exists>cap. requires cap call)"
  shows "controller_handle env d call = ret (Some Unimplemented)"
proof -
  have "requires CREATE_DELETE_VOLUME call \<or> requires PUBLISH_UNPUBLISH_VOLUME call \<or>
      requires LIST_VOLUMES call \<or> requires CREATE_DELETE_SNAPSHOT call \<or> requires LIST_SNAPSHOTS call \<or>
      requires EXPAND_VOLUME call \<or> mandatory call \<or> controller_handle env d call = ret (Some Unimplemented)"
    by (cases call) (simp_all add: requires_def mandatory_def controller_handle_def GetCapacity_def
        ControllerGetVolume_def ControllerModifyVolume_def)
  with assms show ?thesis by blast
qed

text \<open>The controller implements exactly what it advertises: the calls that the capabilities of
  \<open>ControllerGetCapabilities\<close> require, and the two that every controller must answer, are those
  that can end in anything but \<open>Unimplemented\<close>; every other call answers \<open>Unimplemented\<close> without
  touching the cloud. A server in node mode answers no controller call.\<close>

theorem capabilities_match_implementation:
  "((\<exists>cap caps. ControllerGetCapabilities = Ok caps \<and> cap \<in> set caps \<and> requires cap call) \<or> mandatory call \<longleftrightarrow>
      (\<exists>(env :: unit env) w. result_of (controller_handle env d call) w \<noteq> Some Unimplemented)) \<and>
   serve registered_RunNode version env m os d (ControllerCall call) = ret (Some Unimplemented) \<and>
   serve registered_Run version env m os d (ControllerCall call) = controller_handle env d call"
proof -
  have all: "\<exists>caps. ControllerGetCapabilities = Ok caps \<and> cap \<in> set caps" for cap
    by (cases cap) (simp_all add: ControllerGetCapabilities_def)
  then have adv: "(\<exists>cap caps. ControllerGetCapabilities = Ok caps \<and> cap \<in> set caps \<and> requires cap call) \<longleftrightarrow>
      (\<exists>cap. requires cap call)"
    by blast
  have "(\<exists>cap. requires cap call) \<or> mandatory call \<longleftrightarrow>
      (\<exists>(env :: unit env) w. result_of (controller_handle env d call) w \<noteq> Some Unimplemented)"
  proof
    assume "(\<exists>cap. requires cap call) \<or> mandatory call"
    then show "\<exists>(env :: unit env) w. result_of (controller_handle env d call) w \<noteq> Some Unimplemented"
      using failing_calls by blast
  next
    assume "\<exists>(env :: unit env) w. result_of (controller_handle env d call) w \<noteq> Some Unimplemented"
    then show "(\<exists>cap. requires cap call) \<or> mandatory call"
      using unimplemented_calls by (metis run_state_return fst_conv)
  qed
  then show ?thesis
    unfolding adv by (simp add: serve_def registered_Run_def registered_RunNode_def)
qed

end
