(* ===== verification/Traces.thy ===== *)
theory Traces
  imports Main
begin

text \<open>
  Runs of a step relation with their events, shared by the two models of a running server: the
  events of a run in order, invariants that may speak of the events so far, bounds by a measure,
  and simulation of one relation by another as a locale.
\<close>

inductive trace :: "('s \<Rightarrow> 'e \<Rightarrow> 's \<Rightarrow> bool) \<Rightarrow> 's \<Rightarrow> 'e list \<Rightarrow> 's \<Rightarrow> bool"
  for step :: "'s \<Rightarrow> 'e \<Rightarrow> 's \<Rightarrow> bool" where
  trace_nil [intro!]: "trace step s [] s"
| trace_snoc: "trace step s es s' \<Longrightarrow> step s' e s'' \<Longrightarrow> trace step s (es @ [e]) s''"

inductive_cases trace_snocE: "trace step s (es @ [e]) s''"
inductive_simps trace_Nil_iff [simp]: "trace step s [] s'"

section \<open>Building and cutting runs\<close>

lemma trace_cons: "trace step s' es s'' \<Longrightarrow> step s e s' \<Longrightarrow> trace step s (e # es) s''"
proof (induction rule: trace.induct)
  case (trace_nil s')
  then show ?case using trace_snoc [of step s "[]" s e s'] by auto
next
  case (trace_snoc s0 es s1 f s2)
  then show ?case using trace.trace_snoc [of step s "e # es" s1 f s2] by auto
qed

lemma trace_start:
  "step s e s' \<Longrightarrow> \<exists>s''. trace step s' es s'' \<and> P s'' \<Longrightarrow> \<exists>s''. trace step s (e # es) s'' \<and> P s''"
  by (elim exE conjE) (rule exI, rule conjI, rule trace_cons)

lemma trace_append: "trace step s es s' \<Longrightarrow> trace step s' es' s'' \<Longrightarrow> trace step s (es @ es') s''"
  by (rotate_tac, induction rule: trace.induct) (auto simp flip: append_assoc intro: trace_snoc)

lemma trace_appendD: "trace step s (es @ es') s'' \<Longrightarrow> \<exists>s'. trace step s es s' \<and> trace step s' es' s''"
proof (induction es' arbitrary: s'' rule: rev_induct)
  case (snoc e es')
  from snoc.prems have "trace step s ((es @ es') @ [e]) s''" by simp
  then obtain t where t: "trace step s (es @ es') t" "step t e s''" by (rule trace_snocE) simp
  from snoc.IH [OF t(1)] t(2) show ?case by (blast intro: trace_snoc)
qed auto

lemma trace_consD:
  assumes "trace step s (e # es) s''"
  shows "\<exists>s'. step s e s' \<and> trace step s' es s''"
proof -
  have "trace step s ([e] @ es) s''" using assms by simp
  from trace_appendD [OF this] obtain s' where s': "trace step s [e] s'" "trace step s' es s''" by (elim exE conjE)
  from s'(1) have "trace step s ([] @ [e]) s'" by simp
  then have "step s e s'" by (rule trace_snocE) simp
  with s'(2) show ?thesis by blast
qed

lemma trace_Cons_iff: "trace step s (e # es) s'' \<longleftrightarrow> (\<exists>s'. step s e s' \<and> trace step s' es s'')"
  by (blast intro: trace_cons dest: trace_consD)

lemma trace_prefix:
  "trace step s (es @ [e] @ rest) s' \<Longrightarrow> \<exists>s1 s2. trace step s es s1 \<and> step s1 e s2"
proof (induction rest arbitrary: s' rule: rev_induct)
  case Nil
  then have "trace step s (es @ [e]) s'" by simp
  then show ?case by (rule trace_snocE) blast
next
  case (snoc x xs)
  from snoc.prems have "trace step s ((es @ [e] @ xs) @ [x]) s'" by simp
  then obtain s1 where "trace step s (es @ [e] @ xs) s1" by (rule trace_snocE) simp
  then show ?case by (rule snoc.IH)
qed

section \<open>Invariants and measures\<close>

lemma trace_invariant:
  assumes "trace step s es s'" and "I [] s"
    and "\<And>es s e s'. I es s \<Longrightarrow> step s e s' \<Longrightarrow> I (es @ [e]) s'"
  shows "I es s'"
  using assms by (induction rule: trace.induct) blast+

lemma trace_measure:
  assumes "trace step s es s'" and "\<And>s e s'. step s e s' \<Longrightarrow> m s' + of_bool (P e) \<le> (m s :: nat)"
  shows "m s' + length (filter P es) \<le> m s"
  using assms(1)
proof (induction rule: trace.induct)
  case (trace_snoc s es s' e s'')
  with assms(2) [OF trace_snoc.hyps(2)] show ?case by (auto split: if_splits)
qed simp

section \<open>Simulation\<close>

text \<open>
  A relation with more detail whose steps, seen through \<open>abs\<close>, are steps of an abstract relation or
  leave the abstract state alone; \<open>ev\<close> says which.
\<close>

locale simulation =
  fixes step :: "'s \<Rightarrow> 'e \<Rightarrow> 's \<Rightarrow> bool"
    and astep :: "'a \<Rightarrow> 'f \<Rightarrow> 'a \<Rightarrow> bool"
    and abs :: "'s \<Rightarrow> 'a"
    and ev :: "'e \<Rightarrow> 'f option"
    and inv :: "'s \<Rightarrow> bool"
  assumes inv_step: "inv s \<Longrightarrow> step s e s' \<Longrightarrow> inv s'"
    and silent_step: "inv s \<Longrightarrow> step s e s' \<Longrightarrow> ev e = None \<Longrightarrow> abs s' = abs s"
    and visible_step: "inv s \<Longrightarrow> step s e s' \<Longrightarrow> ev e = Some f \<Longrightarrow> astep (abs s) f (abs s')"
begin

lemma trace_inv: "trace step s es s' \<Longrightarrow> inv s \<Longrightarrow> inv s'"
  by (induction rule: trace.induct) (auto intro: inv_step)

lemma trace_abs:
  "trace step s es s' \<Longrightarrow> inv s \<Longrightarrow> trace astep (abs s) (List.map_filter ev es) (abs s')"
proof (induction rule: trace.induct)
  case (trace_nil s)
  then show ?case by (simp add: map_filter_simps)
next
  case (trace_snoc s es s' e s'')
  have inv: "inv s'" using trace_snoc.hyps(1) trace_snoc.prems by (rule trace_inv)
  have run: "trace astep (abs s) (List.map_filter ev es) (abs s')" using trace_snoc by blast
  show ?case
  proof (cases "ev e")
    case None
    with silent_step [OF inv trace_snoc.hyps(2)] run show ?thesis by (simp add: map_filter_def)
  next
    case (Some f)
    with visible_step [OF inv trace_snoc.hyps(2)] run show ?thesis
      by (auto simp: map_filter_def intro: trace.trace_snoc)
  qed
qed

text \<open>What holds in every abstract run holds, seen through \<open>abs\<close>, in every run.\<close>

lemma transfer_invariant:
  assumes "trace step s es s'" and "inv s" and "I [] (abs s)"
    and "\<And>fs a f a'. I fs a \<Longrightarrow> astep a f a' \<Longrightarrow> I (fs @ [f]) a'"
  shows "I (List.map_filter ev es) (abs s')"
  by (rule trace_invariant [OF trace_abs [OF assms(1,2)]]) (use assms(3,4) in blast)+

end

end
