(* ===== verification/Lifecycle.thy ===== *)
theory Lifecycle
  imports Traces ControllerAttachment NodeOs Health
begin

text \<open>
  \<open>driver/controller.go\<close> (\<open>NewDriver\<close>, \<open>Run\<close>), \<open>driver/nodedriver.go\<close> (\<open>NewNodeDriver\<close>, \<open>RunNode\<close>),
  \<open>driver/defaults/vars.go\<close> and the dispatch of \<open>cmd/thalassa-csi-plugin/cmd/plugin.go\<close>: making the
  driver object from the flags, starting the server, and the readiness flag over the server's
  life. The client library's constructors, the URL parser, the socket and the flags are
  parameters.
\<close>

section \<open>Making the driver\<close>

definition DefaultDriverName :: string where
  "DefaultDriverName = ''csi.k8s.thalassa.cloud''"

record new_driver_params =
  p_CsiEndpoint :: string
  p_ThalassaToken :: string
  p_ThalassaClientID :: string
  p_ThalassaClientSecret :: string
  p_ThalassaURL :: string
  p_ThalassaOrganisation :: string
  p_ThalassaProject :: string
  p_ThalassaInsecure :: bool
  p_Region :: string
  p_Vpc :: string
  p_Cluster :: string
  p_DriverName :: string
  p_DebugAddr :: string
  p_VolumeLimit :: uint64
  p_NodeID :: string
  p_KubeConfig :: string

datatype client_option =
    WithBaseURL string | WithOrganisation string | WithUserAgent string | WithInsecure
  | WithProject string | WithAuthOIDC string string string
  | WithAuthOIDCInsecure string string string bool | WithAuthPersonalToken string

text \<open>The options of the API client.\<close>

definition client_options :: "string \<Rightarrow> new_driver_params \<Rightarrow> client_option list" where
  "client_options version p =
     [WithBaseURL (p_ThalassaURL p), WithOrganisation (p_ThalassaOrganisation p),
      WithUserAgent (''github.com/thalassa-cloud/csi-thalassa/'' @ version)] @
     (if p_ThalassaInsecure p then [WithInsecure] else []) @
     (if p_ThalassaProject p \<noteq> '''' then [WithProject (p_ThalassaProject p)] else []) @
     (if p_ThalassaClientID p \<noteq> '''' \<and> p_ThalassaClientSecret p \<noteq> '''' then
        (if p_ThalassaInsecure p then
           [WithAuthOIDCInsecure (p_ThalassaClientID p) (p_ThalassaClientSecret p)
              (p_ThalassaURL p @ ''/oidc/token'') (p_ThalassaInsecure p)]
         else
           [WithAuthOIDC (p_ThalassaClientID p) (p_ThalassaClientSecret p)
              (p_ThalassaURL p @ ''/oidc/token'')])
      else if p_ThalassaToken p \<noteq> '''' then [WithAuthPersonalToken (p_ThalassaToken p)]
      else [])"

definition driver_name :: "string \<Rightarrow> string" where
  "driver_name name = (if name = '''' then DefaultDriverName else name)"

text \<open>\<open>newClient\<close> is \<open>client.NewClient\<close> and \<open>iaasNew\<close> is \<open>iaas.New\<close>: their errors.\<close>

definition NewDriver ::
    "(client_option list \<Rightarrow> err) \<Rightarrow> err \<Rightarrow> string \<Rightarrow> new_driver_params \<Rightarrow> go_error + driver" where
  "NewDriver newClient iaasNew version p =
     (let driverName = driver_name (p_DriverName p)
      in case newClient (client_options version p) of
           Some e \<Rightarrow> Inl (ErrorString (Lit ''failed to initialize Thalassa client: '' # error_text e))
         | None \<Rightarrow>
             (case iaasNew of
                Some e \<Rightarrow>
                  Inl (ErrorString (Lit ''failed to initialize Thalassa IaaS client: '' # error_text e))
              | None \<Rightarrow>
                  Inr \<lparr> d_name = driverName, d_publishInfoVolumeName = driverName @ ''/volume-name'',
                        d_endpoint = p_CsiEndpoint p, d_debugAddr = p_DebugAddr p,
                        d_region = p_Region p, d_nodeID = p_NodeID p, d_defaultVolumesPageSize = 0,
                        d_validateAttachment = False, d_vpc = p_Vpc p,
                        d_clusterIdentity = p_Cluster p, d_projectId = p_ThalassaProject p,
                        d_ready = False, d_volumeLimit = p_VolumeLimit p, d_kubeConfig = '''',
                        d_CustomLabels = Map.empty, d_CustomAnnotations = Map.empty \<rparr>))"

record new_node_driver_params =
  nd_CsiEndpoint :: string
  nd_DriverName :: string
  nd_DebugAddr :: string
  nd_ValidateAttachment :: bool
  nd_VolumeLimit :: uint64
  nd_NodeID :: string
  nd_Region :: string
  nd_Vpc :: string
  nd_Project :: string
  nd_Cluster :: string
  nd_CustomLabels :: string
  nd_CustomAnnotations :: string

definition NewNodeDriver :: "new_node_driver_params \<Rightarrow> driver" where
  "NewNodeDriver p =
     (let driverName = driver_name (nd_DriverName p)
      in \<lparr> d_name = driverName, d_publishInfoVolumeName = driverName @ ''/volume-name'',
           d_endpoint = nd_CsiEndpoint p, d_debugAddr = nd_DebugAddr p, d_region = nd_Region p,
           d_nodeID = nd_NodeID p, d_defaultVolumesPageSize = 0,
           d_validateAttachment = nd_ValidateAttachment p, d_vpc = nd_Vpc p,
           d_clusterIdentity = nd_Cluster p, d_projectId = '''', d_ready = False,
           d_volumeLimit = nd_VolumeLimit p, d_kubeConfig = '''',
           d_CustomLabels = parseCustomLabels (nd_CustomLabels p),
           d_CustomAnnotations = parseCustomLabels (nd_CustomAnnotations p) \<rparr>)"

section \<open>Starting the server\<close>

text \<open>The parsed endpoint: scheme, host and path.\<close>

record 'w server_env =
  srv_ParseURL :: "string \<Rightarrow> go_error + string \<times> string \<times> string"
  srv_Remove :: "string \<Rightarrow> ('w, err) state"
  srv_IsNotExist :: "go_error \<Rightarrow> bool"
  srv_Listen :: "string \<Rightarrow> string \<Rightarrow> ('w, err) state"

definition grpc_addr :: "string \<Rightarrow> string \<Rightarrow> string" where
  "grpc_addr host path = (if host = '''' then path else filepath_join [host, path])"

text \<open>
  The first part of \<open>Run\<close> and of \<open>RunNode\<close>, which are the same: up to and including
  \<open>d.ready = true\<close>. It gives the driver that serves, or the error \<open>Run\<close> returns.
\<close>

definition start_server :: "'w server_env \<Rightarrow> driver \<Rightarrow> ('w, go_error + driver) state" where
  "start_server senv d =
     (case srv_ParseURL senv (d_endpoint d) of
        Inl e \<Rightarrow> ret (Inl (ErrorString (Lit ''unable to parse address: '' # error_text e)))
      | Inr (scheme, host, path) \<Rightarrow>
          let addr = grpc_addr host path
          in if scheme \<noteq> ''unix'' then
               ret (Inl (ErrorString
                 [Lit ''currently only unix domain sockets are supported, have: '', Lit scheme]))
             else do {
               err \<leftarrow> srv_Remove senv addr;
               (if err \<noteq> None \<and> \<not> srv_IsNotExist senv (the err) then
                  ret (Inl (ErrorString
                    ([Lit ''failed to remove unix domain socket file '', Lit addr, Lit '', error: ''] @
                     error_text (the err))))
                else do {
                  err \<leftarrow> srv_Listen senv scheme addr;
                  ret (case err of
                         Some e \<Rightarrow> Inl (ErrorString (Lit ''failed to listen: '' # error_text e))
                       | None \<Rightarrow> Inr (d\<lparr> d_ready := True \<rparr>))
                })
             })"

section \<open>The readiness flag while the server runs\<close>

text \<open>
  After the start the server and two goroutines run concurrently: the server serves, one
  goroutine waits for the context to end, clears the flag under the lock and stops the server
  gracefully. \<open>serve_step\<close> has one rule per atomic action; a probe reads the flag.
\<close>

datatype phase = Serving | Cancelled | Stopping | Stopped

record server =
  s_driver :: driver
  s_phase :: phase

datatype event = Probed bool | Cancel | ClearReady | GracefulStop

inductive serve_step :: "server \<Rightarrow> event \<Rightarrow> server \<Rightarrow> bool" where
  probe: "s_phase s \<noteq> Stopped \<Longrightarrow> Probe (s_driver s) = Ok b \<Longrightarrow> serve_step s (Probed b) s"
| cancel: "s_phase s = Serving \<Longrightarrow> serve_step s Cancel (s\<lparr> s_phase := Cancelled \<rparr>)"
| clear: "s_phase s = Cancelled \<Longrightarrow>
    serve_step s ClearReady
      (s\<lparr> s_driver := (s_driver s)\<lparr> d_ready := False \<rparr>, s_phase := Stopping \<rparr>)"
| stop: "s_phase s = Stopping \<Longrightarrow> serve_step s GracefulStop (s\<lparr> s_phase := Stopped \<rparr>)"

inductive_cases serve_step_cases: "serve_step s e s'"

abbreviation serve_run :: "server \<Rightarrow> event list \<Rightarrow> server \<Rightarrow> bool" where
  "serve_run \<equiv> trace serve_step"

definition started :: "driver \<Rightarrow> server" where
  "started d = \<lparr> s_driver = d, s_phase = Serving \<rparr>"

section \<open>The plugin command\<close>

text \<open>The flags, as \<open>viper\<close> gives them.\<close>

record flags =
  f_String :: "string \<Rightarrow> string"
  f_Bool :: "string \<Rightarrow> bool"
  f_Uint :: "string \<Rightarrow> uint64"

definition controller_params :: "flags \<Rightarrow> new_driver_params" where
  "controller_params v =
     \<lparr> p_CsiEndpoint = f_String v ''csi-endpoint'', p_ThalassaToken = f_String v ''thalassa-token'',
       p_ThalassaClientID = f_String v ''thalassa-client-id'',
       p_ThalassaClientSecret = f_String v ''thalassa-client-secret'',
       p_ThalassaURL = f_String v ''thalassa-url'',
       p_ThalassaOrganisation = f_String v ''organisation'',
       p_ThalassaProject = f_String v ''thalassa-project'',
       p_ThalassaInsecure = f_Bool v ''thalassa-insecure'', p_Region = f_String v ''thalassa-region'',
       p_Vpc = f_String v ''vpc'', p_Cluster = f_String v ''cluster'',
       p_DriverName = f_String v ''driver-name'', p_DebugAddr = f_String v ''debug-addr'',
       p_VolumeLimit = f_Uint v ''volume-limit'', p_NodeID = f_String v ''node-id'',
       p_KubeConfig = f_String v ''kube-config'' \<rparr>"

definition node_params :: "flags \<Rightarrow> new_node_driver_params" where
  "node_params v =
     \<lparr> nd_CsiEndpoint = f_String v ''csi-endpoint'', nd_DriverName = f_String v ''driver-name'',
       nd_DebugAddr = f_String v ''debug-addr'', nd_ValidateAttachment = f_Bool v ''validate-attachment'',
       nd_VolumeLimit = f_Uint v ''volume-limit'', nd_NodeID = f_String v ''node-id'',
       nd_Region = f_String v ''thalassa-region'', nd_Vpc = f_String v ''vpc'',
       nd_Project = f_String v ''thalassa-project'', nd_Cluster = f_String v ''cluster'',
       nd_CustomLabels = '''', nd_CustomAnnotations = '''' \<rparr>"

text \<open>The driver that \<open>plugin\<close> makes and starts, or the error of the command.\<close>

definition plugin_driver :: "(client_option list \<Rightarrow> err) \<Rightarrow> err \<Rightarrow> string \<Rightarrow> flags \<Rightarrow> go_error + driver" where
  "plugin_driver newClient iaasNew version v =
     (let mode = f_String v ''mode''
      in if mode = ''controller'' then
           (case NewDriver newClient iaasNew version (controller_params v) of
              Inl e \<Rightarrow> Inl (Wrap [Lit ''failed to create controller: ''] e)
            | Inr d \<Rightarrow> Inr d)
         else if mode = ''node'' then Inr (NewNodeDriver (node_params v))
         else Inl (ErrorString [Lit ''invalid mode: '', Lit mode]))"

text \<open>\<open>cmd/version.go\<close>: the line that \<open>version\<close> prints.\<close>

definition version_line :: "string \<Rightarrow> string \<Rightarrow> string \<Rightarrow> string" where
  "version_line version commit gitTreeState =
     version @ '' - '' @ commit @ '' ('' @ gitTreeState @ '')'' @ [CHR 0x0A]"

section \<open>Properties of the start and the readiness flag\<close>

text \<open>The server starts, and the driver becomes ready, exactly when its endpoint parses as a
  \<open>unix\<close> address, the old socket was removed or did not exist, and the new one could be listened
  on; in every other case \<open>Run\<close> returns an error and the driver that would serve does not exist.\<close>

theorem start_server_ready:
  "result_of (start_server senv d) w = Inr d' \<longleftrightarrow>
     (\<exists>host path. srv_ParseURL senv (d_endpoint d) = Inr (''unix'', host, path) \<and>
       (case result_of (srv_Remove senv (grpc_addr host path)) w of
          None \<Rightarrow> True | Some e \<Rightarrow> srv_IsNotExist senv e) \<and>
       result_of (srv_Listen senv ''unix'' (grpc_addr host path))
         (world_after (srv_Remove senv (grpc_addr host path)) w) = None \<and>
       d' = d\<lparr> d_ready := True \<rparr>)"
  by (auto simp: start_server_def Let_def case_prod_beta split: sum.splits option.splits)

text \<open>The phases in their order; a server only goes forward.\<close>

fun phase_rank :: "phase \<Rightarrow> nat" where
  "phase_rank Serving = 0"
| "phase_rank Cancelled = 1"
| "phase_rank Stopping = 2"
| "phase_rank Stopped = 3"

lemma phase_rank_inject: "phase_rank p = phase_rank q \<longleftrightarrow> p = q"
  by (cases p; cases q) simp_all

instantiation phase :: linorder
begin

definition less_eq_phase :: "phase \<Rightarrow> phase \<Rightarrow> bool" where
  "p \<le> q \<longleftrightarrow> phase_rank p \<le> phase_rank q"

definition less_phase :: "phase \<Rightarrow> phase \<Rightarrow> bool" where
  "p < q \<longleftrightarrow> phase_rank p < phase_rank q"

instance
  by intro_classes (auto simp: less_eq_phase_def less_phase_def phase_rank_inject)

end

lemma phase_le_simps [simp]:
  "Cancelled \<le> p \<longleftrightarrow> p \<noteq> Serving" "Stopping \<le> p \<longleftrightarrow> p = Stopping \<or> p = Stopped"
  "Stopped \<le> p \<longleftrightarrow> p = Stopped"
  by (cases p; simp add: less_eq_phase_def)+

lemma serve_step_phase: "serve_step s e s' \<Longrightarrow> s_phase s \<le> s_phase s'"
  by (auto simp: less_eq_phase_def elim!: serve_step_cases)

text \<open>What the events of a run say of the server: its flag, and how far it has come.\<close>

definition serve_inv :: "event list \<Rightarrow> server \<Rightarrow> bool" where
  "serve_inv es s \<longleftrightarrow>
     (d_ready (s_driver s) \<longleftrightarrow> ClearReady \<notin> set es) \<and>
     (Cancel \<in> set es \<longleftrightarrow> Cancelled \<le> s_phase s) \<and>
     (ClearReady \<in> set es \<longleftrightarrow> Stopping \<le> s_phase s) \<and>
     (GracefulStop \<in> set es \<longleftrightarrow> Stopped \<le> s_phase s)"

lemma serve_inv_started: "d_ready d \<Longrightarrow> serve_inv [] (started d)"
  by (simp add: serve_inv_def started_def)

lemma serve_inv_step: "serve_inv es s \<Longrightarrow> serve_step s e s' \<Longrightarrow> serve_inv (es @ [e]) s'"
  by (auto simp: serve_inv_def elim!: serve_step_cases)

lemma serve_run_inv: "serve_run (started d) es s \<Longrightarrow> d_ready d \<Longrightarrow> serve_inv es s"
  by (rule trace_invariant [where step = serve_step and I = serve_inv])
    (auto intro: serve_inv_started serve_inv_step)

text \<open>In every run of a started server, with any interleaving of probes and the shutdown: a probe
  answers ready exactly when the shutdown goroutine has not yet cleared the flag; the flag is
  cleared only after the context ended, and once; the server is stopped only after the flag was
  cleared, so no probe is answered ready by a stopping server; after the stop nothing is
  answered.\<close>

theorem readiness_window:
  assumes "serve_run (started d) (es @ [e] @ rest) s" and "d_ready d"
  shows "(case e of
      Probed b \<Rightarrow> (b \<longleftrightarrow> ClearReady \<notin> set es) \<and> GracefulStop \<notin> set es
    | Cancel \<Rightarrow> Cancel \<notin> set es
    | ClearReady \<Rightarrow> Cancel \<in> set es \<and> ClearReady \<notin> set es
    | GracefulStop \<Rightarrow> ClearReady \<in> set es \<and> GracefulStop \<notin> set es)"
proof -
  from trace_prefix [OF assms(1)] obtain s1 s2 where
    "serve_run (started d) es s1" and step: "serve_step s1 e s2" by blast
  with assms(2) have "serve_inv es s1" by (simp add: serve_run_inv)
  with step show ?thesis
    by (auto simp: serve_inv_def Probe_def elim!: serve_step_cases)
qed

theorem readiness_window_witness:
  "\<exists>s. serve_run (started sample_driver) [Probed True, Cancel, ClearReady, Probed False] s \<and>
     ClearReady \<in> set [Probed True, Cancel, ClearReady]"
proof -
  have ready: "d_ready sample_driver" by (simp add: sample_driver_def)
  let ?s0 = "started sample_driver"
  let ?s1 = "?s0\<lparr> s_phase := Cancelled \<rparr>"
  let ?s2 = "?s1\<lparr> s_driver := (s_driver ?s1)\<lparr> d_ready := False \<rparr>, s_phase := Stopping \<rparr>"
  have 1: "serve_step ?s0 (Probed True) ?s0" by (rule probe) (simp_all add: started_def Probe_def ready)
  have 2: "serve_step ?s0 Cancel ?s1" by (rule cancel) (simp add: started_def)
  have 3: "serve_step ?s1 ClearReady ?s2" by (rule clear) simp
  have 4: "serve_step ?s2 (Probed False) ?s2" by (rule probe) (simp_all add: Probe_def)
  have run: "serve_run ?s0 ([Probed True, Cancel, ClearReady] @ [Probed False] @ []) ?s2"
    using 1 2 3 4 by (auto intro: trace_cons)
  from readiness_window [OF this ready] run show ?thesis by auto
qed

section \<open>What the flags reach\<close>

text \<open>The driver that the \<open>plugin\<close> command makes, in either mode, is not ready, has no kube
  config, no custom labels or annotations and no default page size, whatever the flags say; its
  name, region, node, VPC, cluster and volume limit are those of the flags, with the default
  name for an empty one.\<close>

theorem plugin_driver_settings:
  assumes "plugin_driver newClient iaasNew version v = Inr d"
  shows "\<not> d_ready d \<and> d_kubeConfig d = '''' \<and> d_CustomLabels d = Map.empty \<and>
    d_CustomAnnotations d = Map.empty \<and> d_defaultVolumesPageSize d = 0 \<and>
    d_name d = (if f_String v ''driver-name'' = '''' then ''csi.k8s.thalassa.cloud'' else f_String v ''driver-name'') \<and>
    d_publishInfoVolumeName d = d_name d @ ''/volume-name'' \<and>
    d_region d = f_String v ''thalassa-region'' \<and> d_nodeID d = f_String v ''node-id'' \<and>
    d_vpc d = f_String v ''vpc'' \<and> d_clusterIdentity d = f_String v ''cluster'' \<and>
    d_volumeLimit d = f_Uint v ''volume-limit'' \<and> f_String v ''mode'' \<in> {''controller'', ''node''}"
  using assms
  by (auto simp: plugin_driver_def Let_def NewDriver_def NewNodeDriver_def controller_params_def
      node_params_def driver_name_def DefaultDriverName_def parseCustomLabels_def
      split: if_splits option.splits sum.splits)

definition sample_flags :: flags where
  "sample_flags =
     \<lparr> f_String = (\<lambda>k. if k = ''mode'' then ''controller'' else if k = ''kube-config'' then ''/etc/kube'' else ''''),
       f_Bool = (\<lambda>_. False), f_Uint = (\<lambda>_. 20) \<rparr>"

theorem plugin_driver_settings_witness:
  "\<exists>d. plugin_driver (\<lambda>_. None) None ''v1'' sample_flags = Inr d \<and> d_kubeConfig d = '''' \<and>
     f_String sample_flags ''kube-config'' = ''/etc/kube''"
proof -
  obtain d where d: "plugin_driver (\<lambda>_. None) None ''v1'' sample_flags = Inr d"
    by (simp add: plugin_driver_def Let_def NewDriver_def sample_flags_def)
  from plugin_driver_settings [OF d] d show ?thesis by (simp add: sample_flags_def)
qed

end
