(* ===== verification/ServerRun.thy ===== *)
theory ServerRun
  imports Lifecycle
begin

text \<open>
  The goroutines of \<open>Run\<close> (\<open>driver/controller.go\<close>) and \<open>RunNode\<close> once the server has started: the
  group of three whose errors \<open>eg.Wait\<close> collects (the shutdown and the listener of the debug
  server, when there is one, and the gRPC server) and the one that clears the ready flag and
  stops the gRPC server. \<open>run_step\<close> has one rule per atomic action of a goroutine, so a run is any
  interleaving of them. The runs refine the readiness relation \<open>serve_step\<close>.
\<close>

section \<open>State and steps\<close>

datatype stopper = Waiting | Cleared | Stopped_gracefully

text \<open>A goroutine of the group: None while it runs, else the error it returned.\<close>

record run_st =
  rs_driver :: driver
  rs_ctxDone :: bool
  rs_stopper :: stopper
  rs_serving :: bool
  rs_grpc :: "err option"
  rs_shutdown :: "err option"
  rs_http :: "err option"
  rs_firstErr :: err
  rs_returned :: "err option"

datatype run_event =
    RProbed bool | RCancel | RClearReady | RGracefulStop | RServe | RServeLate | RServeEnds
  | RAcceptFails go_error
  | RHttpFails go_error | RShutdown err | RHttpClosed | RReturn

text \<open>\<open>errgroup\<close> keeps the first error.\<close>

definition note_err :: "err \<Rightarrow> run_st \<Rightarrow> run_st" where
  "note_err e s = (if rs_firstErr s = None then s\<lparr> rs_firstErr := e \<rparr> else s)"

text \<open>The state after \<open>start_server\<close>; without a debug server its two goroutines do not exist.\<close>

definition run_started :: "bool \<Rightarrow> driver \<Rightarrow> run_st" where
  "run_started has_http d =
     \<lparr> rs_driver = d, rs_ctxDone = False, rs_stopper = Waiting, rs_serving = False,
       rs_grpc = None, rs_shutdown = (if has_http then None else Some None),
       rs_http = (if has_http then None else Some None), rs_firstErr = None, rs_returned = None \<rparr>"

text \<open>
  The library's part: \<open>Serve\<close> serves until \<open>GracefulStop\<close> and then returns nil, returns the error of
  a failing listener, and returns \<open>ErrServerStopped\<close> when it is called on a stopped server;
  \<open>ListenAndServe\<close> returns \<open>ErrServerClosed\<close>, which the code turns into nil, as soon as \<open>Shutdown\<close>
  has been called.
\<close>

definition ErrServerStopped :: go_error where
  "ErrServerStopped = ErrorString [Lit ''grpc: the server has been stopped'']"

inductive run_step :: "run_st \<Rightarrow> run_event \<Rightarrow> run_st \<Rightarrow> bool" where
  probed: "rs_serving s \<Longrightarrow> rs_grpc s = None \<Longrightarrow> rs_stopper s \<noteq> Stopped_gracefully \<Longrightarrow> Probe (rs_driver s) = Ok b \<Longrightarrow>
    run_step s (RProbed b) s"
| ctx_ends: "\<not> rs_ctxDone s \<Longrightarrow> run_step s RCancel (s\<lparr> rs_ctxDone := True \<rparr>)"
| clear_ready: "rs_ctxDone s \<Longrightarrow> rs_stopper s = Waiting \<Longrightarrow>
    run_step s RClearReady
      (s\<lparr> rs_driver := (rs_driver s)\<lparr> d_ready := False \<rparr>, rs_stopper := Cleared \<rparr>)"
| graceful_stop: "rs_stopper s = Cleared \<Longrightarrow>
    run_step s RGracefulStop (s\<lparr> rs_stopper := Stopped_gracefully \<rparr>)"
| serve: "\<not> rs_serving s \<Longrightarrow> rs_grpc s = None \<Longrightarrow> rs_stopper s \<noteq> Stopped_gracefully \<Longrightarrow>
    run_step s RServe (s\<lparr> rs_serving := True \<rparr>)"
| serve_late: "\<not> rs_serving s \<Longrightarrow> rs_grpc s = None \<Longrightarrow> rs_stopper s = Stopped_gracefully \<Longrightarrow>
    run_step s RServeLate (note_err (Some ErrServerStopped) (s\<lparr> rs_grpc := Some (Some ErrServerStopped) \<rparr>))"
| serve_ends: "rs_serving s \<Longrightarrow> rs_grpc s = None \<Longrightarrow> rs_stopper s = Stopped_gracefully \<Longrightarrow>
    run_step s RServeEnds (s\<lparr> rs_grpc := Some None \<rparr>)"
| accept_fails: "rs_serving s \<Longrightarrow> rs_grpc s = None \<Longrightarrow> rs_stopper s \<noteq> Stopped_gracefully \<Longrightarrow>
    run_step s (RAcceptFails e) (note_err (Some e) (s\<lparr> rs_grpc := Some (Some e) \<rparr>))"
| http_fails: "rs_http s = None \<Longrightarrow> rs_shutdown s = None \<Longrightarrow>
    run_step s (RHttpFails e) (note_err (Some e) (s\<lparr> rs_http := Some (Some e) \<rparr>))"
| shutdown: "rs_ctxDone s \<Longrightarrow> rs_shutdown s = None \<Longrightarrow>
    run_step s (RShutdown e) (note_err e (s\<lparr> rs_shutdown := Some e \<rparr>))"
| http_closed: "rs_http s = None \<Longrightarrow> rs_ctxDone s \<Longrightarrow>
    run_step s RHttpClosed (s\<lparr> rs_http := Some None \<rparr>)"
| returns: "rs_grpc s \<noteq> None \<Longrightarrow> rs_shutdown s \<noteq> None \<Longrightarrow> rs_http s \<noteq> None \<Longrightarrow> rs_returned s = None \<Longrightarrow>
    run_step s RReturn (s\<lparr> rs_returned := Some (rs_firstErr s) \<rparr>)"

inductive_cases run_step_cases: "run_step s e s'"

abbreviation run_trace :: "run_st \<Rightarrow> run_event list \<Rightarrow> run_st \<Rightarrow> bool" where
  "run_trace \<equiv> trace run_step"

section \<open>Refinement of the readiness relation\<close>

definition abs_phase :: "run_st \<Rightarrow> phase" where
  "abs_phase s =
     (case rs_stopper s of
        Stopped_gracefully \<Rightarrow> Stopped | Cleared \<Rightarrow> Stopping
      | Waiting \<Rightarrow> if rs_ctxDone s then Cancelled else Serving)"

definition abs_server :: "run_st \<Rightarrow> server" where
  "abs_server s = \<lparr> s_driver = rs_driver s, s_phase = abs_phase s \<rparr>"

fun abs_event :: "run_event \<Rightarrow> event option" where
  "abs_event (RProbed b) = Some (Probed b)"
| "abs_event RCancel = Some Cancel"
| "abs_event RClearReady = Some ClearReady"
| "abs_event RGracefulStop = Some GracefulStop"
| "abs_event _ = None"

lemma note_err_simps [simp]:
  "rs_driver (note_err e s) = rs_driver s" "rs_ctxDone (note_err e s) = rs_ctxDone s"
  "rs_stopper (note_err e s) = rs_stopper s" "rs_grpc (note_err e s) = rs_grpc s"
  "rs_shutdown (note_err e s) = rs_shutdown s" "rs_http (note_err e s) = rs_http s"
  "rs_returned (note_err e s) = rs_returned s" "rs_serving (note_err e s) = rs_serving s"
  "rs_firstErr (note_err e s) = (if rs_firstErr s = None then e else rs_firstErr s)"
  by (simp_all add: note_err_def)

text \<open>The stopper acts only after the context has ended.\<close>

definition run_inv :: "run_st \<Rightarrow> bool" where
  "run_inv s \<longleftrightarrow> (rs_stopper s \<noteq> Waiting \<longrightarrow> rs_ctxDone s)"

lemma run_step_inv: "run_step s e s' \<Longrightarrow> run_inv s \<Longrightarrow> run_inv s'"
  by (auto simp: run_inv_def elim!: run_step_cases)

lemma run_step_abs:
  assumes "run_step s e s'" and "run_inv s"
  shows "case abs_event e of None \<Rightarrow> abs_server s' = abs_server s
    | Some a \<Rightarrow> serve_step (abs_server s) a (abs_server s')"
  using assms(1)
proof cases
  case (probed b)
  then show ?thesis
    using serve_step.probe [of "abs_server s" b]
    by (auto simp: abs_server_def abs_phase_def split: stopper.splits)
next
  case ctx_ends
  moreover have "rs_stopper s = Waiting" using assms(2) ctx_ends by (auto simp: run_inv_def)
  ultimately show ?thesis
    using serve_step.cancel [of "abs_server s"] by (simp add: abs_server_def abs_phase_def)
next
  case clear_ready
  then show ?thesis
    using serve_step.clear [of "abs_server s"] by (simp add: abs_server_def abs_phase_def)
next
  case graceful_stop
  then show ?thesis
    using serve_step.stop [of "abs_server s"] by (simp add: abs_server_def abs_phase_def)
qed (simp_all add: abs_server_def abs_phase_def)

interpretation server: simulation run_step serve_step abs_server abs_event run_inv
proof
  fix s e s'
  assume inv: "run_inv s" and step: "run_step s e s'"
  show "run_inv s'" using step inv by (rule run_step_inv)
  show "abs_server s' = abs_server s" if "abs_event e = None"
    using run_step_abs [OF step inv] that by simp
  show "serve_step (abs_server s) f (abs_server s')" if "abs_event e = Some f" for f
    using run_step_abs [OF step inv] that by simp
qed

lemma run_inv_started: "run_inv (run_started has_http d)"
  by (simp add: run_inv_def run_started_def)

lemma abs_server_started: "abs_server (run_started has_http d) = started d"
  by (simp add: run_started_def abs_server_def abs_phase_def started_def)

lemma abs_event_ClearReady [simp]: "abs_event e = Some ClearReady \<longleftrightarrow> e = RClearReady"
  by (cases e) simp_all

lemma clear_ready_event [simp]:
  "ClearReady \<in> set (List.map_filter abs_event es) \<longleftrightarrow> RClearReady \<in> set es"
  by (auto simp: map_filter_def image_iff)

text \<open>Every run of the goroutines of a started server, in any interleaving, refines the readiness
  relation: its probes, the end of the context, the clearing of the flag and the graceful stop
  form a run of \<open>serve_step\<close> from the started server; the other steps (the debug server, the
  group's bookkeeping, the ends of the goroutines) leave the driver and its phase alone.\<close>

theorem run_refines_readiness:
  assumes "run_trace (run_started has_http d) es s"
  shows "serve_run (started d) (List.map_filter abs_event es) (abs_server s)"
  using server.trace_abs [OF assms run_inv_started] by (simp add: abs_server_started)

section \<open>When Run returns\<close>

text \<open>The errors of a run, in the order in which the goroutines returned them.\<close>

fun event_error :: "run_event \<Rightarrow> err" where
  "event_error RServeLate = Some ErrServerStopped"
| "event_error (RAcceptFails e) = Some e"
| "event_error (RHttpFails e) = Some e"
| "event_error (RShutdown e) = e"
| "event_error _ = None"

definition run_errors :: "run_event list \<Rightarrow> go_error list" where
  "run_errors es = List.map_filter event_error es"

definition first_error :: "run_event list \<Rightarrow> err" where
  "first_error es = (case run_errors es of [] \<Rightarrow> None | e # _ \<Rightarrow> Some e)"

lemma run_errors_snoc:
  "run_errors (es @ [e]) = run_errors es @ (case event_error e of None \<Rightarrow> [] | Some x \<Rightarrow> [x])"
  by (simp add: run_errors_def map_filter_def split: option.splits)

lemma first_error_snoc:
  "first_error (es @ [e]) = (if first_error es = None then event_error e else first_error es)"
  by (simp add: first_error_def run_errors_snoc split: list.splits option.splits)

text \<open>How the state follows from the events so far.\<close>

definition returns_inv :: "bool \<Rightarrow> run_event list \<Rightarrow> run_st \<Rightarrow> bool" where
  "returns_inv has_http es s \<longleftrightarrow>
     rs_firstErr s = first_error es \<and> (rs_ctxDone s \<longleftrightarrow> RCancel \<in> set es) \<and>
     (rs_stopper s \<noteq> Waiting \<longrightarrow> RCancel \<in> set es \<and> RClearReady \<in> set es \<and>
        subseq [RCancel, RClearReady] es \<and> \<not> d_ready (rs_driver s)) \<and>
     (rs_stopper s = Stopped_gracefully \<longrightarrow> subseq [RCancel, RClearReady, RGracefulStop] es) \<and>
     (RClearReady \<in> set es \<longrightarrow> rs_stopper s \<noteq> Waiting) \<and>
     (has_http \<and> rs_shutdown s \<noteq> None \<longrightarrow> rs_ctxDone s) \<and>
     (rs_returned s \<noteq> None \<longrightarrow> rs_shutdown s \<noteq> None) \<and>
     (rs_grpc s \<noteq> None \<longrightarrow> rs_stopper s = Stopped_gracefully \<or> (\<exists>x. RAcceptFails x \<in> set es))"

lemma subseq_more: "subseq xs es \<Longrightarrow> subseq xs (es @ [e])"
  by (metis append_Nil2 list_emb_Nil list_emb_append_mono)

lemma subseq_snoc: "subseq xs es \<Longrightarrow> subseq (xs @ [e]) (es @ [e])"
  by simp

lemmas subseq_next = subseq_snoc [of "[RCancel]", simplified append_Cons append_Nil subseq_singleton_left]
  subseq_snoc [of "[RCancel, RClearReady]", simplified append_Cons append_Nil]

lemma subseq_subset: "subseq xs ys \<Longrightarrow> set xs \<subseteq> set ys"
  by (auto elim: list_emb_set)

lemma returns_inv_started: "returns_inv has_http [] (run_started has_http d)"
  by (simp add: returns_inv_def run_started_def first_error_def run_errors_def map_filter_simps)

lemma returns_inv_step:
  assumes "run_step s e s'" and "returns_inv has_http es s"
  shows "returns_inv has_http (es @ [e]) s'"
  using assms by cases (auto simp: returns_inv_def first_error_snoc subseq_more subseq_next)


text \<open>What holds when the events \<open>es\<close> led to a return of \<open>r\<close>.\<close>

definition returned_after :: "bool \<Rightarrow> run_event list \<Rightarrow> err \<Rightarrow> bool" where
  "returned_after has_http es r \<longleftrightarrow>
     r = first_error es \<and> (has_http \<longrightarrow> RCancel \<in> set es) \<and>
     (subseq [RCancel, RClearReady, RGracefulStop] es \<or> (\<exists>x. RAcceptFails x \<in> set es))"

lemma returns_inv_return:
  "returns_inv has_http es s \<Longrightarrow> run_step s RReturn s' \<Longrightarrow> returned_after has_http es (rs_firstErr s)"
  by (auto simp: returns_inv_def returned_after_def elim!: run_step_cases)

lemma run_step_returned:
  "run_step s e s' \<Longrightarrow>
   rs_returned s' = (if e = RReturn then Some (rs_firstErr s) else rs_returned s)"
  by (auto elim!: run_step_cases)

definition return_inv :: "bool \<Rightarrow> run_event list \<Rightarrow> run_st \<Rightarrow> bool" where
  "return_inv has_http es s \<longleftrightarrow>
     returns_inv has_http es s \<and>
     (\<forall>r. rs_returned s = Some r \<longrightarrow>
        (\<exists>before after. es = before @ RReturn # after \<and> returned_after has_http before r))"

lemma return_inv_step:
  assumes "return_inv has_http es s" and "run_step s e s'"
  shows "return_inv has_http (es @ [e]) s'"
proof -
  note inv = assms(1) [unfolded return_inv_def]
  have "\<exists>before after. es @ [e] = before @ RReturn # after \<and> returned_after has_http before r"
    if "rs_returned s' = Some r" for r
  proof (cases "e = RReturn")
    case True
    with inv assms(2) that show ?thesis
      using returns_inv_return run_step_returned by (metis option.inject)
  next
    case False
    with inv that run_step_returned [OF assms(2)] show ?thesis by fastforce
  qed
  with inv returns_inv_step [OF assms(2)] show ?thesis by (simp add: return_inv_def)
qed

lemma return_inv_trace:
  assumes "run_trace (run_started has_http d) es s"
  shows "return_inv has_http es s"
  using assms
proof (rule trace_invariant)
  show "return_inv has_http [] (run_started has_http d)"
    using returns_inv_started by (simp add: return_inv_def run_started_def)
qed (rule return_inv_step)

text \<open>C23: When \<open>Run\<close> returns, it returns the first error that one of its goroutines returned before (nil
  when none did), and by then either the context has ended, the ready flag has been cleared and
  the gRPC server stopped gracefully, or the gRPC listener has failed. With a debug server it
  returns only after the end of the context: a failing gRPC listener or debug server alone does
  not end it.\<close>

theorem run_returns:
  assumes "run_trace (run_started has_http d) es s" and "rs_returned s = Some r"
  shows "\<exists>before after. es = before @ RReturn # after \<and> r = first_error before \<and>
    (has_http \<longrightarrow> RCancel \<in> set before) \<and>
    ({RCancel, RClearReady, RGracefulStop} \<subseteq> set before \<or> (\<exists>x. RAcceptFails x \<in> set before))"
proof -
  obtain before after where *: "es = before @ RReturn # after" "returned_after has_http before r"
    using return_inv_trace [OF assms(1)] assms(2) by (auto simp: return_inv_def)
  have "{RCancel, RClearReady, RGracefulStop} \<subseteq> set before"
    if "subseq [RCancel, RClearReady, RGracefulStop] before"
    using subseq_subset [OF that] by simp
  with * show ?thesis unfolding returned_after_def by blast
qed

section \<open>Run returns\<close>

text \<open>The actions that are left to the goroutines.\<close>

definition actions_left :: "run_st \<Rightarrow> nat" where
  "actions_left s =
     of_bool (\<not> rs_ctxDone s) + (case rs_stopper s of Waiting \<Rightarrow> 2 | Cleared \<Rightarrow> 1 | Stopped_gracefully \<Rightarrow> 0) +
     of_bool (\<not> rs_serving s) + of_bool (rs_grpc s = None) + of_bool (rs_shutdown s = None) +
     of_bool (rs_http s = None) + of_bool (rs_returned s = None)"


lemma actions_left_note_err [simp]: "actions_left (note_err e s) = actions_left s"
  by (simp add: actions_left_def)




section \<open>Two runs\<close>

lemmas run_start = trace_start [where step = run_step]

lemma sample_driver_ready: "d_ready sample_driver"
  by (simp add: sample_driver_def)

text \<open>An orderly end: the context ends, the flag is cleared, the server stops and \<open>Run\<close> returns nil.\<close>

lemma orderly_run:
  assumes [simp]: "d_ready d"
  shows "\<exists>s. run_trace (run_started False d)
          [RServe, RProbed True, RCancel, RClearReady, RProbed False, RGracefulStop, RServeEnds, RReturn] s \<and>
        rs_returned s = Some None"
  unfolding run_started_def
  apply (rule run_start [OF run_step.serve], simp, simp, simp)
  apply (rule run_start [OF run_step.probed], simp, simp, simp, simp add: Probe_def)
  apply (rule run_start [OF run_step.ctx_ends], simp)
  apply (rule run_start [OF run_step.clear_ready], simp, simp)
  apply (rule run_start [OF run_step.probed], simp, simp, simp, simp add: Probe_def)
  apply (rule run_start [OF run_step.graceful_stop], simp)
  apply (rule run_start [OF run_step.serve_ends], simp, simp, simp)
  apply (rule run_start [OF run_step.returns], simp, simp, simp, simp)
  by auto

text \<open>The listener fails; the debug server keeps \<open>Run\<close> from returning until the context ends.\<close>

lemma held_run:
  "\<exists>s. run_trace (run_started True sample_driver)
          [RServe, RAcceptFails (ErrorString [Lit ''accept'']), RCancel, RShutdown None, RHttpClosed, RReturn] s \<and>
        rs_returned s = Some (Some (ErrorString [Lit ''accept'']))"
  unfolding run_started_def sample_driver_def
  apply (rule run_start [OF run_step.serve], simp, simp, simp)
  apply (rule run_start [OF run_step.accept_fails], simp, simp, simp)
  apply (rule run_start [OF run_step.ctx_ends], simp)
  apply (rule run_start [OF run_step.shutdown], simp, simp)
  apply (rule run_start [OF run_step.http_closed], simp, simp)
  apply (rule run_start [OF run_step.returns], simp, simp, simp, simp)
  by auto

theorem run_refines_readiness_witness:
  "\<exists>s. serve_run (started sample_driver)
     [Probed True, Cancel, ClearReady, Probed False, GracefulStop] (abs_server s)"
proof -
  from orderly_run [OF sample_driver_ready] obtain s where "run_trace (run_started False sample_driver)
      [RServe, RProbed True, RCancel, RClearReady, RProbed False, RGracefulStop, RServeEnds, RReturn] s"
    by blast
  from run_refines_readiness [OF this] show ?thesis by (auto simp: map_filter_simps)
qed

theorem run_returns_witness:
  "\<exists>s before after. run_trace (run_started True sample_driver)
      [RServe, RAcceptFails (ErrorString [Lit ''accept'']), RCancel, RShutdown None, RHttpClosed, RReturn] s \<and>
    rs_returned s = Some (first_error before) \<and> RCancel \<in> set before"
  using held_run run_returns [where has_http = True and d = sample_driver] by (metis (full_types))


end
