(* ===== verification/Plugin.thy ===== *)
theory Plugin
  imports Service ServerRun
begin

text \<open>
  The \<open>plugin\<close> command (\<open>cmd/thalassa-csi-plugin/cmd/plugin.go\<close>) as a whole: its flags with their
  defaults, the dispatch on the mode, and what the two modes run. \<open>Run\<close> and \<open>RunNode\<close> here give
  the server that has started, with the services it registered and whether it has a debug
  server; what its goroutines do from there on is \<open>run_step\<close> of ServerRun, whose \<open>RCancel\<close> is the
  signal the command waits for.
\<close>

section \<open>The flags\<close>

text \<open>The declared defaults; \<open>viper\<close> gives them when neither flag, environment nor file say else.\<close>

definition default_strings :: "(string \<times> string) list" where
  "default_strings =
     [(''mode'', ''node''),
      (''csi-endpoint'', ''unix:///var/lib/kubelet/plugins/'' @ DefaultDriverName @ ''/csi.sock''),
      (''driver-name'', DefaultDriverName), (''debug-addr'', []), (''node-id'', []),
      (''custom-labels'', []), (''custom-annotations'', []), (''thalassa-token'', []),
      (''thalassa-client-id'', []), (''thalassa-client-secret'', []),
      (''thalassa-url'', ''https://api.thalassa.cloud/''), (''thalassa-region'', []),
      (''thalassa-project'', []), (''organisation'', []), (''kube-config'', []), (''cluster'', []), (''vpc'', [])]"

definition default_flags :: flags where
  "default_flags =
     \<lparr> f_String = lookup_str (map_of default_strings),
       f_Bool = (\<lambda>_. False), f_Uint = (\<lambda>k. if k = ''volume-limit'' then 20 else 0) \<rparr>"

section \<open>The two modes\<close>

record running =
  rn_driver :: driver
  rn_services :: "service list"
  rn_http :: bool

definition started_as :: "service list \<Rightarrow> bool \<Rightarrow> go_error + driver \<Rightarrow> go_error + running" where
  "started_as services has_http r =
     (case r of
        Inl e \<Rightarrow> Inl e
      | Inr d \<Rightarrow> Inr \<lparr> rn_driver = d, rn_services = services, rn_http = has_http \<rparr>)"

text \<open>Only \<open>Run\<close> makes the debug server, when there is an address for it.\<close>

definition Run :: "'w server_env \<Rightarrow> driver \<Rightarrow> ('w, go_error + running) state" where
  "Run senv d = do {
     r \<leftarrow> start_server senv d;
     ret (started_as registered_Run (d_debugAddr d \<noteq> []) r)
   }"

definition RunNode :: "'w server_env \<Rightarrow> driver \<Rightarrow> ('w, go_error + running) state" where
  "RunNode senv d = do {
     r \<leftarrow> start_server senv d;
     ret (started_as registered_RunNode False r)
   }"

text \<open>The command up to the running server, and its error for the error \<open>Run\<close> ends with.\<close>

definition run_failed :: "go_error \<Rightarrow> go_error" where
  "run_failed e = Wrap [Lit ''failed to run driver: ''] e"

definition pluginCmd ::
    "(client_option list \<Rightarrow> err) \<Rightarrow> err \<Rightarrow> string \<Rightarrow> 'w server_env \<Rightarrow> flags \<Rightarrow>
     ('w, go_error + running) state" where
  "pluginCmd newClient iaasNew version senv v =
     (case plugin_driver newClient iaasNew version v of
        Inl e \<Rightarrow> ret (Inl e)
      | Inr d \<Rightarrow> do {
          r \<leftarrow> (if f_String v ''mode'' = ''controller'' then Run senv d else RunNode senv d);
          ret (map_sum run_failed id r)
        })"

definition plugin_result :: "err \<Rightarrow> err" where
  "plugin_result r = map_option run_failed r"

section \<open>What the command serves\<close>

lemma started_as_Inr:
  "started_as services has_http r = Inr rn \<longleftrightarrow>
     (\<exists>d. r = Inr d \<and> rn = \<lparr> rn_driver = d, rn_services = services, rn_http = has_http \<rparr>)"
  by (auto simp: started_as_def split: sum.splits)

lemma map_sum_Inr [simp]: "map_sum f id x = Inr r \<longleftrightarrow> x = Inr r"
  by (cases x) simp_all

lemma plugin_driver_mode:
  "plugin_driver newClient iaasNew version v = Inr d \<Longrightarrow>
   d_debugAddr d = f_String v ''debug-addr'' \<and> f_String v ''mode'' \<in> {''controller'', ''node''}"
  by (auto simp: plugin_driver_def Let_def NewDriver_def NewNodeDriver_def controller_params_def
      node_params_def split: if_splits option.splits sum.splits)

lemma pluginCmd_Inr:
  assumes "result_of (pluginCmd newClient iaasNew version senv v) w = Inr r"
  shows "d_ready (rn_driver r) \<and>
    (f_String v ''mode'' = ''controller'' \<and> rn_services r = registered_Run \<and>
       rn_http r = (f_String v ''debug-addr'' \<noteq> []) \<or>
     f_String v ''mode'' = ''node'' \<and> rn_services r = registered_RunNode \<and> \<not> rn_http r)"
proof -
  from assms obtain d where d: "plugin_driver newClient iaasNew version v = Inr d"
    and r: "result_of (if f_String v ''mode'' = ''controller'' then Run senv d else RunNode senv d) w = Inr r"
    by (cases "plugin_driver newClient iaasNew version v") (auto simp: pluginCmd_def case_prod_beta)
  from plugin_driver_mode [OF d] r show ?thesis
    by (auto simp: Run_def RunNode_def case_prod_beta started_as_Inr start_server_ready)
qed

text \<open>C31: When the \<open>plugin\<close> command starts a server, the driver is ready and answers probes, and every
  call of the identity service reaches its handler; in controller mode so does every call of the
  controller service, in node mode every call of the node service, and a call for the other mode
  is refused as unimplemented and touches nothing. The debug server exists only in controller
  mode: in node mode the \<open>debug-addr\<close> flag has no effect.\<close>

theorem plugin_serves:
  assumes "result_of (pluginCmd newClient iaasNew version senv v) w = Inr r"
  shows "f_String v ''mode'' \<in> {''controller'', ''node''} \<and>
    (\<forall>w'. run_state (serve (rn_services r) version env m os (rn_driver r) (IdentityCall ProbeCall)) w' =
      (Some OK, w')) \<and>
    Probe (rn_driver r) = Ok True \<and>
    (\<forall>c. serve (rn_services r) version env m os (rn_driver r) (IdentityCall c) =
      identity_handle version (rn_driver r) c) \<and>
    (if f_String v ''mode'' = ''controller''
     then \<forall>c. serve (rn_services r) version env m os (rn_driver r) (ControllerCall c) =
       controller_handle env (rn_driver r) c
     else \<forall>c. serve (rn_services r) version env m os (rn_driver r) (NodeCall c) =
       node_handle m os (rn_driver r) c) \<and>
    (\<forall>call w'. service_of call = (if f_String v ''mode'' = ''controller'' then NodeService else ControllerService) \<longrightarrow>
      run_state (serve (rn_services r) version env m os (rn_driver r) call) w' = (Some Unimplemented, w')) \<and>
    (rn_http r \<longleftrightarrow> f_String v ''mode'' = ''controller'' \<and> f_String v ''debug-addr'' \<noteq> '''')"
  using pluginCmd_Inr [OF assms]
  by (auto simp: serve_def registered_Run_def registered_RunNode_def identity_handle_def Probe_def)

section \<open>A listener that fails\<close>



section \<open>The command with its default flags, and samples\<close>

lemma default_plugin_driver:
  "\<exists>d. plugin_driver newClient iaasNew version default_flags = Inr d \<and> d_name d = ''csi.k8s.thalassa.cloud'' \<and>
     d_endpoint d = ''unix:///var/lib/kubelet/plugins/csi.k8s.thalassa.cloud/csi.sock'' \<and>
     d_volumeLimit d = 20 \<and> \<not> d_validateAttachment d"
  by (simp add: plugin_driver_def Let_def NewNodeDriver_def node_params_def driver_name_def
      default_flags_def default_strings_def DefaultDriverName_def lookup_str_def)

definition sample_server :: "unit server_env" where
  "sample_server =
     \<lparr> srv_ParseURL = (\<lambda>_. Inr (''unix'', [], ''/csi.sock'')), srv_Remove = (\<lambda>_. ret None),
       srv_IsNotExist = (\<lambda>_. False), srv_Listen = (\<lambda>_ _. ret None) \<rparr>"

definition debug_flags :: flags where
  "debug_flags =
     \<lparr> f_String = (\<lambda>k. if k = ''mode'' then ''controller'' else if k = ''debug-addr'' then '':9808'' else []),
       f_Bool = (\<lambda>_. False), f_Uint = (\<lambda>_. 20) \<rparr>"

lemma sample_command:
  "\<exists>r. result_of (pluginCmd (\<lambda>_. None) None ''v1'' sample_server debug_flags) () = Inr r"
  by (simp add: pluginCmd_def plugin_driver_def Let_def NewDriver_def debug_flags_def Run_def
      start_server_def sample_server_def started_as_def)

theorem plugin_serves_witness:
  "\<exists>r. result_of (pluginCmd (\<lambda>_. None) None ''v1'' sample_server debug_flags) () = Inr r \<and>
     Probe (rn_driver r) = Ok True \<and> rn_http r"
proof -
  from sample_command obtain r
    where r: "result_of (pluginCmd (\<lambda>_. None) None ''v1'' sample_server debug_flags) () = Inr r" ..
  with plugin_serves [OF r] show ?thesis by (auto simp: debug_flags_def)
qed



end
