(* ===== verification/Process.thy ===== *)
theory Process
  imports Plugin
begin

text \<open>
  The process (\<open>main.go\<close>, \<open>cmd/root.go\<close>) from its configuration to its exit status: \<open>initConfig\<close>,
  which cobra runs before any command, the \<open>plugin\<close> command of theory Plugin up to its running
  server, the goroutines of that server until \<open>Run\<close> returns, and \<open>Execute\<close>, which turns the error
  of the command into the status. What viper and the operating system answer are parameters.
\<close>

section \<open>The configuration\<close>

text \<open>The calls of \<open>initConfig\<close>, and the settings that \<open>viper.Get*\<close> reads afterwards.\<close>

record 'w config_env =
  cfg_UserHomeDir :: "('w, string \<times> err) state"
  cfg_SetConfigFile :: "string \<Rightarrow> ('w, unit) state"
  cfg_AddConfigPath :: "string \<Rightarrow> ('w, unit) state"
  cfg_SetConfigType :: "string \<Rightarrow> ('w, unit) state"
  cfg_SetConfigName :: "string \<Rightarrow> ('w, unit) state"
  cfg_AutomaticEnv :: "('w, unit) state"
  cfg_ReadInConfig :: "('w, err) state"
  cfg_Get :: "('w, flags) state"

text \<open>\<open>Some n\<close> is \<open>os.Exit(n)\<close>. The error of \<open>ReadInConfig\<close> is dropped; without one a line is
  printed, which is left out.\<close>

definition initConfig :: "'w config_env \<Rightarrow> string \<Rightarrow> ('w, int option) state" where
  "initConfig cfg cfgFile = do {
     exit \<leftarrow> (if cfgFile \<noteq> '''' then do {
               _ \<leftarrow> cfg_SetConfigFile cfg cfgFile;
               ret None
             }
             else do {
               (home, err) \<leftarrow> cfg_UserHomeDir cfg;
               (if err \<noteq> None then ret (Some 1)
                else do {
                  _ \<leftarrow> cfg_AddConfigPath cfg home;
                  _ \<leftarrow> cfg_SetConfigType cfg ''yaml'';
                  _ \<leftarrow> cfg_SetConfigName cfg ''.thalassa-csi-plugin'';
                  ret None
                })
             });
     (case exit of
        Some n \<Rightarrow> ret (Some n)
      | None \<Rightarrow> do {
          _ \<leftarrow> cfg_AutomaticEnv cfg;
          _ \<leftarrow> cfg_ReadInConfig cfg;
          ret None
        })
   }"

section \<open>The process\<close>

text \<open>What a call of \<open>Run\<close> or \<open>RunNode\<close> returns: the error of its start, or, after the given events of
  its goroutines, what they make \<open>eg.Wait\<close> return.\<close>

inductive server_returns :: "(go_error + running) \<Rightarrow> run_event list \<Rightarrow> err \<Rightarrow> bool" where
  not_started: "server_returns (Inl e) [] (Some e)"
| returned: "run_trace (run_started (rn_http rn) (rn_driver rn)) es s \<Longrightarrow> rs_returned s = Some r \<Longrightarrow>
    server_returns (Inr rn) es r"

definition Run_returns :: "'w server_env \<Rightarrow> driver \<Rightarrow> 'w \<Rightarrow> run_event list \<Rightarrow> err \<Rightarrow> bool" where
  "Run_returns senv d w = server_returns (result_of (Run senv d) w)"

definition RunNode_returns :: "'w server_env \<Rightarrow> driver \<Rightarrow> 'w \<Rightarrow> run_event list \<Rightarrow> err \<Rightarrow> bool" where
  "RunNode_returns senv d w = server_returns (result_of (RunNode senv d) w)"

text \<open>What the \<open>plugin\<close> command returns.\<close>

definition plugin_returns ::
    "(client_option list \<Rightarrow> err) \<Rightarrow> err \<Rightarrow> string \<Rightarrow> 'w server_env \<Rightarrow> flags \<Rightarrow> 'w \<Rightarrow> run_event list \<Rightarrow> err \<Rightarrow> bool" where
  "plugin_returns newClient iaasNew version senv v w es r \<longleftrightarrow>
     (case plugin_driver newClient iaasNew version v of
        Inl e \<Rightarrow> es = [] \<and> r = Some e
      | Inr d \<Rightarrow>
          \<exists>err. (if f_String v ''mode'' = ''controller'' then Run_returns senv d w es err
                 else RunNode_returns senv d w es err) \<and>
            r = plugin_result err)"

text \<open>The status for the error that \<open>rootCmd.Execute\<close> returns, the one of the command.\<close>

definition Execute :: "err \<Rightarrow> int" where
  "Execute err = (case err of Some _ \<Rightarrow> 1 | None \<Rightarrow> 0)"

datatype command = PluginCommand | VersionCommand

text \<open>The process ends with the status \<open>n\<close>, after the given events of its running server. \<open>version\<close>
  prints its line and returns no error.\<close>

definition process_ends ::
    "'w config_env \<Rightarrow> (client_option list \<Rightarrow> err) \<Rightarrow> err \<Rightarrow> string \<Rightarrow> 'w server_env \<Rightarrow> command \<Rightarrow> string \<Rightarrow>
     'w \<Rightarrow> run_event list \<Rightarrow> int \<Rightarrow> bool" where
  "process_ends cfg newClient iaasNew version senv cmd cfgFile w es n \<longleftrightarrow>
     (case run_state (initConfig cfg cfgFile) w of
        (Some m, _) \<Rightarrow> es = [] \<and> n = m
      | (None, w1) \<Rightarrow>
          (case cmd of
             VersionCommand \<Rightarrow> es = [] \<and> n = Execute None
           | PluginCommand \<Rightarrow>
               (case run_state (cfg_Get cfg) w1 of
                  (v, w2) \<Rightarrow>
                    \<exists>r. plugin_returns newClient iaasNew version senv v w2 es r \<and> n = Execute r)))"

section \<open>The exit status\<close>

lemma initConfig_result:
  "result_of (initConfig cfg cfgFile) w =
     (if cfgFile = '''' \<and> snd (result_of (cfg_UserHomeDir cfg) w) \<noteq> None then Some 1 else None)"
  by (simp add: initConfig_def case_prod_beta)

lemma Execute_simps [simp]: "Execute None = 0" "Execute (Some e) = 1"
  by (simp_all add: Execute_def)

lemma Execute_plugin [simp]: "Execute (plugin_result r) = (if r = None then 0 else 1)"
  by (cases r) (simp_all add: plugin_result_def)

lemma first_error_None [simp]: "first_error es = None \<longleftrightarrow> run_errors es = []"
  by (simp add: first_error_def split: list.splits)

lemma failing_accept: "RAcceptFails x \<in> set es \<Longrightarrow> run_errors es \<noteq> []"
  by (induction es) (auto simp: run_errors_def map_filter_simps split: option.splits)

text \<open>A server that returned: nothing failed and it was stopped in order, or something failed.\<close>

definition ended_after :: "run_event list \<Rightarrow> bool \<Rightarrow> bool" where
  "ended_after es ok \<longleftrightarrow>
     (\<exists>before after. es = before @ RReturn # after \<and> (ok \<longleftrightarrow> run_errors before = []) \<and>
        (ok \<longrightarrow> subseq [RCancel, RClearReady, RGracefulStop] before))"

lemma server_returns_ended:
  assumes "server_returns begun es r"
  shows "(es = [] \<and> r \<noteq> None) \<or> ended_after es (r = None)"
  using assms
proof (cases rule: server_returns.cases)
  case (returned rn s)
  from return_inv_trace [OF returned(2)] returned(3) obtain before after where
    "es = before @ RReturn # after" "returned_after (rn_http rn) before r" by (auto simp: return_inv_def)
  then show ?thesis using failing_accept by (fastforce simp: ended_after_def returned_after_def)
qed simp

lemma plugin_returns_ended:
  assumes "plugin_returns newClient iaasNew version senv v w es r"
  shows "(es = [] \<and> Execute r = 1) \<or> ended_after es (Execute r = 0)"
  using assms
  by (auto simp: plugin_returns_def Run_returns_def RunNode_returns_def dest!: server_returns_ended
      split: sum.splits if_splits)

lemma subseq_split3: "subseq [x, y, z] es \<Longrightarrow> \<exists>a b c d. es = a @ x # b @ y # c @ z # d"
  by (fastforce dest!: list_emb_ConsD)

lemma ended_in_order:
  assumes "ended_after es ok"
  shows "\<exists>before after. es = before @ RReturn # after \<and> (ok \<longleftrightarrow> run_errors before = []) \<and>
    (ok \<longrightarrow> (\<exists>a b c e. before = a @ RCancel # b @ RClearReady # c @ RGracefulStop # e))"
  using assms subseq_split3 unfolding ended_after_def by metis

text \<open>C29: The exit status of the process. Without the \<open>config\<close> flag and a home directory every command,
  also \<open>version\<close>, ends at once with 1; otherwise \<open>version\<close> ends with 0, whether or not a
  configuration file could be read. The \<open>plugin\<close> command ends with 1 when no server was started;
  when one was, with 0 exactly when no goroutine returned an error before \<open>Run\<close> returned, and then
  only after these events in this order: the context ended, the ready flag was cleared, the gRPC
  server was stopped gracefully, \<open>Run\<close> returned. So the \<open>plugin\<close> command never ends with 0 without
  the signal that ends its context.\<close>

theorem process_exit:
  assumes "process_ends cfg newClient iaasNew version senv cmd cfgFile w es n"
  shows "if cfgFile = '''' \<and> snd (result_of (cfg_UserHomeDir cfg) w) \<noteq> None then es = [] \<and> n = 1
    else case cmd of
      VersionCommand \<Rightarrow> es = [] \<and> n = 0
    | PluginCommand \<Rightarrow>
        (es = [] \<and> n = 1) \<or>
        (\<exists>before after. es = before @ RReturn # after \<and> n = (if run_errors before = [] then 0 else 1) \<and>
          (n = 0 \<longrightarrow> (\<exists>a b c e. before = a @ RCancel # b @ RClearReady # c @ RGracefulStop # e)))"
proof (cases "cfgFile = '''' \<and> snd (result_of (cfg_UserHomeDir cfg) w) \<noteq> None")
  case True
  then have "result_of (initConfig cfg cfgFile) w = Some 1" using initConfig_result [of cfg cfgFile w] by simp
  with assms True show ?thesis by (cases "run_state (initConfig cfg cfgFile) w") (simp add: process_ends_def)
next
  case False
  then have none: "result_of (initConfig cfg cfgFile) w = None" using initConfig_result [of cfg cfgFile w] by simp
  show ?thesis
  proof (cases cmd)
    case PluginCommand
    with assms none obtain v w2 r where r: "plugin_returns newClient iaasNew version senv v w2 es r" "n = Execute r"
      by (cases "run_state (initConfig cfg cfgFile) w") (auto simp: process_ends_def split: prod.splits)
    from plugin_returns_ended [OF r(1)] r(2) have "(es = [] \<and> n = 1) \<or> ended_after es (n = 0)" by simp
    moreover have n: "n = 0 \<or> n = 1" using r(2) by (cases r) simp_all
    moreover have "\<exists>before after. es = before @ RReturn # after \<and> n = (if run_errors before = [] then 0 else 1) \<and>
        (n = 0 \<longrightarrow> (\<exists>a b c e. before = a @ RCancel # b @ RClearReady # c @ RGracefulStop # e))"
      if "ended_after es (n = 0)"
    proof -
      from ended_in_order [OF that] obtain before after where
        *: "es = before @ RReturn # after" "n = 0 \<longleftrightarrow> run_errors before = []"
        "n = 0 \<longrightarrow> (\<exists>a b c e. before = a @ RCancel # b @ RClearReady # c @ RGracefulStop # e)" by blast
      from n *(2) have "n = (if run_errors before = [] then 0 else 1)" by auto
      with * show ?thesis by blast
    qed
    ultimately show ?thesis unfolding if_not_P [OF False] PluginCommand command.case by blast
  next
    case VersionCommand
    with assms none False show ?thesis
      by (cases "run_state (initConfig cfg cfgFile) w") (simp add: process_ends_def)
  qed
qed

section \<open>A node plugin that is stopped\<close>

definition sample_config :: "unit config_env" where
  "sample_config =
     \<lparr> cfg_UserHomeDir = ret (''/root'', None), cfg_SetConfigFile = (\<lambda>_. ret ()), cfg_AddConfigPath = (\<lambda>_. ret ()),
       cfg_SetConfigType = (\<lambda>_. ret ()), cfg_SetConfigName = (\<lambda>_. ret ()), cfg_AutomaticEnv = ret (),
       cfg_ReadInConfig = ret (Some (ErrorString [Lit ''not found''])), cfg_Get = ret default_flags \<rparr>"

theorem process_exit_witness:
  "\<exists>es. process_ends sample_config (\<lambda>_. None) None ''v1'' sample_server PluginCommand '''' () es 0 \<and> RCancel \<in> set es"
proof -
  obtain d where d: "plugin_driver (\<lambda>_. None) None ''v1'' default_flags = Inr d"
    using default_plugin_driver by blast
  from orderly_run [of "d\<lparr> d_ready := True \<rparr>"] obtain es s where
    run: "run_trace (run_started False (d\<lparr> d_ready := True \<rparr>)) es s" "rs_returned s = Some None"
    by fastforce
  let ?rn = "\<lparr> rn_driver = d\<lparr> d_ready := True \<rparr>, rn_services = registered_RunNode, rn_http = False \<rparr>"
  have "result_of (RunNode sample_server d) () = Inr ?rn"
    by (simp add: RunNode_def start_server_def sample_server_def started_as_def)
  with server_returns.returned [of ?rn es s None] run have "RunNode_returns sample_server d () es None"
    by (simp add: RunNode_returns_def)
  with d have "plugin_returns (\<lambda>_. None) None ''v1'' sample_server default_flags () es None"
    by (auto simp: plugin_returns_def default_flags_def default_strings_def lookup_str_def plugin_result_def)
  then have ends: "process_ends sample_config (\<lambda>_. None) None ''v1'' sample_server PluginCommand '''' () es 0"
    by (force simp: process_ends_def initConfig_def sample_config_def)
  from process_exit [OF this] have "RCancel \<in> set es" by (auto simp: sample_config_def)
  with ends show ?thesis by blast
qed

end
