(* ===== verification/Interleaving.thy ===== *)
theory Interleaving
  imports Traces Journal
begin

text \<open>
  Handlers that run concurrently, over any kind of external calls. The gRPC server answers every call
  in a goroutine of its own and the driver holds no lock over a handler, so the calls that the
  handlers make to the outside interleave freely. A handler is not written a second time for this:
  its runs are read off the same definition by scripting what it calls. \<open>follows m ks r\<close> says that
  \<open>m\<close>, when its calls are answered as the list \<open>ks\<close> records, makes exactly the calls of \<open>ks\<close> and ends
  with \<open>r\<close>. A history is a list of calls, each with the number of the handler that makes it; it is
  possible when the shared world gives the recorded answers in that order (the relation \<open>step\<close>) and
  every handler follows its own part.
\<close>

section \<open>Scripted runs\<close>

text \<open>One answer from the script. A call that the script does not expect gets a dummy answer and
  consumes nothing, so such a run never uses up the script and is no run of \<open>follows\<close>.\<close>

definition scripted :: "('c \<Rightarrow> 'r option) \<Rightarrow> 'r \<Rightarrow> ('c list, 'r) state" where
  "scripted answer dummy =
     State (\<lambda>ks. case ks of
       [] \<Rightarrow> (dummy, [])
     | k # ks' \<Rightarrow> (case answer k of Some r \<Rightarrow> (r, ks') | None \<Rightarrow> (dummy, ks)))"

lemma run_scripted [simp]:
  "run_state (scripted answer dummy) [] = (dummy, [])"
  "run_state (scripted answer dummy) (k # ks) =
     (case answer k of Some r \<Rightarrow> (r, ks) | None \<Rightarrow> (dummy, k # ks))"
  by (simp_all add: scripted_def)

type_synonym ('c, 'r) scripted_run = "('c list \<times> 'c list, 'r) state"

definition follows :: "('c, 'r) scripted_run \<Rightarrow> 'c list \<Rightarrow> 'r \<Rightarrow> bool" where
  "follows m ks r \<longleftrightarrow> run_state m (ks, []) = (r, ([], ks))"

text \<open>What holds of every run under any environment holds of every scripted one.\<close>

lemma wp_follows: "wp m Q [] \<Longrightarrow> follows m ks r \<Longrightarrow> Q r ks"
  unfolding wp_def follows_def by (drule spec [of _ ks]) simp

section \<open>Histories\<close>

type_synonym 'c tagged_calls = "(nat \<times> 'c) list"

abbreviation tagged :: "('w \<Rightarrow> 'c \<Rightarrow> 'w \<Rightarrow> bool) \<Rightarrow> 'w \<Rightarrow> nat \<times> 'c \<Rightarrow> 'w \<Rightarrow> bool" where
  "tagged step w e w' \<equiv> step w (snd e) w'"

definition calls_by :: "nat \<Rightarrow> 'c tagged_calls \<Rightarrow> 'c list" where
  "calls_by i hist = map snd (filter (\<lambda>e. fst e = i) hist)"

lemma calls_by_simps [simp]:
  "calls_by i [] = []"
  "calls_by i (e # hist) = (if fst e = i then snd e # calls_by i hist else calls_by i hist)"
  "calls_by i (hist @ hist') = calls_by i hist @ calls_by i hist'"
  by (simp_all add: calls_by_def)

lemma in_calls_by [simp]: "k \<in> set (calls_by i hist) \<longleftrightarrow> (i, k) \<in> set hist"
  by (force simp: calls_by_def)

text \<open>
  A possible history of the handlers \<open>ms\<close> on a shared environment: an answered handler
  (\<open>Some r\<close>) has run to its end, one that is still running (\<open>None\<close>) has made the first calls of
  some run.
\<close>

definition progress :: "('c, 'r) scripted_run \<Rightarrow> 'c list \<Rightarrow> 'r option \<Rightarrow> bool" where
  "progress m ks answer \<longleftrightarrow>
     (case answer of Some r \<Rightarrow> follows m ks r | None \<Rightarrow> \<exists>ks' r. follows m (ks @ ks') r)"

text \<open>Every handler follows its own part of a history.\<close>

definition obeyed :: "('c, 'r) scripted_run list \<Rightarrow> 'r option list \<Rightarrow> 'c tagged_calls \<Rightarrow> bool" where
  "obeyed ms answers hist \<longleftrightarrow>
     length answers = length ms \<and> (\<forall>e \<in> set hist. fst e < length ms) \<and>
     (\<forall>i < length ms. progress (ms ! i) (calls_by i hist) (answers ! i))"

definition interleaved ::
    "('w \<Rightarrow> 'c \<Rightarrow> 'w \<Rightarrow> bool) \<Rightarrow> ('c, 'r) scripted_run list \<Rightarrow> 'r option list \<Rightarrow> 'w \<Rightarrow> 'c tagged_calls \<Rightarrow> 'w \<Rightarrow> bool" where
  "interleaved step ms answers w hist w' \<longleftrightarrow>
     trace (tagged step) w hist w' \<and> obeyed ms answers hist"

lemma interleaved_trace: "interleaved step ms answers w hist w' \<Longrightarrow> trace (tagged step) w hist w'"
  by (simp add: interleaved_def obeyed_def)

text \<open>A postcondition of a handler holds of its part of a history; of a running one, of a
  continuation of its part.\<close>

lemma interleaved_wp:
  assumes "interleaved step ms answers w hist w'" and "i < length ms" and "wp (ms ! i) Q []"
  shows "case answers ! i of Some r \<Rightarrow> Q r (calls_by i hist) | None \<Rightarrow> \<exists>ks r. Q r (calls_by i hist @ ks)"
proof -
  from assms(1,2) have "progress (ms ! i) (calls_by i hist) (answers ! i)" by (simp add: interleaved_def obeyed_def)
  with wp_follows [OF assms(3)] show ?thesis
    unfolding progress_def by (cases "answers ! i") auto
qed

section \<open>A handler alone\<close>

text \<open>
  The histories of a handler that runs alone are exactly its runs. In one direction the script that
  replays the journal of a run drives the same calls to the same result (\<open>replayed\<close>). In the
  other a scripted run that uses up its script, with answers that the environment gives, is a run
  (\<open>performed\<close>): a scripted run makes at least as many calls as it consumes, and no more only when
  it makes the calls of the script. \<open>mirrors\<close> has one rule per way to build a program.
\<close>

named_theorems mirror_intros \<open>introduction rules of \<open>mirrors\<close>\<close>

definition replayed :: "('w \<Rightarrow> 'c \<Rightarrow> 'w \<Rightarrow> bool) \<Rightarrow> ('w \<times> 'c list, 'r) state \<Rightarrow> ('c, 'r) scripted_run \<Rightarrow> bool" where
  "replayed step m s \<longleftrightarrow>
     (\<forall>w js. \<exists>r w' ks. run_state m (w, js) = (r, (w', js @ ks)) \<and> trace step w ks w' \<and>
        (\<forall>rest. run_state s (ks @ rest, js) = (r, (rest, js @ ks))))"

definition performed :: "('w \<Rightarrow> 'c \<Rightarrow> 'w \<Rightarrow> bool) \<Rightarrow> ('w \<times> 'c list, 'r) state \<Rightarrow> ('c, 'r) scripted_run \<Rightarrow> bool" where
  "performed step m s \<longleftrightarrow>
     (\<forall>ks js. \<exists>r rest used made. run_state s (ks, js) = (r, (rest, js @ made)) \<and> ks = used @ rest \<and>
        length used \<le> length made \<and>
        (\<forall>w w'. used = made \<longrightarrow> trace step w used w' \<longrightarrow> run_state m (w, js) = (r, (w', js @ made))))"

definition mirrors :: "('w \<Rightarrow> 'c \<Rightarrow> 'w \<Rightarrow> bool) \<Rightarrow> ('w \<times> 'c list, 'r) state \<Rightarrow> ('c, 'r) scripted_run \<Rightarrow> bool" where
  "mirrors step m s \<longleftrightarrow> replayed step m s \<and> performed step m s"

lemma mirrors_ret [mirror_intros]: "mirrors step (ret x) (ret x)"
  unfolding mirrors_def replayed_def performed_def by auto

lemma replayed_bind:
  assumes "replayed step m s" and "\<And>r. replayed step (f r) (g r)"
  shows "replayed step (State_Monad.bind m f) (State_Monad.bind s g)"
  unfolding replayed_def
proof (intro allI)
  fix w js
  from assms(1) obtain r w' ks where m: "run_state m (w, js) = (r, (w', js @ ks))"
    "trace step w ks w'" "\<And>rest. run_state s (ks @ rest, js) = (r, (rest, js @ ks))"
    unfolding replayed_def by metis
  from assms(2) obtain r' w'' ks' where f: "run_state (f r) (w', js @ ks) = (r', (w'', (js @ ks) @ ks'))"
    "trace step w' ks' w''"
    "\<And>rest. run_state (g r) (ks' @ rest, js @ ks) = (r', (rest, (js @ ks) @ ks'))"
    unfolding replayed_def by metis
  show "\<exists>r w' ksa. run_state (State_Monad.bind m f) (w, js) = (r, (w', js @ ksa)) \<and>
      trace step w ksa w' \<and>
      (\<forall>rest. run_state (State_Monad.bind s g) (ksa @ rest, js) = (r, (rest, js @ ksa)))"
    using m f trace_append [OF m(2) f(2)] by (intro exI [of _ r'] exI [of _ w''] exI [of _ "ks @ ks'"]) simp
qed

lemma performed_bind:
  assumes "performed step m s" and "\<And>r. performed step (f r) (g r)"
  shows "performed step (State_Monad.bind m f) (State_Monad.bind s g)"
  unfolding performed_def
proof (intro allI)
  fix ks js
  from assms(1) obtain r rest used made where s: "run_state s (ks, js) = (r, (rest, js @ made))"
    "ks = used @ rest" "length used \<le> length made"
    and m: "\<And>w w'. used = made \<Longrightarrow> trace step w used w' \<Longrightarrow> run_state m (w, js) = (r, (w', js @ made))"
    unfolding performed_def by metis
  from assms(2) obtain r' rest' used' made' where g: "run_state (g r) (rest, js @ made) = (r', (rest', (js @ made) @ made'))"
    "rest = used' @ rest'" "length used' \<le> length made'"
    and f: "\<And>w w'. used' = made' \<Longrightarrow> trace step w used' w' \<Longrightarrow>
      run_state (f r) (w, js @ made) = (r', (w', (js @ made) @ made'))"
    unfolding performed_def by metis
  have "run_state (State_Monad.bind m f) (w, js) = (r', (w', js @ made @ made'))"
    if "used @ used' = made @ made'" "trace step w (used @ used') w'" for w w'
  proof -
    from that(1) have "length used + length used' = length made + length made'" by (metis length_append)
    with s(3) g(3) that(1) have eq: "used = made" "used' = made'" by auto
    from trace_appendD [OF that(2)] m [OF eq(1)] f [OF eq(2)] show ?thesis by auto
  qed
  with s g show "\<exists>r rest used made. run_state (State_Monad.bind s g) (ks, js) = (r, (rest, js @ made)) \<and>
      ks = used @ rest \<and> length used \<le> length made \<and>
      (\<forall>w w'. used = made \<longrightarrow> trace step w used w' \<longrightarrow>
         run_state (State_Monad.bind m f) (w, js) = (r, (w', js @ made)))"
    by (intro exI [of _ r'] exI [of _ rest'] exI [of _ "used @ used'"] exI [of _ "made @ made'"]) simp
qed

lemma mirrors_bind [mirror_intros]:
  "mirrors step m s \<Longrightarrow> (\<And>r. mirrors step (f r) (g r)) \<Longrightarrow>
   mirrors step (State_Monad.bind m f) (State_Monad.bind s g)"
  by (simp add: mirrors_def replayed_bind performed_bind)

lemma replayed_journal:
  assumes "\<And>w r w'. run_state m w = (r, w') \<Longrightarrow> step w (c r) w'" and "\<And>r. answer (c r) = Some r"
  shows "replayed step (journal c m) (journal c (scripted answer dummy))"
  unfolding replayed_def
proof (intro allI)
  fix w js
  obtain r w' where run: "run_state m w = (r, w')" by (metis surj_pair)
  have "trace step w [c r] w'"
    using assms(1) [OF run] by (auto intro: trace_cons)
  then show "\<exists>r w' ks. run_state (journal c m) (w, js) = (r, (w', js @ ks)) \<and> trace step w ks w' \<and>
      (\<forall>rest. run_state (journal c (scripted answer dummy)) (ks @ rest, js) = (r, (rest, js @ ks)))"
    using assms(2) run by (intro exI [of _ r] exI [of _ w'] exI [of _ "[c r]"]) simp
qed

lemma performed_journal:
  assumes "\<And>w r w'. step w (c r) w' \<Longrightarrow> run_state m w = (r, w')"
  shows "performed step (journal c m) (journal c (scripted answer dummy))"
  unfolding performed_def
proof (intro allI)
  fix ks js
  let ?s = "scripted answer dummy"
  obtain r rest where s: "run_state ?s ks = (r, rest)" by (metis surj_pair)
  then obtain used where used: "ks = used @ rest" "length used \<le> 1"
    by (cases ks) (auto split: option.splits)
  have "run_state (journal c m) (w, js) = (r, (w', js @ [c r]))"
    if "used = [c r]" "trace step w used w'" for w w'
  proof -
    from that have "step w (c r) w'" by (auto simp: trace_Cons_iff)
    from assms [OF this] show ?thesis by simp
  qed
  with s used show "\<exists>r rest used made. run_state (journal c ?s) (ks, js) = (r, (rest, js @ made)) \<and>
      ks = used @ rest \<and> length used \<le> length made \<and>
      (\<forall>w w'. used = made \<longrightarrow> trace step w used w' \<longrightarrow>
         run_state (journal c m) (w, js) = (r, (w', js @ made)))"
    by (intro exI [of _ r] exI [of _ rest] exI [of _ used] exI [of _ "[c r]"]) simp
qed

lemma mirrors_journal:
  assumes "\<And>w r w'. run_state m w = (r, w') \<longleftrightarrow> step w (c r) w'" and "\<And>r. answer (c r) = Some r"
  shows "mirrors step (journal c m) (journal c (scripted answer dummy))"
  unfolding mirrors_def using assms by (intro conjI replayed_journal performed_journal) simp_all

text \<open>A mirrors handler that runs alone is a history of one handler, and such a history is its run.\<close>

lemma mirrors_follows:
  assumes "mirrors step m s"
  shows "follows s (calls_of m w) (answer_of m w)"
    "trace step w (calls_of m w) (fst (world_after m (w, [])))"
proof -
  from assms obtain r w' ks where run: "run_state m (w, []) = (r, (w', ks))"
    "trace step w ks w'" "\<And>rest. run_state s (ks @ rest, []) = (r, (rest, ks))"
    unfolding mirrors_def replayed_def by (metis append_Nil)
  show "follows s (calls_of m w) (answer_of m w)"
    using run(1) run(3) [of "[]"] by (simp add: follows_def calls_of_def answer_of_def)
  show "trace step w (calls_of m w) (fst (world_after m (w, [])))"
    using run(1,2) by (simp add: calls_of_def)
qed

lemma mirrors_performs:
  assumes "mirrors step m s" and "follows s ks r" and "trace step w ks w'"
  shows "run_state m (w, []) = (r, (w', ks))"
proof -
  from assms(1) have "performed step m s" by (simp add: mirrors_def)
  then obtain r' rest used made where s: "run_state s (ks, []) = (r', (rest, made))" "ks = used @ rest"
    and m: "used = made \<Longrightarrow> trace step w used w' \<Longrightarrow> run_state m (w, []) = (r', (w', made))"
    unfolding performed_def by (metis append_Nil)
  from s assms(2) have "r' = r" "made = ks" "used = ks" by (auto simp: follows_def)
  with m assms(3) show ?thesis by simp
qed

lemma trace_tag: "trace step w ks w' \<Longrightarrow> trace (tagged step) w (map (Pair i) ks) w'"
  by (induction rule: trace.induct) (auto intro: trace_snoc)

lemma trace_untag: "trace (tagged step) w hist w' \<Longrightarrow> trace step w (map snd hist) w'"
  by (induction rule: trace.induct) (auto intro: trace_snoc)

lemma calls_by_tag [simp]: "calls_by i (map (Pair j) ks) = (if i = j then ks else [])"
  by (induction ks) auto

lemma calls_by_all: "\<forall>e \<in> set hist. fst e = i \<Longrightarrow> calls_by i hist = map snd hist"
  by (induction hist) auto

lemma tag_untag: "\<forall>e \<in> set hist. fst e = i \<Longrightarrow> map (Pair i) (map snd hist) = hist"
  by (induction hist) auto

lemma single_history:
  assumes "mirrors step m s"
  shows "interleaved step [s] [Some r] w hist w' \<longleftrightarrow>
    run_state m (w, []) = (r, (w', map snd hist)) \<and> (\<forall>e \<in> set hist. fst e = 0)"
proof
  assume "interleaved step [s] [Some r] w hist w'"
  then have "trace (tagged step) w hist w'" "\<forall>e \<in> set hist. fst e = 0" "follows s (calls_by 0 hist) r"
    by (auto simp: interleaved_def obeyed_def progress_def)
  with mirrors_performs [OF assms _ trace_untag]
  show "run_state m (w, []) = (r, (w', map snd hist)) \<and> (\<forall>e \<in> set hist. fst e = 0)"
    by (simp add: calls_by_all)
next
  assume run: "run_state m (w, []) = (r, (w', map snd hist)) \<and> (\<forall>e \<in> set hist. fst e = 0)"
  then have "calls_of m w = map snd hist" "answer_of m w = r" "fst (world_after m (w, [])) = w'"
    by (simp_all add: calls_of_def answer_of_def)
  moreover have "map (Pair 0) (map snd hist) = hist" using run by (intro tag_untag) blast
  ultimately show "interleaved step [s] [Some r] w hist w'"
    using mirrors_follows [OF assms, of w] trace_tag [of step w "map snd hist" w' 0] run
    by (simp add: interleaved_def obeyed_def progress_def calls_by_all)
qed


end
