(* ===== verification/Concurrency.thy ===== *)
theory Concurrency
  imports Interleaving Iaas
begin

text \<open>
  The interleavings of theory Interleaving for the controller's handlers: the scripted environment,
  and the answers of an environment to the calls of a history.
\<close>

section \<open>The scripted environment\<close>

text \<open>The journal does not keep the volume that an update returns; no handler reads it.\<close>

definition script_env :: "call list env" where
  "script_env =
     \<lparr> iaas_GetVolume = (\<lambda>i. scripted
         (\<lambda>k. case k of Get_Volume j v e \<Rightarrow> if j = i then Some (v, e) else None | _ \<Rightarrow> None) (None, None)),
       iaas_ListVolumes = (\<lambda>f. scripted
         (\<lambda>k. case k of List_Volumes g vs e \<Rightarrow> if g = f then Some (vs, e) else None | _ \<Rightarrow> None) ([], None)),
       iaas_CreateVolume = (\<lambda>c. scripted
         (\<lambda>k. case k of Create_Volume c' v e \<Rightarrow> if c' = c then Some (v, e) else None | _ \<Rightarrow> None) (None, None)),
       iaas_UpdateVolume = (\<lambda>i u. scripted
         (\<lambda>k. case k of Update_Volume j u' e \<Rightarrow> if j = i \<and> u' = u then Some (None, e) else None | _ \<Rightarrow> None)
         (None, None)),
       iaas_DeleteVolume = (\<lambda>i. scripted
         (\<lambda>k. case k of Delete_Volume j e \<Rightarrow> if j = i then Some e else None | _ \<Rightarrow> None) None),
       iaas_AttachVolume = (\<lambda>i a. scripted
         (\<lambda>k. case k of Attach_Volume j b e \<Rightarrow> if j = i \<and> b = a then Some e else None | _ \<Rightarrow> None) None),
       iaas_DetachVolume = (\<lambda>i a. scripted
         (\<lambda>k. case k of Detach_Volume j b e \<Rightarrow> if j = i \<and> b = a then Some e else None | _ \<Rightarrow> None) None),
       iaas_ListVolumeTypes = scripted
         (\<lambda>k. case k of List_Volume_Types vts e \<Rightarrow> Some (vts, e) | _ \<Rightarrow> None) ([], None),
       iaas_GetMachine = (\<lambda>i. scripted
         (\<lambda>k. case k of Get_Machine j m e \<Rightarrow> if j = i then Some (m, e) else None | _ \<Rightarrow> None) (None, None)),
       iaas_ListMachines = (\<lambda>f. scripted
         (\<lambda>k. case k of List_Machines g ms e \<Rightarrow> if g = f then Some (ms, e) else None | _ \<Rightarrow> None) ([], None)),
       iaas_GetSnapshot = (\<lambda>i. scripted
         (\<lambda>k. case k of Get_Snapshot j s e \<Rightarrow> if j = i then Some (s, e) else None | _ \<Rightarrow> None) (None, None)),
       iaas_ListSnapshots = (\<lambda>f. scripted
         (\<lambda>k. case k of List_Snapshots g ss e \<Rightarrow> if g = f then Some (ss, e) else None | _ \<Rightarrow> None) ([], None)),
       iaas_CreateSnapshot = (\<lambda>c. scripted
         (\<lambda>k. case k of Create_Snapshot c' s e \<Rightarrow> if c' = c then Some (s, e) else None | _ \<Rightarrow> None) (None, None)),
       iaas_DeleteSnapshot = (\<lambda>i. scripted
         (\<lambda>k. case k of Delete_Snapshot j e \<Rightarrow> if j = i then Some e else None | _ \<Rightarrow> None) None),
       iaas_WaitUntilSnapshotIsAvailable = (\<lambda>i. scripted
         (\<lambda>k. case k of Wait_Snapshot j e \<Rightarrow> if j = i then Some e else None | _ \<Rightarrow> None) None),
       iaas_ListRegions = (\<lambda>f. scripted
         (\<lambda>k. case k of List_Regions g e \<Rightarrow> if g = f then Some e else None | _ \<Rightarrow> None) None),
       kube_BuildConfig = (\<lambda>p. scripted
         (\<lambda>k. case k of Build_Config q e \<Rightarrow> if q = p then Some e else None | _ \<Rightarrow> None) None),
       kube_NewForConfig = scripted (\<lambda>k. case k of New_For_Config e \<Rightarrow> Some e | _ \<Rightarrow> None) None,
       kube_GetNode = (\<lambda>n. scripted
         (\<lambda>k. case k of Get_Node n' p e \<Rightarrow> if n' = n then Some (p, e) else None | _ \<Rightarrow> None) ([], None)),
       ctx_Wait = scripted (\<lambda>k. case k of Wait e \<Rightarrow> Some e | _ \<Rightarrow> None) None \<rparr>"

lemmas script_simps [simp] =
  script_env_def [THEN arg_cong, of iaas_GetVolume, simplified]
  script_env_def [THEN arg_cong, of iaas_ListVolumes, simplified]
  script_env_def [THEN arg_cong, of iaas_CreateVolume, simplified]
  script_env_def [THEN arg_cong, of iaas_UpdateVolume, simplified]
  script_env_def [THEN arg_cong, of iaas_DeleteVolume, simplified]
  script_env_def [THEN arg_cong, of iaas_AttachVolume, simplified]
  script_env_def [THEN arg_cong, of iaas_DetachVolume, simplified]
  script_env_def [THEN arg_cong, of iaas_ListVolumeTypes, simplified]
  script_env_def [THEN arg_cong, of iaas_GetMachine, simplified]
  script_env_def [THEN arg_cong, of iaas_ListMachines, simplified]
  script_env_def [THEN arg_cong, of iaas_GetSnapshot, simplified]
  script_env_def [THEN arg_cong, of iaas_ListSnapshots, simplified]
  script_env_def [THEN arg_cong, of iaas_CreateSnapshot, simplified]
  script_env_def [THEN arg_cong, of iaas_DeleteSnapshot, simplified]
  script_env_def [THEN arg_cong, of iaas_WaitUntilSnapshotIsAvailable, simplified]
  script_env_def [THEN arg_cong, of iaas_ListRegions, simplified]
  script_env_def [THEN arg_cong, of kube_BuildConfig, simplified]
  script_env_def [THEN arg_cong, of kube_NewForConfig, simplified]
  script_env_def [THEN arg_cong, of kube_GetNode, simplified]
  script_env_def [THEN arg_cong, of ctx_Wait, simplified]

section \<open>Histories\<close>

text \<open>Executing the request of a call in a world gives the recorded answer and the next world.\<close>

fun replies :: "'w env \<Rightarrow> 'w \<Rightarrow> call \<Rightarrow> 'w \<Rightarrow> bool" where
  "replies env w (Get_Volume i v e) w' = (run_state (iaas_GetVolume env i) w = ((v, e), w'))"
| "replies env w (List_Volumes f vs e) w' = (run_state (iaas_ListVolumes env f) w = ((vs, e), w'))"
| "replies env w (Create_Volume c v e) w' = (run_state (iaas_CreateVolume env c) w = ((v, e), w'))"
| "replies env w (Update_Volume i u e) w' =
     (case run_state (iaas_UpdateVolume env i u) w of ((_, r), w1) \<Rightarrow> r = e \<and> w1 = w')"
| "replies env w (Delete_Volume i e) w' = (run_state (iaas_DeleteVolume env i) w = (e, w'))"
| "replies env w (Attach_Volume i a e) w' = (run_state (iaas_AttachVolume env i a) w = (e, w'))"
| "replies env w (Detach_Volume i a e) w' = (run_state (iaas_DetachVolume env i a) w = (e, w'))"
| "replies env w (List_Volume_Types ts e) w' = (run_state (iaas_ListVolumeTypes env) w = ((ts, e), w'))"
| "replies env w (Get_Machine i m e) w' = (run_state (iaas_GetMachine env i) w = ((m, e), w'))"
| "replies env w (List_Machines f ms e) w' = (run_state (iaas_ListMachines env f) w = ((ms, e), w'))"
| "replies env w (Get_Snapshot i s e) w' = (run_state (iaas_GetSnapshot env i) w = ((s, e), w'))"
| "replies env w (List_Snapshots f ss e) w' = (run_state (iaas_ListSnapshots env f) w = ((ss, e), w'))"
| "replies env w (Create_Snapshot c s e) w' = (run_state (iaas_CreateSnapshot env c) w = ((s, e), w'))"
| "replies env w (Delete_Snapshot i e) w' = (run_state (iaas_DeleteSnapshot env i) w = (e, w'))"
| "replies env w (Wait_Snapshot i e) w' = (run_state (iaas_WaitUntilSnapshotIsAvailable env i) w = (e, w'))"
| "replies env w (List_Regions f e) w' = (run_state (iaas_ListRegions env f) w = (e, w'))"
| "replies env w (Build_Config p e) w' = (run_state (kube_BuildConfig env p) w = (e, w'))"
| "replies env w (New_For_Config e) w' = (run_state (kube_NewForConfig env) w = (e, w'))"
| "replies env w (Get_Node n p e) w' = (run_state (kube_GetNode env n) w = ((p, e), w'))"
| "replies env w (Wait e) w' = (run_state (ctx_Wait env) w = (e, w'))"

type_synonym history = "call tagged_calls"

abbreviation history_step :: "'w env \<Rightarrow> 'w \<Rightarrow> nat \<times> call \<Rightarrow> 'w \<Rightarrow> bool" where
  "history_step env \<equiv> tagged (replies env)"

abbreviation concurrent ::
    "'w env \<Rightarrow> (call, 'r) scripted_run list \<Rightarrow> 'r option list \<Rightarrow> 'w \<Rightarrow> history \<Rightarrow> 'w \<Rightarrow> bool" where
  "concurrent env \<equiv> interleaved (replies env)"

abbreviation mirrored :: "'w env \<Rightarrow> ('w \<times> call list, 'r) state \<Rightarrow> (call, 'r) scripted_run \<Rightarrow> bool" where
  "mirrored env \<equiv> mirrors (replies env)"

section \<open>The calls of a handler alone\<close>

lemma mirrored_calls [mirror_intros]:
  "mirrored env (iaas_GetVolume (traced env) i) (iaas_GetVolume (traced script_env) i)"
  "mirrored env (iaas_ListVolumes (traced env) fs) (iaas_ListVolumes (traced script_env) fs)"
  "mirrored env (iaas_CreateVolume (traced env) cv) (iaas_CreateVolume (traced script_env) cv)"
  "mirrored env (iaas_DeleteVolume (traced env) i) (iaas_DeleteVolume (traced script_env) i)"
  "mirrored env (iaas_AttachVolume (traced env) i a) (iaas_AttachVolume (traced script_env) i a)"
  "mirrored env (iaas_DetachVolume (traced env) i a) (iaas_DetachVolume (traced script_env) i a)"
  "mirrored env (iaas_ListVolumeTypes (traced env)) (iaas_ListVolumeTypes (traced script_env))"
  "mirrored env (iaas_GetMachine (traced env) i) (iaas_GetMachine (traced script_env) i)"
  "mirrored env (iaas_ListMachines (traced env) fs) (iaas_ListMachines (traced script_env) fs)"
  "mirrored env (iaas_GetSnapshot (traced env) i) (iaas_GetSnapshot (traced script_env) i)"
  "mirrored env (iaas_ListSnapshots (traced env) fs) (iaas_ListSnapshots (traced script_env) fs)"
  "mirrored env (iaas_CreateSnapshot (traced env) cs) (iaas_CreateSnapshot (traced script_env) cs)"
  "mirrored env (iaas_DeleteSnapshot (traced env) i) (iaas_DeleteSnapshot (traced script_env) i)"
  "mirrored env (iaas_WaitUntilSnapshotIsAvailable (traced env) i) (iaas_WaitUntilSnapshotIsAvailable (traced script_env) i)"
  "mirrored env (iaas_ListRegions (traced env) fs) (iaas_ListRegions (traced script_env) fs)"
  "mirrored env (kube_BuildConfig (traced env) i) (kube_BuildConfig (traced script_env) i)"
  "mirrored env (kube_NewForConfig (traced env)) (kube_NewForConfig (traced script_env))"
  "mirrored env (kube_GetNode (traced env) i) (kube_GetNode (traced script_env) i)"
  "mirrored env (ctx_Wait (traced env)) (ctx_Wait (traced script_env))"
  by (auto intro!: mirrors_journal split: prod.splits)

text \<open>The volume that an update returns is not in the journal; the program goes on with the error.\<close>

lemma mirrored_update [mirror_intros]:
  assumes "\<And>e. mirrored env (f e) (g e)"
  shows "mirrored env
    (State_Monad.bind (iaas_UpdateVolume (traced env) i u) (\<lambda>(_, e). f e))
    (State_Monad.bind (iaas_UpdateVolume (traced script_env) i u) (\<lambda>(_, e). g e))"
proof -
  let ?call = "Update_Volume i u"
  let ?m = "journal ?call (State_Monad.bind (iaas_UpdateVolume env i u) (\<lambda>(_, e). ret e))"
  let ?answer = "\<lambda>k. case k of Update_Volume j u' e \<Rightarrow> if j = i \<and> u' = u then Some e else None | _ \<Rightarrow> None"
  let ?s = "journal ?call (scripted ?answer None)"
  have "mirrored env ?m ?s"
    by (rule mirrors_journal) (auto simp: case_prod_beta split: prod.splits)
  from mirrors_bind [OF this assms] have *: "mirrored env (State_Monad.bind ?m f) (State_Monad.bind ?s g)" .
  have m: "State_Monad.bind (iaas_UpdateVolume (traced env) i u) (\<lambda>(_, e). f e) = State_Monad.bind ?m f"
    by (rule state.expand, rule ext) (auto simp: case_prod_beta)
  have s: "State_Monad.bind (iaas_UpdateVolume (traced script_env) i u) (\<lambda>(_, e). g e) = State_Monad.bind ?s g"
  proof (rule state.expand, rule ext)
    fix wj :: "call list \<times> call list"
    obtain ks js where wj: "wj = (ks, js)" by (cases wj)
    show "run_state (State_Monad.bind (iaas_UpdateVolume (traced script_env) i u) (\<lambda>(_, e). g e)) wj =
        run_state (State_Monad.bind ?s g) wj"
      unfolding wj by (cases ks) (auto split: option.splits call.splits)
  qed
  show ?thesis unfolding m s by (rule *)
qed

end
