(* ===== verification/ConcurrentController.thy ===== *)
theory ConcurrentController
  imports Concurrency Service
begin

text \<open>
  The controller service under concurrency: any number of controller calls, of any kind, whose
  calls to the cloud interleave freely (theory Concurrency), with the handlers of theory Service.
\<close>

section \<open>The handlers as concurrent processes\<close>

text \<open>The rules of \<open>mirrored\<close> match the calls as they are written, so they are not unfolded here.\<close>

declare traced_simps [simp del] script_simps [simp del]

lemma mirrored_type [mirror_intros]:
  "mirrored env (resolveVolumeTypeIdentity (traced env) p) (resolveVolumeTypeIdentity (traced script_env) p)"
  unfolding resolveVolumeTypeIdentity_def Let_def by (intro mirror_intros) (auto intro!: mirror_intros)

lemma mirrored_restore [mirror_intros]:
  "mirrored env (applySnapshotRestore (traced env) src vr) (applySnapshotRestore (traced script_env) src vr)"
  unfolding applySnapshotRestore_def by (auto intro!: mirror_intros split: option.splits)

lemma mirrored_create [mirror_intros]:
  "mirrored env (createVolume_create (traced env) d b src vr) (createVolume_create (traced script_env) d b src vr)"
  unfolding createVolume_create_def by (auto intro!: mirror_intros split: option.splits)

lemma mirrored_CreateVolume [mirror_intros]:
  "mirrored env (CreateVolume (traced env) d req) (CreateVolume (traced script_env) d req)"
  unfolding CreateVolume_def by (auto intro!: mirror_intros split: option.splits sum.splits)

lemma mirrored_DeleteVolume [mirror_intros]:
  "mirrored env (DeleteVolume (traced env) i) (DeleteVolume (traced script_env) i)"
  unfolding DeleteVolume_def by (auto intro!: mirror_intros)

lemma mirrored_ListVolumes [mirror_intros]:
  "mirrored env (ListVolumes (traced env) d req) (ListVolumes (traced script_env) d req)"
  unfolding ListVolumes_def by (auto intro!: mirror_intros split: option.splits sum.splits)

lemma mirrored_node [mirror_intros]:
  "mirrored env (resolve_node (traced env) d n) (resolve_node (traced script_env) d n)"
  unfolding resolve_node_def getNodeMachineIdentity_def
  by (auto intro!: mirror_intros split: option.splits list.splits)

lemma mirrored_poll [mirror_intros]:
  "mirrored env (pollVolumeStatus (traced env) i status n) (pollVolumeStatus (traced script_env) i status n)"
proof (induction n)
  case 0
  show ?case by (subst (1 2) pollVolumeStatus.simps) (auto intro!: mirror_intros split: option.splits)
next
  case (Suc n)
  show ?case by (subst (1 2) pollVolumeStatus.simps) (auto intro!: mirror_intros Suc split: option.splits)
qed

lemma mirrored_attach [mirror_intros]:
  "mirrored env (publish_to_machine (traced env) d i v m) (publish_to_machine (traced script_env) d i v m)"
  unfolding publish_to_machine_def by (auto intro!: mirror_intros split: option.splits prod.splits bool.splits)

lemma mirrored_Publish [mirror_intros]:
  "mirrored env (ControllerPublishVolume (traced env) d req) (ControllerPublishVolume (traced script_env) d req)"
  unfolding ControllerPublishVolume_def by (auto intro!: mirror_intros split: option.splits sum.splits)

lemma mirrored_detach [mirror_intros]:
  "mirrored env (detach_from (traced env) i m) (detach_from (traced script_env) i m)"
  unfolding detach_from_def by (auto intro!: mirror_intros split: option.splits)

lemma mirrored_Unpublish [mirror_intros]:
  "mirrored env (ControllerUnpublishVolume (traced env) d i n) (ControllerUnpublishVolume (traced script_env) d i n)"
  unfolding ControllerUnpublishVolume_def Let_def
  by (auto intro!: mirror_intros split: option.splits sum.splits)

lemma mirrored_Validate [mirror_intros]:
  "mirrored env (ValidateVolumeCapabilities (traced env) d req) (ValidateVolumeCapabilities (traced script_env) d req)"
  unfolding ValidateVolumeCapabilities_def by (auto intro!: mirror_intros split: option.splits)

lemma mirrored_identity [mirror_intros]:
  "mirrored env (resolveVolumeIdentity (traced env) d i) (resolveVolumeIdentity (traced script_env) d i)"
  unfolding resolveVolumeIdentity_def Let_def by (auto intro!: mirror_intros split: option.splits)

lemma mirrored_snapshot [mirror_intros]:
  "mirrored env (getOrCreateSnapshot (traced env) d req) (getOrCreateSnapshot (traced script_env) d req)"
  unfolding getOrCreateSnapshot_def Let_def by (auto intro!: mirror_intros split: option.splits sum.splits)

lemma mirrored_CreateSnapshot [mirror_intros]:
  "mirrored env (CreateSnapshot (traced env) d req) (CreateSnapshot (traced script_env) d req)"
  unfolding CreateSnapshot_def Let_def by (auto intro!: mirror_intros split: option.splits sum.splits)

lemma mirrored_DeleteSnapshot [mirror_intros]:
  "mirrored env (DeleteSnapshot (traced env) i) (DeleteSnapshot (traced script_env) i)"
  unfolding DeleteSnapshot_def by (auto intro!: mirror_intros)

lemma mirrored_ListSnapshots [mirror_intros]:
  "mirrored env (ListSnapshots (traced env) d req) (ListSnapshots (traced script_env) d req)"
  unfolding ListSnapshots_def Let_def by (auto intro!: mirror_intros split: option.splits sum.splits)

lemma mirrored_Expand [mirror_intros]:
  "mirrored env (ControllerExpandVolume (traced env) req) (ControllerExpandVolume (traced script_env) req)"
  unfolding ControllerExpandVolume_def Let_def by (auto intro!: mirror_intros split: option.splits sum.splits)

lemma mirrored_answer_wire [mirror_intros]:
  "mirrored env m s \<Longrightarrow> mirrored env (answer_wire m) (answer_wire s)"
  unfolding answer_wire_def by (intro mirror_intros)

lemma mirrored_controller:
  "mirrored env (controller_handle (traced env) d call) (controller_handle (traced script_env) d call)"
  unfolding controller_handle_def by (auto intro!: mirror_intros split: controller_call.splits)

declare traced_simps [simp] script_simps [simp]

text \<open>The history of controller calls that run concurrently on one cloud; \<open>answers\<close> has the status
  code of each call that has been answered.\<close>

definition controller_runs ::
    "'w env \<Rightarrow> driver \<Rightarrow> controller_call list \<Rightarrow> code option option list \<Rightarrow> 'w \<Rightarrow> history \<Rightarrow> 'w \<Rightarrow> bool" where
  "controller_runs env d calls answers =
     concurrent env (map (controller_handle (traced script_env) d) calls) answers"

text \<open>The histories of one answered call are exactly the runs of its handler.\<close>

lemma controller_run_single:
  "controller_runs env d [call] [Some r] w hist w' \<longleftrightarrow>
     run_state (controller_handle (traced env) d call) (w, []) = (r, (w', map snd hist)) \<and>
     (\<forall>e \<in> set hist. fst e = 0)"
  unfolding controller_runs_def list.map by (rule single_history) (rule mirrored_controller)

section \<open>Changes are asked for, one per call\<close>

lemma one_change_prefix:
  assumes "one_change call (ks @ ks')"
  shows "one_change call ks"
proof -
  from assms consider "filter mutating ks = []" | c where "filter mutating ks = [c]" "asked call c"
    by (auto simp: one_change_def append_eq_Cons_conv)
  then show ?thesis by cases (auto simp: one_change_def)
qed

lemma controller_runs_change:
  assumes "controller_runs env d calls answers w hist w'" and "i < length calls"
  shows "one_change (calls ! i) (calls_by i hist)"
proof -
  let ?ms = "map (controller_handle (traced script_env) d) calls"
  have "wp (?ms ! i) (\<lambda>_. one_change (calls ! i)) []"
    using assms(2) wp_controller_change by simp
  from interleaved_wp [OF assms(1) [unfolded controller_runs_def] _ this] assms(2)
  show ?thesis by (auto dest: one_change_prefix split: option.splits)
qed

lemma controller_runs_index:
  "controller_runs env d calls answers w hist w' \<Longrightarrow> (i, k) \<in> set hist \<Longrightarrow> i < length calls"
  by (fastforce simp: controller_runs_def interleaved_def obeyed_def)

lemma length_by_process:
  assumes "\<forall>e \<in> set hist. fst e < n"
  shows "length (filter P (map snd hist)) = (\<Sum>i<n. length (filter P (calls_by i hist)))"
  using assms
proof (induction hist)
  case (Cons e hist)
  then have "(\<Sum>i<n. length (filter P (calls_by i (e # hist)))) =
      (\<Sum>i<n. length (filter P (calls_by i hist)) + (if i = fst e then of_bool (P (snd e)) else 0))"
    by (intro sum.cong) auto
  also have "\<dots> = (\<Sum>i<n. length (filter P (calls_by i hist))) + of_bool (P (snd e))"
    using Cons.prems by (simp add: sum.distrib sum.delta)
  finally show ?case using Cons by simp
qed simp

text \<open>C9: However many controller calls run at once, however their calls to the cloud interleave,
  whatever the API answers, and whichever of them have not ended yet: each change of the cloud is
  made by a call that asked for it, no call makes more than one change, and so there are at most as
  many changes as calls. A volume is created only under the name of a create request, and deleted,
  attached, detached or updated only by a request that names it, and likewise for snapshots.\<close>

theorem concurrent_changes_asked:
  assumes "controller_runs env d calls answers w hist w'"
  shows "(\<forall>(i, k) \<in> set hist. mutating k \<longrightarrow> i < length calls \<and> asked (calls ! i) k) \<and>
    (\<forall>i < length calls. length (filter mutating (calls_by i hist)) \<le> 1) \<and>
    length (filter mutating (map snd hist)) \<le> length calls"
proof (intro conjI)
  note index = controller_runs_index [OF assms] and change = controller_runs_change [OF assms]
  show "\<forall>(i, k) \<in> set hist. mutating k \<longrightarrow> i < length calls \<and> asked (calls ! i) k"
  proof (clarify, intro conjI)
    fix i k
    assume k: "(i, k) \<in> set hist" "mutating k"
    show "i < length calls" using index [OF k(1)] .
    from one_change_asked [OF change [OF this]] k show "asked (calls ! i) k" by simp
  qed
  show each: "\<forall>i < length calls. length (filter mutating (calls_by i hist)) \<le> 1"
    using change one_change_length by blast
  have "length (filter mutating (map snd hist)) = (\<Sum>i<length calls. length (filter mutating (calls_by i hist)))"
    by (rule length_by_process) (use index in auto)
  also have "\<dots> \<le> (\<Sum>i<length calls. 1)" by (rule sum_mono) (use each in auto)
  finally show "length (filter mutating (map snd hist)) \<le> length calls" by simp
qed

section \<open>A sample history\<close>

text \<open>Two calls that publish a free volume on the same node: the second reads the volume between the
  attachment of the first and the end of its wait.\<close>

definition attached_volume :: volume where
  "attached_volume = sample_volume\<lparr> vol_Attachments := [\<lparr> AttachedToIdentity = ''m-1'' \<rparr>], vol_Status := ''attached'' \<rparr>"

definition attached_cloud :: cloud where
  "attached_cloud = attach_cloud\<lparr> c_volumes := [attached_volume] \<rparr>"

definition publish_history :: history where
  "publish_history =
     [(0, Get_Volume ''vol-0'' (Some sample_volume) None),
      (0, List_Machines (machine_filters sample_driver) (c_machines attach_cloud) None),
      (0, Attach_Volume ''vol-0'' (attach_to ''m-1'') None),
      (1, Get_Volume ''vol-0'' (Some attached_volume) None),
      (1, List_Machines (machine_filters sample_driver) (c_machines attach_cloud) None),
      (0, Get_Volume ''vol-0'' (Some attached_volume) None)]"

lemma publish_history_run: "trace (history_step sim_env) attach_cloud publish_history attached_cloud"
proof -
  have "sim_attach_volume ''vol-0'' (attach_to ''m-1'') attach_cloud = (None, attached_cloud)"
    "sim_find_volume attach_cloud ''vol-0'' = Some sample_volume"
    "sim_find_volume attached_cloud ''vol-0'' = Some attached_volume"
    "c_machines attached_cloud = c_machines attach_cloud"
    by (simp_all add: attach_cloud_def attached_cloud_def attached_volume_def sim_attach_volume_def
        sim_find_volume_def sim_replace_def sample_volume_def attach_to_def)
  then show ?thesis by (simp add: publish_history_def trace_Cons_iff sim_lookup_def)
qed

lemma publish_history_follows:
  assumes "i < 2"
  shows "follows (controller_handle (traced script_env) sample_driver (ControllerPublishVolumeCall sample_publish))
    (calls_by i publish_history) (Some OK)"
proof -
  have "publish_invalid sample_publish = None" "equal_fold ''attached'' ''attached''"
    "find_machine (pub_NodeId sample_publish) (c_machines attach_cloud) = Some ''m-1''"
    "d_kubeConfig sample_driver = ''''" "pub_VolumeId sample_publish = ''vol-0''"
    "vol_Attachments sample_volume = []" "vol_Attachments attached_volume = [\<lparr> AttachedToIdentity = ''m-1'' \<rparr>]"
    "vol_Status attached_volume = ''attached''"
    using sample_publish_facts by (simp_all add: sample_publish_def attached_volume_def)
  with assms show ?thesis
    by (auto simp: less_2_cases_iff publish_history_def follows_def controller_handle_def answer_wire_def
        ControllerPublishVolume_def resolve_node_def publish_to_machine_def poll_intervals_def
        pollVolumeStatus.simps)
qed

lemma publish_history_runs:
  "controller_runs sim_env sample_driver (replicate 2 (ControllerPublishVolumeCall sample_publish))
     (replicate 2 (Some (Some OK))) attach_cloud publish_history attached_cloud"
proof -
  have "\<forall>e \<in> set publish_history. fst e < 2" by (simp add: publish_history_def)
  with publish_history_run publish_history_follows show ?thesis
    by (simp add: controller_runs_def interleaved_def obeyed_def progress_def)
qed

theorem concurrent_changes_asked_witness:
  "length (filter mutating (map snd publish_history)) \<le> 2 \<and>
   asked (ControllerPublishVolumeCall sample_publish) (Attach_Volume ''vol-0'' (attach_to ''m-1'') None)"
proof -
  note asked = concurrent_changes_asked [OF publish_history_runs]
  have "(0, Attach_Volume ''vol-0'' (attach_to ''m-1'') None) \<in> set publish_history"
    by (simp add: publish_history_def)
  with asked show ?thesis by fastforce
qed

end
