(* ===== verification/VolumeStore.thy ===== *)
theory VolumeStore
  imports ConcurrentController
begin

text \<open>
  The abstract specification of the volumes that the controller manages: a map from identities to a
  size and the machine the volume is attached to, with one atomic operation per change. Every
  history of concurrent controller calls on the reference cloud refines it, and what holds of the
  abstract operations in any order therefore holds under concurrency.
\<close>

section \<open>The abstract store\<close>

type_synonym entry = "int64 \<times> string option"
type_synonym store = "string \<rightharpoonup> entry"

datatype store_op =
    SCreate string int64 | SDelete string | SAttach string string | SDetach string string
  | SResize string int64

inductive store_step :: "store \<Rightarrow> store_op \<Rightarrow> store \<Rightarrow> bool" where
  create: "s i = None \<Longrightarrow> store_step s (SCreate i b) (s(i \<mapsto> (b, None)))"
| delete: "s i = Some (b, None) \<Longrightarrow> store_step s (SDelete i) (s(i := None))"
| attach: "s i = Some (b, None) \<Longrightarrow> store_step s (SAttach i m) (s(i \<mapsto> (b, Some m)))"
| detach: "s i = Some (b, Some m) \<Longrightarrow> store_step s (SDetach i m) (s(i \<mapsto> (b, None)))"
| resize: "s i = Some (b, a) \<Longrightarrow> store_step s (SResize i b') (s(i \<mapsto> (b', a)))"

inductive_cases store_step_cases: "store_step s e s'"
inductive_simps store_create_iff [simp]: "store_step s (SCreate i b) s'"
inductive_simps store_delete_iff [simp]: "store_step s (SDelete i) s'"
inductive_simps store_attach_iff [simp]: "store_step s (SAttach i m) s'"
inductive_simps store_detach_iff [simp]: "store_step s (SDetach i m) s'"
inductive_simps store_resize_iff [simp]: "store_step s (SResize i b) s'"

text \<open>Without a detach or a deletion of it, an attached volume stays attached where it is.\<close>

definition frees :: "string \<Rightarrow> store_op \<Rightarrow> bool" where
  "frees i e \<longleftrightarrow> e = SDelete i \<or> (\<exists>m. e = SDetach i m)"

definition attached_at :: "store \<Rightarrow> string \<Rightarrow> string \<Rightarrow> bool" where
  "attached_at s i m \<longleftrightarrow> (\<exists>b. s i = Some (b, Some m))"

lemma attached_step: "attached_at s i m \<Longrightarrow> store_step s e s' \<Longrightarrow> \<not> frees i e \<Longrightarrow> attached_at s' i m"
  by (auto simp: attached_at_def frees_def elim!: store_step_cases)

lemma attached_stays:
  "trace store_step s es s' \<Longrightarrow> attached_at s i m \<Longrightarrow> \<forall>e \<in> set es. \<not> frees i e \<Longrightarrow> attached_at s' i m"
  by (induction rule: trace.induct) (auto intro: attached_step)

lemma attached_unique: "attached_at s i m \<Longrightarrow> attached_at s i m' \<Longrightarrow> m = m'"
  by (auto simp: attached_at_def)

section \<open>The reference cloud as a store\<close>

definition entry_of :: "volume \<Rightarrow> entry" where
  "entry_of v = (vol_Size v,
     (case vol_Attachments v of [] \<Rightarrow> None | a # _ \<Rightarrow> Some (AttachedToIdentity a)))"

definition store_of :: "cloud \<Rightarrow> store" where
  "store_of c i = map_option entry_of (sim_find_volume c i)"

definition cloud_ok :: "cloud \<Rightarrow> bool" where
  "cloud_ok c \<longleftrightarrow>
     \<not> c_by_name c \<and> (\<forall>v \<in> set (c_volumes c). length (vol_Attachments v) \<le> 1) \<and>
     (\<forall>n \<ge> c_next c. ''vol-'' @ show_nat n \<notin> vol_Identity ` set (c_volumes c))"

fun store_event :: "nat \<times> call \<Rightarrow> store_op option" where
  "store_event (_, Create_Volume c (Some v) None) = Some (SCreate (vol_Identity v) (vol_Size v))"
| "store_event (_, Update_Volume i u None) = Some (SResize i (uv_Size u))"
| "store_event (_, Delete_Volume i None) = Some (SDelete i)"
| "store_event (_, Attach_Volume i a None) = Some (SAttach i (ar_ResourceIdentity a))"
| "store_event (_, Detach_Volume i a None) = Some (SDetach i (ar_ResourceIdentity a))"
| "store_event _ = None"

lemma find_identity: "\<not> c_by_name c \<Longrightarrow> sim_find_volume c i = find (\<lambda>v. vol_Identity v = i) (c_volumes c)"
  by (simp add: sim_find_volume_def)

lemma find_volume_SomeD:
  "sim_find_volume c i = Some v \<Longrightarrow> \<not> c_by_name c \<Longrightarrow> v \<in> set (c_volumes c) \<and> vol_Identity v = i"
  by (auto simp: find_identity find_Some_iff)

lemma find_map_identity:
  assumes "\<And>x. vol_Identity x = j \<Longrightarrow> vol_Identity (f x) = j"
  shows "find (\<lambda>v. vol_Identity v = i) (map (\<lambda>x. if vol_Identity x = j then f x else x) vs) =
    (if i = j then map_option f (find (\<lambda>v. vol_Identity v = i) vs) else find (\<lambda>v. vol_Identity v = i) vs)"
  using assms by (induction vs) auto

lemma store_of_replace:
  assumes "\<not> c_by_name c" and "\<And>x. vol_Identity x = j \<Longrightarrow> vol_Identity (f x) = j"
    and "sim_find_volume c j = Some v"
  shows "store_of (sim_replace j f c) = (store_of c)(j \<mapsto> entry_of (f v))"
proof
  fix i
  have "\<not> c_by_name (sim_replace j f c)" using assms(1) by (simp add: sim_replace_def)
  with assms show "store_of (sim_replace j f c) i = ((store_of c)(j \<mapsto> entry_of (f v))) i"
    by (simp add: store_of_def find_identity) (simp add: sim_replace_def find_map_identity)
qed

lemma find_filter_identity:
  "find (\<lambda>v. vol_Identity v = i) (filter (\<lambda>x. vol_Identity x \<noteq> j) vs) =
    (if i = j then None else find (\<lambda>v. vol_Identity v = i) vs)"
  by (induction vs) auto

lemma store_of_delete:
  assumes "\<not> c_by_name c"
  shows "store_of (c\<lparr> c_volumes := filter (\<lambda>x. vol_Identity x \<noteq> j) (c_volumes c) \<rparr>) = (store_of c)(j := None)"
  using assms by (auto simp: store_of_def find_identity find_filter_identity)

lemma store_of_create:
  assumes "\<not> c_by_name c" and "vol_Identity v \<notin> vol_Identity ` set (c_volumes c)"
  shows "store_of c (vol_Identity v) = None"
    "store_of (c\<lparr> c_volumes := c_volumes c @ [v], c_next := n \<rparr>) = (store_of c)(vol_Identity v \<mapsto> entry_of v)"
proof -
  have fresh: "find (\<lambda>x. vol_Identity x = vol_Identity v) (c_volumes c) = None"
    using assms(2) by (auto simp: find_None_iff image_iff)
  then show "store_of c (vol_Identity v) = None" using assms(1) by (simp add: store_of_def find_identity)
  have "find (\<lambda>x. vol_Identity x = i) (vs @ [v]) =
      (case find (\<lambda>x. vol_Identity x = i) vs of Some x \<Rightarrow> Some x | None \<Rightarrow> if vol_Identity v = i then Some v else None)" for i vs
    by (induction vs) auto
  with fresh assms(1) show "store_of (c\<lparr> c_volumes := c_volumes c @ [v], c_next := n \<rparr>) = (store_of c)(vol_Identity v \<mapsto> entry_of v)"
    by (auto simp: store_of_def find_identity split: option.splits)
qed

lemma store_of_same: "c_volumes c' = c_volumes c \<Longrightarrow> c_by_name c' = c_by_name c \<Longrightarrow> store_of c' = store_of c"
  by (rule ext) (simp add: store_of_def sim_find_volume_def)

section \<open>Every call to the cloud is a store operation or changes nothing\<close>

lemma cloud_ok_same:
  "cloud_ok c \<Longrightarrow> c_volumes c' = c_volumes c \<Longrightarrow> c_by_name c' = c_by_name c \<Longrightarrow> c_next c \<le> c_next c' \<Longrightarrow> cloud_ok c'"
  by (simp add: cloud_ok_def)

lemma cloud_ok_replace:
  assumes "cloud_ok c" and "\<And>x. x \<in> set (c_volumes c) \<Longrightarrow> vol_Identity x = j \<Longrightarrow>
      vol_Identity (f x) = j \<and> length (vol_Attachments (f x)) \<le> 1"
  shows "cloud_ok (sim_replace j f c)"
proof -
  define g where "g x = (if vol_Identity x = j then f x else x)" for x
  have g: "vol_Identity (g x) = vol_Identity x" "length (vol_Attachments (g x)) \<le> 1" if "x \<in> set (c_volumes c)" for x
    using assms that unfolding g_def cloud_ok_def by auto
  have "vol_Identity ` set (map g (c_volumes c)) = vol_Identity ` set (c_volumes c)"
    unfolding set_map image_image by (rule image_cong) (use g in auto)
  moreover have "\<forall>v \<in> set (map g (c_volumes c)). length (vol_Attachments v) \<le> 1" using g by auto
  moreover have "sim_replace j f c = c\<lparr> c_volumes := map g (c_volumes c) \<rparr>"
    by (simp add: sim_replace_def g_def)
  ultimately show ?thesis using assms(1) by (simp add: cloud_ok_def)
qed

lemma replies_create:
  assumes "cloud_ok c" and "replies sim_env c (Create_Volume cv v e) c'"
  shows "cloud_ok c' \<and> (\<exists>x. v = Some x \<and> e = None \<and> store_of c (vol_Identity x) = None \<and>
    store_of c' = (store_of c)(vol_Identity x \<mapsto> (vol_Size x, None)))"
proof -
  let ?x = "new_volume (''vol-'' @ show_nat (c_next c)) cv"
  from assms(2) have c': "v = Some ?x" "e = None"
    "c' = c\<lparr> c_volumes := c_volumes c @ [?x], c_next := Suc (c_next c) \<rparr>"
    by (auto simp: sim_create_volume_def Let_def)
  have fresh: "vol_Identity ?x \<notin> vol_Identity ` set (c_volumes c)"
    using assms(1) by (simp add: cloud_ok_def new_volume_def)
  have "cloud_ok c'" using assms(1) by (auto simp: cloud_ok_def c'(3) new_volume_def)
  moreover have "entry_of ?x = (vol_Size ?x, None)" by (simp add: entry_of_def new_volume_def)
  ultimately show ?thesis
    using store_of_create [OF _ fresh] assms(1) c' by (simp add: cloud_ok_def)
qed

lemma replies_delete:
  assumes "cloud_ok c" and "replies sim_env c (Delete_Volume i e) c'"
  shows "cloud_ok c' \<and> (if e = None then \<exists>n. store_of c i = Some (n, None) \<and> store_of c' = (store_of c)(i := None)
    else c' = c)"
proof (cases "sim_find_volume c i")
  case None
  with assms show ?thesis by (auto simp: sim_delete_volume_def)
next
  case (Some v)
  with assms(1) have v: "vol_Identity v = i" using find_volume_SomeD by (auto simp: cloud_ok_def)
  with assms Some store_of_delete [of c i] show ?thesis
    by (auto simp: sim_delete_volume_def cloud_ok_def store_of_def entry_of_def split: if_splits)
qed

lemma replies_attach:
  assumes "cloud_ok c" and "replies sim_env c (Attach_Volume i a e) c'"
  shows "cloud_ok c' \<and> (if e = None then \<exists>n. store_of c i = Some (n, None) \<and>
      store_of c' = (store_of c)(i \<mapsto> (n, Some (ar_ResourceIdentity a))) else c' = c)"
proof (cases "sim_find_volume c i")
  case None
  with assms show ?thesis by (auto simp: sim_attach_volume_def)
next
  case (Some v)
  let ?f = "\<lambda>v. v\<lparr> vol_Attachments := [\<lparr> AttachedToIdentity = ar_ResourceIdentity a \<rparr>], vol_Status := ''attached'' \<rparr>"
  from assms(1) Some have v: "vol_Identity v = i" "\<not> c_by_name c"
    using find_volume_SomeD by (auto simp: cloud_ok_def)
  have "cloud_ok (sim_replace i ?f c)" by (rule cloud_ok_replace [OF assms(1)]) simp
  moreover have "store_of (sim_replace i ?f c) = (store_of c)(i \<mapsto> entry_of (?f v))"
    by (rule store_of_replace) (use v Some in simp_all)
  moreover have "entry_of (?f v) = (vol_Size v, Some (ar_ResourceIdentity a))" by (simp add: entry_of_def)
  ultimately show ?thesis
    using assms Some v by (auto simp: sim_attach_volume_def store_of_def entry_of_def split: if_splits)
qed

lemma replies_detach:
  assumes "cloud_ok c" and "replies sim_env c (Detach_Volume i a e) c'"
  shows "cloud_ok c' \<and> (if e = None then \<exists>n. store_of c i = Some (n, Some (ar_ResourceIdentity a)) \<and>
      store_of c' = (store_of c)(i \<mapsto> (n, None)) else c' = c)"
proof (cases "sim_find_volume c i")
  case None
  with assms show ?thesis by (auto simp: sim_detach_volume_def)
next
  case (Some v)
  let ?f = "\<lambda>v. v\<lparr> vol_Attachments := [], vol_Status := ''available'' \<rparr>"
  from assms(1) Some have v: "vol_Identity v = i" "\<not> c_by_name c" "length (vol_Attachments v) \<le> 1"
    using find_volume_SomeD by (auto simp: cloud_ok_def)
  have "cloud_ok (sim_replace i ?f c)" by (rule cloud_ok_replace [OF assms(1)]) simp
  moreover have "store_of (sim_replace i ?f c) = (store_of c)(i \<mapsto> entry_of (?f v))"
    by (rule store_of_replace) (use v Some in simp_all)
  moreover have "entry_of (?f v) = (vol_Size v, None)" by (simp add: entry_of_def)
  moreover have "vol_Attachments v = [\<lparr> AttachedToIdentity = ar_ResourceIdentity a \<rparr>]"
    if "\<lparr> AttachedToIdentity = ar_ResourceIdentity a \<rparr> \<in> set (vol_Attachments v)"
    using that v(3) by (cases "vol_Attachments v") auto
  ultimately show ?thesis
    using assms Some v by (auto simp: sim_detach_volume_def store_of_def entry_of_def split: if_splits)
qed

lemma replies_update:
  assumes "cloud_ok c" and "replies sim_env c (Update_Volume i u e) c'"
  shows "cloud_ok c' \<and> (if e = None then \<exists>n a. store_of c i = Some (n, a) \<and>
      store_of c' = (store_of c)(i \<mapsto> (uv_Size u, a)) else c' = c)"
proof (cases "sim_find_volume c i")
  case None
  with assms show ?thesis by (auto simp: sim_update_volume_def)
next
  case (Some v)
  define v' where "v' = v\<lparr> vol_Name := uv_Name u, vol_Description := uv_Description u, vol_Labels := uv_Labels u,
    vol_Annotations := uv_Annotations u, vol_Size := uv_Size u, vol_DeleteProtection := uv_DeleteProtection u \<rparr>"
  from assms(1) Some have v: "vol_Identity v = i" "\<not> c_by_name c" "length (vol_Attachments v) \<le> 1"
    using find_volume_SomeD by (auto simp: cloud_ok_def)
  have c': "e = None" "c' = sim_replace i (\<lambda>_. v') c"
    using assms(2) Some v by (auto simp: sim_update_volume_def v'_def Let_def)
  have "cloud_ok (sim_replace i (\<lambda>_. v') c)" by (rule cloud_ok_replace [OF assms(1)]) (use v in \<open>simp add: v'_def\<close>)
  moreover have "store_of (sim_replace i (\<lambda>_. v') c) = (store_of c)(i \<mapsto> entry_of v')"
    by (rule store_of_replace) (use v Some in \<open>simp_all add: v'_def\<close>)
  ultimately show ?thesis
    using Some c' by (auto simp: store_of_def entry_of_def v'_def split: list.splits)
qed

lemma replies_other:
  assumes "cloud_ok c" and "replies sim_env c k c'"
    and "\<nexists>cv v e. k = Create_Volume cv v e" "\<nexists>i e. k = Delete_Volume i e" "\<nexists>i a e. k = Attach_Volume i a e"
    "\<nexists>i a e. k = Detach_Volume i a e" "\<nexists>i u e. k = Update_Volume i u e"
  shows "cloud_ok c' \<and> store_of c' = store_of c \<and> store_event (p, k) = None"
proof -
  have same: "c_volumes c' = c_volumes c \<and> c_by_name c' = c_by_name c \<and> c_next c \<le> c_next c'"
    using assms(2-) by (cases k) (auto simp: sim_create_snapshot_def sim_delete_snapshot_def Let_def split: option.splits)
  moreover have "store_event (p, k) = None" using assms(3-) by (cases k) auto
  ultimately show ?thesis using cloud_ok_same [OF assms(1)] store_of_same by blast
qed

lemma replies_store:
  assumes "cloud_ok c" and "replies sim_env c k c'"
  shows "cloud_ok c' \<and> (case store_event (p, k) of
    None \<Rightarrow> store_of c' = store_of c | Some f \<Rightarrow> store_step (store_of c) f (store_of c'))"
proof -
  consider cv v e where "k = Create_Volume cv v e" | i e where "k = Delete_Volume i e"
    | i a e where "k = Attach_Volume i a e" | i a e where "k = Detach_Volume i a e"
    | i u e where "k = Update_Volume i u e"
    | "\<nexists>cv v e. k = Create_Volume cv v e" "\<nexists>i e. k = Delete_Volume i e" "\<nexists>i a e. k = Attach_Volume i a e"
      "\<nexists>i a e. k = Detach_Volume i a e" "\<nexists>i u e. k = Update_Volume i u e"
    by blast
  then show ?thesis
  proof cases
    case (1 cv v e)
    with replies_create [OF assms(1)] assms(2) show ?thesis by fastforce
  next
    case (2 i e)
    with replies_delete [OF assms(1)] assms(2) show ?thesis by (cases e) fastforce+
  next
    case (3 i a e)
    with replies_attach [OF assms(1)] assms(2) show ?thesis by (cases e) fastforce+
  next
    case (4 i a e)
    with replies_detach [OF assms(1)] assms(2) show ?thesis by (cases e) fastforce+
  next
    case (5 i u e)
    with replies_update [OF assms(1)] assms(2) show ?thesis by (cases e) fastforce+
  next
    case 6
    with replies_other [OF assms 6] show ?thesis by simp
  qed
qed

interpretation store: simulation "history_step sim_env" store_step store_of store_event cloud_ok
proof
  fix c e c'
  assume "cloud_ok c" and "history_step sim_env c e c'"
  note step = replies_store [OF this, of "fst e"]
  show "cloud_ok c'" using step ..
  show "store_of c' = store_of c" if "store_event e = None" using step that by simp
  show "store_step (store_of c) f (store_of c')" if "store_event e = Some f" for f using step that by simp
qed

text \<open>The store operations of a history are those that its requests ask for.\<close>

definition asks_store :: "controller_call \<Rightarrow> store_op \<Rightarrow> bool" where
  "asks_store call e \<longleftrightarrow>
     (case e of
        SCreate i n \<Rightarrow> (\<exists>req. call = CreateVolumeCall req)
      | SDelete i \<Rightarrow> call = DeleteVolumeCall i
      | SAttach i m \<Rightarrow> (\<exists>req. call = ControllerPublishVolumeCall req \<and> pub_VolumeId req = i)
      | SDetach i m \<Rightarrow> (\<exists>n. call = ControllerUnpublishVolumeCall i n)
      | SResize i n \<Rightarrow> (\<exists>req. call = ControllerExpandVolumeCall req \<and> exp_VolumeId req = i))"

lemma store_event_mutating: "store_event (p, k) = Some e \<Longrightarrow> mutating k"
  by (cases k) auto

lemma asked_store:
  assumes "asked call k" and "store_event (p, k) = Some e"
  shows "asks_store call e"
  using assms unfolding asked_def asks_store_def
  by (cases "(p, k)" rule: store_event.cases) (auto split: controller_call.splits)

lemma history_asks:
  assumes "controller_runs env d calls answers w hist w'"
    and "e \<in> set (List.map_filter store_event hist)"
  shows "\<exists>call \<in> set calls. asks_store call e"
proof -
  from assms(2) obtain i k where ev: "(i, k) \<in> set hist" "store_event (i, k) = Some e"
    by (auto simp: map_filter_def)
  from controller_runs_index [OF assms(1) ev(1)] have i: "i < length calls" .
  have "asked (calls ! i) k"
    using one_change_asked [OF controller_runs_change [OF assms(1) i]] ev store_event_mutating by auto
  from asked_store [OF this ev(2)] i show ?thesis by auto
qed

text \<open>Every history of concurrent controller calls on the reference cloud refines the abstract store
  of volumes: seen as a map from identities to a size and a machine, the cloud changes by a run of
  the atomic operations create, delete, attach, detach and resize, each under its precondition (a
  new identity, an unattached volume, an attachment to that machine), each asked for by one of the
  calls, whatever the interleaving; the cloud's identities stay fresh and no volume ever has two
  attachments.\<close>

theorem history_refines_store:
  assumes "controller_runs sim_env d calls answers c hist c'" and "cloud_ok c"
  shows "cloud_ok c' \<and>
    trace store_step (store_of c) (List.map_filter store_event hist) (store_of c') \<and>
    (\<forall>e \<in> set (List.map_filter store_event hist). \<exists>call \<in> set calls. asks_store call e)"
proof -
  have run: "trace (history_step sim_env) c hist c'"
    using assms(1) unfolding controller_runs_def by (rule interleaved_trace)
  from store.trace_inv [OF run assms(2)] store.trace_abs [OF run assms(2)] history_asks [OF assms(1)]
  show ?thesis by blast
qed

lemma attach_cloud_ok: "cloud_ok attach_cloud"
proof -
  have "digits_value ''0'' = 0" by code_simp
  then have "n = 0" if "show_nat n = ''0''" for n using that digits_value_show_nat [of n] by simp
  then show ?thesis by (fastforce simp: cloud_ok_def attach_cloud_def sample_volume_def)
qed

theorem history_refines_store_witness:
  "cloud_ok attached_cloud \<and>
   trace store_step (store_of attach_cloud) [SAttach ''vol-0'' ''m-1''] (store_of attached_cloud)"
  using history_refines_store [OF publish_history_runs attach_cloud_ok]
  by (simp add: publish_history_def map_filter_simps attach_to_def)

end
