(* ===== verification/ControllerRaces.thy ===== *)
theory ControllerRaces
  imports VolumeStore
begin

text \<open>
  What concurrent controller calls can and cannot do to each other on the reference cloud. The
  API's own check makes publishing exclusive; creating and expanding volumes check first and
  change later, without a lock, so two of them can interleave to a result that no order of the
  two calls gives.
\<close>

section \<open>The answers of publishing calls\<close>

lemma wp_conj: "wp m P js \<Longrightarrow> wp m Q js \<Longrightarrow> wp m (\<lambda>r ks. P r ks \<and> Q r ks) js"
  by (simp add: wp_def)

definition publish_answer :: "driver \<Rightarrow> publish_request \<Rightarrow> code option \<Rightarrow> call list \<Rightarrow> bool" where
  "publish_answer d req c ks \<longleftrightarrow>
     (c = Some OK \<longrightarrow> OK \<in> passed_codes ks \<or> (\<exists>ctx. publish_effect d req (Ok ctx) ks))"

lemma wp_publish_answer:
  "wp (controller_handle (traced env) d (ControllerPublishVolumeCall req)) (publish_answer d req) []"
proof -
  have "publish_answer d req (wire r) ks"
    if "publish_effect d req r ks \<and> explained (own_codes (ControllerPublishVolumeCall req)) True r ks" for r ks
    using that by (cases r) (auto simp: publish_answer_def own_codes_def)
  then show ?thesis
    unfolding controller_handle_def controller_call.case answer_wire_def
    by (intro wp_bind wp_mono [OF wp_conj [OF wp_ControllerPublishVolume code_Publish]]) simp
qed

section \<open>Facts of the reference cloud\<close>

lemma replies_error: "replies sim_env c k c' \<Longrightarrow> call_error k = Some e \<Longrightarrow> e = not_found_error \<or> e = refused_error"
  by (cases k) (auto simp: call_error_def sim_lookup_def sim_create_volume_def sim_update_volume_def
      sim_delete_volume_def sim_attach_volume_def sim_detach_volume_def sim_create_snapshot_def
      sim_delete_snapshot_def Let_def split: option.splits if_splits)

lemma sim_error_codes [simp]: "grpc_code not_found_error = Unknown" "grpc_code refused_error = Unknown"
  by (simp_all add: grpc_code_def not_found_error_def refused_error_def find_status_def)

lemma replies_machines: "replies sim_env c k c' \<Longrightarrow> c_machines c' = c_machines c"
  by (cases k) (auto simp: sim_create_volume_def sim_update_volume_def sim_delete_volume_def sim_attach_volume_def
      sim_detach_volume_def sim_create_snapshot_def sim_delete_snapshot_def sim_replace_def Let_def
      split: option.splits if_splits)

lemma history_machines: "trace (history_step sim_env) c hist c' \<Longrightarrow> c_machines c' = c_machines c"
  by (induction rule: trace.induct) (auto dest: replies_machines)

text \<open>An event of a history, with the clouds around it and the rest of the history.\<close>

lemma history_event:
  assumes "trace (history_step env) w hist w'" and "(i, k) \<in> set hist"
  obtains h1 h2 w1 w2 where "hist = h1 @ (i, k) # h2" "trace (history_step env) w h1 w1"
    "replies env w1 k w2" "trace (history_step env) w2 h2 w'"
proof -
  from assms(2) obtain h1 h2 where hist: "hist = h1 @ (i, k) # h2" by (auto dest: split_list)
  with trace_appendD [of "history_step env" w h1 "(i, k) # h2" w'] assms(1) obtain w1 where
    w1: "trace (history_step env) w h1 w1" "trace (history_step env) w1 ((i, k) # h2) w'" by auto
  from trace_consD [OF w1(2)] obtain w2 where "replies env w1 k w2" "trace (history_step env) w2 h2 w'" by auto
  with hist w1(1) show ?thesis by (rule that)
qed

lemma history_no_ok:
  assumes "trace (history_step sim_env) c hist c'"
  shows "OK \<notin> passed_codes (calls_by i hist)"
proof
  assume "OK \<in> passed_codes (calls_by i hist)"
  then obtain k e where k: "(i, k) \<in> set hist" "call_error k = Some e" "grpc_code e = OK"
    by (auto simp: passed_codes_def)
  from history_event [OF assms k(1)] obtain c1 c2 where "replies sim_env c1 k c2" by blast
  from replies_error [OF this k(2)] k(3) show False by auto
qed

section \<open>Publishing is exclusive\<close>

lemma history_attached:
  assumes "trace (history_step sim_env) c h c'" and "cloud_ok c" and "attached_at (store_of c) i m"
    and "\<forall>e \<in> set (List.map_filter store_event h). \<not> frees i e"
  shows "attached_at (store_of c') i m"
  using attached_stays [OF store.trace_abs [OF assms(1,2)] assms(3,4)] .

text \<open>A published volume is attached, at the end of the history, to a machine that was listed for
  the request, unless some call may have freed it.\<close>

lemma published_attached:
  assumes "controller_runs sim_env d calls answers c hist c'" and "cloud_ok c" and "i < length calls"
    and "calls ! i = ControllerPublishVolumeCall req" and "answers ! i = Some (Some OK)"
    and free: "\<forall>e \<in> set (List.map_filter store_event hist). \<not> frees (pub_VolumeId req) e"
  shows "\<exists>m. attached_at (store_of c') (pub_VolumeId req) m \<and> listed_machine d (pub_NodeId req) m (calls_by i hist)"
proof -
  have run: "trace (history_step sim_env) c hist c'"
    using assms(1) unfolding controller_runs_def by (rule interleaved_trace)
  have "wp (map (controller_handle (traced script_env) d) calls ! i) (publish_answer d req) []"
    using assms(3,4) wp_publish_answer by simp
  from interleaved_wp [OF assms(1) [unfolded controller_runs_def] _ this] assms(3,5)
  have "publish_answer d req (Some OK) (calls_by i hist)" by simp
  with history_no_ok [OF run] obtain ctx where eff: "publish_effect d req (Ok ctx) (calls_by i hist)"
    by (auto simp: publish_answer_def)
  have rest: "attached_at (store_of c') (pub_VolumeId req) m"
    if "hist = h1 @ h2" "trace (history_step sim_env) c h1 c1" "trace (history_step sim_env) c1 h2 c'"
      "attached_at (store_of c1) (pub_VolumeId req) m" for h1 h2 c1 m
    by (rule history_attached [OF that(3) store.trace_inv [OF that(2) assms(2)] that(4)])
      (use free that(1) in \<open>auto simp: map_filter_def\<close>)
  from eff obtain x m where listed: "listed_machine d (pub_NodeId req) m (calls_by i hist)"
    and cases: "hd (calls_by i hist) = Get_Volume (pub_VolumeId req) (Some x) None \<and>
        m \<in> AttachedToIdentity ` set (vol_Attachments x) \<or>
      filter mutating (calls_by i hist) = [Attach_Volume (pub_VolumeId req) (attach_to m) None]"
    by (auto simp: publish_effect_def split: option.splits)
  from listed have nonempty: "calls_by i hist \<noteq> []" by (auto simp: listed_machine_def simp del: in_calls_by)
  from cases show ?thesis
  proof
    assume x: "hd (calls_by i hist) = Get_Volume (pub_VolumeId req) (Some x) None \<and>
      m \<in> AttachedToIdentity ` set (vol_Attachments x)"
    with nonempty have "(i, Get_Volume (pub_VolumeId req) (Some x) None) \<in> set hist"
      by (metis hd_in_set in_calls_by)
    from history_event [OF run this] obtain h1 h2 c1 c2 where h: "hist = h1 @ (i, Get_Volume (pub_VolumeId req) (Some x) None) # h2"
      "trace (history_step sim_env) c h1 c1" "replies sim_env c1 (Get_Volume (pub_VolumeId req) (Some x) None) c2"
      "trace (history_step sim_env) c2 h2 c'" .
    have ok: "cloud_ok c1" by (rule store.trace_inv [OF h(2) assms(2)])
    from h(3) have found: "sim_find_volume c1 (pub_VolumeId req) = Some x" "c2 = c1"
      by (auto simp: sim_lookup_def split: option.splits)
    with ok have "length (vol_Attachments x) \<le> 1" by (auto simp: cloud_ok_def dest: find_volume_SomeD)
    with x found have "attached_at (store_of c1) (pub_VolumeId req) m"
      by (cases "vol_Attachments x") (auto simp: attached_at_def store_of_def entry_of_def)
    moreover have "trace (history_step sim_env) c1 ((i, Get_Volume (pub_VolumeId req) (Some x) None) # h2) c'"
      using h(3,4) by (auto intro: trace_cons)
    ultimately show ?thesis using rest [OF h(1,2)] listed by blast
  next
    let ?k = "Attach_Volume (pub_VolumeId req) (attach_to m) None"
    assume "filter mutating (calls_by i hist) = [?k]"
    then have "?k \<in> set (filter mutating (calls_by i hist))" by simp
    then have "(i, ?k) \<in> set hist" by (simp only: set_filter mem_Collect_eq in_calls_by)
    from history_event [OF run this] obtain h1 h2 c1 c2 where h: "hist = h1 @ (i, ?k) # h2"
      "trace (history_step sim_env) c h1 c1" "replies sim_env c1 ?k c2" "trace (history_step sim_env) c2 h2 c'" .
    have ok: "cloud_ok c1" by (rule store.trace_inv [OF h(2) assms(2)])
    have "attached_at (store_of c2) (pub_VolumeId req) m"
      using replies_attach [OF ok h(3)] by (auto simp: attached_at_def attach_to_def)
    moreover have "trace (history_step sim_env) c (h1 @ [(i, ?k)]) c2" using h(2,3) by (auto intro: trace_snoc)
    moreover have "hist = (h1 @ [(i, ?k)]) @ h2" using h(1) by simp
    ultimately show ?thesis using rest [OF _ _ h(4)] listed by blast
  qed
qed

lemma listed_machine_sim:
  assumes "trace (history_step sim_env) c hist c'" and "d_kubeConfig d = ''''"
    and "listed_machine d n m (calls_by i hist)"
  shows "find_machine n (c_machines c) = Some m"
proof -
  from assms(2,3) obtain machines where l: "(i, List_Machines (machine_filters d) machines None) \<in> set hist"
    "find_machine n machines = Some m" by (auto simp: listed_machine_def)
  from history_event [OF assms(1) l(1)] obtain h1 h2 c1 c2 where "hist = h1 @ (i, List_Machines (machine_filters d) machines None) # h2"
    and before: "trace (history_step sim_env) c h1 c1"
    and "replies sim_env c1 (List_Machines (machine_filters d) machines None) c2" .
  then have "machines = c_machines c1" by auto
  with l(2) history_machines [OF before] show ?thesis by simp
qed

text \<open>C11: Publishing is exclusive under concurrency: when two publishing calls of the same volume, on
  the reference cloud and among any other concurrent calls that neither detach nor delete that
  volume, both succeed, in any interleaving, then their nodes are the same machine, and the volume
  is attached to it in the end.\<close>

theorem publish_exclusive:
  assumes "controller_runs sim_env d calls answers c hist c'" and "cloud_ok c" and "d_kubeConfig d = ''''"
    and "i < length calls" and "calls ! i = ControllerPublishVolumeCall p" and "answers ! i = Some (Some OK)"
    and "j < length calls" and "calls ! j = ControllerPublishVolumeCall q" and "answers ! j = Some (Some OK)"
    and "pub_VolumeId q = pub_VolumeId p"
    and "DeleteVolumeCall (pub_VolumeId p) \<notin> set calls"
    and "\<forall>n. ControllerUnpublishVolumeCall (pub_VolumeId p) n \<notin> set calls"
  shows "\<exists>m. find_machine (pub_NodeId p) (c_machines c) = Some m \<and>
    find_machine (pub_NodeId q) (c_machines c) = Some m \<and> attached_at (store_of c') (pub_VolumeId p) m"
proof -
  have run: "trace (history_step sim_env) c hist c'"
    using assms(1) unfolding controller_runs_def by (rule interleaved_trace)
  have free: "\<forall>e \<in> set (List.map_filter store_event hist). \<not> frees (pub_VolumeId p) e"
    using history_asks [OF assms(1)] assms(11,12) by (fastforce simp: frees_def asks_store_def)
  from published_attached [OF assms(1,2,4-6) free] obtain m where
    m: "attached_at (store_of c') (pub_VolumeId p) m" "listed_machine d (pub_NodeId p) m (calls_by i hist)" by blast
  from published_attached [OF assms(1,2,7-9)] free assms(10) obtain m' where
    m': "attached_at (store_of c') (pub_VolumeId p) m'" "listed_machine d (pub_NodeId q) m' (calls_by j hist)" by auto
  from attached_unique [OF m(1) m'(1)] listed_machine_sim [OF run assms(3)] m m' show ?thesis by blast
qed

theorem publish_exclusive_witness: "attached_at (store_of attached_cloud) ''vol-0'' ''m-1''"
  using publish_exclusive [OF publish_history_runs attach_cloud_ok, of 0 sample_publish 1 sample_publish]
    sample_publish_facts by (auto simp: sample_publish_def)

section \<open>Races\<close>

lemma follows_expand:
  assumes "trim_space (exp_VolumeId req) \<noteq> ''''"
    and "getStorageSizeFromCapacityRange (exp_CapacityRange req) = Inr bytes"
    and "sint (vol_Size v) < sint (to_giB bytes)"
  shows "follows (controller_handle (traced script_env) d (ControllerExpandVolumeCall req))
    [Get_Volume (exp_VolumeId req) (Some v) None,
     Update_Volume (exp_VolumeId req) (resize_update v (to_giB bytes)) None] (Some OK)"
  using assms
  by (simp add: follows_def controller_handle_def answer_wire_def ControllerExpandVolume_def Let_def
      isVolumeSizeEuqalOrLargerThanRequested_def)

lemma update_replies:
  assumes "cloud_ok c" and "store_of c i = Some (n, a)"
  shows "\<exists>c'. replies sim_env c (Update_Volume i u None) c' \<and> cloud_ok c' \<and>
    store_of c' i = Some (uv_Size u, a)"
proof -
  from assms(2) obtain v where v: "sim_find_volume c i = Some v" by (auto simp: store_of_def)
  obtain x c' where run: "sim_update_volume i u c = ((x, None), c')"
    using v by (simp add: sim_update_volume_def Let_def)
  then have replies: "replies sim_env c (Update_Volume i u None) c'" by simp
  with replies_update [OF assms(1) this] assms(2) show ?thesis by (intro exI [of _ c']) auto
qed

text \<open>C26: A volume can shrink: two expansions of a volume that run concurrently on the reference cloud,
  both to more than its size, can interleave so that both succeed, the larger size is in force for
  a while, and the volume ends with the smaller one. No call shrinks the volume that it has read;
  the driver takes no lock between the reading and the update.\<close>

theorem concurrent_expand_shrinks:
  assumes "cloud_ok c" and "sim_find_volume c (exp_VolumeId p) = Some v" and "exp_VolumeId q = exp_VolumeId p"
    and "trim_space (exp_VolumeId p) \<noteq> ''''"
    and "getStorageSizeFromCapacityRange (exp_CapacityRange p) = Inr small"
    and "getStorageSizeFromCapacityRange (exp_CapacityRange q) = Inr large"
    and "sint (vol_Size v) < sint (to_giB small)" and "sint (to_giB small) < sint (to_giB large)"
  shows "\<exists>hist hist' c1 c' a.
    controller_runs sim_env d [ControllerExpandVolumeCall p, ControllerExpandVolumeCall q]
      [None, Some (Some OK)] c hist c1 \<and>
    store_of c1 (exp_VolumeId p) = Some (to_giB large, a) \<and>
    controller_runs sim_env d [ControllerExpandVolumeCall p, ControllerExpandVolumeCall q]
      [Some (Some OK), Some (Some OK)] c (hist @ hist') c' \<and>
    store_of c' (exp_VolumeId p) = Some (to_giB small, a)"
proof -
  let ?i = "exp_VolumeId p"
  let ?get = "Get_Volume ?i (Some v) None"
  let ?up = "\<lambda>n. Update_Volume ?i (resize_update v (to_giB n)) None"
  let ?hist = "[(0, ?get), (1, ?get), (1, ?up large)]"
  obtain a where v: "store_of c ?i = Some (vol_Size v, a)"
    using assms(2) by (simp add: store_of_def entry_of_def)
  have get: "replies sim_env c ?get c" using assms(2) by (simp add: sim_lookup_def)
  from update_replies [OF assms(1) v] obtain c1 where c1: "replies sim_env c (?up large) c1" "cloud_ok c1"
    "store_of c1 ?i = Some (to_giB large, a)" by (fastforce simp: resize_update_def)
  from update_replies [OF c1(2,3)] obtain c2 where c2: "replies sim_env c1 (?up small) c2"
    "store_of c2 ?i = Some (to_giB small, a)" by (fastforce simp: resize_update_def)
  have run1: "trace (history_step sim_env) c ?hist c1"
    using get c1(1) by (simp only: trace_Cons_iff trace_Nil_iff snd_conv) blast
  have run2: "trace (history_step sim_env) c (?hist @ [(0, ?up small)]) c2"
    by (rule trace_snoc [OF run1]) (use c2(1) in simp)
  have p: "follows (controller_handle (traced script_env) d (ControllerExpandVolumeCall p)) [?get, ?up small] (Some OK)"
    using follows_expand [OF assms(4,5,7)] .
  have q: "follows (controller_handle (traced script_env) d (ControllerExpandVolumeCall q)) [?get, ?up large] (Some OK)"
    using follows_expand [of q large v d] assms(3,4,6-8) by simp
  have "controller_runs sim_env d [ControllerExpandVolumeCall p, ControllerExpandVolumeCall q]
      [None, Some (Some OK)] c ?hist c1"
    using run1 p q by (auto simp: controller_runs_def interleaved_def obeyed_def progress_def less_2_cases_iff)
  moreover have "controller_runs sim_env d [ControllerExpandVolumeCall p, ControllerExpandVolumeCall q]
      [Some (Some OK), Some (Some OK)] c (?hist @ [(0, ?up small)]) c2"
    using run2 p q by (auto simp: controller_runs_def interleaved_def obeyed_def progress_def less_2_cases_iff)
  ultimately show ?thesis using c1(3) c2(2) by blast
qed

lemma follows_create:
  assumes "createVolume_size d req = Inr bytes" and "req_VolumeContentSource req = None"
    and "result_of (resolveVolumeTypeIdentity sim_env (lookup_str (req_Parameters req) ''volume-type'')) c = Inr vt"
  shows "follows (controller_handle (traced script_env) d (CreateVolumeCall req))
    [Get_Volume (createVolume_identity req) None (Some not_found_error), List_Volume_Types (c_types c) None,
     Create_Volume (buildCreateVolumeRequest d req (req_Name req) bytes vt) (Some v) None] (Some OK)"
proof -
  let ?p = "lookup_str (req_Parameters req) ''volume-type''"
  have types: "run_state (resolveVolumeTypeIdentity (traced script_env) ?p) (List_Volume_Types (c_types c) None # ks, js) =
      (Inr vt, (ks, js @ [List_Volume_Types (c_types c) None]))" for ks js
    using assms(3) by (simp add: resolveVolumeTypeIdentity_def Let_def)
  have "cv_RestoreFromSnapshotId (buildCreateVolumeRequest d req (req_Name req) bytes vt) = None"
    by (simp add: buildCreateVolumeRequest_def Let_def)
  with assms(1,2) types show ?thesis
    by (simp add: follows_def controller_handle_def answer_wire_def CreateVolume_def applySnapshotRestore_def
        createVolume_create_def)
qed

text \<open>C27: Two identical create calls that run concurrently on the reference cloud, whether or not it finds
  volumes by name, can interleave so that both succeed and two volumes of the same name exist, with
  different identities: each call looks the name up before either creates, and the driver takes no
  lock on the name.\<close>

theorem concurrent_create_duplicates:
  assumes "createVolume_size d req = Inr bytes" and "req_VolumeContentSource req = None"
    and "sim_find_volume c (createVolume_identity req) = None"
    and "result_of (resolveVolumeTypeIdentity sim_env (lookup_str (req_Parameters req) ''volume-type'')) c = Inr vt"
  shows "\<exists>hist c' v1 v2.
    controller_runs sim_env d [CreateVolumeCall req, CreateVolumeCall req] [Some (Some OK), Some (Some OK)] c hist c' \<and>
    c_volumes c' = c_volumes c @ [v1, v2] \<and> vol_Name v1 = req_Name req \<and> vol_Name v2 = req_Name req \<and>
    vol_Identity v1 \<noteq> vol_Identity v2"
proof -
  let ?cv = "buildCreateVolumeRequest d req (req_Name req) bytes vt"
  let ?look = "[Get_Volume (createVolume_identity req) None (Some not_found_error), List_Volume_Types (c_types c) None]"
  let ?made = "\<lambda>v. Create_Volume ?cv (Some v) None"
  let ?v1 = "new_volume (''vol-'' @ show_nat (c_next c)) ?cv"
  let ?v2 = "new_volume (''vol-'' @ show_nat (Suc (c_next c))) ?cv"
  let ?c2 = "c\<lparr> c_volumes := c_volumes c @ [?v1, ?v2], c_next := Suc (Suc (c_next c)) \<rparr>"
  let ?hist = "map (Pair 0) ?look @ map (Pair 1) ?look @ [(0, ?made ?v1), (1, ?made ?v2)]"
  have "trace (history_step sim_env) c ?hist ?c2"
    using assms(3) by (simp add: trace_Cons_iff sim_lookup_def sim_create_volume_def Let_def)
  moreover have "follows (controller_handle (traced script_env) d (CreateVolumeCall req)) (?look @ [?made v]) (Some OK)" for v
    using follows_create [OF assms(1,2,4)] by simp
  ultimately have run: "controller_runs sim_env d [CreateVolumeCall req, CreateVolumeCall req]
      [Some (Some OK), Some (Some OK)] c ?hist ?c2"
    by (auto simp: controller_runs_def interleaved_def obeyed_def progress_def less_2_cases_iff)
  have "vol_Name ?v1 = req_Name req" "vol_Name ?v2 = req_Name req" "vol_Identity ?v1 \<noteq> vol_Identity ?v2"
    by (simp_all add: new_volume_def buildCreateVolumeRequest_def Let_def)
  with run show ?thesis by (intro exI [of _ ?hist] exI [of _ ?c2] exI [of _ ?v1] exI [of _ ?v2]) simp
qed

section \<open>The races on concrete clouds\<close>

definition sample_expand_to :: "int64 \<Rightarrow> expand_request" where
  "sample_expand_to n =
     sample_expand\<lparr> exp_CapacityRange := Some \<lparr> required_bytes = n * giB, limit_bytes = 0 \<rparr> \<rparr>"

theorem concurrent_expand_shrinks_witness:
  "\<exists>hist c' a. controller_runs sim_env sample_driver
     [ControllerExpandVolumeCall (sample_expand_to 20), ControllerExpandVolumeCall (sample_expand_to 30)]
     [Some (Some OK), Some (Some OK)] attach_cloud hist c' \<and> store_of c' ''vol-0'' = Some (20, a)"
proof -
  have "getStorageSizeFromCapacityRange (exp_CapacityRange (sample_expand_to 20)) = Inr (20 * giB)"
    "getStorageSizeFromCapacityRange (exp_CapacityRange (sample_expand_to 30)) = Inr (30 * giB)"
    "exp_VolumeId (sample_expand_to n) = ''vol-0''" for n
    by (simp_all add: sample_expand_to_def sample_expand_def getStorageSizeFromCapacityRange_def unit_values)
  moreover have "trim_space ''vol-0'' \<noteq> ''''" by code_simp
  moreover have "to_giB (20 * giB) = 20" "to_giB (30 * giB) = 30" by code_simp+
  moreover have "sim_find_volume attach_cloud ''vol-0'' = Some sample_volume" "sint (vol_Size sample_volume) = 10"
    by (simp_all add: sim_find_volume_def attach_cloud_def sample_volume_def)
  ultimately show ?thesis
    using concurrent_expand_shrinks [OF attach_cloud_ok, of "sample_expand_to 20" sample_volume "sample_expand_to 30"
        "20 * giB" "30 * giB" sample_driver] by fastforce
qed

theorem concurrent_create_duplicates_witness:
  "\<exists>hist c' v1 v2. controller_runs sim_env sample_driver
     (replicate 2 (CreateVolumeCall (sample_request (2 * giB)))) (replicate 2 (Some (Some OK)))
     (sample_cloud\<lparr> c_by_name := True \<rparr>) hist c' \<and>
   c_volumes c' = [v1, v2] \<and> vol_Name v1 = vol_Name v2"
proof -
  let ?c = "sample_cloud\<lparr> c_by_name := True \<rparr>"
  have "sim_find_volume ?c i = None" for i by (simp add: sim_find_volume_def)
  moreover have "result_of (resolveVolumeTypeIdentity sim_env
      (lookup_str (req_Parameters (sample_request (2 * giB))) ''volume-type'')) ?c = Inr ''vt-1''"
    using sample_create(3) by (simp add: resolveVolumeTypeIdentity_def Let_def)
  ultimately show ?thesis
    using concurrent_create_duplicates [OF sample_create(1,2), of ?c "''vt-1''"]
    by (simp add: numeral_2_eq_2) metis
qed

end
