(* ===== verification/Requests.thy ===== *)
theory Requests
  imports ConcurrentController Lifecycle
begin

text \<open>
  What the controller sends to the cloud is well formed: the type discipline of the requests that
  change something, with the limits and the marks of ownership that the code promises for them,
  kept by every handler and so in every concurrent history.
\<close>

section \<open>Well-formed requests\<close>

text \<open>The labels by which the cluster's resources are recognised; under all other keys those of the
  field \<open>CustomLabels\<close> of the driver.\<close>

definition reserved_labels :: "string set" where
  "reserved_labels =
     {''k8s.thalassa.cloud/csi-driver'', ''k8s.thalassa.cloud/csi-driver-name'',
      ''k8s.thalassa.cloud/cluster-identity'', ''csi.volume.id''}"

definition owned_labels :: "driver \<Rightarrow> labels \<Rightarrow> bool" where
  "owned_labels d l \<longleftrightarrow>
     l ''k8s.thalassa.cloud/csi-driver'' = Some ''true'' \<and>
     l ''k8s.thalassa.cloud/csi-driver-name'' = Some (d_name d) \<and>
     (d_clusterIdentity d \<noteq> '''' \<longrightarrow> l ''k8s.thalassa.cloud/cluster-identity'' = Some (d_clusterIdentity d)) \<and>
     l |` (- reserved_labels) = d_CustomLabels d |` (- reserved_labels)"

definition size_in_range :: "int64 \<Rightarrow> bool" where
  "size_in_range n \<longleftrightarrow> 0 \<le> sint n \<and> sint n \<le> 2 ^ 14"

fun well_formed :: "driver \<Rightarrow> call \<Rightarrow> bool" where
  "well_formed d (Create_Volume c v e) \<longleftrightarrow>
     cv_Name c \<noteq> '''' \<and> size_in_range (cv_Size c) \<and> cv_CloudRegionIdentity c = d_region d \<and>
     cv_Description c = createdByThalassaCSI \<and> owned_labels d (cv_Labels c)"
| "well_formed d (Update_Volume i u e) \<longleftrightarrow> trim_space i \<noteq> '''' \<and> size_in_range (uv_Size u)"
| "well_formed d (Delete_Volume i e) \<longleftrightarrow> i \<noteq> ''''"
| "well_formed d (Attach_Volume i a e) \<longleftrightarrow> i \<noteq> '''' \<and> ar_ResourceType a = ''cloud_virtual_machine''"
| "well_formed d (Detach_Volume i a e) \<longleftrightarrow> i \<noteq> '''' \<and> ar_ResourceType a = ''cloud_virtual_machine''"
| "well_formed d (Create_Snapshot c s e) \<longleftrightarrow>
     cs_Name c \<noteq> '''' \<and> cs_Labels c ''csi.volume.id'' \<notin> {None, Some ''''} \<and> owned_labels d (cs_Labels c)"
| "well_formed d (Delete_Snapshot i e) \<longleftrightarrow> i \<noteq> ''''"
| "well_formed d _ = True"

text \<open>The calls of a handler; those that only read need no check.\<close>

definition sends_well_formed :: "driver \<Rightarrow> call list \<Rightarrow> bool" where
  "sends_well_formed d ks \<longleftrightarrow> (\<forall>k \<in> set (filter mutating ks). well_formed d k)"

lemma reading_well_formed: "\<not> mutating k \<Longrightarrow> well_formed d k"
  by (cases k) simp_all

lemma sends_well_formed_all: "sends_well_formed d ks \<longleftrightarrow> (\<forall>k \<in> set ks. well_formed d k)"
  using reading_well_formed by (auto simp: sends_well_formed_def)

lemma sends_nothing [simp]: "filter mutating ks = [] \<Longrightarrow> sends_well_formed d ks"
  by (simp add: sends_well_formed_def)

lemma sends_one: "filter mutating ks = [k] \<Longrightarrow> sends_well_formed d ks \<longleftrightarrow> well_formed d k"
  by (simp add: sends_well_formed_def)

section \<open>Each request\<close>

lemma create_request_owned: "owned_labels d (cv_Labels (buildCreateVolumeRequest d req n b vt))"
  by (auto simp: buildCreateVolumeRequest_def Let_def owned_labels_def add_missing_def reserved_labels_def
      restrict_map_def map_add_def fun_eq_iff)

lemma snapshot_request_owned:
  "owned_labels d (cs_Labels (snapshot_request d req vi))" "cs_Name (snapshot_request d req vi) = csr_Name req"
  "cs_Labels (snapshot_request d req vi) ''csi.volume.id'' = Some (csr_SourceVolumeId req)"
  by (auto simp: snapshot_request_def Let_def owned_labels_def add_missing_def reserved_labels_def
      restrict_map_def map_add_def fun_eq_iff)

lemma size_accepted:
  assumes "getStorageSizeFromCapacityRange c = Inr bytes"
  shows "size_in_range (to_giB bytes)"
proof -
  have "sint maximumVolumeSizeInBytes = 2 ^ 44" by (simp add: maximumVolumeSizeInBytes_def unit_values)
  with storage_size_max [OF assms] have "0 < sint bytes" "sint bytes \<le> 2 ^ 44" by simp_all
  then show ?thesis using zdiv_mono1 [of "sint bytes" "2 ^ 44" "2 ^ 30"] by (simp add: size_in_range_def sint_to_giB)
qed

lemma create_well_formed:
  assumes "createVolume_size d req = Inr bytes"
  shows "well_formed d (Create_Volume (create_request d req bytes vt) v e)"
  using assms size_accepted [of _ bytes] create_request_owned
  by (auto simp: create_request_def createVolume_size_Inr) (simp_all add: buildCreateVolumeRequest_def Let_def)

section \<open>Each handler\<close>

lemma sends_CreateVolume: "create_volume_effect d req r ks \<Longrightarrow> sends_well_formed d ks"
  by (auto simp: create_volume_effect_def sends_one simp del: well_formed.simps intro!: create_well_formed split: sum.splits)

lemma sends_Publish: "publish_effect d req r ks \<Longrightarrow> sends_well_formed d ks"
  by (auto simp: publish_effect_def sends_one attach_to_def publish_invalid_def split: option.splits if_splits)

lemma sends_Unpublish: "i \<noteq> '''' \<Longrightarrow> unpublish_effect d i n r ks \<Longrightarrow> sends_well_formed d ks"
  by (auto simp: unpublish_effect_def sends_one attach_to_def)

lemma sends_CreateSnapshot:
  "csr_Name req \<noteq> '''' \<Longrightarrow> csr_SourceVolumeId req \<noteq> '''' \<Longrightarrow> create_snapshot_effect d req r ks \<Longrightarrow> sends_well_formed d ks"
  by (auto simp: create_snapshot_effect_def get_or_create_effect_def sends_one snapshot_request_owned)

lemma sends_Expand:
  "trim_space (exp_VolumeId req) \<noteq> '''' \<Longrightarrow> expand_effect req r ks \<Longrightarrow> sends_well_formed d ks"
  by (auto simp: expand_effect_def sends_one resize_update_def intro: size_accepted)

text \<open>A call whose arguments are refused is answered before it makes any call to the cloud.\<close>

lemma wp_sends:
  "wp (CreateVolume (traced env) d cvr) (\<lambda>_. sends_well_formed d) []"
  "wp (ControllerPublishVolume (traced env) d pvr) (\<lambda>_. sends_well_formed d) []"
  "wp (ControllerUnpublishVolume (traced env) d i n) (\<lambda>_. sends_well_formed d) []"
  "wp (CreateSnapshot (traced env) d csr) (\<lambda>_. sends_well_formed d) []"
  "wp (ControllerExpandVolume (traced env) exr) (\<lambda>_. sends_well_formed d) []"
  "wp (DeleteVolume (traced env) i) (\<lambda>_. sends_well_formed d) []"
  "wp (DeleteSnapshot (traced env) i) (\<lambda>_. sends_well_formed d) []"
proof -
  show "wp (CreateVolume (traced env) d cvr) (\<lambda>_. sends_well_formed d) []"
    by (rule wp_mono [OF wp_CreateVolume]) (rule sends_CreateVolume)
  show "wp (ControllerPublishVolume (traced env) d pvr) (\<lambda>_. sends_well_formed d) []"
    by (rule wp_mono [OF wp_ControllerPublishVolume]) (rule sends_Publish)
  show "wp (ControllerUnpublishVolume (traced env) d i n) (\<lambda>_. sends_well_formed d) []"
  proof (cases "i = ''''")
    case False
    from wp_ControllerUnpublishVolume [OF this] sends_Unpublish [OF this] show ?thesis by (rule wp_mono)
  qed (simp add: ControllerUnpublishVolume_def)
  show "wp (CreateSnapshot (traced env) d csr) (\<lambda>_. sends_well_formed d) []"
  proof (cases "csr_Name csr = '''' \<or> csr_SourceVolumeId csr = ''''")
    case False
    with wp_mono [OF wp_CreateSnapshot sends_CreateSnapshot [of csr d]] show ?thesis by simp
  qed (auto simp: CreateSnapshot_def)
  show "wp (ControllerExpandVolume (traced env) exr) (\<lambda>_. sends_well_formed d) []"
  proof (cases "trim_space (exp_VolumeId exr) = ''''")
    case False
    from wp_ControllerExpandVolume sends_Expand [OF this] show ?thesis by (rule wp_mono)
  qed (simp add: ControllerExpandVolume_def Let_def)
  show "wp (DeleteVolume (traced env) i) (\<lambda>_. sends_well_formed d) []"
    by (auto simp: DeleteVolume_def sends_well_formed_def intro!: wp_intros)
  show "wp (DeleteSnapshot (traced env) i) (\<lambda>_. sends_well_formed d) []"
    by (auto simp: DeleteSnapshot_def sends_well_formed_def intro!: wp_intros)
qed

lemma wp_sends_nothing:
  "wp (ListVolumes (traced env) d lvr) (\<lambda>_. sends_well_formed d) []"
  "wp (ListSnapshots (traced env) d lsr) (\<lambda>_. sends_well_formed d) []"
  "wp (ValidateVolumeCapabilities (traced env) d vcr) (\<lambda>_. sends_well_formed d) []"
  by (auto simp: ListVolumes_def ListSnapshots_def ValidateVolumeCapabilities_def intro!: wp_intros split: option.splits)

lemma wp_controller_sends: "wp (controller_handle (traced env) d call) (\<lambda>_. sends_well_formed d) []"
  by (cases call) (simp_all add: controller_handle_def wp_answer_wire wp_sends wp_sends_nothing)

section \<open>Properties\<close>

text \<open>The labels of what a call creates.\<close>

fun created_labels :: "call \<Rightarrow> labels" where
  "created_labels (Create_Volume c v e) = cv_Labels c"
| "created_labels (Create_Snapshot c s e) = cs_Labels c"
| "created_labels _ = Map.empty"

lemma created_labels_reserved:
  assumes "well_formed d k" and "d_CustomLabels d = Map.empty"
  shows "dom (created_labels k) \<subseteq> reserved_labels"
proof -
  have "dom l \<subseteq> reserved_labels" if "owned_labels d l" for l
    using that assms(2) by (auto simp: owned_labels_def restrict_map_def fun_eq_iff split: if_splits)
  with assms(1) show ?thesis by (cases k) simp_all
qed

text \<open>C10: Every request by which the controller changes the cloud is well formed, in every concurrent
  history, whatever was asked and whatever the API answers: a volume is created with a name, in
  the driver's region, with a size between 0 and 16384 GiB (16 TiB); a volume is resized to such a
  size; what is deleted, attached or detached is named, and attached to a virtual machine; and
  every volume and snapshot that is created carries the driver's labels, that of its cluster if
  one is configured, and otherwise exactly the labels of the driver's field \<open>CustomLabels\<close>, which
  never override them. No flag fills that field: for a driver that the \<open>plugin\<close> command makes, with
  whatever flags, the labels are the reserved ones only.\<close>

theorem requests_well_formed:
  assumes "controller_runs env d calls answers w hist w'" and "(i, k) \<in> set hist"
  shows "well_formed d k \<and>
    ((\<exists>newClient iaasNew version v. plugin_driver newClient iaasNew version v = Inr d) \<longrightarrow>
       dom (created_labels k) \<subseteq> reserved_labels)"
proof -
  have i: "i < length calls" using controller_runs_index [OF assms] .
  have "wp (map (controller_handle (traced script_env) d) calls ! i) (\<lambda>_. sends_well_formed d) []"
    using i wp_controller_sends by simp
  from interleaved_wp [OF assms(1) [unfolded controller_runs_def] _ this] i
  have "\<exists>ks. sends_well_formed d (calls_by i hist @ ks)" by (auto split: option.splits intro: exI [of _ "[]"])
  moreover have "k \<in> set (calls_by i hist)" using assms(2) by (force simp: calls_by_def)
  ultimately have "well_formed d k" by (auto simp: sends_well_formed_all)
  then show ?thesis using created_labels_reserved plugin_driver_settings by blast
qed

theorem requests_well_formed_witness:
  "(0, Attach_Volume ''vol-0'' (attach_to ''m-1'') None) \<in> set publish_history \<and>
   well_formed sample_driver (Attach_Volume ''vol-0'' (attach_to ''m-1'') None)"
proof
  show "(0, Attach_Volume ''vol-0'' (attach_to ''m-1'') None) \<in> set publish_history" by (simp add: publish_history_def)
  then show "well_formed sample_driver (Attach_Volume ''vol-0'' (attach_to ''m-1'') None)"
    using requests_well_formed [OF publish_history_runs] by blast
qed

end
