(* ===== verification/NodeConcurrency.thy ===== *)
theory NodeConcurrency
  imports Interleaving Service
begin

text \<open>
  The node plugin under concurrency: the handlers of \<open>driver/node.go\<close> run in goroutines of their own,
  too, and hold no lock on a device or a path, so the operations of the mounter that they make, and
  their own calls to the operating system, interleave freely (theory Interleaving). What every
  interleaving keeps, and what the missing locks allow.
\<close>

section \<open>The operations of a node\<close>

datatype node_op =
    Format_Op string string err
  | IsFormatted_Op string bool err
  | Mount_Op string string string "string list" err
  | Unmount_Op string err
  | IsAttached_Op string err
  | IsMounted_Op string "(bool \<times> err) option"
  | GetDeviceName_Op string string err
  | GetStatistics_Op string volumeStatistics err
  | IsBlockDevice_Op string bool err
  | Os_Op os_call

definition traced_mounter :: "'w mounter \<Rightarrow> ('w \<times> node_op list) mounter" where
  "traced_mounter m =
     \<lparr> m_Format = (\<lambda>x y. journal (\<lambda>e. Format_Op x y e) (m_Format m x y)),
       m_IsFormatted = (\<lambda>x. journal (\<lambda>(b, e). IsFormatted_Op x b e) (m_IsFormatted m x)),
       m_Mount = (\<lambda>x y z u. journal (\<lambda>e. Mount_Op x y z u e) (m_Mount m x y z u)),
       m_Unmount = (\<lambda>x. journal (\<lambda>e. Unmount_Op x e) (m_Unmount m x)),
       m_IsAttached = (\<lambda>x. journal (\<lambda>e. IsAttached_Op x e) (m_IsAttached m x)),
       m_IsMounted = (\<lambda>x. journal (\<lambda>r. IsMounted_Op x r) (m_IsMounted m x)),
       m_GetDeviceName = (\<lambda>x. journal (\<lambda>(y, e). GetDeviceName_Op x y e) (m_GetDeviceName m x)),
       m_GetStatistics = (\<lambda>x. journal (\<lambda>(st, e). GetStatistics_Op x st e) (m_GetStatistics m x)),
       m_IsBlockDevice = (\<lambda>x. journal (\<lambda>(b, e). IsBlockDevice_Op x b e) (m_IsBlockDevice m x)) \<rparr>"

definition traced_node_os :: "'w os \<Rightarrow> ('w \<times> node_op list) os" where
  "traced_node_os os =
     \<lparr> os_LookPath = (\<lambda>x. journal (\<lambda>e. Os_Op (Look_Path x e)) (os_LookPath os x)),
       os_Command = (\<lambda>x u. journal (\<lambda>(y, r). Os_Op (Command x u y r)) (os_Command os x u)),
       os_Stat = (\<lambda>x. journal (\<lambda>e. Os_Op (Stat x e)) (os_Stat os x)),
       os_MkdirAll = (\<lambda>x n. journal (\<lambda>e. Os_Op (Mkdir_All x n e)) (os_MkdirAll os x n)),
       os_CreateFile = (\<lambda>x n. journal (\<lambda>e. Os_Op (Create_File x n e)) (os_CreateFile os x n)),
       os_CloseFile = (\<lambda>x. journal (\<lambda>e. Os_Op (Close_File x e)) (os_CloseFile os x)),
       os_EvalSymlinks = (\<lambda>x. journal (\<lambda>(y, e). Os_Op (Eval_Symlinks x y e)) (os_EvalSymlinks os x)),
       os_ReadFile = (\<lambda>x. journal (\<lambda>(y, e). Os_Op (Read_File x y e)) (os_ReadFile os x)),
       unix_Statfs = (\<lambda>x. journal (\<lambda>(st, e). Os_Op (Statfs x st e)) (unix_Statfs os x)),
       unix_StatMode = (\<lambda>x. journal (\<lambda>(n, e). Os_Op (Stat_Mode x n e)) (unix_StatMode os x)),
       mount_CleanupMountPoint = (\<lambda>x. journal (\<lambda>e. Os_Op (Cleanup_Mount_Point x e)) (mount_CleanupMountPoint os x)),
       mount_GetDeviceNameFromMount = (\<lambda>x. journal (\<lambda>(y, e). Os_Op (Device_Name_From_Mount x y e)) (mount_GetDeviceNameFromMount os x)),
       mount_NeedResize = (\<lambda>x y. journal (\<lambda>(b, e). Os_Op (Need_Resize x y b e)) (mount_NeedResize os x y)),
       mount_Resize = (\<lambda>x y. journal (\<lambda>(b, e). Os_Op (Resize_Fs x y b e)) (mount_Resize os x y)) \<rparr>"

definition script_mounter :: "node_op list mounter" where
  "script_mounter =
     \<lparr> m_Format = (\<lambda>x y. scripted
         (\<lambda>k. case k of Format_Op x' y' e \<Rightarrow> if x' = x \<and> y' = y then Some e else None | _ \<Rightarrow> None) None),
       m_IsFormatted = (\<lambda>x. scripted
         (\<lambda>k. case k of IsFormatted_Op x' b e \<Rightarrow> if x' = x then Some (b, e) else None | _ \<Rightarrow> None) (False, None)),
       m_Mount = (\<lambda>x y z u. scripted
         (\<lambda>k. case k of Mount_Op x' y' z' u' e \<Rightarrow> if x' = x \<and> y' = y \<and> z' = z \<and> u' = u then Some e else None | _ \<Rightarrow> None) None),
       m_Unmount = (\<lambda>x. scripted
         (\<lambda>k. case k of Unmount_Op x' e \<Rightarrow> if x' = x then Some e else None | _ \<Rightarrow> None) None),
       m_IsAttached = (\<lambda>x. scripted
         (\<lambda>k. case k of IsAttached_Op x' e \<Rightarrow> if x' = x then Some e else None | _ \<Rightarrow> None) None),
       m_IsMounted = (\<lambda>x. scripted
         (\<lambda>k. case k of IsMounted_Op x' r \<Rightarrow> if x' = x then Some r else None | _ \<Rightarrow> None) None),
       m_GetDeviceName = (\<lambda>x. scripted
         (\<lambda>k. case k of GetDeviceName_Op x' y e \<Rightarrow> if x' = x then Some (y, e) else None | _ \<Rightarrow> None) ([], None)),
       m_GetStatistics = (\<lambda>x. scripted
         (\<lambda>k. case k of GetStatistics_Op x' st e \<Rightarrow> if x' = x then Some (st, e) else None | _ \<Rightarrow> None) (no_statistics, None)),
       m_IsBlockDevice = (\<lambda>x. scripted
         (\<lambda>k. case k of IsBlockDevice_Op x' b e \<Rightarrow> if x' = x then Some (b, e) else None | _ \<Rightarrow> None) (False, None)) \<rparr>"

definition script_os :: "node_op list os" where
  "script_os =
     \<lparr> os_LookPath = (\<lambda>x. scripted
         (\<lambda>k. case k of Os_Op (Look_Path x' e) \<Rightarrow> if x' = x then Some e else None | _ \<Rightarrow> None) None),
       os_Command = (\<lambda>x u. scripted
         (\<lambda>k. case k of Os_Op (Command x' u' y r) \<Rightarrow> if x' = x \<and> u' = u then Some (y, r) else None | _ \<Rightarrow> None) ([], None)),
       os_Stat = (\<lambda>x. scripted
         (\<lambda>k. case k of Os_Op (Stat x' e) \<Rightarrow> if x' = x then Some e else None | _ \<Rightarrow> None) None),
       os_MkdirAll = (\<lambda>x n. scripted
         (\<lambda>k. case k of Os_Op (Mkdir_All x' n' e) \<Rightarrow> if x' = x \<and> n' = n then Some e else None | _ \<Rightarrow> None) None),
       os_CreateFile = (\<lambda>x n. scripted
         (\<lambda>k. case k of Os_Op (Create_File x' n' e) \<Rightarrow> if x' = x \<and> n' = n then Some e else None | _ \<Rightarrow> None) None),
       os_CloseFile = (\<lambda>x. scripted
         (\<lambda>k. case k of Os_Op (Close_File x' e) \<Rightarrow> if x' = x then Some e else None | _ \<Rightarrow> None) None),
       os_EvalSymlinks = (\<lambda>x. scripted
         (\<lambda>k. case k of Os_Op (Eval_Symlinks x' y e) \<Rightarrow> if x' = x then Some (y, e) else None | _ \<Rightarrow> None) ([], None)),
       os_ReadFile = (\<lambda>x. scripted
         (\<lambda>k. case k of Os_Op (Read_File x' y e) \<Rightarrow> if x' = x then Some (y, e) else None | _ \<Rightarrow> None) ([], None)),
       unix_Statfs = (\<lambda>x. scripted
         (\<lambda>k. case k of Os_Op (Statfs x' st e) \<Rightarrow> if x' = x then Some (st, e) else None | _ \<Rightarrow> None) (\<lparr> st_Bsize = 0, st_Blocks = 0, st_Bfree = 0, st_Bavail = 0, st_Files = 0, st_Ffree = 0 \<rparr>, None)),
       unix_StatMode = (\<lambda>x. scripted
         (\<lambda>k. case k of Os_Op (Stat_Mode x' n e) \<Rightarrow> if x' = x then Some (n, e) else None | _ \<Rightarrow> None) (0, None)),
       mount_CleanupMountPoint = (\<lambda>x. scripted
         (\<lambda>k. case k of Os_Op (Cleanup_Mount_Point x' e) \<Rightarrow> if x' = x then Some e else None | _ \<Rightarrow> None) None),
       mount_GetDeviceNameFromMount = (\<lambda>x. scripted
         (\<lambda>k. case k of Os_Op (Device_Name_From_Mount x' y e) \<Rightarrow> if x' = x then Some (y, e) else None | _ \<Rightarrow> None) ([], None)),
       mount_NeedResize = (\<lambda>x y. scripted
         (\<lambda>k. case k of Os_Op (Need_Resize x' y' b e) \<Rightarrow> if x' = x \<and> y' = y then Some (b, e) else None | _ \<Rightarrow> None) (False, None)),
       mount_Resize = (\<lambda>x y. scripted
         (\<lambda>k. case k of Os_Op (Resize_Fs x' y' b e) \<Rightarrow> if x' = x \<and> y' = y then Some (b, e) else None | _ \<Rightarrow> None) (False, None)) \<rparr>"

lemmas traced_node_simps =
  traced_mounter_def [THEN arg_cong, of m_Format, simplified]
  traced_mounter_def [THEN arg_cong, of m_IsFormatted, simplified]
  traced_mounter_def [THEN arg_cong, of m_Mount, simplified]
  traced_mounter_def [THEN arg_cong, of m_Unmount, simplified]
  traced_mounter_def [THEN arg_cong, of m_IsAttached, simplified]
  traced_mounter_def [THEN arg_cong, of m_IsMounted, simplified]
  traced_mounter_def [THEN arg_cong, of m_GetDeviceName, simplified]
  traced_mounter_def [THEN arg_cong, of m_GetStatistics, simplified]
  traced_mounter_def [THEN arg_cong, of m_IsBlockDevice, simplified]
  traced_node_os_def [THEN arg_cong, of os_LookPath, simplified]
  traced_node_os_def [THEN arg_cong, of os_Command, simplified]
  traced_node_os_def [THEN arg_cong, of os_Stat, simplified]
  traced_node_os_def [THEN arg_cong, of os_MkdirAll, simplified]
  traced_node_os_def [THEN arg_cong, of os_CreateFile, simplified]
  traced_node_os_def [THEN arg_cong, of os_CloseFile, simplified]
  traced_node_os_def [THEN arg_cong, of os_EvalSymlinks, simplified]
  traced_node_os_def [THEN arg_cong, of os_ReadFile, simplified]
  traced_node_os_def [THEN arg_cong, of unix_Statfs, simplified]
  traced_node_os_def [THEN arg_cong, of unix_StatMode, simplified]
  traced_node_os_def [THEN arg_cong, of mount_CleanupMountPoint, simplified]
  traced_node_os_def [THEN arg_cong, of mount_GetDeviceNameFromMount, simplified]
  traced_node_os_def [THEN arg_cong, of mount_NeedResize, simplified]
  traced_node_os_def [THEN arg_cong, of mount_Resize, simplified]

lemmas script_node_simps =
  script_mounter_def [THEN arg_cong, of m_Format, simplified]
  script_mounter_def [THEN arg_cong, of m_IsFormatted, simplified]
  script_mounter_def [THEN arg_cong, of m_Mount, simplified]
  script_mounter_def [THEN arg_cong, of m_Unmount, simplified]
  script_mounter_def [THEN arg_cong, of m_IsAttached, simplified]
  script_mounter_def [THEN arg_cong, of m_IsMounted, simplified]
  script_mounter_def [THEN arg_cong, of m_GetDeviceName, simplified]
  script_mounter_def [THEN arg_cong, of m_GetStatistics, simplified]
  script_mounter_def [THEN arg_cong, of m_IsBlockDevice, simplified]
  script_os_def [THEN arg_cong, of os_LookPath, simplified]
  script_os_def [THEN arg_cong, of os_Command, simplified]
  script_os_def [THEN arg_cong, of os_Stat, simplified]
  script_os_def [THEN arg_cong, of os_MkdirAll, simplified]
  script_os_def [THEN arg_cong, of os_CreateFile, simplified]
  script_os_def [THEN arg_cong, of os_CloseFile, simplified]
  script_os_def [THEN arg_cong, of os_EvalSymlinks, simplified]
  script_os_def [THEN arg_cong, of os_ReadFile, simplified]
  script_os_def [THEN arg_cong, of unix_Statfs, simplified]
  script_os_def [THEN arg_cong, of unix_StatMode, simplified]
  script_os_def [THEN arg_cong, of mount_CleanupMountPoint, simplified]
  script_os_def [THEN arg_cong, of mount_GetDeviceNameFromMount, simplified]
  script_os_def [THEN arg_cong, of mount_NeedResize, simplified]
  script_os_def [THEN arg_cong, of mount_Resize, simplified]

text \<open>The answers of a mounter and an operating system.\<close>

fun os_replies :: "'w os \<Rightarrow> 'w \<Rightarrow> os_call \<Rightarrow> 'w \<Rightarrow> bool" where
  "os_replies os w (Look_Path x e) w' = (run_state (os_LookPath os x) w = (e, w'))"
| "os_replies os w (Command x u y r) w' = (run_state (os_Command os x u) w = ((y, r), w'))"
| "os_replies os w (Stat x e) w' = (run_state (os_Stat os x) w = (e, w'))"
| "os_replies os w (Mkdir_All x n e) w' = (run_state (os_MkdirAll os x n) w = (e, w'))"
| "os_replies os w (Create_File x n e) w' = (run_state (os_CreateFile os x n) w = (e, w'))"
| "os_replies os w (Close_File x e) w' = (run_state (os_CloseFile os x) w = (e, w'))"
| "os_replies os w (Eval_Symlinks x y e) w' = (run_state (os_EvalSymlinks os x) w = ((y, e), w'))"
| "os_replies os w (Read_File x y e) w' = (run_state (os_ReadFile os x) w = ((y, e), w'))"
| "os_replies os w (Statfs x st e) w' = (run_state (unix_Statfs os x) w = ((st, e), w'))"
| "os_replies os w (Stat_Mode x n e) w' = (run_state (unix_StatMode os x) w = ((n, e), w'))"
| "os_replies os w (Cleanup_Mount_Point x e) w' = (run_state (mount_CleanupMountPoint os x) w = (e, w'))"
| "os_replies os w (Device_Name_From_Mount x y e) w' = (run_state (mount_GetDeviceNameFromMount os x) w = ((y, e), w'))"
| "os_replies os w (Need_Resize x y b e) w' = (run_state (mount_NeedResize os x y) w = ((b, e), w'))"
| "os_replies os w (Resize_Fs x y b e) w' = (run_state (mount_Resize os x y) w = ((b, e), w'))"

fun node_replies :: "'w mounter \<Rightarrow> 'w os \<Rightarrow> 'w \<Rightarrow> node_op \<Rightarrow> 'w \<Rightarrow> bool" where
  "node_replies m os w (Format_Op x y e) w' = (run_state (m_Format m x y) w = (e, w'))"
| "node_replies m os w (IsFormatted_Op x b e) w' = (run_state (m_IsFormatted m x) w = ((b, e), w'))"
| "node_replies m os w (Mount_Op x y z u e) w' = (run_state (m_Mount m x y z u) w = (e, w'))"
| "node_replies m os w (Unmount_Op x e) w' = (run_state (m_Unmount m x) w = (e, w'))"
| "node_replies m os w (IsAttached_Op x e) w' = (run_state (m_IsAttached m x) w = (e, w'))"
| "node_replies m os w (IsMounted_Op x r) w' = (run_state (m_IsMounted m x) w = (r, w'))"
| "node_replies m os w (GetDeviceName_Op x y e) w' = (run_state (m_GetDeviceName m x) w = ((y, e), w'))"
| "node_replies m os w (GetStatistics_Op x st e) w' = (run_state (m_GetStatistics m x) w = ((st, e), w'))"
| "node_replies m os w (IsBlockDevice_Op x b e) w' = (run_state (m_IsBlockDevice m x) w = ((b, e), w'))"
| "node_replies m os w (Os_Op c) w' = os_replies os w c w'"

abbreviation node_mirrored ::
    "'w mounter \<Rightarrow> 'w os \<Rightarrow> ('w \<times> node_op list, 'r) state \<Rightarrow> (node_op, 'r) scripted_run \<Rightarrow> bool" where
  "node_mirrored m os \<equiv> mirrors (node_replies m os)"

lemma mirrored_ops [mirror_intros]:
  "node_mirrored m os (m_Format (traced_mounter m) x y) (m_Format (traced_mounter script_mounter) x y)"
  "node_mirrored m os (m_IsFormatted (traced_mounter m) x) (m_IsFormatted (traced_mounter script_mounter) x)"
  "node_mirrored m os (m_Mount (traced_mounter m) x y z u) (m_Mount (traced_mounter script_mounter) x y z u)"
  "node_mirrored m os (m_Unmount (traced_mounter m) x) (m_Unmount (traced_mounter script_mounter) x)"
  "node_mirrored m os (m_IsAttached (traced_mounter m) x) (m_IsAttached (traced_mounter script_mounter) x)"
  "node_mirrored m os (m_IsMounted (traced_mounter m) x) (m_IsMounted (traced_mounter script_mounter) x)"
  "node_mirrored m os (m_GetDeviceName (traced_mounter m) x) (m_GetDeviceName (traced_mounter script_mounter) x)"
  "node_mirrored m os (m_GetStatistics (traced_mounter m) x) (m_GetStatistics (traced_mounter script_mounter) x)"
  "node_mirrored m os (m_IsBlockDevice (traced_mounter m) x) (m_IsBlockDevice (traced_mounter script_mounter) x)"
  by (auto simp: traced_node_simps script_node_simps intro!: mirrors_journal split: prod.splits)

lemma mirrored_os [mirror_intros]:
  "node_mirrored m os (os_LookPath (traced_node_os os) x) (os_LookPath (traced_node_os script_os) x)"
  "node_mirrored m os (os_Command (traced_node_os os) x u) (os_Command (traced_node_os script_os) x u)"
  "node_mirrored m os (os_Stat (traced_node_os os) x) (os_Stat (traced_node_os script_os) x)"
  "node_mirrored m os (os_MkdirAll (traced_node_os os) x n) (os_MkdirAll (traced_node_os script_os) x n)"
  "node_mirrored m os (os_CreateFile (traced_node_os os) x n) (os_CreateFile (traced_node_os script_os) x n)"
  "node_mirrored m os (os_CloseFile (traced_node_os os) x) (os_CloseFile (traced_node_os script_os) x)"
  "node_mirrored m os (os_EvalSymlinks (traced_node_os os) x) (os_EvalSymlinks (traced_node_os script_os) x)"
  "node_mirrored m os (os_ReadFile (traced_node_os os) x) (os_ReadFile (traced_node_os script_os) x)"
  "node_mirrored m os (unix_Statfs (traced_node_os os) x) (unix_Statfs (traced_node_os script_os) x)"
  "node_mirrored m os (unix_StatMode (traced_node_os os) x) (unix_StatMode (traced_node_os script_os) x)"
  "node_mirrored m os (mount_CleanupMountPoint (traced_node_os os) x) (mount_CleanupMountPoint (traced_node_os script_os) x)"
  "node_mirrored m os (mount_GetDeviceNameFromMount (traced_node_os os) x) (mount_GetDeviceNameFromMount (traced_node_os script_os) x)"
  "node_mirrored m os (mount_NeedResize (traced_node_os os) x y) (mount_NeedResize (traced_node_os script_os) x y)"
  "node_mirrored m os (mount_Resize (traced_node_os os) x y) (mount_Resize (traced_node_os script_os) x y)"
  by (auto simp: traced_node_simps script_node_simps intro!: mirrors_journal split: prod.splits)

section \<open>The handlers as concurrent processes\<close>

lemma mirrored_absolute [mirror_intros]:
  "node_mirrored m os (findAbsoluteDeviceByIDPath (traced_node_os os) i) (findAbsoluteDeviceByIDPath (traced_node_os script_os) i)"
  unfolding findAbsoluteDeviceByIDPath_def Let_def by (auto intro!: mirror_intros)

lemma mirrored_bind_mount [mirror_intros]:
  "node_mirrored m os (bind_mount (traced_mounter m) s t fs opts f) (bind_mount (traced_mounter script_mounter) s t fs opts f)"
  unfolding bind_mount_def by (auto intro!: mirror_intros split: option.splits prod.splits bool.splits)

lemma mirrored_stage_format [mirror_intros]:
  "node_mirrored m os (stage_format (traced_mounter m) d s fs) (stage_format (traced_mounter script_mounter) d s fs)"
  unfolding stage_format_def format_if_blank_def by (auto intro!: mirror_intros split: option.splits prod.splits bool.splits)

lemma mirrored_stage_mount [mirror_intros]:
  "node_mirrored m os (stage_mount (traced_mounter m) s t fs opts) (stage_mount (traced_mounter script_mounter) s t fs opts)"
  unfolding stage_mount_def by (auto intro!: mirror_intros split: option.splits prod.splits bool.splits)

lemma mirrored_stage_resize [mirror_intros]:
  "node_mirrored m os (stage_resize (traced_node_os os) i s t) (stage_resize (traced_node_os script_os) i s t)"
  unfolding stage_resize_def by (auto intro!: mirror_intros split: option.splits prod.splits bool.splits)

lemma mirrored_NodeStageVolume [mirror_intros]:
  "node_mirrored m os (NodeStageVolume (traced_mounter m) (traced_node_os os) d req)
     (NodeStageVolume (traced_mounter script_mounter) (traced_node_os script_os) d req)"
  unfolding NodeStageVolume_def Let_def by (auto intro!: mirror_intros split: option.splits prod.splits bool.splits)

lemma mirrored_NodeUnstageVolume [mirror_intros]:
  "node_mirrored m os (NodeUnstageVolume (traced_mounter m) i t) (NodeUnstageVolume (traced_mounter script_mounter) i t)"
  unfolding NodeUnstageVolume_def by (auto intro!: mirror_intros split: option.splits prod.splits bool.splits)

lemma mirrored_NodePublishVolume [mirror_intros]:
  "node_mirrored m os (NodePublishVolume (traced_mounter m) (traced_node_os os) req)
     (NodePublishVolume (traced_mounter script_mounter) (traced_node_os script_os) req)"
  unfolding NodePublishVolume_def nodePublishVolumeForBlock_def nodePublishVolumeForFileSystem_def Let_def
  by (auto intro!: mirror_intros split: option.splits sum.splits access_type.splits)

lemma mirrored_NodeUnpublishVolume [mirror_intros]:
  "node_mirrored m os (NodeUnpublishVolume (traced_mounter m) i t) (NodeUnpublishVolume (traced_mounter script_mounter) i t)"
  unfolding NodeUnpublishVolume_def by (auto intro!: mirror_intros)

lemma mirrored_NodeGetVolumeStats [mirror_intros]:
  "node_mirrored m os (NodeGetVolumeStats (traced_mounter m) i p) (NodeGetVolumeStats (traced_mounter script_mounter) i p)"
  unfolding NodeGetVolumeStats_def by (auto intro!: mirror_intros split: option.splits prod.splits bool.splits)

lemma mirrored_NodeExpandVolume [mirror_intros]:
  "node_mirrored m os (NodeExpandVolume (traced_mounter m) (traced_node_os os) req)
     (NodeExpandVolume (traced_mounter script_mounter) (traced_node_os script_os) req)"
  unfolding NodeExpandVolume_def Let_def by (auto intro!: mirror_intros split: option.splits prod.splits bool.splits)

lemma mirrored_node_answer [mirror_intros]: "mirrors step p s \<Longrightarrow> mirrors step (answer_wire p) (answer_wire s)"
  unfolding answer_wire_def by (intro mirror_intros)

lemma mirrored_node_handle:
  "node_mirrored m os (node_handle (traced_mounter m) (traced_node_os os) d call)
     (node_handle (traced_mounter script_mounter) (traced_node_os script_os) d call)"
  unfolding node_handle_def by (auto intro!: mirror_intros split: node_call.splits)

text \<open>The scripted handler of a call, and the histories of calls that run concurrently on one node;
  \<open>answers\<close> has the status code of each call that has been answered.\<close>

definition node_process :: "driver \<Rightarrow> node_call \<Rightarrow> (node_op, code option) scripted_run" where
  "node_process d call = node_handle (traced_mounter script_mounter) (traced_node_os script_os) d call"

definition node_runs ::
    "'w mounter \<Rightarrow> 'w os \<Rightarrow> driver \<Rightarrow> node_call list \<Rightarrow> code option option list \<Rightarrow>
     'w \<Rightarrow> node_op tagged_calls \<Rightarrow> 'w \<Rightarrow> bool" where
  "node_runs m os d calls answers = interleaved (node_replies m os) (map (node_process d) calls) answers"

text \<open>The histories of one answered call are exactly the runs of its handler.\<close>

lemma node_run_single:
  "node_runs m os d [call] [Some r] w hist w' \<longleftrightarrow>
     run_state (node_handle (traced_mounter m) (traced_node_os os) d call) (w, []) = (r, (w', map snd hist)) \<and>
     (\<forall>e \<in> set hist. fst e = 0)"
  unfolding node_runs_def node_process_def list.map by (rule single_history) (rule mirrored_node_handle)

section \<open>What a handler does, whatever happens around it\<close>

text \<open>A device is formatted only after the same call has read that it is blank, and a target is mounted only
  after it has read that nothing is mounted there; \<open>B\<close> and \<open>U\<close> are the devices and the targets it has
  read so.\<close>

fun checked :: "string set \<Rightarrow> string set \<Rightarrow> node_op list \<Rightarrow> bool" where
  "checked B U [] = True"
| "checked B U (Format_Op dev fs e # ks) \<longleftrightarrow> dev \<in> B \<and> checked B U ks"
| "checked B U (IsFormatted_Op dev b e # ks) \<longleftrightarrow> checked (if \<not> b \<and> e = None then insert dev B else B) U ks"
| "checked B U (Mount_Op s t fs opts e # ks) \<longleftrightarrow> t \<in> U \<and> checked B U ks"
| "checked B U (IsMounted_Op t r # ks) \<longleftrightarrow> checked B (if r = Some (False, None) then insert t U else U) ks"
| "checked B U (k # ks) \<longleftrightarrow> checked B U ks"

fun is_format :: "node_op \<Rightarrow> bool" where
  "is_format (Format_Op dev fs e) = True"
| "is_format _ = False"

lemma checked_append: "checked B U (ks @ ks') \<Longrightarrow> checked B U ks"
  by (induction B U ks rule: checked.induct) auto

lemma checked_format:
  "checked B U ks \<Longrightarrow> Format_Op dev fs e \<in> set ks \<Longrightarrow> dev \<in> B \<or> IsFormatted_Op dev False None \<in> set ks"
  by (induction B U ks rule: checked.induct) (auto split: if_splits)

lemma checked_mount:
  "checked B U ks \<Longrightarrow> Mount_Op s t fs opts e \<in> set ks \<Longrightarrow> t \<in> U \<or> IsMounted_Op t (Some (False, None)) \<in> set ks"
  by (induction B U ks rule: checked.induct) (auto split: if_splits)

text \<open>The paths a call may unmount, and the attachment that a successful stage has seen.\<close>

fun unmounts :: "node_call \<Rightarrow> string set" where
  "unmounts (NodeUnstageVolumeCall i t) = {t}"
| "unmounts (NodeUnpublishVolumeCall i t) = {t}"
| "unmounts _ = {}"

text \<open>A request that the node plugin checks for its attachment: of a file system, with the check
  switched on, and without the annotation that forbids formatting, which skips the check, too.\<close>

definition checks_attachment :: "driver \<Rightarrow> stage_request \<Rightarrow> bool" where
  "checks_attachment d req \<longleftrightarrow>
     d_validateAttachment d \<and> GetMount (the (stg_VolumeCapability req)) \<noteq> None \<and>
     \<not> no_format (stg_VolumeContext req) annsNoFormatVolume"

fun stage_saw :: "driver \<Rightarrow> node_call \<Rightarrow> node_op list \<Rightarrow> bool" where
  "stage_saw d (NodeStageVolumeCall req) ks \<longleftrightarrow>
     (checks_attachment d req \<longrightarrow> IsAttached_Op (getDeviceByIDPath (stg_VolumeId req)) None \<in> set ks)"
| "stage_saw d call ks \<longleftrightarrow> True"

text \<open>The calls to the operating system that the node service makes itself.\<close>

fun own_os :: "node_op \<Rightarrow> bool" where
  "own_os (Os_Op (Stat x e)) = True"
| "own_os (Os_Op (Eval_Symlinks x y e)) = True"
| "own_os (Os_Op (Need_Resize x y b e)) = True"
| "own_os (Os_Op (Resize_Fs x y b e)) = True"
| "own_os (Os_Op _) = False"
| "own_os _ = True"

definition node_effect :: "driver \<Rightarrow> node_call \<Rightarrow> code option \<Rightarrow> node_op list \<Rightarrow> bool" where
  "node_effect d call r ks \<longleftrightarrow>
     checked {} {} ks \<and> length (filter is_format ks) \<le> 1 \<and>
     (\<forall>t e. Unmount_Op t e \<in> set ks \<longrightarrow> t \<in> unmounts call) \<and> (\<forall>k \<in> set ks. own_os k) \<and>
     (r = Some OK \<longrightarrow> stage_saw d call ks)"

lemma node_effect_quiet: "\<not> (\<exists>req. call = NodeStageVolumeCall req) \<Longrightarrow> node_effect d call r []"
  by (cases call) (simp_all add: node_effect_def)

lemma GetMount_block [simp]: "vc_AccessType cap = Some VolumeCapability_Block \<Longrightarrow> GetMount cap = None"
  by (simp add: GetMount_def)

lemma wp_stage_effect:
  "wp (NodeStageVolume (traced_mounter m) (traced_node_os os) d req)
     (\<lambda>r. node_effect d (NodeStageVolumeCall req) (wire r)) []"
  unfolding NodeStageVolume_def Let_def stage_format_def format_if_blank_def stage_mount_def stage_resize_def
  by (auto simp: node_effect_def checks_attachment_def traced_node_simps stage_invalid_def
      intro!: wp_intros split: option.splits prod.splits bool.splits)

lemma wp_bind_mount:
  assumes "\<And>r ks. checked {} {} ks \<Longrightarrow> filter is_format ks = [] \<Longrightarrow> \<forall>t e. Unmount_Op t e \<notin> set ks \<Longrightarrow>
      \<forall>k \<in> set ks. own_os k \<Longrightarrow> Q r (js @ ks)"
  shows "wp (bind_mount (traced_mounter m) s t fs opts f) Q js"
proof -
  note q1 = assms [of "[_]", simplified] and q2 = assms [of "[_, _]", simplified]
  show ?thesis
    unfolding bind_mount_def
    by (auto simp: traced_node_simps intro!: wp_intros q1 q2 split: option.splits prod.splits bool.splits)
qed

lemma wp_publish_effect:
  "wp (NodePublishVolume (traced_mounter m) (traced_node_os os) req)
     (\<lambda>r. node_effect d (NodePublishVolumeCall req) (wire r)) []"
  unfolding NodePublishVolume_def nodePublishVolumeForBlock_def nodePublishVolumeForFileSystem_def
    findAbsoluteDeviceByIDPath_def Let_def
  by (auto simp: node_effect_def traced_node_simps
      intro!: wp_intros wp_bind_mount split: option.splits sum.splits access_type.splits)

lemma wp_other_effects:
  "wp (NodeUnstageVolume (traced_mounter m) i t) (\<lambda>r. node_effect d (NodeUnstageVolumeCall i t) (wire r)) []"
  "wp (NodeUnpublishVolume (traced_mounter m) i t) (\<lambda>r. node_effect d (NodeUnpublishVolumeCall i t) (wire r)) []"
  "wp (NodeGetVolumeStats (traced_mounter m) i t) (\<lambda>r. node_effect d (NodeGetVolumeStatsCall i t) (wire r)) []"
  "wp (NodeExpandVolume (traced_mounter m) (traced_node_os os) er) (\<lambda>r. node_effect d (NodeExpandVolumeCall er) (wire r)) []"
  unfolding NodeUnstageVolume_def NodeUnpublishVolume_def NodeGetVolumeStats_def NodeExpandVolume_def Let_def
  by (auto simp: node_effect_def traced_node_simps intro!: wp_intros split: option.splits prod.splits bool.splits)

lemma wp_wire: "wp p (\<lambda>r. Q (wire r)) js \<Longrightarrow> wp (answer_wire p) Q js"
  unfolding answer_wire_def by (rule wp_bind, erule wp_mono) simp

lemma wp_node_effect:
  "wp (node_handle (traced_mounter m) (traced_node_os os) d call) (node_effect d call) []"
  unfolding node_handle_def
  by (cases call) (auto intro!: wp_wire wp_stage_effect wp_publish_effect wp_other_effects node_effect_quiet)

text \<open>The part of a call in a history: its effect is that of its own calls, or of a continuation.\<close>

lemma node_process_effect:
  assumes "progress (node_process d call) ks answer"
  shows "checked {} {} ks \<and> length (filter is_format ks) \<le> 1 \<and> (\<forall>t e. Unmount_Op t e \<in> set ks \<longrightarrow> t \<in> unmounts call) \<and>
    (\<forall>k \<in> set ks. own_os k) \<and> (answer = Some (Some OK) \<longrightarrow> stage_saw d call ks)"
proof -
  have effect: "node_effect d call r js" if "follows (node_process d call) js r" for js r
    using wp_follows [OF wp_node_effect] that unfolding node_process_def .
  show ?thesis
  proof (cases answer)
    case None
    with assms obtain ks' r where "follows (node_process d call) (ks @ ks') r" by (auto simp: progress_def)
    from effect [OF this] None show ?thesis by (auto simp: node_effect_def dest: checked_append)
  next
    case (Some r)
    with assms have "follows (node_process d call) ks r" by (simp add: progress_def)
    from effect [OF this] Some show ?thesis by (simp add: node_effect_def)
  qed
qed

section \<open>The operations of the mock mounter\<close>

lemma mock_op:
  assumes "node_replies MockMounter os w k w'" and "own_os k" and "os_keeps mock_view os"
  shows mock_op_formatted: "FormattedDevices w' =
      (case k of Format_Op dev fs None \<Rightarrow> (FormattedDevices w)(dev \<mapsto> fs) | _ \<Rightarrow> FormattedDevices w)"
    and mock_op_mounts: "MountPoints w' =
      (case k of Mount_Op s t fs opts None \<Rightarrow> (MountPoints w)(t \<mapsto> s) | Unmount_Op t None \<Rightarrow> (MountPoints w)(t := None)
       | _ \<Rightarrow> MountPoints w)"
proof -
  have os: "FormattedDevices w' = FormattedDevices w" "MountPoints w' = MountPoints w" if "k = Os_Op c" for c
  proof -
    have "mock_view w' = mock_view w"
      using that assms by (cases c) (simp_all add: os_keeps_def, (metis snd_conv)+)
    then show "FormattedDevices w' = FormattedDevices w" "MountPoints w' = MountPoints w"
      by (simp_all add: mock_view_def)
  qed
  note defs = mock_Format_def mock_IsFormatted_def mock_Mount_def mock_Unmount_def mock_IsAttached_def
    mock_IsMounted_def mock_GetDeviceName_def mock_GetStatistics_def mock_IsBlockDevice_def
  show "FormattedDevices w' =
      (case k of Format_Op dev fs None \<Rightarrow> (FormattedDevices w)(dev \<mapsto> fs) | _ \<Rightarrow> FormattedDevices w)"
    using assms(1) os by (cases k) (auto simp: defs split: option.splits)
  show "MountPoints w' =
      (case k of Mount_Op s t fs opts None \<Rightarrow> (MountPoints w)(t \<mapsto> s) | Unmount_Op t None \<Rightarrow> (MountPoints w)(t := None)
       | _ \<Rightarrow> MountPoints w)"
    using assms(1) os by (cases k) (auto simp: defs split: option.splits)
qed

lemma mock_op_reads:
  "node_replies MockMounter os w (IsFormatted_Op dev False None) w' \<Longrightarrow> FormattedDevices w dev = None"
  "node_replies MockMounter os w (IsMounted_Op t (Some (False, None))) w' \<Longrightarrow> MountPoints w t = None"
  "node_replies MockMounter os w (IsAttached_Op dev None) w' \<Longrightarrow> AttachedDevices w dev"
  by (auto simp: mock_IsFormatted_def mock_IsMounted_def mock_IsAttached_def split: if_splits)

section \<open>Two stages of one volume\<close>

text \<open>A node on which a request stages a file system, which it may format: the volume context does not
  forbid it, the target is free and no command is set to fail.\<close>

definition stages_on :: "mock \<Rightarrow> stage_request \<Rightarrow> mount_volume \<Rightarrow> bool" where
  "stages_on w r mnt \<longleftrightarrow>
     stage_invalid r = None \<and> \<not> no_format (stg_VolumeContext r) annsNoFormatVolume \<and>
     vc_AccessType (the (stg_VolumeCapability r)) = Some (VolumeCapability_Mount (Some mnt)) \<and>
     MountPoints w (stg_StagingTargetPath r) = None \<and>
     FormatErrors w = (\<lambda>_. None) \<and> MountErrors w = (\<lambda>_. None) \<and> UnmountErrors w = (\<lambda>_. None)"

text \<open>The operations of a stage that finds its device attached, if that is checked, and blank, up to and
  after the reading that it is blank.\<close>

definition stage_reads :: "driver \<Rightarrow> stage_request \<Rightarrow> node_op list" where
  "stage_reads d r =
     (let dev = getDeviceByIDPath (stg_VolumeId r)
      in (if d_validateAttachment d then [IsAttached_Op dev None] else []) @ [IsFormatted_Op dev False None])"

definition stage_writes :: "stage_request \<Rightarrow> mount_volume \<Rightarrow> node_op list" where
  "stage_writes r mnt =
     (let dev = getDeviceByIDPath (stg_VolumeId r); target = stg_StagingTargetPath r
      in [Format_Op dev (fs_type_of mnt) None,
          IsMounted_Op target (Some (False, None)), Mount_Op dev target (fs_type_of mnt) (mv_MountFlags mnt) None,
          Os_Op (Stat dev absent)])"

lemma stage_follows:
  assumes "stages_on w r mnt"
  shows "follows (node_process d (NodeStageVolumeCall r)) (stage_reads d r @ stage_writes r mnt) (Some OK)"
  using assms
  by (simp add: stages_on_def follows_def node_process_def node_handle_def answer_wire_def NodeStageVolume_def Let_def
      GetMount_def stage_format_def format_if_blank_def stage_mount_def stage_resize_def
      stage_reads_def stage_writes_def absent_def traced_node_simps script_node_simps)

lemma unstage_follows:
  assumes "i \<noteq> ''''" and "t \<noteq> ''''"
  shows "follows (node_process d (NodeUnstageVolumeCall i t)) [IsMounted_Op t (Some (True, None)), Unmount_Op t None] (Some OK)"
  using assms
  by (simp add: follows_def node_process_def node_handle_def answer_wire_def NodeUnstageVolume_def
      traced_node_simps script_node_simps)

text \<open>Both calls read that the device is blank; the first formats it, mounts it and ends, and the volume is
  unstaged; then the second goes on.\<close>

definition first_stage :: "driver \<Rightarrow> stage_request \<Rightarrow> mount_volume \<Rightarrow> stage_request \<Rightarrow> node_op tagged_calls" where
  "first_stage d p fs1 q =
     map (Pair 1) (stage_reads d q) @ map (Pair 0) (stage_reads d p @ stage_writes p fs1) @
     map (Pair 2) [IsMounted_Op (stg_StagingTargetPath p) (Some (True, None)), Unmount_Op (stg_StagingTargetPath p) None]"

definition second_stage :: "stage_request \<Rightarrow> mount_volume \<Rightarrow> node_op tagged_calls" where
  "second_stage q fs2 = map (Pair 1) (stage_writes q fs2)"

lemma stage_twice_progress:
  assumes "stages_on w p fs1" and "stages_on w q fs2" and "stg_VolumeId p = i"
  defines "calls \<equiv> [NodeStageVolumeCall p, NodeStageVolumeCall q, NodeUnstageVolumeCall i (stg_StagingTargetPath p)]"
  shows "\<forall>j < 3. progress (map (node_process d) calls ! j) (calls_by j (first_stage d p fs1 q))
      ([Some (Some OK), None, Some (Some OK)] ! j)"
    and "\<forall>j < 3. progress (map (node_process d) calls ! j) (calls_by j (first_stage d p fs1 q @ second_stage q fs2))
      ([Some (Some OK), Some (Some OK), Some (Some OK)] ! j)"
proof -
  have "i \<noteq> ''''" "stg_StagingTargetPath p \<noteq> ''''"
    using assms(1,3) by (auto simp: stages_on_def stage_invalid_def split: if_splits)
  note ends = stage_follows [OF assms(1), of d] stage_follows [OF assms(2), of d] unstage_follows [OF this, of d]
  have "\<exists>ks r. follows (node_process d (NodeStageVolumeCall q)) (stage_reads d q @ ks) r"
    using ends(2) by metis
  with ends show
    "\<forall>j < 3. progress (map (node_process d) calls ! j) (calls_by j (first_stage d p fs1 q))
      ([Some (Some OK), None, Some (Some OK)] ! j)"
    "\<forall>j < 3. progress (map (node_process d) calls ! j) (calls_by j (first_stage d p fs1 q @ second_stage q fs2))
      ([Some (Some OK), Some (Some OK), Some (Some OK)] ! j)"
    by (auto simp: calls_def first_stage_def second_stage_def progress_def numeral_3_eq_3 less_Suc_eq)
qed

lemma stage_twice_trace:
  assumes "stages_on w p fs1" and "stages_on w q fs2" and "stg_VolumeId p = i" and "stg_VolumeId q = i"
    and "dev = getDeviceByIDPath i" and "d_validateAttachment d \<longrightarrow> AttachedDevices w dev"
    and "FormattedDevices w dev = None"
  shows "\<exists>w1 w2. trace (tagged (node_replies MockMounter host_os)) w (first_stage d p fs1 q) w1 \<and>
    trace (tagged (node_replies MockMounter host_os)) w1 (second_stage q fs2) w2 \<and>
    FormattedDevices w1 = (FormattedDevices w)(dev \<mapsto> fs_type_of fs1) \<and> MountPoints w1 = MountPoints w \<and>
    FormattedDevices w2 = (FormattedDevices w)(dev \<mapsto> fs_type_of fs2)"
proof -
  let ?w1 = "w\<lparr> FormattedDevices := (FormattedDevices w)(dev \<mapsto> fs_type_of fs1) \<rparr>"
  let ?w2 = "?w1\<lparr> FormattedDevices := (FormattedDevices w)(dev \<mapsto> fs_type_of fs2),
      MountPoints := (MountPoints w)(stg_StagingTargetPath q \<mapsto> dev) \<rparr>"
  note defs = first_stage_def second_stage_def stage_reads_def stage_writes_def Let_def stages_on_def mock_Format_def mock_IsFormatted_def
    mock_Mount_def mock_Unmount_def mock_IsAttached_def mock_IsMounted_def
  have "trace (tagged (node_replies MockMounter host_os)) w (first_stage d p fs1 q) ?w1"
    using assms by (simp add: defs trace_Cons_iff fun_upd_idem)
  moreover have "trace (tagged (node_replies MockMounter host_os)) ?w1 (second_stage q fs2) ?w2"
    using assms by (simp add: defs trace_Cons_iff)
  ultimately show ?thesis by (intro exI [of _ ?w1] exI [of _ ?w2]) simp
qed

text \<open>C28: The node plugin keeps no lock on a device, so of two calls that stage the same blank volume at once
  the slower one can format it when it is in use already. Take any node of the mock mounter whose
  commands do not fail and whose operating system finds no device file to grow a file system on, and
  two requests for one blank volume (attached, if the driver checks that) that are allowed to format
  it and whose staging paths are free: both succeed, and some interleaving answers the first, and an
  unstage of it, before the second formats the device again, over the file system that the first has
  made.\<close>

theorem concurrent_stage_reformats:
  assumes "stages_on w p fs1" and "stages_on w q fs2"
    and "stg_VolumeId p = i" and "stg_VolumeId q = i" and "dev = getDeviceByIDPath i"
    and "d_validateAttachment d \<longrightarrow> AttachedDevices w dev" and "FormattedDevices w dev = None"
    and "calls = [NodeStageVolumeCall p, NodeStageVolumeCall q, NodeUnstageVolumeCall i (stg_StagingTargetPath p)]"
  shows "\<exists>h1 h2 w1 w2.
    node_runs MockMounter host_os d calls [Some (Some OK), None, Some (Some OK)] w h1 w1 \<and>
    FormattedDevices w1 dev = Some (fs_type_of fs1) \<and>
    node_runs MockMounter host_os d calls [Some (Some OK), Some (Some OK), Some (Some OK)] w (h1 @ h2) w2 \<and>
    (1, Format_Op dev (fs_type_of fs2) None) \<in> set h2 \<and> FormattedDevices w2 dev = Some (fs_type_of fs2)"
proof -
  from stage_twice_trace [OF assms(1-7)] obtain w1 w2 where
    run: "trace (tagged (node_replies MockMounter host_os)) w (first_stage d p fs1 q) w1"
    "trace (tagged (node_replies MockMounter host_os)) w1 (second_stage q fs2) w2"
    and after: "FormattedDevices w1 dev = Some (fs_type_of fs1)" "FormattedDevices w2 dev = Some (fs_type_of fs2)" by auto
  note progress = stage_twice_progress [OF assms(1-3), of d, folded assms(8)]
  have numbers: "\<forall>e \<in> set (first_stage d p fs1 q @ second_stage q fs2). fst e < length calls"
    using assms(8) by (auto simp: first_stage_def second_stage_def)
  have "(1, Format_Op dev (fs_type_of fs2) None) \<in> set (second_stage q fs2)"
    using assms(4,5) by (simp add: second_stage_def stage_writes_def Let_def)
  with run trace_append [OF run] after progress numbers assms(8) show ?thesis
    unfolding node_runs_def interleaved_def obeyed_def
    by (intro exI [of _ "first_stage d p fs1 q"] exI [of _ "second_stage q fs2"] exI [of _ w1] exI [of _ w2]) simp
qed

theorem concurrent_stage_reformats_witness:
  "\<exists>h1 h2 w1. (1 :: nat, Format_Op (getDeviceByIDPath ''vol-1'') ''xfs'' None) \<in> set h2 \<and>
     node_runs MockMounter host_os sample_driver
       [NodeStageVolumeCall sample_stage, NodeStageVolumeCall sample_stage, NodeUnstageVolumeCall ''vol-1'' ''/stage'']
       [Some (Some OK), None, Some (Some OK)] sample_node h1 w1 \<and>
     FormattedDevices w1 (getDeviceByIDPath ''vol-1'') = Some ''xfs''"
proof -
  let ?mnt = "\<lparr> mv_FsType = ''xfs'', mv_MountFlags = [] \<rparr>"
  have stages: "stages_on sample_node sample_stage ?mnt"
    by (simp add: stages_on_def sample_node_def NewMockMounter_def sample_stage_def stage_invalid_def annsNoFormatVolume_def)
  have node: "d_validateAttachment sample_driver \<longrightarrow> AttachedDevices sample_node (getDeviceByIDPath ''vol-1'')" "stg_VolumeId sample_stage = ''vol-1''"
    "stg_StagingTargetPath sample_stage = ''/stage''" "fs_type_of ?mnt = ''xfs''"
    "FormattedDevices sample_node (getDeviceByIDPath ''vol-1'') = None"
    by (simp_all add: sample_driver_def sample_stage_def fs_type_of_def sample_node_def NewMockMounter_def)
  from concurrent_stage_reformats [OF stages stages node(2,2) refl node(1,5) refl, unfolded node(3,4)]
  show ?thesis by (elim exE conjE) (intro exI conjI)
qed

end
