(* ===== verification/Cluster.thy ===== *)
theory Cluster
  imports VolumeStore NodeConcurrency
begin

text \<open>
  The plugin as it is deployed: one controller and a node plugin on every machine, with the cloud
  between them. The two never talk to each other. What the controller attaches in the cloud appears
  as a device on the machine, and what a node writes on a device stays on the volume, wherever it is
  attached next. The cloud is the reference cloud, a node is the state of \<open>driver/mock_mounter.go\<close>;
  its attached devices are read off the cloud and its file systems off the disks of the volumes.
\<close>

section \<open>The cluster\<close>

record cluster =
  cl_cloud :: cloud
  cl_disks :: "string \<rightharpoonup> string"
  cl_nodes :: "string \<Rightarrow> mock"

text \<open>The machine a volume is attached to, and the device paths of a machine.\<close>

definition machine_of :: "cloud \<Rightarrow> string \<Rightarrow> string option" where
  "machine_of c i = (case store_of c i of Some (_, m) \<Rightarrow> m | None \<Rightarrow> None)"

definition plugged :: "cloud \<Rightarrow> string \<Rightarrow> string \<Rightarrow> bool" where
  "plugged c m p \<longleftrightarrow>
     (\<exists>v \<in> set (c_volumes c). getDeviceByIDPath (vol_Identity v) = p \<and> machine_of c (vol_Identity v) = Some m)"

definition node_of :: "cluster \<Rightarrow> string \<Rightarrow> mock" where
  "node_of s m =
     (cl_nodes s m)\<lparr> FormattedDevices := cl_disks s, AttachedDevices := plugged (cl_cloud s) m \<rparr>"

definition put_node :: "string \<Rightarrow> mock \<Rightarrow> cluster \<Rightarrow> cluster" where
  "put_node m w s = s\<lparr> cl_disks := FormattedDevices w, cl_nodes := (cl_nodes s)(m := w) \<rparr>"

text \<open>A program of the controller or of the node plugin of one machine, run in the cluster.\<close>

definition on_cloud :: "(cloud, 'r) state \<Rightarrow> (cluster, 'r) state" where
  "on_cloud p = State (\<lambda>s. case run_state p (cl_cloud s) of (r, c) \<Rightarrow> (r, s\<lparr> cl_cloud := c \<rparr>))"

definition on_node :: "string \<Rightarrow> (mock, 'r) state \<Rightarrow> (cluster, 'r) state" where
  "on_node m p = State (\<lambda>s. case run_state p (node_of s m) of (r, w) \<Rightarrow> (r, put_node m w s))"

lemma run_on [simp]:
  "run_state (on_cloud p) s = (result_of p (cl_cloud s), s\<lparr> cl_cloud := world_after p (cl_cloud s) \<rparr>)"
  "run_state (on_node m q) s = (result_of q (node_of s m), put_node m (world_after q (node_of s m)) s)"
  by (simp_all add: on_cloud_def on_node_def case_prod_beta)

lemma cluster_simps [simp]:
  "MountPoints (node_of s m) = MountPoints (cl_nodes s m)" "FormattedDevices (node_of s m) = cl_disks s"
  "AttachedDevices (node_of s m) = plugged (cl_cloud s) m"
  "FormatErrors (node_of s m) = FormatErrors (cl_nodes s m)" "MountErrors (node_of s m) = MountErrors (cl_nodes s m)"
  "UnmountErrors (node_of s m) = UnmountErrors (cl_nodes s m)"
  "cl_cloud (put_node m w s) = cl_cloud s" "cl_disks (put_node m w s) = FormattedDevices w"
  "cl_nodes (put_node m w s) = (cl_nodes s)(m := w)"
  by (simp_all add: node_of_def put_node_def)

section \<open>Histories of the cluster\<close>

text \<open>Everything interleaves: the controller's calls to the cloud, and on every machine the operations of the
  mounter and the operating system that the calls of its node plugin make. An operation on a machine
  is numbered with the call that makes it.\<close>

datatype cluster_event = CloudEvent nat call | NodeEvent string nat node_op

inductive cluster_step :: "(string \<Rightarrow> mock os) \<Rightarrow> cluster \<Rightarrow> cluster_event \<Rightarrow> cluster \<Rightarrow> bool"
  for os :: "string \<Rightarrow> mock os" where
  cloud_event: "replies sim_env (cl_cloud s) k c \<Longrightarrow> cluster_step os s (CloudEvent i k) (s\<lparr> cl_cloud := c \<rparr>)"
| node_event: "node_replies MockMounter (os m) (node_of s m) k w \<Longrightarrow>
    cluster_step os s (NodeEvent m i k) (put_node m w s)"

inductive_simps cluster_step_simps [simp]:
  "cluster_step os s (CloudEvent i k) s'" "cluster_step os s (NodeEvent m i k) s'"
inductive_cases cluster_step_cases: "cluster_step os s e s'"

fun cloud_event_of :: "cluster_event \<Rightarrow> (nat \<times> call) option" where
  "cloud_event_of (CloudEvent i k) = Some (i, k)"
| "cloud_event_of (NodeEvent m i k) = None"

fun node_event_of :: "string \<Rightarrow> cluster_event \<Rightarrow> (nat \<times> node_op) option" where
  "node_event_of m (NodeEvent m' i k) = (if m' = m then Some (i, k) else None)"
| "node_event_of m (CloudEvent i k) = None"

definition cloud_part :: "cluster_event list \<Rightarrow> history" where
  "cloud_part evs = List.map_filter cloud_event_of evs"

definition node_part :: "string \<Rightarrow> cluster_event list \<Rightarrow> node_op tagged_calls" where
  "node_part m evs = List.map_filter (node_event_of m) evs"

lemma part_append [simp]:
  "cloud_part (evs @ evs') = cloud_part evs @ cloud_part evs'" "node_part m (evs @ evs') = node_part m evs @ node_part m evs'"
  by (simp_all add: cloud_part_def node_part_def map_filter_def)

lemma part_simps [simp]:
  "cloud_part [] = []" "node_part m [] = []"
  "cloud_part (CloudEvent i k # evs) = (i, k) # cloud_part evs" "cloud_part (NodeEvent n j op # evs) = cloud_part evs"
  "node_part m (CloudEvent i k # evs) = node_part m evs"
  "node_part m (NodeEvent n j op # evs) = (if n = m then (j, op) # node_part m evs else node_part m evs)"
  by (simp_all add: cloud_part_def node_part_def map_filter_simps)

lemma in_node_part [simp]: "(i, k) \<in> set (node_part m evs) \<longleftrightarrow> NodeEvent m i k \<in> set evs"
proof (induction evs)
  case (Cons e evs)
  then show ?case by (cases e) auto
qed simp

text \<open>A history of the cluster: the controller's calls and the calls of every node plugin follow their own
  parts of it.\<close>

definition cluster_runs ::
    "(string \<Rightarrow> mock os) \<Rightarrow> (string \<Rightarrow> driver) \<Rightarrow> driver \<Rightarrow> controller_call list \<Rightarrow> code option option list \<Rightarrow>
     (string \<Rightarrow> node_call list) \<Rightarrow> (string \<Rightarrow> code option option list) \<Rightarrow>
     cluster \<Rightarrow> cluster_event list \<Rightarrow> cluster \<Rightarrow> bool" where
  "cluster_runs os nd d calls answers ncalls nanswers s evs s' \<longleftrightarrow>
     trace (cluster_step os) s evs s' \<and>
     obeyed (map (controller_handle (traced script_env) d) calls) answers (cloud_part evs) \<and>
     (\<forall>m. obeyed (map (node_process (nd m)) (ncalls m)) (nanswers m) (node_part m evs))"

text \<open>The cloud's part of a history of the cluster is a history of the controller.\<close>

interpretation cluster: simulation "cluster_step os" "history_step sim_env" cl_cloud cloud_event_of "\<lambda>_. True"
  for os :: "string \<Rightarrow> mock os"
  by unfold_locales (auto elim!: cluster_step_cases)

lemma cluster_cloud:
  "trace (cluster_step os) s evs s' \<Longrightarrow> trace (history_step sim_env) (cl_cloud s) (cloud_part evs) (cl_cloud s')"
  unfolding cloud_part_def by (rule cluster.trace_abs) simp_all

lemma cluster_controller:
  assumes "cluster_runs os nd d calls answers ncalls nanswers s evs s'"
  shows "controller_runs sim_env d calls answers (cl_cloud s) (cloud_part evs) (cl_cloud s')"
  using assms cluster_cloud unfolding cluster_runs_def controller_runs_def interleaved_def by blast

text \<open>What every operation on a machine satisfies by the handler that makes it.\<close>

lemma cluster_node:
  assumes "cluster_runs os nd d calls answers ncalls nanswers s evs s'"
  shows "checked {} {} (calls_by i (node_part m evs))"
    and "NodeEvent m i k \<in> set evs \<Longrightarrow> own_os k"
    and "NodeEvent m i (Unmount_Op t e) \<in> set evs \<Longrightarrow> \<exists>call \<in> set (ncalls m). t \<in> unmounts call"
    and "i < length (ncalls m) \<Longrightarrow> nanswers m ! i = Some (Some OK) \<Longrightarrow>
      stage_saw (nd m) (ncalls m ! i) (calls_by i (node_part m evs))"
proof -
  have obeyed: "obeyed (map (node_process (nd m)) (ncalls m)) (nanswers m) (node_part m evs)"
    using assms by (simp add: cluster_runs_def)
  then have effect: "checked {} {} (calls_by i (node_part m evs)) \<and>
      (\<forall>t e. Unmount_Op t e \<in> set (calls_by i (node_part m evs)) \<longrightarrow> t \<in> unmounts (ncalls m ! i)) \<and>
      (\<forall>k \<in> set (calls_by i (node_part m evs)). own_os k) \<and>
      (nanswers m ! i = Some (Some OK) \<longrightarrow> stage_saw (nd m) (ncalls m ! i) (calls_by i (node_part m evs)))"
    if "i < length (ncalls m)" for i
    using node_process_effect [of "nd m" "ncalls m ! i" "calls_by i (node_part m evs)" "nanswers m ! i"] that
    by (simp add: obeyed_def)
  have index: "i < length (ncalls m)" if "NodeEvent m i k \<in> set evs" for i k
    using obeyed that by (fastforce simp: obeyed_def simp flip: in_node_part)
  show "checked {} {} (calls_by i (node_part m evs))"
  proof (cases "i < length (ncalls m)")
    case False
    then have "calls_by i (node_part m evs) = []"
      using index by (auto simp: calls_by_def filter_empty_conv)
    then show ?thesis by simp
  qed (use effect in blast)
  show "own_os k" if "NodeEvent m i k \<in> set evs" using effect [OF index [OF that]] that by simp
  show "\<exists>call \<in> set (ncalls m). t \<in> unmounts call" if "NodeEvent m i (Unmount_Op t e) \<in> set evs"
    using effect [OF index [OF that]] index [OF that] that by (auto intro: nth_mem)
  show "stage_saw (nd m) (ncalls m ! i) (calls_by i (node_part m evs))"
    if "i < length (ncalls m)" "nanswers m ! i = Some (Some OK)"
    using effect that by blast
qed

section \<open>What no history of the cluster loses\<close>

lemma checked_prefix:
  "checked B U (calls_by i (node_part m (evs @ evs'))) \<Longrightarrow> checked B U (calls_by i (node_part m evs))"
  unfolding part_append calls_by_simps by (rule checked_append)

text \<open>A device that has a file system is never read as blank, so never formatted.\<close>

lemma cluster_disk_kept:
  assumes "trace (cluster_step os) s evs s'" and "cl_disks s dev = Some fs" and "\<forall>m. os_keeps mock_view (os m)"
    and "\<forall>m i. checked {} {} (calls_by i (node_part m evs))" and "\<forall>m i k. NodeEvent m i k \<in> set evs \<longrightarrow> own_os k"
  shows "cl_disks s' dev = Some fs \<and> (\<forall>m i. NodeEvent m i (IsFormatted_Op dev False None) \<notin> set evs)"
  using assms
proof (induction rule: trace.induct)
  case (trace_snoc s evs s' e s'')
  have "\<forall>m i. checked {} {} (calls_by i (node_part m evs))" using trace_snoc.prems(3) checked_prefix by blast
  with trace_snoc have IH: "cl_disks s' dev = Some fs" "NodeEvent m i (IsFormatted_Op dev False None) \<notin> set evs" for m i
    by auto
  from trace_snoc.hyps(2) show ?case
  proof (cases rule: cluster_step.cases)
    case (node_event m k w i)
    have "k \<noteq> Format_Op dev fs' x" for fs' x
    proof
      assume k: "k = Format_Op dev fs' x"
      have "checked {} {} (calls_by i (node_part m (evs @ [e])))" using trace_snoc.prems(3) by blast
      from checked_format [OF this, of dev fs' x] k node_event(1) IH(2) show False by auto
    qed
    moreover have "own_os k" using trace_snoc.prems(4) node_event(1) by auto
    ultimately have "cl_disks s'' dev = Some fs"
      using mock_op_formatted [OF node_event(3)] trace_snoc.prems(2) IH(1) node_event(2)
      by (auto split: node_op.splits option.splits)
    moreover have "k \<noteq> IsFormatted_Op dev False None" using mock_op_reads(1) [of "os m" "node_of s' m" dev w] node_event(3) IH(1) by auto
    ultimately show ?thesis using IH node_event(1) by auto
  qed (use IH in simp)
qed simp

text \<open>Likewise for a mount that no call on its machine unmounts.\<close>

lemma cluster_mount_kept:
  assumes "trace (cluster_step os) s evs s'" and "MountPoints (cl_nodes s m) t = Some src" and "\<forall>m. os_keeps mock_view (os m)"
    and "\<forall>i. checked {} {} (calls_by i (node_part m evs))" and "\<forall>i k. NodeEvent m i k \<in> set evs \<longrightarrow> own_os k"
    and "\<forall>i e. NodeEvent m i (Unmount_Op t e) \<notin> set evs"
  shows "MountPoints (cl_nodes s' m) t = Some src \<and> (\<forall>i. NodeEvent m i (IsMounted_Op t (Some (False, None))) \<notin> set evs)"
  using assms
proof (induction rule: trace.induct)
  case (trace_snoc s evs s' e s'')
  have "\<forall>i. checked {} {} (calls_by i (node_part m evs))" using trace_snoc.prems(3) checked_prefix by blast
  with trace_snoc have IH: "MountPoints (cl_nodes s' m) t = Some src"
    "NodeEvent m i (IsMounted_Op t (Some (False, None))) \<notin> set evs" for i by auto
  from trace_snoc.hyps(2) show ?case
  proof (cases rule: cluster_step.cases)
    case (node_event m' k w i)
    show ?thesis
    proof (cases "m' = m")
      case True
      have "k \<noteq> Mount_Op src' t fs opts x" for src' fs opts x
      proof
        assume k: "k = Mount_Op src' t fs opts x"
        have "checked {} {} (calls_by i (node_part m (evs @ [e])))" using trace_snoc.prems(3) by blast
        from checked_mount [OF this, of src' t fs opts x] k node_event(1) True IH(2) show False by auto
      qed
      moreover have "own_os k" "k \<noteq> Unmount_Op t x" for x using trace_snoc.prems(4,5) node_event(1) True by auto
      ultimately have "MountPoints w t = Some src"
        using mock_op_mounts [OF node_event(3)] trace_snoc.prems(2) IH(1) True by (auto split: node_op.splits option.splits)
      moreover have "k \<noteq> IsMounted_Op t (Some (False, None))"
        using mock_op_reads(2) [of "os m'" "node_of s' m'" t w] node_event(3) IH(1) True by auto
      ultimately show ?thesis using IH node_event(1,2) True by auto
    qed (use IH node_event(1,2) in auto)
  qed (use IH in simp)
qed simp

text \<open>C13: The data of a volume outlives every move: in every history of a cluster (any controller calls and
  any calls of the node plugins of any machines, all of whose calls to the cloud and operations on
  the machines interleave in any way, whatever fails), a disk that has a file system at the start
  keeps it, on whichever machines it is staged, and a mount stays on its machine unless a call of
  that machine's node plugin asks for its target to be unmounted.\<close>

theorem cluster_keeps_data:
  assumes "cluster_runs os nd d calls answers ncalls nanswers s evs s'" and "\<forall>m. os_keeps mock_view (os m)"
  shows "cl_disks s \<subseteq>\<^sub>m cl_disks s' \<and>
    (\<forall>m t src. MountPoints (cl_nodes s m) t = Some src \<and> (\<forall>call \<in> set (ncalls m). t \<notin> unmounts call) \<longrightarrow>
       MountPoints (cl_nodes s' m) t = Some src)"
proof -
  have run: "trace (cluster_step os) s evs s'" using assms(1) by (simp add: cluster_runs_def)
  note node = cluster_node [OF assms(1)]
  have "cl_disks s' dev = Some fs" if "cl_disks s dev = Some fs" for dev fs
    using cluster_disk_kept [OF run that assms(2)] node(1,2) by blast
  moreover have "MountPoints (cl_nodes s' m) t = Some src"
    if "MountPoints (cl_nodes s m) t = Some src" "\<forall>call \<in> set (ncalls m). t \<notin> unmounts call" for m t src
    using cluster_mount_kept [OF run that(1) assms(2)] node(1-3) that(2) by blast
  ultimately show ?thesis by (auto simp: map_le_def dom_def)
qed

section \<open>A volume is staged where the controller attached it\<close>

definition plain_ids :: "cloud \<Rightarrow> bool" where
  "plain_ids c \<longleftrightarrow> (\<forall>v \<in> set (c_volumes c). slash \<notin> set (vol_Identity v))"

lemma show_nat_plain: "slash \<notin> set (show_nat n)"
  using show_nat_digits [of n] by (auto simp: list_all_iff is_digit_def slash_def)

lemma plain_ids_updates [simp]:
  "plain_ids (c\<lparr> c_volumes := vs \<rparr>) \<longleftrightarrow> (\<forall>v \<in> set vs. slash \<notin> set (vol_Identity v))"
  "plain_ids (c\<lparr> c_volumes := vs, c_next := n \<rparr>) \<longleftrightarrow> (\<forall>v \<in> set vs. slash \<notin> set (vol_Identity v))"
  "plain_ids (c\<lparr> c_snapshots := ss, c_next := n \<rparr>) \<longleftrightarrow> plain_ids c"
  "plain_ids (c\<lparr> c_snapshots := ss \<rparr>) \<longleftrightarrow> plain_ids c"
  by (simp_all add: plain_ids_def)

lemma plain_idsD: "plain_ids c \<Longrightarrow> v \<in> set (c_volumes c) \<Longrightarrow> slash \<notin> set (vol_Identity v)"
  by (simp add: plain_ids_def)

lemma plain_replace:
  "plain_ids c \<Longrightarrow> (\<And>x. vol_Identity x = i \<Longrightarrow> vol_Identity (f x) = i) \<Longrightarrow> plain_ids (sim_replace i f c)"
  by (auto simp: sim_replace_def plain_idsD)

lemma new_volume_plain: "slash \<notin> set (vol_Identity (new_volume (''vol-'' @ show_nat n) cv))"
  using show_nat_plain [of n] by (simp add: new_volume_def slash_def)

lemma replies_plain:
  assumes "plain_ids c" and "replies sim_env c k c'"
  shows "plain_ids c'"
  using assms(2)
proof (cases k)
  case (Create_Volume cv v e)
  with assms(2) have c': "c' = c\<lparr> c_volumes := c_volumes c @ [new_volume (''vol-'' @ show_nat (c_next c)) cv],
      c_next := Suc (c_next c) \<rparr>" by (auto simp: sim_create_volume_def Let_def)
  show ?thesis
    unfolding c' plain_ids_updates using new_volume_plain [of "c_next c" cv] plain_idsD [OF assms(1)] by auto
next
  case (Update_Volume i u e)
  with assms show ?thesis
    by (auto simp: sim_update_volume_def Let_def intro!: plain_replace split: option.splits)
next
  case (Delete_Volume i e)
  with assms show ?thesis
    by (auto simp: sim_delete_volume_def plain_idsD split: option.splits if_splits)
next
  case (Attach_Volume i a e)
  with assms show ?thesis
    by (auto simp: sim_attach_volume_def intro!: plain_replace split: option.splits if_splits)
next
  case (Detach_Volume i a e)
  with assms show ?thesis
    by (auto simp: sim_detach_volume_def intro!: plain_replace split: option.splits if_splits)
next
  case (Create_Snapshot cs sn e)
  with assms show ?thesis by (auto simp: sim_create_snapshot_def Let_def split: option.splits)
next
  case (Delete_Snapshot i e)
  with assms show ?thesis by (auto simp: sim_delete_snapshot_def split: option.splits)
qed (use assms in simp_all)

lemma history_plain: "trace (history_step sim_env) c hist c' \<Longrightarrow> plain_ids c \<Longrightarrow> plain_ids c'"
  by (induction rule: trace.induct) (auto dest: replies_plain)

lemma device_path_inject:
  "slash \<notin> set u \<Longrightarrow> slash \<notin> set v \<Longrightarrow> getDeviceByIDPath u = getDeviceByIDPath v \<Longrightarrow> u = v"
  using device_path_exact by blast

lemma plugged_attached:
  assumes "plugged c m (getDeviceByIDPath i)" and "plain_ids c" and "slash \<notin> set i"
  shows "attached_at (store_of c) i m"
proof -
  from assms(1) obtain v where v: "v \<in> set (c_volumes c)" "getDeviceByIDPath (vol_Identity v) = getDeviceByIDPath i"
    "machine_of c (vol_Identity v) = Some m" by (auto simp: plugged_def)
  with assms(2,3) have "vol_Identity v = i" by (auto simp: plain_ids_def dest: device_path_inject)
  with v(3) show ?thesis by (auto simp: machine_of_def attached_at_def split: option.splits)
qed

text \<open>An event of a history, with the states around it and the rest of the history.\<close>

lemma cluster_event:
  assumes "trace (cluster_step os) s evs s'" and "NodeEvent m i k \<in> set evs"
  obtains e1 e2 s1 w where "evs = e1 @ NodeEvent m i k # e2" "trace (cluster_step os) s e1 s1"
    "node_replies MockMounter (os m) (node_of s1 m) k w" "trace (cluster_step os) (put_node m w s1) e2 s'"
proof -
  from assms(2) obtain e1 e2 where evs: "evs = e1 @ NodeEvent m i k # e2" by (auto dest: split_list)
  with trace_appendD [of "cluster_step os" s e1 "NodeEvent m i k # e2" s'] assms(1) obtain s1 where
    "trace (cluster_step os) s e1 s1" "trace (cluster_step os) s1 (NodeEvent m i k # e2) s'" by auto
  with evs that show ?thesis by (auto simp: trace_Cons_iff)
qed

text \<open>A stage that succeeds has seen the volume attached to its machine, where it stays unless some call
  may free it.\<close>

lemma staged_attached:
  assumes "cluster_runs os nd d calls answers ncalls nanswers s evs s'"
    and "cloud_ok (cl_cloud s)" and "plain_ids (cl_cloud s)"
    and "a < length (ncalls m)" and "ncalls m ! a = NodeStageVolumeCall req" and "nanswers m ! a = Some (Some OK)"
    and "checks_attachment (nd m) req" and "slash \<notin> set (stg_VolumeId req)"
    and "DeleteVolumeCall (stg_VolumeId req) \<notin> set calls"
    and "\<forall>n. ControllerUnpublishVolumeCall (stg_VolumeId req) n \<notin> set calls"
  shows "attached_at (store_of (cl_cloud s')) (stg_VolumeId req) m"
proof -
  let ?i = "stg_VolumeId req" and ?k = "IsAttached_Op (getDeviceByIDPath (stg_VolumeId req)) None"
  have run: "trace (cluster_step os) s evs s'" using assms(1) by (simp add: cluster_runs_def)
  have "NodeEvent m a ?k \<in> set evs" using cluster_node(4) [OF assms(1,4,6)] assms(5,7) by simp
  from cluster_event [OF run this] obtain e1 e2 s1 w where
    evs: "evs = e1 @ NodeEvent m a ?k # e2" and before: "trace (cluster_step os) s e1 s1"
    and seen: "node_replies MockMounter (os m) (node_of s1 m) ?k w"
    and after: "trace (cluster_step os) (put_node m w s1) e2 s'" .
  have h1: "trace (history_step sim_env) (cl_cloud s) (cloud_part e1) (cl_cloud s1)"
    using cluster_cloud [OF before] .
  have h2: "trace (history_step sim_env) (cl_cloud s1) (cloud_part e2) (cl_cloud s')"
    using cluster_cloud [OF after] by simp
  have "plugged (cl_cloud s1) m (getDeviceByIDPath ?i)" using mock_op_reads(3) [OF seen] by simp
  from plugged_attached [OF this history_plain [OF h1 assms(3)] assms(8)]
  have attached: "attached_at (store_of (cl_cloud s1)) ?i m" .
  have "\<not> frees ?i e" if "e \<in> set (List.map_filter store_event (cloud_part evs))" for e
    using history_asks [OF cluster_controller [OF assms(1)] that] assms(9,10) by (fastforce simp: frees_def asks_store_def)
  then have "\<forall>e \<in> set (List.map_filter store_event (cloud_part e2)). \<not> frees ?i e"
    by (auto simp: evs map_filter_def)
  with attached_stays [OF store.trace_abs [OF h2 store.trace_inv [OF h1 assms(2)]] attached] show ?thesis by blast
qed

text \<open>C12: A volume is staged where the controller attached it, and nowhere else: in any history of the
  cluster in which no controller call detaches or deletes the volume, however everything
  interleaves, two machines whose node plugins have staged its file system with the attachment
  checked are the same machine, and in the end the volume is attached to it in the cloud. The
  controller and the node plugins share nothing but the cloud.\<close>

theorem stage_exclusive:
  assumes "cluster_runs os nd d calls answers ncalls nanswers s evs s'"
    and "cloud_ok (cl_cloud s)" and "plain_ids (cl_cloud s)"
    and "a < length (ncalls m)" and "ncalls m ! a = NodeStageVolumeCall p" and "nanswers m ! a = Some (Some OK)"
    and "b < length (ncalls n)" and "ncalls n ! b = NodeStageVolumeCall q" and "nanswers n ! b = Some (Some OK)"
    and "checks_attachment (nd m) p" and "checks_attachment (nd n) q"
    and "stg_VolumeId p = i" and "stg_VolumeId q = i" and "slash \<notin> set i"
    and "DeleteVolumeCall i \<notin> set calls" and "\<forall>node. ControllerUnpublishVolumeCall i node \<notin> set calls"
  shows "m = n \<and> attached_at (store_of (cl_cloud s')) i m"
proof -
  have "attached_at (store_of (cl_cloud s')) i m"
    using staged_attached [OF assms(1-6,10)] assms(12,14-16) by blast
  moreover have "attached_at (store_of (cl_cloud s')) i n"
    using staged_attached [OF assms(1-3,7-9,11)] assms(13-16) by blast
  ultimately show ?thesis using attached_unique by blast
qed

section \<open>Single calls in the cluster\<close>

lemma stage_on_node:
  assumes "stage_invalid r = None"
    and "vc_AccessType (the (stg_VolumeCapability r)) = Some (VolumeCapability_Mount (Some mnt))"
    and "\<not> no_format (stg_VolumeContext r) annsNoFormatVolume" and "dev = getDeviceByIDPath (stg_VolumeId r)"
    and "plugged (cl_cloud s) m dev" and "MountPoints (cl_nodes s m) (stg_StagingTargetPath r) = None"
    and "FormatErrors (cl_nodes s m) = (\<lambda>_. None)" and "MountErrors (cl_nodes s m) = (\<lambda>_. None)"
  shows "run_state (on_node m (NodeStageVolume MockMounter host_os d r)) s =
    (Ok (), put_node m ((if cl_disks s dev = None
         then (node_of s m)\<lparr> FormattedDevices := (cl_disks s)(dev \<mapsto> fs_type_of mnt) \<rparr> else node_of s m)
       \<lparr> MountPoints := (MountPoints (cl_nodes s m))(stg_StagingTargetPath r \<mapsto> dev) \<rparr>) s)"
  using assms
  by (simp add: NodeStageVolume_def Let_def GetMount_def stage_format_def format_if_blank_def
      stage_mount_def mock_IsAttached_def mock_IsFormatted_def mock_Format_def mock_IsMounted_def mock_Mount_def)

lemma unstage_on_node:
  assumes "i \<noteq> ''''" and "t \<noteq> ''''" and "MountPoints (cl_nodes s m) t \<noteq> None"
    and "UnmountErrors (cl_nodes s m) = (\<lambda>_. None)"
  shows "run_state (on_node m (NodeUnstageVolume MockMounter i t)) s =
    (Ok (), put_node m ((node_of s m)\<lparr> MountPoints := (MountPoints (cl_nodes s m))(t := None) \<rparr>) s)"
  using assms by (simp add: NodeUnstageVolume_def mock_IsMounted_def mock_Unmount_def)

text \<open>Without the attachment a checked stage is refused.\<close>

lemma stage_unplugged:
  assumes "checks_attachment d r" and "\<not> plugged (cl_cloud s) m (getDeviceByIDPath (stg_VolumeId r))"
  shows "result_of (on_node m (NodeStageVolume MockMounter host_os d r)) s \<noteq> Ok ()"
proof
  assume "result_of (on_node m (NodeStageVolume MockMounter host_os d r)) s = Ok ()"
  then have "run_state (NodeStageVolume MockMounter host_os d r) (node_of s m) =
      (Ok (), world_after (NodeStageVolume MockMounter host_os d r) (node_of s m))" by (simp add: prod_eq_iff)
  from mock.NodeStageVolume_run [OF this host_os_keeps] assms show False
    by (simp add: checks_attachment_def mock_view_def)
qed

section \<open>A history\<close>

text \<open>The volume of the sample history is published on \<open>m-1\<close> (twice, interleaved); a stage on \<open>m-2\<close> begins
  after it and fails, and one on \<open>m-1\<close> succeeds.\<close>

lemma cloud_history_lift:
  "trace (history_step sim_env) c hist c' \<Longrightarrow> cl_cloud s = c \<Longrightarrow>
   trace (cluster_step os) s (map (\<lambda>(i, k). CloudEvent i k) hist) (s\<lparr> cl_cloud := c' \<rparr>)"
proof (induction rule: trace.induct)
  case (trace_nil c)
  then show ?case by (cases s) auto
next
  case (trace_snoc c hist c' e c'')
  then have "cluster_step os (s\<lparr> cl_cloud := c' \<rparr>) (case e of (i, k) \<Rightarrow> CloudEvent i k) (s\<lparr> cl_cloud := c'' \<rparr>)"
    by (cases e) auto
  with trace_snoc show ?case by (auto intro: trace.trace_snoc)
qed

lemma part_lift [simp]:
  "cloud_part (map (\<lambda>(i, k). CloudEvent i k) hist) = hist" "node_part m (map (\<lambda>(i, k). CloudEvent i k) hist) = []"
  by (induction hist) auto

lemma part_node [simp]:
  "cloud_part (map (NodeEvent n j) ks) = []" "node_part m (map (NodeEvent n j) ks) = (if n = m then map (Pair j) ks else [])"
  by (induction ks) auto

definition stage_vol0 :: stage_request where
  "stage_vol0 = sample_stage\<lparr> stg_VolumeId := ''vol-0'' \<rparr>"

definition xfs :: mount_volume where
  "xfs = \<lparr> mv_FsType = ''xfs'', mv_MountFlags = [] \<rparr>"

definition sample_cluster :: cluster where
  "sample_cluster = \<lparr> cl_cloud = attach_cloud, cl_disks = [''other'' \<mapsto> ''ext4''], cl_nodes = (\<lambda>_. NewMockMounter) \<rparr>"

definition sample_events :: "cluster_event list" where
  "sample_events = map (\<lambda>(i, k). CloudEvent i k) publish_history @
     NodeEvent ''m-2'' 0 (IsAttached_Op (getDeviceByIDPath ''vol-0'') (Some (Sentinel ErrDeviceNotAttached))) #
     map (NodeEvent ''m-1'' 0) (stage_reads sample_driver stage_vol0 @ stage_writes stage_vol0 xfs)"

definition sample_calls :: "string \<Rightarrow> node_call list" where
  "sample_calls m = (if m \<in> {''m-1'', ''m-2''} then [NodeStageVolumeCall stage_vol0] else [])"

definition sample_answers :: "string \<Rightarrow> code option option list" where
  "sample_answers m =
     (if m = ''m-1'' then [Some (Some OK)] else if m = ''m-2'' then [Some (Some Internal)] else [])"

lemma sample_plugged: "plugged attached_cloud m (getDeviceByIDPath ''vol-0'') \<longleftrightarrow> m = ''m-1''"
  by (auto simp: plugged_def machine_of_def store_of_def sim_find_volume_def entry_of_def attached_cloud_def
      attached_volume_def attach_cloud_def sample_volume_def)

lemma sample_stages:
  "stages_on w stage_vol0 xfs \<longleftrightarrow> MountPoints w ''/stage'' = None \<and>
     FormatErrors w = (\<lambda>_. None) \<and> MountErrors w = (\<lambda>_. None) \<and> UnmountErrors w = (\<lambda>_. None)"
  by (auto simp: stages_on_def stage_vol0_def xfs_def sample_stage_def stage_invalid_def annsNoFormatVolume_def)

lemma sample_refused:
  "follows (node_process sample_driver (NodeStageVolumeCall stage_vol0))
     [IsAttached_Op (getDeviceByIDPath ''vol-0'') (Some (Sentinel ErrDeviceNotAttached))] (Some Internal)"
  by (simp add: follows_def node_process_def node_handle_def answer_wire_def NodeStageVolume_def Let_def GetMount_def
      annsNoFormatVolume_def stage_format_def stage_vol0_def sample_stage_def stage_invalid_def sample_driver_def
      traced_node_simps script_node_simps)

lemma sample_cluster_trace: "\<exists>s'. trace (cluster_step (\<lambda>_. host_os)) sample_cluster sample_events s'"
proof -
  let ?s = "sample_cluster\<lparr> cl_cloud := attached_cloud \<rparr>"
  have "trace (cluster_step (\<lambda>_. host_os)) sample_cluster (map (\<lambda>(i, k). CloudEvent i k) publish_history) ?s"
    by (rule cloud_history_lift [OF publish_history_run]) (simp add: sample_cluster_def)
  moreover have "\<exists>s'. trace (cluster_step (\<lambda>_. host_os)) ?s
      (NodeEvent ''m-2'' 0 (IsAttached_Op dev (Some (Sentinel ErrDeviceNotAttached))) #
       map (NodeEvent ''m-1'' 0) (stage_reads sample_driver stage_vol0 @ stage_writes stage_vol0 xfs)) s'"
    if dev: "dev = getDeviceByIDPath ''vol-0''" for dev
  proof -
    have "dev \<noteq> ''other''" by (simp add: dev getDeviceByIDPath_elements slash_def)
    moreover have "stage_reads sample_driver stage_vol0 @ stage_writes stage_vol0 xfs = [IsAttached_Op dev None, IsFormatted_Op dev False None, Format_Op dev (fs_type_of xfs) None,
        IsMounted_Op ''/stage'' (Some (False, None)), Mount_Op dev ''/stage'' (fs_type_of xfs) (mv_MountFlags xfs) None,
        Os_Op (Stat dev absent)]"
      by (simp add: dev stage_reads_def stage_writes_def Let_def stage_vol0_def sample_stage_def sample_driver_def)
    ultimately show ?thesis
      using sample_plugged [folded dev]
      by (simp add: trace_Cons_iff sample_cluster_def NewMockMounter_def mock_IsAttached_def mock_IsFormatted_def
          mock_Format_def mock_IsMounted_def mock_Mount_def)
  qed
  ultimately show ?thesis unfolding sample_events_def by (blast intro: trace_append)
qed

lemma sample_cluster_runs:
  "\<exists>s'. cluster_runs (\<lambda>_. host_os) (\<lambda>_. sample_driver) sample_driver
     (replicate 2 (ControllerPublishVolumeCall sample_publish)) (replicate 2 (Some (Some OK)))
     sample_calls sample_answers sample_cluster sample_events s'"
proof -
  have "stages_on NewMockMounter stage_vol0 xfs" by (simp add: sample_stages NewMockMounter_def)
  then have "follows (node_process sample_driver (NodeStageVolumeCall stage_vol0)) (stage_reads sample_driver stage_vol0 @ stage_writes stage_vol0 xfs) (Some OK)"
    by (rule stage_follows)
  with sample_refused have "obeyed (map (node_process sample_driver) (sample_calls m)) (sample_answers m) (node_part m sample_events)" for m
    by (auto simp: obeyed_def progress_def sample_calls_def sample_answers_def sample_events_def)
  moreover have "cloud_part sample_events = publish_history" by (simp add: sample_events_def)
  ultimately show ?thesis
    using sample_cluster_trace publish_history_runs by (simp add: cluster_runs_def controller_runs_def interleaved_def)
qed

theorem cluster_keeps_data_witness:
  "\<exists>s'. cluster_runs (\<lambda>_. host_os) (\<lambda>_. sample_driver) sample_driver
     (replicate 2 (ControllerPublishVolumeCall sample_publish)) (replicate 2 (Some (Some OK)))
     sample_calls sample_answers sample_cluster sample_events s' \<and> cl_disks s' ''other'' = Some ''ext4''"
proof -
  obtain s' where run: "cluster_runs (\<lambda>_. host_os) (\<lambda>_. sample_driver) sample_driver
     (replicate 2 (ControllerPublishVolumeCall sample_publish)) (replicate 2 (Some (Some OK)))
     sample_calls sample_answers sample_cluster sample_events s'" using sample_cluster_runs by blast
  have "cl_disks sample_cluster \<subseteq>\<^sub>m cl_disks s'" using cluster_keeps_data [OF run] by simp
  then have "cl_disks s' ''other'' = Some ''ext4''" by (auto simp: map_le_def sample_cluster_def)
  with run show ?thesis by blast
qed

theorem stage_exclusive_witness:
  "\<exists>s'. cluster_runs (\<lambda>_. host_os) (\<lambda>_. sample_driver) sample_driver
     (replicate 2 (ControllerPublishVolumeCall sample_publish)) (replicate 2 (Some (Some OK)))
     sample_calls sample_answers sample_cluster sample_events s' \<and> attached_at (store_of (cl_cloud s')) ''vol-0'' ''m-1''"
proof -
  obtain s' where run: "cluster_runs (\<lambda>_. host_os) (\<lambda>_. sample_driver) sample_driver
     (replicate 2 (ControllerPublishVolumeCall sample_publish)) (replicate 2 (Some (Some OK)))
     sample_calls sample_answers sample_cluster sample_events s'" using sample_cluster_runs by blast
  have stage: "0 < length (sample_calls ''m-1'')" "sample_calls ''m-1'' ! 0 = NodeStageVolumeCall stage_vol0"
    "sample_answers ''m-1'' ! 0 = Some (Some OK)" by (simp_all add: sample_calls_def sample_answers_def)
  have checks: "checks_attachment sample_driver stage_vol0"
    by (simp add: checks_attachment_def stage_vol0_def sample_stage_def GetMount_def annsNoFormatVolume_def sample_driver_def)
  have cloud: "cloud_ok (cl_cloud sample_cluster)" "plain_ids (cl_cloud sample_cluster)"
    using attach_cloud_ok by (simp_all add: sample_cluster_def plain_ids_def attach_cloud_def sample_volume_def slash_def)
  have "attached_at (store_of (cl_cloud s')) ''vol-0'' ''m-1''"
    using stage_exclusive [OF run cloud stage stage checks checks] by (simp add: stage_vol0_def slash_def)
  with run show ?thesis by blast
qed

end
