(* ===== verification/Spec2Isabelle.thy ===== *)
theory Spec2Isabelle
  imports Capacity Pagination Driver VolumeType Capabilities ControllerVolumes ControllerAttachment
    ControllerSnapshots ControllerResize Mounter MockMounter Node NodeOs NodeHost NodeStats NodeExpand Health
    Service Lifecycle ServerRun Plugin Process ConcurrentController VolumeStore ControllerRaces Requests
    NodeConcurrency Cluster
begin

text \<open>
  A model of the Thalassa Cloud CSI plugin (\<open>driver/\<close> and \<open>cmd/thalassa-csi-plugin/\<close>), the
  Kubernetes storage driver that creates block volumes through an IaaS API (controller mode) and
  formats and mounts them on a node (node mode).

  \<^bold>\<open>How the code is modelled.\<close> A handler is a function of the world in the state monad of
  \<open>HOL-Library.State_Monad\<close>. What the code calls outside the repository is a parameter, a record
  of arbitrary functions of the world: \<open>env\<close> (theory Iaas: the IaaS client, the Kubernetes API,
  the waits of a context), \<open>os\<close> (theory Os: commands, files, system calls of a node) and
  \<open>server_env\<close> (theory Lifecycle: sockets). As the world is arbitrary, other clients of the same
  API may act between any two calls. A Go result pair \<open>(x, err)\<close> is a pair with an optional
  error; the answer of a handler is \<open>Ok\<close>, \<open>Err\<close> or \<open>Panic\<close> (a nil dereference). Sizes are
  64-bit words read with \<open>sint\<close>; page sizes are 32-bit words. \<open>traced env\<close> and \<open>traced_os os\<close>
  are the same parameters with a journal of the calls and their results, over which the safety
  properties are stated; theory Journal has the weakest-precondition rules that prove them.

  \<^bold>\<open>Concurrency.\<close> The gRPC server answers every call in a goroutine of its own, and the handlers of
  the controller and of the node share no state and hold no lock, so the calls they make to the
  cloud and to the mounter interleave freely. Theory Interleaving derives these interleavings from
  the same handler definitions: a handler that runs over a scripted environment, which answers from
  a list, makes the calls of that list, and a history is a list of numbered calls whose answers the
  shared world gives in that order and of which every handler follows its own part. \<open>mirrors\<close>, with
  a rule per way to build a program, shows that the histories of a single handler are exactly its
  runs (\<open>controller_run_single\<close>, \<open>node_run_single\<close>). On the reference cloud every history refines an
  abstract store of volumes with atomic operations (VolumeStore), by which publishing is exclusive
  in every interleaving; the same histories show the races that the missing locks leave
  (ControllerRaces, NodeConcurrency).

  \<^bold>\<open>The cluster.\<close> The controller and the node plugins never talk to each other. In theory Cluster a state
  is the reference cloud, the disks of the volumes and, for every machine, a node with the mounter of
  \<open>driver/mock_mounter.go\<close>. A machine sees a device exactly while the cloud has the volume attached to
  it (\<open>plugged\<close>), and what it writes on the device stays on the disk wherever the volume goes. A step is
  one call of a controller handler to the cloud or one operation of a node handler on its machine, in
  any order (\<open>cluster_step\<close>); every handler follows its own part (\<open>cluster_runs\<close>). The controller's
  part of such a history is a history of theory Concurrency (an interpretation of \<open>simulation\<close>), so
  that what holds of those carries over. Single calls in the cluster, as in the move of a volume, are
  whole runs of a handler (\<open>on_cloud\<close>, \<open>on_node\<close>).

  \<^bold>\<open>The theories.\<close>
  \<^item> Prelude, GoStrings, GoErrors: words, results, \<open>strings\<close> and \<open>filepath\<close>, and the error values of
    \<open>driver/errors.go\<close> with \<open>errors.Is\<close>, \<open>status.FromError\<close> and the gRPC code of an answer.
  \<^item> Traces: runs of a step relation with invariants over their events, measures, and the locale
    \<open>simulation\<close> that carries the runs of one relation to those of a more abstract one.
  \<^item> Capacity (\<open>driver/capacity.go\<close>, \<open>driver/defaults.go\<close>), Pagination (\<open>driver/pagination.go\<close>),
    VolumeType (\<open>driver/volumetype.go\<close>), Driver (the \<open>Driver\<close> object and the custom labels) and
    Capabilities (\<open>driver/capabilities.go\<close>): the pure parts.
  \<^item> ControllerVolumes, ControllerAttachment (with \<open>driver/machineidentity.go\<close>),
    ControllerSnapshots and ControllerResize: the four \<open>driver/controller_*.go\<close> files, one function
    per handler, composed as in the code. Their first properties hold for every behaviour of the
    API; those that need a working API rest on the locale \<open>attachment_api\<close> or on the reference
    cloud of theory CloudSim, on which the locale is interpreted.
  \<^item> GoJson, Os, Mounter (\<open>driver/mounter.go\<close>) and MockMounter (\<open>driver/mock_mounter.go\<close>): the
    commands of the production mounter, the decoding of what \<open>findmnt\<close> prints, and the test double.
    The locale \<open>mounter_contract\<close> is what the node service relies on: an abstract node
    (\<open>node_view\<close>: which devices are formatted and what is mounted where) that every operation
    moves by \<open>node_step\<close>; the mock mounter interprets it. The locale \<open>mounter_success\<close> is the part
    that the production mounter keeps too, whose failed operations may leave anything behind: what an
    operation that succeeds says and changes.
  \<^item> Node (\<open>driver/node.go\<close>): the node service over any mounter, with a refinement of the abstract
    node by every handler. NodeOs composes it with the production mounter and follows the
    commands it runs. In NodeHost the locale \<open>node_host\<close> states what those commands document
    (\<open>blkid\<close>, \<open>mkfs\<close>, \<open>mount\<close>, \<open>findmnt\<close>, the clean-up of a mount point, the kernel's state
    file of a device); on every such node the production mounter keeps \<open>mounter_success\<close> (a
    \<open>sublocale\<close>) and staging, publishing and unmounting refine the abstract node. The locale is
    interpreted on a node that runs (\<open>node_os\<close>, with a mount table, disks, links and files), where
    the life of a volume is followed call by call. NodeStats has the statistics the node reports and
    NodeExpand what an expansion does.
  \<^item> Health and Lifecycle (\<open>driver/health.go\<close>, \<open>driver/healthcheck\<close>, \<open>driver/identity.go\<close>,
    \<open>driver/controller.go\<close>, \<open>driver/nodedriver.go\<close>, \<open>cmd/\<close>): health checks, construction from the
    flags, start of the server, and the readiness flag as a step relation with probes and shutdown
    interleaved.
  \<^item> Service: the three gRPC services as one dispatch, which of them a server in controller or node
    mode registers, what a history of calls may change in the cloud, which status code an answer
    has and where it comes from, and that the advertised capabilities are the implemented calls.
  \<^item> ServerRun: the goroutines of a running server (the group whose errors \<open>Run\<close> collects and the one
    that stops it) as a step relation with one rule per atomic action: every interleaving refines
    the readiness relation of Lifecycle (an interpretation of \<open>simulation\<close>), says which error
    \<open>Run\<close> returns and when, and ends.
  \<^item> Plugin: the \<open>plugin\<close> command from its flags to the running server of either mode, and what a
    failure of the gRPC listener does to it.
  \<^item> Process (\<open>main.go\<close>, \<open>cmd/root.go\<close>): the configuration file, what \<open>Run\<close>, \<open>RunNode\<close> and the
    \<open>plugin\<close> command return, and the exit status of the process.
  \<^item> Interleaving: histories of handlers that run at once, over any kind of calls; Concurrency and
    ConcurrentController: those of the controller; each change of the cloud is asked for by a call,
    at most one per call.
  \<^item> VolumeStore and ControllerRaces: the abstract store that the histories refine (an interpretation of
    \<open>simulation\<close>), exclusive publishing, and the interleavings that shrink a volume or create two
    of a name.
  \<^item> Requests: the type discipline of what the controller sends to the cloud (names, sizes, region, the
    labels of ownership), kept in every history. The custom labels are those of the driver object's
    field, which no flag fills: a driver made by the \<open>plugin\<close> command adds none.
  \<^item> NodeConcurrency: histories of the node's handlers, whose calls are the operations of the mounter and
    the node service's own calls to the operating system; what every handler keeps whatever happens
    around it, and the interleaving of two stages that formats a used device.
  \<^item> Cluster: the controller and the node plugins of all machines with the cloud between them; what no
    interleaving of all their calls loses, and where a volume is staged.
  \<^item> This theory: properties that span components: the life of a volume, its move to another machine, a
    repeated creation, and the Kubernetes lookup that no flag reaches.

  \<^bold>\<open>Bounds.\<close> The status poll makes at most 30 waits: its interval is ten seconds and its timeout
  five minutes, so a thirty-first tick would come after the deadline; an earlier end of the
  context, cancelled or past its deadline, is a result of \<open>ctx_Wait\<close>. The JSON parser takes fuel \<open>2 * length s + 2\<close> for a text \<open>s\<close>:
  every second level of its recursion consumes a character, and theory GoJson proves that more
  fuel never changes the result and that a printed value is read back. A run of the server's
  goroutines needs no bound: it is finite by a measure of the actions that are left.

  \<^bold>\<open>Not modelled.\<close> Logging; the gRPC and HTTP transport; the parsing of URLs and flags (arguments
  of the model, as is what viper reads); Unicode case folding outside ASCII in
  \<open>strings.EqualFold\<close>; the text of the help and the printing; interleavings inside one
  operation of a mounter, such as the commands of the production mounter's \<open>Format\<close>, which run as a
  whole in a history of the node (NodeOs follows the commands of a handler that runs alone); the
  contents of a disk beyond its file system; the vendored libraries, whose documented behaviour enters as
  parameters.
\<close>

section \<open>The life of a volume in the controller\<close>

text \<open>A cloud with one more volume, the last one.\<close>

lemma resolve_type_world: "world_after (resolveVolumeTypeIdentity sim_env p) c = c"
  by (simp add: resolveVolumeTypeIdentity_def Let_def case_prod_beta)

lemma resolve_type_types:
  "c_types c' = c_types c \<Longrightarrow>
   result_of (resolveVolumeTypeIdentity sim_env p) c' = result_of (resolveVolumeTypeIdentity sim_env p) c"
  by (simp add: resolveVolumeTypeIdentity_def Let_def case_prod_beta)

lemma find_snoc: "find P xs = None \<Longrightarrow> find P (xs @ [y]) = (if P y then Some y else None)"
  by (induction xs) (auto split: if_splits)

lemma find_last_volume:
  assumes "vol_Identity v \<notin> vol_Identity ` set vs" and "\<not> c_by_name c"
  shows "sim_find_volume (c\<lparr> c_volumes := vs @ [v] \<rparr>) (vol_Identity v) = Some v"
proof -
  have "find (\<lambda>x. vol_Identity x = vol_Identity v) vs = None"
    using assms(1) by (auto simp: find_None_iff image_iff)
  with assms(2) show ?thesis by (simp add: sim_find_volume_def find_snoc)
qed

lemma replace_last_volume:
  assumes "i \<notin> vol_Identity ` set vs" and "vol_Identity v = i"
  shows "sim_replace i f (c\<lparr> c_volumes := vs @ [v] \<rparr>) = c\<lparr> c_volumes := vs @ [f v] \<rparr>"
proof -
  have "map (\<lambda>x. if vol_Identity x = i then f x else x) vs = vs"
    using assms(1) by (intro map_idI) (auto simp: image_iff)
  with assms(2) show ?thesis by (simp add: sim_replace_def)
qed

lemma create_run:
  assumes "createVolume_size d req = Inr bytes" and "req_VolumeContentSource req = None"
    and "sim_find_volume c (createVolume_identity req) = None"
    and "result_of (resolveVolumeTypeIdentity sim_env (lookup_str (req_Parameters req) ''volume-type'')) c = Inr vt"
  shows "run_state (CreateVolume sim_env d req) c =
    (Ok \<lparr> csi_VolumeId = ''vol-'' @ show_nat (c_next c), csi_CapacityBytes = bytes,
          csi_AccessibleTopology = [[''region'' \<mapsto> d_region d]], csi_ContentSource = None \<rparr>,
     c\<lparr> c_volumes := c_volumes c @ [new_volume (''vol-'' @ show_nat (c_next c))
            (buildCreateVolumeRequest d req (req_Name req) bytes vt)],
        c_next := Suc (c_next c) \<rparr>)"
proof -
  have "run_state (resolveVolumeTypeIdentity sim_env (lookup_str (req_Parameters req) ''volume-type'')) c = (Inr vt, c)"
    using assms(4) resolve_type_world by (metis prod.collapse)
  with assms show ?thesis
    by (simp add: CreateVolume_def sim_lookup_def applySnapshotRestore_def createVolume_create_def
        sim_create_volume_def new_volume_def Let_def)
qed

lemma publish_last:
  assumes "vol_Identity v \<notin> vol_Identity ` set vs" and "\<not> c_by_name c" and "vol_Attachments v = []"
    and "publish_invalid req = None" and "pub_VolumeId req = vol_Identity v" and "d_kubeConfig d = ''''"
    and "find_machine (pub_NodeId req) (c_machines c) = Some m"
  shows "run_state (ControllerPublishVolume sim_env d req) (c\<lparr> c_volumes := vs @ [v] \<rparr>) =
    (Ok (publish_context d v),
     c\<lparr> c_volumes := vs @ [v\<lparr> vol_Attachments := [\<lparr> AttachedToIdentity = m \<rparr>], vol_Status := ''attached'' \<rparr>] \<rparr>)"
proof -
  let ?v = "v\<lparr> vol_Attachments := [\<lparr> AttachedToIdentity = m \<rparr>], vol_Status := ''attached'' \<rparr>"
  note found = find_last_volume [OF assms(1,2)]
  have found': "sim_find_volume (c\<lparr> c_volumes := vs @ [?v] \<rparr>) (vol_Identity v) = Some ?v"
    using find_last_volume [of ?v vs c] assms(1,2) by simp
  have m: "m \<in> mach_Identity ` set (c_machines c)" using find_machine_Some [OF assms(7)] by auto
  have "sim_attach_volume (vol_Identity v) (attach_to m) (c\<lparr> c_volumes := vs @ [v] \<rparr>) =
      (None, c\<lparr> c_volumes := vs @ [?v] \<rparr>)"
    using assms(1,3) found m by (simp add: sim_attach_volume_def attach_to_def replace_last_volume)
  moreover have "run_state (pollVolumeStatus sim_env (vol_Identity v) ''attached'' n)
      (c\<lparr> c_volumes := vs @ [?v] \<rparr>) = (Ok (), c\<lparr> c_volumes := vs @ [?v] \<rparr>)" for n
    by (rule sim_attach.poll_now [OF found']) simp
  ultimately show ?thesis
    using sim_attach.publish_run [of req d "c\<lparr> c_volumes := vs @ [v] \<rparr>" v m] assms found
    by (simp add: publish_to_machine_def)
qed

lemma unpublish_last:
  assumes "vol_Identity v \<notin> vol_Identity ` set vs" and "\<not> c_by_name c"
    and "vol_Attachments v = [\<lparr> AttachedToIdentity = m \<rparr>]" and "vol_Identity v \<noteq> ''''"
    and "d_kubeConfig d = ''''" and "find_machine n (c_machines c) = Some m"
    and "n \<in> mach_Identity ` set (c_machines c) \<Longrightarrow> n = m"
  shows "run_state (ControllerUnpublishVolume sim_env d (vol_Identity v) n) (c\<lparr> c_volumes := vs @ [v] \<rparr>) =
    (Ok (), c\<lparr> c_volumes := vs @ [v\<lparr> vol_Attachments := [], vol_Status := ''available'' \<rparr>] \<rparr>)"
proof -
  let ?v = "v\<lparr> vol_Attachments := [], vol_Status := ''available'' \<rparr>"
  let ?c = "c\<lparr> c_volumes := vs @ [v] \<rparr>"
  let ?i = "vol_Identity v"
  note found = find_last_volume [OF assms(1,2)]
  have found': "sim_find_volume (c\<lparr> c_volumes := vs @ [?v] \<rparr>) ?i = Some ?v"
    using find_last_volume [of ?v vs c] assms(1,2) by simp
  have det: "sim_detach_volume ?i (attach_to m) ?c = (None, c\<lparr> c_volumes := vs @ [?v] \<rparr>)"
    using assms(1,3) found by (simp add: sim_detach_volume_def attach_to_def replace_last_volume)
  have "run_state (detach_from sim_env ?i m) ?c = (Ok (), c\<lparr> c_volumes := vs @ [?v] \<rparr>)"
    using sim_attach.poll_now [OF found', of "''available''"] det by (simp add: detach_from_def)
  moreover have "run_state (ControllerUnpublishVolume sim_env d ?i n) ?c = run_state (detach_from sim_env ?i m) ?c"
    by (rule sim_attach.unpublish_run) (use assms found in auto)
  ultimately show ?thesis by simp
qed

text \<open>The requests the provisioner and the attacher derive from the volume.\<close>

definition publish_of :: "create_volume_request \<Rightarrow> string \<Rightarrow> string \<Rightarrow> publish_request" where
  "publish_of req volumeId node =
     \<lparr> pub_VolumeId = volumeId, pub_NodeId = node,
       pub_VolumeCapability = Some (hd (req_VolumeCapabilities req)), pub_Readonly = False \<rparr>"

lemma delete_last:
  assumes "vol_Identity v \<notin> vol_Identity ` set vs" and "\<not> c_by_name c"
    and "vol_Attachments v = []" and "vol_Identity v \<noteq> ''''"
  shows "run_state (DeleteVolume sim_env (vol_Identity v)) (c\<lparr> c_volumes := vs @ [v] \<rparr>) =
    (Ok (), c\<lparr> c_volumes := vs \<rparr>)"
proof -
  have "filter (\<lambda>x. vol_Identity x \<noteq> vol_Identity v) vs = vs"
    using assms(1) by (auto simp: filter_id_conv image_iff)
  with find_last_volume [OF assms(1,2)] assms(3,4) show ?thesis
    by (simp add: DeleteVolume_def sim_delete_volume_def)
qed

text \<open>The volume that a first call makes, the cloud with it, and the answer.\<close>

definition created_name :: "cloud \<Rightarrow> string" where
  "created_name c = ''vol-'' @ show_nat (c_next c)"

definition created_volume :: "driver \<Rightarrow> create_volume_request \<Rightarrow> int64 \<Rightarrow> string \<Rightarrow> cloud \<Rightarrow> volume" where
  "created_volume d req bytes vt c =
     new_volume (created_name c) (buildCreateVolumeRequest d req (req_Name req) bytes vt)"

definition created_cloud :: "driver \<Rightarrow> create_volume_request \<Rightarrow> int64 \<Rightarrow> string \<Rightarrow> cloud \<Rightarrow> cloud" where
  "created_cloud d req bytes vt c =
     c\<lparr> c_volumes := c_volumes c @ [created_volume d req bytes vt c], c_next := Suc (c_next c) \<rparr>"

definition created_answer :: "driver \<Rightarrow> int64 \<Rightarrow> cloud \<Rightarrow> csi_volume" where
  "created_answer d bytes c =
     \<lparr> csi_VolumeId = created_name c, csi_CapacityBytes = bytes,
       csi_AccessibleTopology = [[''region'' \<mapsto> d_region d]], csi_ContentSource = None \<rparr>"

lemma created_simps [simp]:
  "vol_Name (created_volume d req bytes vt c) = req_Name req"
  "vol_Size (created_volume d req bytes vt c) = to_giB bytes"
  "vol_Identity (created_volume d req bytes vt c) = created_name c"
  "c_volumes (created_cloud d req bytes vt c) = c_volumes c @ [created_volume d req bytes vt c]"
  "c_types (created_cloud d req bytes vt c) = c_types c"
  "c_by_name (created_cloud d req bytes vt c) = c_by_name c"
  "created_name (created_cloud d req bytes vt c) \<noteq> created_name c"
  "csi_VolumeId (created_answer d bytes c) = created_name c"
  "csi_AccessibleTopology (created_answer d bytes c) = [[''region'' \<mapsto> d_region d]]"
  by (simp_all add: created_volume_def created_cloud_def created_answer_def created_name_def
      new_volume_def buildCreateVolumeRequest_def Let_def)

lemma create_first:
  assumes "createVolume_size d req = Inr bytes" and "req_VolumeContentSource req = None"
    and "sim_find_volume c (createVolume_identity req) = None"
    and "result_of (resolveVolumeTypeIdentity sim_env (lookup_str (req_Parameters req) ''volume-type'')) c = Inr vt"
  shows "run_state (CreateVolume sim_env d req) c = (Ok (created_answer d bytes c), created_cloud d req bytes vt c)"
  using create_run [OF assms]
  by (simp add: created_answer_def created_cloud_def created_volume_def created_name_def)

text \<open>The cloud with the new volume, and the volume attached to a machine and freed again.\<close>

definition cloud_with :: "cloud \<Rightarrow> volume \<Rightarrow> cloud" where
  "cloud_with c v = c\<lparr> c_next := Suc (c_next c), c_volumes := c_volumes c @ [v] \<rparr>"

definition attached_to :: "string \<Rightarrow> volume \<Rightarrow> volume" where
  "attached_to m v = v\<lparr> vol_Attachments := [\<lparr> AttachedToIdentity = m \<rparr>], vol_Status := ''attached'' \<rparr>"

lemma attached_to_simps [simp]:
  "vol_Identity (attached_to m v) = vol_Identity v"
  "vol_Attachments (attached_to m v) = [\<lparr> AttachedToIdentity = m \<rparr>]"
  "(attached_to m v)\<lparr> vol_Attachments := [], vol_Status := ''available'' \<rparr> =
     v\<lparr> vol_Attachments := [], vol_Status := ''available'' \<rparr>"
  by (simp_all add: attached_to_def)

lemma created_cloud_with: "created_cloud d req bytes vt c = cloud_with c (created_volume d req bytes vt c)"
  by (cases c) (simp add: created_cloud_def cloud_with_def)

lemma created_volume_free [simp]:
  "vol_Attachments (created_volume d req bytes vt c) = []"
  "(created_volume d req bytes vt c)\<lparr> vol_Attachments := [], vol_Status := ''available'' \<rparr> = created_volume d req bytes vt c"
  by (simp_all add: created_volume_def new_volume_def)

lemma created_publish:
  assumes "created_name c \<notin> vol_Identity ` set (c_volumes c)" and "\<not> c_by_name c" and "vol_Identity v = created_name c"
    and "vol_Attachments v = []" and "d_kubeConfig d = ''''" and "node \<noteq> ''''"
    and "find_machine node (c_machines c) = Some m"
  shows "run_state (ControllerPublishVolume sim_env d (publish_of req (created_name c) node)) (cloud_with c v) =
    (Ok (publish_context d v), cloud_with c (attached_to m v))"
  unfolding cloud_with_def attached_to_def
  by (rule publish_last) (use assms in \<open>simp_all add: publish_invalid_def publish_of_def created_name_def\<close>)

lemma created_unpublish:
  assumes "created_name c \<notin> vol_Identity ` set (c_volumes c)" and "\<not> c_by_name c" and "vol_Identity v = created_name c"
    and "d_kubeConfig d = ''''" and "find_machine node (c_machines c) = Some m"
    and "node \<in> mach_Identity ` set (c_machines c) \<Longrightarrow> node = m"
  shows "run_state (ControllerUnpublishVolume sim_env d (created_name c) node) (cloud_with c (attached_to m v)) =
    (Ok (), cloud_with c (v\<lparr> vol_Attachments := [], vol_Status := ''available'' \<rparr>))"
  using unpublish_last [of "attached_to m v" "c_volumes c" "c\<lparr> c_next := Suc (c_next c) \<rparr>" m d node] assms
  by (simp add: cloud_with_def created_name_def)

text \<open>C6: The life of a volume on the reference cloud: for a valid request without a content source
  whose volume does not exist yet, \<open>CreateVolume\<close> makes one volume of the requested size in
  whole GiB, reports it and leaves the others alone; publishing it on a node attaches it to the
  node's machine and to nothing else, unpublishing frees it, and deleting it leaves the cloud
  with exactly the volumes it had. Every call succeeds.\<close>

theorem volume_lifecycle:
  assumes "createVolume_size d req = Inr bytes" and "req_VolumeContentSource req = None"
    and "sim_find_volume c (createVolume_identity req) = None" and "\<not> c_by_name c"
    and "result_of (resolveVolumeTypeIdentity sim_env (lookup_str (req_Parameters req) ''volume-type'')) c = Inr vt"
    and "''vol-'' @ show_nat (c_next c) \<notin> vol_Identity ` set (c_volumes c)"
    and "d_kubeConfig d = ''''" and "node \<noteq> ''''"
    and "find_machine node (c_machines c) = Some m"
    and "node \<in> mach_Identity ` set (c_machines c) \<Longrightarrow> node = m"
  shows "\<exists>vol v c1 c2 c3 c4.
    run_state (CreateVolume sim_env d req) c = (Ok vol, c1) \<and>
    csi_CapacityBytes vol = bytes \<and> csi_VolumeId vol = vol_Identity v \<and>
    vol_Name v = req_Name req \<and> vol_Size v = to_giB bytes \<and> vol_Attachments v = [] \<and>
    c_volumes c1 = c_volumes c @ [v] \<and>
    run_state (ControllerPublishVolume sim_env d (publish_of req (csi_VolumeId vol) node)) c1 =
      (Ok [d_publishInfoVolumeName d \<mapsto> req_Name req], c2) \<and>
    c_volumes c2 = c_volumes c @
      [v\<lparr> vol_Attachments := [\<lparr> AttachedToIdentity = m \<rparr>], vol_Status := ''attached'' \<rparr>] \<and>
    run_state (ControllerUnpublishVolume sim_env d (csi_VolumeId vol) node) c2 = (Ok (), c3) \<and>
    c_volumes c3 = c_volumes c @ [v] \<and>
    run_state (DeleteVolume sim_env (csi_VolumeId vol)) c3 = (Ok (), c4) \<and>
    c_volumes c4 = c_volumes c"
proof -
  define v where "v = created_volume d req bytes vt c"
  have v: "vol_Identity v = created_name c" "vol_Attachments v = []"
    "v\<lparr> vol_Attachments := [], vol_Status := ''available'' \<rparr> = v" by (simp_all add: v_def)
  have fresh: "created_name c \<notin> vol_Identity ` set (c_volumes c)" using assms(6) by (simp add: created_name_def)
  have create: "run_state (CreateVolume sim_env d req) c = (Ok (created_answer d bytes c), cloud_with c v)"
    using create_first [OF assms(1-3,5)] by (simp add: created_cloud_with v_def)
  note publish = created_publish [OF fresh assms(4) v(1,2) assms(7-9)]
  note unpublish = created_unpublish [OF fresh assms(4) v(1) assms(7,9,10)]
  have delete: "run_state (DeleteVolume sim_env (created_name c)) (cloud_with c v) =
      (Ok (), c\<lparr> c_next := Suc (c_next c), c_volumes := c_volumes c \<rparr>)"
    using delete_last [of v "c_volumes c" "c\<lparr> c_next := Suc (c_next c) \<rparr>"] fresh assms(4) v
    by (simp add: cloud_with_def created_name_def)
  have "vol_Name v = req_Name req" "vol_Size v = to_giB bytes" by (simp_all add: v_def)
  then show ?thesis
    using v publish unpublish delete create
    by (intro exI [of _ "created_answer d bytes c"] exI [of _ v] exI [of _ "cloud_with c v"]
        exI [of _ "cloud_with c (attached_to m v)"] exI [of _ "c\<lparr> c_next := Suc (c_next c) \<rparr>"])
      (simp add: publish_context_def created_answer_def cloud_with_def attached_to_def)
qed

theorem volume_lifecycle_witness:
  "\<exists>vol v c1. run_state (CreateVolume sim_env sample_driver (sample_request (2 * giB))) sample_cloud = (Ok vol, c1) \<and>
     c_volumes c1 = [v] \<and> vol_Size v = to_giB (2 * giB)"
proof -
  let ?req = "sample_request (2 * giB)"
  have none: "sim_find_volume sample_cloud (createVolume_identity ?req) = None"
    by (simp add: sim_find_volume_def)
  have node: "find_machine ''node-1'' (c_machines sample_cloud) = Some ''m-1''"
    "''node-1'' \<notin> mach_Identity ` set (c_machines sample_cloud)"
    by simp_all
  have facts: "\<not> c_by_name sample_cloud" "d_kubeConfig sample_driver = ''''"
    "''vol-'' @ show_nat (c_next sample_cloud) \<notin> vol_Identity ` set (c_volumes sample_cloud)"
    by (simp_all add: sample_driver_def)
  have "''node-1'' = ''m-1''" if "''node-1'' \<in> mach_Identity ` set (c_machines sample_cloud)"
    using that node(2) by (rule notE [rotated])
  with volume_lifecycle [OF sample_create(1,2) none facts(1) sample_create(3) facts(3) facts(2) _ node(1)]
  obtain vol v c1 where
    "run_state (CreateVolume sim_env sample_driver ?req) sample_cloud = (Ok vol, c1)"
    "vol_Size v = to_giB (2 * giB)" "c_volumes c1 = c_volumes sample_cloud @ [v]"
    by blast
  then show ?thesis by (simp only: sample_cloud_simps append_Nil) blast
qed

section \<open>A volume that moves to another machine\<close>

definition stage_of :: "stage_request \<Rightarrow> string \<Rightarrow> stage_request" where
  "stage_of p volumeId = p\<lparr> stg_VolumeId := volumeId \<rparr>"

lemma stages_on_checks: "stages_on w r mnt \<Longrightarrow> d_validateAttachment d \<Longrightarrow> checks_attachment d r"
  by (simp add: stages_on_def checks_attachment_def GetMount_def)

lemma cluster_stages:
  assumes "stages_on (cl_nodes s m) r mnt" and "dev = getDeviceByIDPath (stg_VolumeId r)" and "plugged (cl_cloud s) m dev"
  obtains s' where "run_state (on_node m (NodeStageVolume MockMounter host_os d r)) s = (Ok (), s')"
    "cl_cloud s' = cl_cloud s" "\<forall>m'. m' \<noteq> m \<longrightarrow> cl_nodes s' m' = cl_nodes s m'"
    "cl_disks s' = (if cl_disks s dev = None then (cl_disks s)(dev \<mapsto> fs_type_of mnt) else cl_disks s)"
    "MountPoints (cl_nodes s' m) (stg_StagingTargetPath r) = Some dev" "UnmountErrors (cl_nodes s' m) = (\<lambda>_. None)"
proof (rule that [OF stage_on_node [of r mnt dev s m d]])
qed (use assms in \<open>auto simp: stages_on_def\<close>)

lemma cluster_unstages:
  assumes "i \<noteq> ''''" and "t \<noteq> ''''" and "MountPoints (cl_nodes s m) t \<noteq> None" and "UnmountErrors (cl_nodes s m) = (\<lambda>_. None)"
  obtains s' where "run_state (on_node m (NodeUnstageVolume MockMounter i t)) s = (Ok (), s')"
    "cl_cloud s' = cl_cloud s" "cl_disks s' = cl_disks s" "\<forall>m'. m' \<noteq> m \<longrightarrow> cl_nodes s' m' = cl_nodes s m'"
    "MountPoints (cl_nodes s' m) t = None"
  by (rule that [OF unstage_on_node [OF assms]]) simp_all

lemma run_on_cloud: "run_state p (cl_cloud s) = (r, c) \<Longrightarrow> run_state (on_cloud p) s = (r, s\<lparr> cl_cloud := c \<rparr>)"
  by simp

lemma created_plugged:
  assumes "created_name c \<notin> vol_Identity ` set (c_volumes c)" and "\<not> c_by_name c" and "plain_ids c"
    and "vol_Identity v = created_name c"
  shows "plugged (cloud_with c (attached_to m v)) m' (getDeviceByIDPath (created_name c)) \<longleftrightarrow> m' = m"
proof -
  let ?c = "cloud_with c (attached_to m v)"
  have plain: "slash \<notin> set (created_name c)"
    using show_nat_plain by (simp add: created_name_def slash_def)
  have found: "sim_find_volume ?c (created_name c) = Some (attached_to m v)"
    using find_last_volume [of "attached_to m v" "c_volumes c" "c\<lparr> c_next := Suc (c_next c) \<rparr>"] assms
    by (simp add: cloud_with_def)
  then have machine: "machine_of ?c (created_name c) = Some m"
    by (simp add: machine_of_def store_of_def entry_of_def)
  have "plain_ids ?c" using assms(3,4) plain by (auto simp: plain_ids_def cloud_with_def)
  from plugged_attached [OF _ this plain] have "m' = m" if "plugged ?c m' (getDeviceByIDPath (created_name c))"
    using that found by (auto simp: attached_at_def store_of_def entry_of_def)
  moreover have "attached_to m v \<in> set (c_volumes ?c)" by (simp add: cloud_with_def)
  then have "plugged ?c m (getDeviceByIDPath (created_name c))"
    unfolding plugged_def using machine assms(4) by (intro bexI) simp_all
  ultimately show ?thesis by blast
qed

text \<open>A new, free volume of the cloud; it is placed on a machine by publishing and staging it, and freed
  again by unstaging and unpublishing it.\<close>

definition new_on :: "cloud \<Rightarrow> volume \<Rightarrow> bool" where
  "new_on c v \<longleftrightarrow>
     created_name c \<notin> vol_Identity ` set (c_volumes c) \<and> \<not> c_by_name c \<and> plain_ids c \<and>
     vol_Identity v = created_name c \<and> vol_Attachments v = [] \<and>
     v\<lparr> vol_Attachments := [], vol_Status := ''available'' \<rparr> = v"

lemma created_name_simps [simp]: "created_name c \<noteq> ''''"
  "stg_VolumeId (stage_of r i) = i" "stg_StagingTargetPath (stage_of r i) = stg_StagingTargetPath r"
  by (simp_all add: created_name_def stage_of_def)

lemma elsewhere_refused:
  assumes "new_on c v" and "cl_cloud s = cloud_with c (attached_to m v)" and "m' \<noteq> m" and "d_validateAttachment d"
    and "stages_on w (stage_of r (created_name c)) mnt"
  shows "result_of (on_node m' (NodeStageVolume MockMounter host_os d (stage_of r (created_name c)))) s \<noteq> Ok ()"
  by (rule stage_unplugged [OF stages_on_checks [OF assms(5,4)]])
    (use assms(1-3) created_plugged [of c v m m'] in \<open>simp add: new_on_def\<close>)

lemma volume_placed:
  assumes "new_on c v" and "cl_cloud s = cloud_with c v" and "d_kubeConfig d = ''''"
    and "n \<noteq> ''''" and "find_machine n (c_machines c) = Some m" and "dev = getDeviceByIDPath (created_name c)"
    and "stages_on (cl_nodes s m) (stage_of r (created_name c)) mnt"
  obtains s1 s2 where
    "run_state (on_cloud (ControllerPublishVolume sim_env d (publish_of req (created_name c) n))) s = (Ok (publish_context d v), s1)"
    "run_state (on_node m (NodeStageVolume MockMounter host_os nd (stage_of r (created_name c)))) s1 = (Ok (), s2)"
    "cl_cloud s1 = cloud_with c (attached_to m v)" "cl_cloud s2 = cloud_with c (attached_to m v)"
    "\<forall>m'. m' \<noteq> m \<longrightarrow> cl_nodes s2 m' = cl_nodes s m'"
    "cl_disks s2 = (if cl_disks s dev = None then (cl_disks s)(dev \<mapsto> fs_type_of mnt) else cl_disks s)"
    "MountPoints (cl_nodes s2 m) (stg_StagingTargetPath r) = Some dev" "UnmountErrors (cl_nodes s2 m) = (\<lambda>_. None)"
proof -
  define s1 where "s1 = s\<lparr> cl_cloud := cloud_with c (attached_to m v) \<rparr>"
  have s1: "cl_cloud s1 = cloud_with c (attached_to m v)" "cl_nodes s1 = cl_nodes s" "cl_disks s1 = cl_disks s"
    by (simp_all add: s1_def)
  have publish: "run_state (on_cloud (ControllerPublishVolume sim_env d (publish_of req (created_name c) n))) s = (Ok (publish_context d v), s1)"
    unfolding s1_def
    by (rule run_on_cloud) (use created_publish [of c v d n m req] assms(1-5) in \<open>simp add: new_on_def\<close>)
  have plug: "plugged (cl_cloud s1) m dev" and stages: "stages_on (cl_nodes s1 m) (stage_of r (created_name c)) mnt"
    using created_plugged [of c v m m] assms(1,6,7) s1(1,2) by (simp_all add: new_on_def)
  have dev: "dev = getDeviceByIDPath (stg_VolumeId (stage_of r (created_name c)))" using assms(6) by simp
  obtain s2 where
    "run_state (on_node m (NodeStageVolume MockMounter host_os nd (stage_of r (created_name c)))) s1 = (Ok (), s2)"
    "cl_cloud s2 = cl_cloud s1" "\<forall>m'. m' \<noteq> m \<longrightarrow> cl_nodes s2 m' = cl_nodes s1 m'"
    "cl_disks s2 = (if cl_disks s1 dev = None then (cl_disks s1)(dev \<mapsto> fs_type_of mnt) else cl_disks s1)"
    "MountPoints (cl_nodes s2 m) (stg_StagingTargetPath (stage_of r (created_name c))) = Some dev"
    "UnmountErrors (cl_nodes s2 m) = (\<lambda>_. None)"
    using cluster_stages [where d = nd, OF stages dev plug] .
  then show ?thesis using s1 by (intro that [OF publish]) (simp_all del: run_on)
qed

lemma volume_freed:
  assumes "new_on c v" and "cl_cloud s = cloud_with c (attached_to m v)" and "d_kubeConfig d = ''''"
    and "find_machine n (c_machines c) = Some m" and "n \<in> mach_Identity ` set (c_machines c) \<Longrightarrow> n = m"
    and "t \<noteq> ''''" and "MountPoints (cl_nodes s m) t \<noteq> None" and "UnmountErrors (cl_nodes s m) = (\<lambda>_. None)"
  obtains s1 s2 where
    "run_state (on_node m (NodeUnstageVolume MockMounter (created_name c) t)) s = (Ok (), s1)"
    "run_state (on_cloud (ControllerUnpublishVolume sim_env d (created_name c) n)) s1 = (Ok (), s2)"
    "cl_cloud s2 = cloud_with c v" "cl_disks s2 = cl_disks s" "\<forall>m'. m' \<noteq> m \<longrightarrow> cl_nodes s2 m' = cl_nodes s m'"
proof -
  obtain s1 where s1: "run_state (on_node m (NodeUnstageVolume MockMounter (created_name c) t)) s = (Ok (), s1)"
    "cl_cloud s1 = cl_cloud s" "cl_disks s1 = cl_disks s" "\<forall>m'. m' \<noteq> m \<longrightarrow> cl_nodes s1 m' = cl_nodes s m'"
    "MountPoints (cl_nodes s1 m) t = None"
    using cluster_unstages [OF created_name_simps(1) [of c] assms(6-8)] .
  have "run_state (on_cloud (ControllerUnpublishVolume sim_env d (created_name c) n)) s1 = (Ok (), s1\<lparr> cl_cloud := cloud_with c v \<rparr>)"
    by (rule run_on_cloud) (use created_unpublish [of c v d n m] assms(1-5) s1(2) in \<open>simp add: new_on_def\<close>)
  then show ?thesis by (rule that [OF s1(1)]) (use s1(3,4) in simp_all)
qed

text \<open>C5: A volume moves between machines with its data: on the cluster, a new volume that is published on
  a first node and staged there is formatted and mounted; unstaged, unpublished and published on a
  second node, it is staged there without being formatted again, whatever file system that request
  names, and is mounted on the second machine. All these calls succeed, and when the node plugin runs
  with \<open>validate-attachment\<close> (which is off by default), staging it on the machine it is not attached
  to is refused, on the second before the move and on the first after it. The cloud is the reference
  cloud, which finds volumes by identity only, gives new volumes fresh identities and has identities
  without a slash; no volume of the request's name exists, the request has no content source, and no
  kube config is used. The nodes are those of the mock mounter, no operation of theirs fails, no device
  file of theirs is found to grow a file system on, and the staging paths are free; neither stage
  request carries the annotation that forbids formatting; the node names are no other machine's
  identity.\<close>

theorem volume_moves:
  assumes "c = cl_cloud s" and "\<not> c_by_name c" and "plain_ids c" and "created_name c \<notin> vol_Identity ` set (c_volumes c)"
    and "createVolume_size d req = Inr bytes" and "req_VolumeContentSource req = None"
    and "sim_find_volume c (createVolume_identity req) = None"
    and "result_of (resolveVolumeTypeIdentity sim_env (lookup_str (req_Parameters req) ''volume-type'')) c = Inr vt"
    and "d_kubeConfig d = ''''"
    and "n1 \<noteq> ''''" and "find_machine n1 (c_machines c) = Some m1" and "n1 \<in> mach_Identity ` set (c_machines c) \<longrightarrow> n1 = m1"
    and "n2 \<noteq> ''''" and "find_machine n2 (c_machines c) = Some m2" and "m1 \<noteq> m2"
    and "dev = getDeviceByIDPath (created_name c)" and "cl_disks s dev = None"
    and "stages_on (cl_nodes s m1) (stage_of p (created_name c)) fs1"
    and "stages_on (cl_nodes s m2) (stage_of q (created_name c)) fs2"
  shows "\<exists>vol ctx s1 s2 s3 s4 s5 s6 s7.
    run_state (on_cloud (CreateVolume sim_env d req)) s = (Ok vol, s1) \<and>
    run_state (on_cloud (ControllerPublishVolume sim_env d (publish_of req (csi_VolumeId vol) n1))) s1 = (Ok ctx, s2) \<and>
    (d_validateAttachment nd \<longrightarrow>
       result_of (on_node m2 (NodeStageVolume MockMounter host_os nd (stage_of q (csi_VolumeId vol)))) s2 \<noteq> Ok ()) \<and>
    run_state (on_node m1 (NodeStageVolume MockMounter host_os nd (stage_of p (csi_VolumeId vol)))) s2 = (Ok (), s3) \<and>
    cl_disks s3 = (cl_disks s)(dev \<mapsto> fs_type_of fs1) \<and>
    MountPoints (cl_nodes s3 m1) (stg_StagingTargetPath p) = Some dev \<and>
    run_state (on_node m1 (NodeUnstageVolume MockMounter (csi_VolumeId vol) (stg_StagingTargetPath p))) s3 = (Ok (), s4) \<and>
    run_state (on_cloud (ControllerUnpublishVolume sim_env d (csi_VolumeId vol) n1)) s4 = (Ok (), s5) \<and>
    run_state (on_cloud (ControllerPublishVolume sim_env d (publish_of req (csi_VolumeId vol) n2))) s5 = (Ok ctx, s6) \<and>
    run_state (on_node m2 (NodeStageVolume MockMounter host_os nd (stage_of q (csi_VolumeId vol)))) s6 = (Ok (), s7) \<and>
    cl_disks s7 = cl_disks s3 \<and> MountPoints (cl_nodes s7 m2) (stg_StagingTargetPath q) = Some dev \<and>
    (d_validateAttachment nd \<longrightarrow>
       result_of (on_node m1 (NodeStageVolume MockMounter host_os nd (stage_of p (csi_VolumeId vol)))) s7 \<noteq> Ok ())"
proof -
  define v where "v = created_volume d req bytes vt c"
  have v: "new_on c v" using assms(2-4) by (simp add: new_on_def v_def)
  define s1 where "s1 = s\<lparr> cl_cloud := cloud_with c v \<rparr>"
  have s1: "cl_cloud s1 = cloud_with c v" "cl_nodes s1 = cl_nodes s" "cl_disks s1 = cl_disks s" by (simp_all add: s1_def)
  have create: "run_state (on_cloud (CreateVolume sim_env d req)) s = (Ok (created_answer d bytes c), s1)"
    unfolding s1_def
    by (rule run_on_cloud) (use create_first [OF assms(5-8)] assms(1) in \<open>simp add: created_cloud_with v_def\<close>)
  have target: "stg_StagingTargetPath p \<noteq> ''''"
    using assms(18) by (auto simp: stages_on_def stage_invalid_def split: if_splits)
  have node1: "stages_on (cl_nodes s1 m1) (stage_of p (created_name c)) fs1" using assms(18) s1(2) by simp
  obtain s2 s3 where first:
    "run_state (on_cloud (ControllerPublishVolume sim_env d (publish_of req (created_name c) n1))) s1 = (Ok (publish_context d v), s2)"
    "run_state (on_node m1 (NodeStageVolume MockMounter host_os nd (stage_of p (created_name c)))) s2 = (Ok (), s3)"
    "cl_cloud s2 = cloud_with c (attached_to m1 v)" "cl_cloud s3 = cloud_with c (attached_to m1 v)"
    "\<forall>m'. m' \<noteq> m1 \<longrightarrow> cl_nodes s3 m' = cl_nodes s1 m'"
    "cl_disks s3 = (if cl_disks s1 dev = None then (cl_disks s1)(dev \<mapsto> fs_type_of fs1) else cl_disks s1)"
    "MountPoints (cl_nodes s3 m1) (stg_StagingTargetPath p) = Some dev" "UnmountErrors (cl_nodes s3 m1) = (\<lambda>_. None)"
    using volume_placed [where req = req and nd = nd, OF v s1(1) assms(9,10,11,16) node1] .
  have disk: "cl_disks s3 = (cl_disks s)(dev \<mapsto> fs_type_of fs1)" using first(6) s1(3) assms(17) by simp
  obtain s4 s5 where between:
    "run_state (on_node m1 (NodeUnstageVolume MockMounter (created_name c) (stg_StagingTargetPath p))) s3 = (Ok (), s4)"
    "run_state (on_cloud (ControllerUnpublishVolume sim_env d (created_name c) n1)) s4 = (Ok (), s5)"
    "cl_cloud s5 = cloud_with c v" "cl_disks s5 = cl_disks s3" "\<forall>m'. m' \<noteq> m1 \<longrightarrow> cl_nodes s5 m' = cl_nodes s3 m'"
    by (rule volume_freed [OF v first(4) assms(9,11) mp [OF assms(12)] target _ first(8)]) (use first(7) in simp_all)
  have node2: "stages_on (cl_nodes s5 m2) (stage_of q (created_name c)) fs2"
    using assms(15,19) first(5) between(5) s1(2) by simp
  obtain s6 s7 where second:
    "run_state (on_cloud (ControllerPublishVolume sim_env d (publish_of req (created_name c) n2))) s5 = (Ok (publish_context d v), s6)"
    "run_state (on_node m2 (NodeStageVolume MockMounter host_os nd (stage_of q (created_name c)))) s6 = (Ok (), s7)"
    "cl_cloud s7 = cloud_with c (attached_to m2 v)" "cl_disks s7 = cl_disks s3"
    "MountPoints (cl_nodes s7 m2) (stg_StagingTargetPath q) = Some dev"
    by (rule volume_placed [where req = req and nd = nd, OF v between(3) assms(9,13,14,16) node2]) (use disk between(4) in simp)
  have refused:
    "d_validateAttachment nd \<longrightarrow>
       result_of (on_node m2 (NodeStageVolume MockMounter host_os nd (stage_of q (created_name c)))) s2 \<noteq> Ok ()"
    "d_validateAttachment nd \<longrightarrow>
       result_of (on_node m1 (NodeStageVolume MockMounter host_os nd (stage_of p (created_name c)))) s7 \<noteq> Ok ()"
    using elsewhere_refused [OF v first(3) assms(15) [symmetric] _ assms(19)]
      elsewhere_refused [OF v second(3) assms(15) _ assms(18)] by blast+
  show ?thesis
    by (rule exI [of _ "created_answer d bytes c"], unfold created_simps, intro exI conjI)
      (rule create first(1) refused(1) first(2) disk first(7) between(1,2) second(1,2,4,5) refused(2))+
qed

definition two_machines :: cluster where
  "two_machines =
     \<lparr> cl_cloud = sample_cloud\<lparr> c_machines :=
         [\<lparr> mach_Identity = ''m-1'', mach_Name = ''node-1'', mach_Slug = ''node-1'' \<rparr>,
          \<lparr> mach_Identity = ''m-2'', mach_Name = ''node-2'', mach_Slug = ''node-2'' \<rparr>] \<rparr>,
       cl_disks = Map.empty, cl_nodes = (\<lambda>_. NewMockMounter) \<rparr>"

theorem volume_moves_witness:
  "\<exists>vol s1. run_state (on_cloud (CreateVolume sim_env sample_driver (sample_request (2 * giB)))) two_machines = (Ok vol, s1) \<and>
     (\<exists>(s3 :: cluster) s6 s7. cl_disks s3 = [getDeviceByIDPath (created_name (cl_cloud two_machines)) \<mapsto> ''xfs''] \<and>
       run_state (on_node ''m-2'' (NodeStageVolume MockMounter host_os sample_driver (stage_of sample_stage (csi_VolumeId vol)))) s6 = (Ok (), s7) \<and>
       cl_disks s7 = cl_disks s3)"
proof -
  let ?c = "cl_cloud two_machines" and ?mnt = "\<lparr> mv_FsType = ''xfs'', mv_MountFlags = [] \<rparr>"
  have cloud: "\<not> c_by_name ?c" "plain_ids ?c" "created_name ?c \<notin> vol_Identity ` set (c_volumes ?c)"
    "sim_find_volume ?c (createVolume_identity (sample_request (2 * giB))) = None" "cl_disks two_machines = Map.empty"
    by (simp_all add: two_machines_def plain_ids_def sim_find_volume_def)
  have machines: "find_machine ''node-1'' (c_machines ?c) = Some ''m-1''" "find_machine ''node-2'' (c_machines ?c) = Some ''m-2''"
    "''node-1'' \<in> mach_Identity ` set (c_machines ?c) \<longrightarrow> ''node-1'' = ''m-1''"
    by (simp_all add: two_machines_def)
  have vt: "result_of (resolveVolumeTypeIdentity sim_env
      (lookup_str (req_Parameters (sample_request (2 * giB))) ''volume-type'')) ?c = Inr ''vt-1''"
    using sample_create(3) resolve_type_types [of ?c sample_cloud] by (simp add: two_machines_def)
  have node: "stages_on (cl_nodes two_machines m) (stage_of sample_stage (created_name ?c)) ?mnt" for m
    by (simp add: stages_on_def two_machines_def NewMockMounter_def stage_of_def sample_stage_def stage_invalid_def annsNoFormatVolume_def)
  have driver: "d_kubeConfig sample_driver = ''''" by (simp_all add: sample_driver_def)
  have names: "''node-1'' \<noteq> ''''" "''node-2'' \<noteq> ''''" "''m-1'' \<noteq> ''m-2''"
    "cl_disks two_machines (getDeviceByIDPath (created_name ?c)) = None" by (simp_all add: cloud(5))
  from volume_moves [where nd = sample_driver, OF refl cloud(1-3) sample_create(1,2) cloud(4) vt driver names(1) machines(1,3) names(2) machines(2)
      names(3) refl names(4) node node]
  obtain vol s1 s6 s7 and s3 :: cluster where
    "run_state (on_cloud (CreateVolume sim_env sample_driver (sample_request (2 * giB)))) two_machines = (Ok vol, s1)"
    "cl_disks s3 = (cl_disks two_machines)(getDeviceByIDPath (created_name ?c) \<mapsto> fs_type_of ?mnt)"
    "run_state (on_node ''m-2'' (NodeStageVolume MockMounter host_os sample_driver (stage_of sample_stage (csi_VolumeId vol)))) s6 = (Ok (), s7)"
    "cl_disks s7 = cl_disks s3"
    by (elim exE conjE) blast
  moreover have "fs_type_of ?mnt = ''xfs''" by (simp add: fs_type_of_def)
  ultimately show ?thesis using cloud(5) by (auto simp del: run_on)
qed


section \<open>Creating a volume twice\<close>

lemma find_created:
  assumes "sim_find_volume c i = None" and "i \<noteq> vol_Identity v"
  shows "sim_find_volume (c\<lparr> c_volumes := c_volumes c @ [v], c_next := n \<rparr>) i =
    (if c_by_name c \<and> vol_Name v = i then Some v else None)"
  using assms by (auto simp: sim_find_volume_def find_snoc)

lemma create_found:
  assumes "createVolume_size d req = Inr bytes" and "sim_find_volume c (createVolume_identity req) = Some v"
    and "vol_Size v = to_giB bytes" and "2 ^ 30 dvd sint bytes"
  shows "run_state (CreateVolume sim_env d req) c =
    (Ok \<lparr> csi_VolumeId = vol_Identity v, csi_CapacityBytes = bytes,
          csi_AccessibleTopology = [], csi_ContentSource = None \<rparr>, c)"
  using assms from_to_giB_exact_iff [of bytes] createVolume_size_pos [OF assms(1)]
  by (simp add: CreateVolume_def sim_lookup_def createVolumeResponseFromExisting_def)

lemma find_created_volume:
  assumes "sim_find_volume c (req_Name req) = None" and "req_Name req \<noteq> created_name c"
  shows "sim_find_volume (created_cloud d req bytes vt c) (req_Name req) =
    (if c_by_name c then Some (created_volume d req bytes vt c) else None)"
  using find_created [OF assms(1), of "created_volume d req bytes vt c"] assms(2)
  unfolding created_cloud_def by simp

text \<open>C30: What a second, identical \<open>CreateVolume\<close> does on the reference cloud, for a size in whole GiB:
  \<open>CreateVolume\<close> looks the volume up by passing its name as an identity. Where the API finds
  volumes by name there, the retry answers with the same identity and size and changes nothing,
  but it leaves out the topology of the first answer; where the API finds volumes by identity
  only, the retry creates a second volume of the same name.\<close>

theorem create_volume_twice:
  assumes "createVolume_size d req = Inr bytes" and "2 ^ 30 dvd sint bytes"
    and "req_VolumeContentSource req = None" and "createVolume_identity req = req_Name req"
    and "sim_find_volume c (req_Name req) = None"
    and "result_of (resolveVolumeTypeIdentity sim_env (lookup_str (req_Parameters req) ''volume-type'')) c = Inr vt"
    and "req_Name req \<noteq> ''vol-'' @ show_nat (c_next c)"
  shows "\<exists>vol v c1. run_state (CreateVolume sim_env d req) c = (Ok vol, c1) \<and>
    csi_AccessibleTopology vol = [[''region'' \<mapsto> d_region d]] \<and>
    c_volumes c1 = c_volumes c @ [v] \<and> vol_Name v = req_Name req \<and>
    (if c_by_name c then run_state (CreateVolume sim_env d req) c1 = (Ok (vol\<lparr> csi_AccessibleTopology := [] \<rparr>), c1)
     else \<exists>vol' v' c2. run_state (CreateVolume sim_env d req) c1 = (Ok vol', c2) \<and>
       c_volumes c2 = c_volumes c @ [v, v'] \<and> vol_Name v' = req_Name req \<and>
       csi_VolumeId vol' \<noteq> csi_VolumeId vol)"
proof -
  let ?c = "created_cloud d req bytes vt c"
  have found: "sim_find_volume ?c (createVolume_identity req) =
      (if c_by_name c then Some (created_volume d req bytes vt c) else None)"
    using find_created_volume [OF assms(5)] assms(4,7) by (simp add: created_name_def)
  have first: "run_state (CreateVolume sim_env d req) c = (Ok (created_answer d bytes c), ?c)"
    by (rule create_first [OF assms(1,3)]) (use assms(4-6) in simp_all)
  have by_name: "run_state (CreateVolume sim_env d req) ?c =
      (Ok ((created_answer d bytes c)\<lparr> csi_AccessibleTopology := [] \<rparr>), ?c)" if "c_by_name c"
    using create_found [OF assms(1) _ _ assms(2)] found that by (simp add: created_answer_def)
  have by_identity: "run_state (CreateVolume sim_env d req) ?c =
      (Ok (created_answer d bytes ?c), created_cloud d req bytes vt ?c)" if "\<not> c_by_name c"
    by (rule create_first [OF assms(1,3)])
      (use found that assms(6) resolve_type_types [of ?c c] in simp_all)
  show ?thesis
    by (rule exI, rule exI [of _ "created_volume d req bytes vt c"], rule exI, rule conjI [OF first])
      (auto simp: by_name by_identity)
qed

theorem create_volume_twice_witness:
  "\<exists>vol v c1 vol' v' c2. run_state (CreateVolume sim_env sample_driver (sample_request (2 * giB))) sample_cloud = (Ok vol, c1) \<and>
     run_state (CreateVolume sim_env sample_driver (sample_request (2 * giB))) c1 = (Ok vol', c2) \<and>
     c_volumes c2 = [v, v'] \<and> vol_Name v = vol_Name v' \<and> csi_VolumeId vol' \<noteq> csi_VolumeId vol"
proof -
  let ?req = "sample_request (2 * giB)"
  have name: "createVolume_identity ?req = req_Name ?req"
    by (simp add: createVolume_identity_def sample_request_def lookup_str_def Let_def)
  have "sim_find_volume sample_cloud (req_Name ?req) = None" by (simp add: sim_find_volume_def)
  moreover have "req_Name ?req \<noteq> ''vol-'' @ show_nat (c_next sample_cloud)"
    by (simp add: sample_request_def)
  moreover have "2 ^ 30 dvd sint (2 * giB)" by (simp add: unit_values)
  ultimately show ?thesis
    using create_volume_twice [OF sample_create(1) _ sample_create(2) name _ sample_create(3)]
    by (simp only: sample_cloud_simps append_Nil if_False) metis
qed

section \<open>The kube config that the plugin command drops\<close>

fun is_kube :: "call \<Rightarrow> bool" where
  "is_kube (Build_Config p e) = True"
| "is_kube (New_For_Config e) = True"
| "is_kube (Get_Node n p e) = True"
| "is_kube _ = False"

definition no_kube :: "call list \<Rightarrow> bool" where
  "no_kube calls \<longleftrightarrow> filter is_kube calls = []"

lemma no_kube_simps [simp]:
  "no_kube []" "no_kube (c # cs) \<longleftrightarrow> \<not> is_kube c \<and> no_kube cs" "no_kube (cs @ ds) \<longleftrightarrow> no_kube cs \<and> no_kube ds"
  by (simp_all add: no_kube_def)

lemma wp_poll_no_kube [wp_intros]:
  "no_kube js \<Longrightarrow> wp (pollVolumeStatus (traced env) i status n) (\<lambda>_. no_kube) js"
proof (induction n arbitrary: js)
  case 0
  then show ?case
    by (subst pollVolumeStatus.simps) (auto intro!: wp_intros split: option.splits)
next
  case (Suc n)
  then show ?case
    by (subst pollVolumeStatus.simps) (auto intro!: wp_intros split: option.splits)
qed

lemma wp_attach_no_kube [wp_intros]:
  "no_kube js \<Longrightarrow> wp (publish_to_machine (traced env) d i v m) (\<lambda>_. no_kube) js"
  by (auto simp: publish_to_machine_def intro!: wp_intros wp_mono [OF wp_poll_no_kube]
      split: option.splits prod.splits bool.splits)

lemma wp_detach_no_kube [wp_intros]:
  "no_kube js \<Longrightarrow> wp (detach_from (traced env) i m) (\<lambda>_. no_kube) js"
  by (auto simp: detach_from_def intro!: wp_intros wp_mono [OF wp_poll_no_kube] split: option.splits)

lemma wp_publish_no_kube:
  "d_kubeConfig d = [] \<Longrightarrow> wp (ControllerPublishVolume (traced env) d req) (\<lambda>_. no_kube) []"
  by (auto simp: ControllerPublishVolume_def resolve_node_def intro!: wp_intros split: option.splits)

lemma wp_unpublish_no_kube:
  "d_kubeConfig d = [] \<Longrightarrow> wp (ControllerUnpublishVolume (traced env) d i n) (\<lambda>_. no_kube) []"
  by (auto simp: ControllerUnpublishVolume_def resolve_node_def Let_def intro!: wp_intros
      split: option.splits)

text \<open>C40: A driver that the \<open>plugin\<close> command makes never asks the Kubernetes API for the machine of
  a node, whatever its \<open>kube-config\<close> flag says: no call of \<open>ControllerPublishVolume\<close> or of
  \<open>ControllerUnpublishVolume\<close> goes there, and the machine that publishing attaches to is one
  whose name, identity or slug is the node's own name.\<close>

theorem plugin_never_asks_kubernetes:
  assumes "plugin_driver newClient iaasNew version v = Inr d"
  shows "no_kube (calls_of (ControllerPublishVolume (traced env) d req) w) \<and>
    no_kube (calls_of (ControllerUnpublishVolume (traced env) d i n) w) \<and>
    (\<forall>j m q. mutations (ControllerPublishVolume (traced env) d req) w = [Attach_Volume j (attach_to m) q] \<longrightarrow>
      (\<exists>machines. List_Machines (machine_filters d) machines None \<in>
           set (calls_of (ControllerPublishVolume (traced env) d req) w) \<and>
         find_machine (pub_NodeId req) machines = Some m))"
proof -
  have kube: "d_kubeConfig d = ''''"
    using assms by (auto simp: plugin_driver_def Let_def NewDriver_def NewNodeDriver_def
        split: if_splits option.splits sum.splits)
  let ?m = "ControllerPublishVolume (traced env) d req"
  have "\<exists>machines. List_Machines (machine_filters d) machines None \<in> set (calls_of ?m w) \<and>
        find_machine (pub_NodeId req) machines = Some m"
    if mut: "mutations ?m w = [Attach_Volume j (attach_to m) q]" for j m q
  proof -
    have "mutations ?m w \<noteq> []" using mut by simp
    then obtain x m' q' calls where calls: "calls_of ?m w = Get_Volume (pub_VolumeId req) (Some x) None # calls"
      and m': "mutations ?m w = [Attach_Volume (pub_VolumeId req) (attach_to m') q']"
      and listed: "listed_machine d (pub_NodeId req) m' calls"
      by (rule publish_attach_call)
    from m' mut have "m' = m" by simp
    with listed kube calls show ?thesis by (auto simp: listed_machine_def)
  qed
  then show ?thesis
    using wp_run [OF wp_publish_no_kube [OF kube]] wp_run [OF wp_unpublish_no_kube [OF kube]]
    by (intro conjI allI impI)
qed

theorem plugin_never_asks_kubernetes_witness:
  "\<exists>d. plugin_driver (\<lambda>_. None) None ''v1'' sample_flags = Inr d \<and>
     no_kube (calls_of (ControllerPublishVolume (traced sim_env) d sample_publish) attach_cloud)"
proof -
  obtain d where d: "plugin_driver (\<lambda>_. None) None ''v1'' sample_flags = Inr d"
    by (simp add: plugin_driver_def Let_def NewDriver_def sample_flags_def)
  from plugin_never_asks_kubernetes [OF d]
  have "no_kube (calls_of (ControllerPublishVolume (traced sim_env) d sample_publish) attach_cloud)"
    by (rule conjunct1)
  with d show ?thesis by (intro exI conjI)
qed

end
